(* ===== verification/Prelude.thy ===== *)
theory Prelude
  imports Main "HOL-Library.Word" "HOL-Library.Multiset"
begin

text \<open>
  What the components of the development share: the machine types of the Rust crate, the
  outcomes of a Rust function (it returns, it panics, or the process aborts), decimal printing
  of integers (the crate's \<open>format!\<close> of a rank), and a few lemmas on lists.
\<close>

named_theorems run_simps \<open>equations that compute a registration on concrete calls\<close>

section \<open>Machine types\<close>

type_synonym i8 = "8 word"
type_synonym i32 = "32 word"
type_synonym u32 = "32 word"
type_synonym u64 = "64 word"
type_synonym usize = "64 word"

text \<open>
  A double is kept as its IEEE 754 bit pattern: the program stores and prints doubles, it never
  computes with them. The eleven exponent bits are all ones exactly for infinities and NaNs.
\<close>

type_synonym f64 = "64 word"

definition f64_is_finite :: "f64 \<Rightarrow> bool" where
  "f64_is_finite x \<longleftrightarrow> (drop_bit 52 x) mod 2048 \<noteq> 2047"

section \<open>Outcomes of a Rust function\<close>

text \<open>
  \<open>Done v\<close>: the function returned \<open>v\<close>. \<open>Panicked m\<close>: it unwound with the panic message \<open>m\<close>.
  \<open>Aborted\<close>: the process ended, as \<open>handle_alloc_error\<close> does on a failed allocation.
\<close>

datatype 'a run = Done 'a | Panicked string | Aborted

text \<open>\<open>Result::expect\<close> panics with its message, a colon, and the error's \<open>Debug\<close> text.\<close>

definition expect_msg :: "string \<Rightarrow> string \<Rightarrow> string" where
  "expect_msg msg dbg = msg @ '': '' @ dbg"

section \<open>Decimal printing\<close>

definition digit_char :: "nat \<Rightarrow> char" where
  "digit_char d = char_of (48 + d)"

fun show_nat :: "nat \<Rightarrow> string" where
  "show_nat n = (if n < 10 then [digit_char n] else show_nat (n div 10) @ [digit_char (n mod 10)])"

declare show_nat.simps [simp del]

definition show_int :: "int \<Rightarrow> string" where
  "show_int i = (if i < 0 then CHR ''-'' # show_nat (nat (- i)) else show_nat (nat i))"

definition show_i32 :: "i32 \<Rightarrow> string" where
  "show_i32 w = show_int (sint w)"

definition is_digit_char :: "char \<Rightarrow> bool" where
  "is_digit_char c \<longleftrightarrow> 48 \<le> (of_char c :: nat) \<and> (of_char c :: nat) \<le> 57"

fun read_digits :: "nat \<Rightarrow> string \<Rightarrow> nat" where
  "read_digits acc [] = acc"
| "read_digits acc (c # cs) = read_digits (10 * acc + (of_char c - 48)) cs"

lemma of_char_digit_char: "d < 10 \<Longrightarrow> (of_char (digit_char d) :: nat) = 48 + d"
  by (simp add: digit_char_def)

lemma is_digit_digit_char: "d < 10 \<Longrightarrow> is_digit_char (digit_char d)"
  by (simp add: is_digit_char_def of_char_digit_char)

lemma read_digits_append: "read_digits acc (xs @ ys) = read_digits (read_digits acc xs) ys"
  by (induction xs arbitrary: acc) auto

lemma show_nat_digits: "\<forall>c \<in> set (show_nat n). is_digit_char c"
proof (induction n rule: show_nat.induct)
  case (1 n)
  then show ?case
    by (cases "n < 10") (auto simp: show_nat.simps [of n] is_digit_digit_char)
qed

lemma show_nat_nonempty [simp]: "show_nat n \<noteq> []"
  by (subst show_nat.simps) simp

lemma read_show_nat [simp]: "read_digits 0 (show_nat n) = n"
proof (induction n rule: show_nat.induct)
  case (1 n)
  show ?case
  proof (cases "n < 10")
    case True
    then show ?thesis by (simp add: show_nat.simps [of n] of_char_digit_char)
  next
    case False
    then have "read_digits 0 (show_nat (n div 10)) = n div 10" by (rule "1.IH")
    with False show ?thesis
      by (simp add: show_nat.simps [of n] read_digits_append of_char_digit_char)
  qed
qed

lemma show_nat_inject [simp]: "show_nat m = show_nat n \<longleftrightarrow> m = n"
  by (metis read_show_nat)

lemma minus_not_digit [simp]: "\<not> is_digit_char (CHR ''-'')"
  by (simp add: is_digit_char_def)

lemma show_nat_no_minus: "show_nat n \<noteq> CHR ''-'' # cs"
  using show_nat_digits [of n] by auto

lemma show_int_inject [simp]: "show_int i = show_int j \<longleftrightarrow> i = j"
  using show_nat_no_minus [of "nat i" "show_nat (nat (- j))"]
    show_nat_no_minus [of "nat j" "show_nat (nat (- i))"]
  by (auto simp: show_int_def split: if_splits)

lemma show_i32_inject [simp]: "show_i32 v = show_i32 w \<longleftrightarrow> v = w"
  by (auto simp: show_i32_def intro: signed_word_eqI)

lemma show_int_nonempty [simp]: "show_int i \<noteq> []"
  by (simp add: show_int_def)

lemma show_int_chars: "c \<in> set (show_int i) \<Longrightarrow> is_digit_char c \<or> c = CHR ''-''"
  using show_nat_digits by (auto simp: show_int_def split: if_splits)

end
