(* ===== verification/Append_Log.thy ===== *)
theory Append_Log
  imports Prelude
begin

text \<open>
  The interface between the trace and its users: a log that only grows, one entry per successful
  append. The vector of events provides it (theory \<open>Trace_Vec\<close>); the registration functions and
  the threads of a process (theories \<open>Registration\<close> and \<open>Thread_Safety\<close>) use it through the
  facts proved here.
\<close>

text \<open>Runs a list of appends; a panic or an abort ends the run.\<close>

fun run_appends ::
    "('env \<Rightarrow> 'a \<Rightarrow> 's \<Rightarrow> ('err + unit) run \<times> 's) \<Rightarrow> ('env \<times> 'a) list \<Rightarrow> 's \<Rightarrow>
     ('err + unit) run list \<times> 's" where
  "run_appends step [] s = ([], s)"
| "run_appends step ((A, e) # es) s =
     (case step A e s of
        (Done x, s') \<Rightarrow> (let (rs, s'') = run_appends step es s' in (Done x # rs, s''))
      | (r, s') \<Rightarrow> ([r], s'))"

text \<open>The entries whose append returned without an error.\<close>

definition accepted :: "('env \<times> 'a) list \<Rightarrow> ('err + unit) run list \<Rightarrow> 'a list" where
  "accepted es rs = map (snd \<circ> fst) (filter (\<lambda>p. snd p = Done (Inr ())) (zip es rs))"

lemma accepted_Nil [simp]: "accepted [] rs = []" "accepted es [] = []"
  by (simp_all add: accepted_def)

lemma accepted_Cons [simp]:
  "accepted (Ae # es) (r # rs) = (if r = Done (Inr ()) then [snd Ae] else []) @ accepted es rs"
  by (simp add: accepted_def)

locale append_log =
  fixes inv :: "'s \<Rightarrow> bool"
    and contents :: "'s \<Rightarrow> 'a list"
    and empty :: "'s"
    and append :: "'env \<Rightarrow> 'a \<Rightarrow> 's \<Rightarrow> ('err + unit) run \<times> 's"
  assumes inv_empty: "inv empty"
    and contents_empty: "contents empty = []"
    and inv_append: "inv s \<Longrightarrow> append A e s = (r, s') \<Longrightarrow> inv s'"
    and append_accepted:
      "inv s \<Longrightarrow> append A e s = (Done (Inr ()), s') \<Longrightarrow> contents s' = contents s @ [e]"
    and append_refused:
      "inv s \<Longrightarrow> append A e s = (r, s') \<Longrightarrow> r \<noteq> Done (Inr ()) \<Longrightarrow> contents s' = contents s"
begin

lemma append_contents:
  assumes "inv s" and "append A e s = (r, s')"
  shows "contents s' = contents s @ (if r = Done (Inr ()) then [e] else [])"
  using append_accepted [of s A e s'] append_refused [of s A e r s'] assms by auto

lemma run_appends_contents:
  assumes "inv s" and "run_appends append es s = (rs, s')"
  shows "inv s' \<and> contents s' = contents s @ accepted es rs"
  using assms
proof (induction es arbitrary: s rs)
  case Nil
  then show ?case by simp
next
  case (Cons Ae es)
  obtain A e where Ae: "Ae = (A, e)" by (cases Ae)
  obtain r t where step: "append A e s = (r, t)" by (cases "append A e s")
  from Cons.prems(1) step have t: "inv t"
    "contents t = contents s @ (if r = Done (Inr ()) then [e] else [])"
    by (auto intro: inv_append dest: append_contents)
  show ?case
  proof (cases r)
    case (Done x)
    with Cons.prems(2) Ae step obtain rs' where rs: "rs = Done x # rs'"
      and rest: "run_appends append es t = (rs', s')"
      by (auto split: prod.splits)
    from Cons.IH [OF t(1) rest] t Ae Done rs show ?thesis by simp
  qed (use Cons.prems(2) Ae step t in auto)
qed

text \<open>A log that started empty holds exactly the accepted entries, in the order of the calls.\<close>

lemma run_from_empty:
  "run_appends append es empty = (rs, s') \<Longrightarrow> contents s' = accepted es rs"
  using run_appends_contents [OF inv_empty] by (simp add: contents_empty)

end

end
