(* ===== verification/Mpi_Types.thy ===== *)
theory Mpi_Types
  imports Prelude
begin

text \<open>
  The types of \<open>types.rs\<close> and the call record \<open>MpiCall\<close> that the C and Fortran wrappers hand to
  the Rust back end, with the \<open>repr(i8)\<close> discriminants of the two enums. The constructors that
  would clash with HOL's own constants keep the source's name with the enum's as a prefix.
\<close>

type_synonym MpiComm = i32
type_synonym MpiRank = i32
type_synonym MpiReq = i32
type_synonym MpiTag = i32
type_synonym Tsc = u64
type_synonym Usecs = f64

section \<open>Enums\<close>

datatype MpiCallType =
    Init | Initthread | Finalize | Send | Recv | Isend | Irecv | Test | Wait
  | Barrier | Ibarrier | Ibcast | Igather | Ireduce | Iscatter

datatype MpiOp =
    Opnull | OpMax | OpMin | OpSum | OpProd | Land | Band | Lor | Bor | Lxor | Bxor
  | Minloc | Maxloc | Replace

definition MpiCallType_variants :: "MpiCallType list" where
  "MpiCallType_variants =
     [Init, Initthread, Finalize, Send, Recv, Isend, Irecv, Test, Wait,
      Barrier, Ibarrier, Ibcast, Igather, Ireduce, Iscatter]"

definition MpiOp_variants :: "MpiOp list" where
  "MpiOp_variants =
     [Opnull, OpMax, OpMin, OpSum, OpProd, Land, Band, Lor, Bor, Lxor, Bxor,
      Minloc, Maxloc, Replace]"

instantiation MpiCallType :: enum
begin

definition enum_MpiCallType :: "MpiCallType list" where
  "enum_MpiCallType = MpiCallType_variants"

definition enum_all_MpiCallType :: "(MpiCallType \<Rightarrow> bool) \<Rightarrow> bool" where
  "enum_all_MpiCallType P = list_all P MpiCallType_variants"

definition enum_ex_MpiCallType :: "(MpiCallType \<Rightarrow> bool) \<Rightarrow> bool" where
  "enum_ex_MpiCallType P = list_ex P MpiCallType_variants"

instance
proof
  show univ: "(UNIV :: MpiCallType set) = set enum_class.enum"
  proof (rule set_eqI)
    fix k :: MpiCallType
    show "k \<in> UNIV \<longleftrightarrow> k \<in> set enum_class.enum"
      by (cases k) (simp_all add: enum_MpiCallType_def MpiCallType_variants_def)
  qed
  show "distinct (enum_class.enum :: MpiCallType list)"
    by (simp add: enum_MpiCallType_def MpiCallType_variants_def)
  show "enum_class.enum_all P \<longleftrightarrow> Ball (UNIV :: MpiCallType set) P" for P
    using univ by (simp add: enum_all_MpiCallType_def enum_MpiCallType_def list_all_iff)
  show "enum_class.enum_ex P \<longleftrightarrow> Bex (UNIV :: MpiCallType set) P" for P
    using univ by (simp add: enum_ex_MpiCallType_def enum_MpiCallType_def list_ex_iff)
qed

end

instantiation MpiOp :: enum
begin

definition enum_MpiOp :: "MpiOp list" where
  "enum_MpiOp = MpiOp_variants"

definition enum_all_MpiOp :: "(MpiOp \<Rightarrow> bool) \<Rightarrow> bool" where
  "enum_all_MpiOp P = list_all P MpiOp_variants"

definition enum_ex_MpiOp :: "(MpiOp \<Rightarrow> bool) \<Rightarrow> bool" where
  "enum_ex_MpiOp P = list_ex P MpiOp_variants"

instance
proof
  show univ: "(UNIV :: MpiOp set) = set enum_class.enum"
  proof (rule set_eqI)
    fix k :: MpiOp
    show "k \<in> UNIV \<longleftrightarrow> k \<in> set enum_class.enum"
      by (cases k) (simp_all add: enum_MpiOp_def MpiOp_variants_def)
  qed
  show "distinct (enum_class.enum :: MpiOp list)"
    by (simp add: enum_MpiOp_def MpiOp_variants_def)
  show "enum_class.enum_all P \<longleftrightarrow> Ball (UNIV :: MpiOp set) P" for P
    using univ by (simp add: enum_all_MpiOp_def enum_MpiOp_def list_all_iff)
  show "enum_class.enum_ex P \<longleftrightarrow> Bex (UNIV :: MpiOp set) P" for P
    using univ by (simp add: enum_ex_MpiOp_def enum_MpiOp_def list_ex_iff)
qed

end

section \<open>The discriminants\<close>

text \<open>
  \<open>#[repr(i8)]\<close> without explicit values numbers the variants from 0 in declaration order, as the
  C enum that cbindgen writes for the type does.
\<close>

fun index_of :: "'a \<Rightarrow> 'a list \<Rightarrow> nat" where
  "index_of x [] = 0"
| "index_of x (y # ys) = (if x = y then 0 else Suc (index_of x ys))"

lemma index_of_nth: "x \<in> set xs \<Longrightarrow> index_of x xs < length xs \<and> xs ! index_of x xs = x"
  by (induction xs) auto

lemma index_of_nth_distinct: "distinct xs \<Longrightarrow> i < length xs \<Longrightarrow> index_of (xs ! i) xs = i"
proof (induction xs arbitrary: i)
  case Nil
  then show ?case by simp
next
  case (Cons y ys)
  then show ?case by (cases i) auto
qed

definition MpiCallType_repr :: "MpiCallType \<Rightarrow> i8" where
  "MpiCallType_repr k = word_of_nat (index_of k MpiCallType_variants)"

definition MpiOp_repr :: "MpiOp \<Rightarrow> i8" where
  "MpiOp_repr p = word_of_nat (index_of p MpiOp_variants)"

text \<open>
  The variant of a discriminant byte; \<open>None\<close> for a byte that is no discriminant of the type.
\<close>

definition MpiCallType_of_repr :: "i8 \<Rightarrow> MpiCallType option" where
  "MpiCallType_of_repr b =
     (if unat b < length MpiCallType_variants then Some (MpiCallType_variants ! unat b) else None)"

definition MpiOp_of_repr :: "i8 \<Rightarrow> MpiOp option" where
  "MpiOp_of_repr b =
     (if unat b < length MpiOp_variants then Some (MpiOp_variants ! unat b) else None)"

lemma MpiCallType_repr_roundtrip [simp]: "MpiCallType_of_repr (MpiCallType_repr k) = Some k"
  by (cases k) (simp_all add: MpiCallType_of_repr_def MpiCallType_repr_def MpiCallType_variants_def)

lemma MpiOp_repr_roundtrip [simp]: "MpiOp_of_repr (MpiOp_repr p) = Some p"
  by (cases p) (simp_all add: MpiOp_of_repr_def MpiOp_repr_def MpiOp_variants_def)

lemma MpiCallType_of_repr_Some: "MpiCallType_of_repr b = Some k \<longleftrightarrow> b = MpiCallType_repr k"
proof
  assume "MpiCallType_of_repr b = Some k"
  then have b: "unat b < length MpiCallType_variants" and k: "MpiCallType_variants ! unat b = k"
    by (auto simp: MpiCallType_of_repr_def split: if_splits)
  have "distinct MpiCallType_variants" by (simp add: MpiCallType_variants_def)
  from index_of_nth_distinct [OF this b] k show "b = MpiCallType_repr k"
    by (simp add: MpiCallType_repr_def)
qed simp

lemma MpiOp_of_repr_Some: "MpiOp_of_repr b = Some p \<longleftrightarrow> b = MpiOp_repr p"
proof
  assume "MpiOp_of_repr b = Some p"
  then have b: "unat b < length MpiOp_variants" and p: "MpiOp_variants ! unat b = p"
    by (auto simp: MpiOp_of_repr_def split: if_splits)
  have "distinct MpiOp_variants" by (simp add: MpiOp_variants_def)
  from index_of_nth_distinct [OF this b] p show "b = MpiOp_repr p"
    by (simp add: MpiOp_repr_def)
qed simp

section \<open>The call record\<close>

record MpiCall =
  time :: Usecs
  tsc :: Tsc
  duration :: Tsc
  partner_rank :: MpiRank
  current_rank :: MpiRank
  nb_bytes_s :: u32
  nb_bytes_r :: u32
  comm :: MpiComm
  req :: MpiReq
  tag :: MpiTag
  required_thread_lvl :: i32
  provided_thread_lvl :: i32
  finished :: bool
  op_type :: MpiOp
  kind :: MpiCallType

end
