(* ===== verification/Interpol_Error.thy ===== *)
theory Interpol_Error
  imports Mpi_Types
begin

text \<open>
  The error type of \<open>lib.rs\<close>, its \<open>Display\<close> text and its conversions: from an I/O error, from a
  failed reservation of a vector, and from a builder's error (the macro \<open>impl_builder_error\<close>).
  An I/O error and a builder's error are known to this crate only by their \<open>to_string\<close> text.
\<close>

datatype InterpolErrorKind = Io | TryReserve | DeriveBuilder

record InterpolError =
  error_kind :: InterpolErrorKind
  reason :: string

type_synonym 'a result = "InterpolError + 'a"

definition InterpolError_fmt :: "InterpolError \<Rightarrow> string" where
  "InterpolError_fmt e =
     (case error_kind e of
        Io \<Rightarrow> ''I/O error: '' @ reason e
      | TryReserve \<Rightarrow> ''Memory allocation error: '' @ reason e
      | DeriveBuilder \<Rightarrow> ''Builder error: '' @ reason e)"

type_synonym io_error = string

datatype TryReserveError = CapacityOverflow | AllocError

definition TryReserveError_to_string :: "TryReserveError \<Rightarrow> string" where
  "TryReserveError_to_string e = ''memory allocation failed'' @
     (case e of
        CapacityOverflow \<Rightarrow> '' because the computed capacity exceeded the collection's maximum''
      | AllocError \<Rightarrow> '' because the memory allocator returned an error'')"

definition from_io_error :: "io_error \<Rightarrow> InterpolError" where
  "from_io_error e = \<lparr>error_kind = Io, reason = e\<rparr>"

definition from_try_reserve_error :: "TryReserveError \<Rightarrow> InterpolError" where
  "from_try_reserve_error e = \<lparr>error_kind = TryReserve, reason = TryReserveError_to_string e\<rparr>"

definition from_builder_error :: "string \<Rightarrow> InterpolError" where
  "from_builder_error e = \<lparr>error_kind = DeriveBuilder, reason = e\<rparr>"

text \<open>\<open>eprintln!("Rank {}: {e}", rank)\<close> of \<open>register_mpi_call\<close>.\<close>

definition rank_error_line :: "MpiRank \<Rightarrow> InterpolError \<Rightarrow> string" where
  "rank_error_line rank e = ''Rank '' @ show_i32 rank @ '': '' @ InterpolError_fmt e"

lemma from_kind [simp]:
  "error_kind (from_io_error e) = Io"
  "error_kind (from_try_reserve_error r) = TryReserve"
  "error_kind (from_builder_error b) = DeriveBuilder"
  by (simp_all add: from_io_error_def from_try_reserve_error_def from_builder_error_def)

text \<open>The printed text keeps both the kind and the reason.\<close>

lemma InterpolError_fmt_inject: "InterpolError_fmt e = InterpolError_fmt e' \<longleftrightarrow> e = e'"
  by (cases e; cases e')
    (auto simp: InterpolError_fmt_def split: InterpolErrorKind.splits)

end
