(* ===== verification/Struct_Fields.thy ===== *)
theory Struct_Fields
  imports Interpol_Error
begin

text \<open>
  The event structs as lists of named fields, and the interface of the builders that
  \<open>#[derive(Builder)]\<close> generates for them. The derive macro is code of another crate: a builder is
  a function from the chain of setter calls made on \<open>XBuilder::default()\<close> to what \<open>build()\<close>
  returns, and what the crate documents of it is the locale \<open>derive_builder\<close>. A reference builder,
  which satisfies that contract, is the instance the witnesses use.
\<close>

section \<open>Fields\<close>

text \<open>One field of an event struct with its value; the same term is a call of its setter.\<close>

datatype field =
    Current_rank MpiRank | Partner_rank MpiRank
  | Nb_bytes u32 | Nb_bytes_send u32 | Nb_bytes_recv u32
  | Comm MpiComm | Req MpiReq | Tag MpiTag
  | Required_thread_lvl i32 | Provided_thread_lvl i32
  | Finished bool | Op_type MpiOp
  | Tsc Tsc | Duration Tsc | Time Usecs

fun field_name :: "field \<Rightarrow> string" where
  "field_name (Current_rank _) = ''current_rank''"
| "field_name (Partner_rank _) = ''partner_rank''"
| "field_name (Nb_bytes _) = ''nb_bytes''"
| "field_name (Nb_bytes_send _) = ''nb_bytes_send''"
| "field_name (Nb_bytes_recv _) = ''nb_bytes_recv''"
| "field_name (Comm _) = ''comm''"
| "field_name (Req _) = ''req''"
| "field_name (Tag _) = ''tag''"
| "field_name (Required_thread_lvl _) = ''required_thread_lvl''"
| "field_name (Provided_thread_lvl _) = ''provided_thread_lvl''"
| "field_name (Finished _) = ''finished''"
| "field_name (Op_type _) = ''op_type''"
| "field_name (Tsc _) = ''tsc''"
| "field_name (Duration _) = ''duration''"
| "field_name (Time _) = ''time''"

text \<open>A struct: its field names in declaration order and, for a value, its fields.\<close>

locale struct_fields =
  fixes names :: "string list"
    and view :: "'e \<Rightarrow> field list"
  assumes fields_distinct: "distinct names"
    and view_fields: "map field_name (view e) = names"
    and view_inject: "view e = view e' \<Longrightarrow> e = e'"
begin

lemma view_subset_eq:
  assumes "set (view e) \<subseteq> set (view e')"
  shows "e = e'"
proof (rule view_inject, rule nth_equalityI)
  show len: "length (view e) = length (view e')"
    by (metis length_map view_fields)
  fix i assume i: "i < length (view e)"
  then have "view e ! i \<in> set (view e')" using assms by auto
  then obtain j where j: "j < length (view e')" "view e ! i = view e' ! j"
    by (metis in_set_conv_nth)
  have "names ! i = names ! j"
    using i j len view_fields [of e] view_fields [of e'] by (metis nth_map)
  moreover have "i < length names" "j < length names"
    using i j len view_fields [of e] by (metis length_map)+
  ultimately have "i = j" using fields_distinct by (simp add: nth_eq_iff_index_eq)
  with j show "view e ! i = view e' ! i" by simp
qed

end

section \<open>The derived builders\<close>

text \<open>The last call of the setter of a name in a chain of calls.\<close>

definition last_set :: "field list \<Rightarrow> string \<Rightarrow> field option" where
  "last_set chain f = find (\<lambda>s. field_name s = f) (rev chain)"

text \<open>
  What derive\_builder documents, for the calls that compile (setters of the struct's own fields):
  with every field set \<open>build()\<close> returns the struct holding the last value given to each field,
  otherwise an error.
\<close>

locale derive_builder = struct_fields names view
  for names :: "string list" and view :: "'e \<Rightarrow> field list" +
  fixes build :: "field list \<Rightarrow> string + 'e"
  assumes build_complete:
    "field_name ` set chain = set names \<Longrightarrow>
       \<exists>e. build chain = Inr e \<and> (\<forall>s \<in> set (view e). last_set chain (field_name s) = Some s)"
    and build_incomplete:
    "field_name ` set chain \<subset> set names \<Longrightarrow> \<exists>msg. build chain = Inl msg"
begin

text \<open>Setting every field once, in any order, builds the struct with these fields.\<close>

lemma build_view:
  assumes chain: "set chain = set (view e)"
  shows "build chain = Inr e"
proof -
  have "field_name ` set chain = set names"
    by (metis chain image_set view_fields)
  then obtain e' where e': "build chain = Inr e'"
    and last: "\<forall>s \<in> set (view e'). last_set chain (field_name s) = Some s"
    using build_complete by blast
  have "set (view e') \<subseteq> set chain"
  proof
    fix s assume "s \<in> set (view e')"
    with last have "find (\<lambda>u. field_name u = field_name s) (rev chain) = Some s"
      by (simp add: last_set_def)
    then show "s \<in> set chain"
      by (auto simp: find_Some_iff) (metis nth_mem length_rev set_rev)
  qed
  with chain have "e' = e" by (intro view_subset_eq) simp
  with e' show ?thesis by simp
qed

lemma build_missing:
  assumes "field_name ` set chain \<subseteq> set names" and "f \<in> set names"
    and "f \<notin> field_name ` set chain"
  shows "\<exists>msg. build chain = Inl msg"
  using assms by (intro build_incomplete) blast

end

section \<open>A reference builder\<close>

text \<open>
  A builder with one optional slot per field, as the crate's documentation describes it; \<open>mk\<close>
  reads the slots into the struct.
\<close>

definition reference_build ::
    "string list \<Rightarrow> ((string \<Rightarrow> field option) \<Rightarrow> 'e) \<Rightarrow> field list \<Rightarrow> string + 'e" where
  "reference_build names mk chain =
     (case find (\<lambda>f. last_set chain f = None) names of
        Some f \<Rightarrow> Inl (''`'' @ f @ ''` must be initialized'')
      | None \<Rightarrow> Inr (mk (last_set chain)))"

lemma last_set_None: "last_set chain f = None \<longleftrightarrow> f \<notin> field_name ` set chain"
  by (auto simp: last_set_def find_None_iff)

lemma last_set_name: "last_set chain f = Some s \<Longrightarrow> field_name s = f"
  by (auto simp: last_set_def find_Some_iff)

lemma reference_build_spec:
  assumes "struct_fields names view"
    and mk: "\<And>slots. (\<And>f. f \<in> set names \<Longrightarrow> \<exists>s. slots f = Some s \<and> field_name s = f) \<Longrightarrow>
      \<forall>s \<in> set (view (mk slots)). slots (field_name s) = Some s"
  shows "derive_builder names view (reference_build names mk)"
proof -
  have complete: "\<exists>e. reference_build names mk chain = Inr e \<and>
      (\<forall>s \<in> set (view e). last_set chain (field_name s) = Some s)"
    if "field_name ` set chain = set names" for chain
  proof -
    have slots: "\<exists>s. last_set chain f = Some s \<and> field_name s = f" if "f \<in> set names" for f
      using that \<open>field_name ` set chain = set names\<close> last_set_None [of chain f]
        last_set_name [of chain f] by (cases "last_set chain f") auto
    then have "find (\<lambda>f. last_set chain f = None) names = None"
      by (fastforce simp: find_None_iff)
    then have "reference_build names mk chain = Inr (mk (last_set chain))"
      by (simp add: reference_build_def)
    with mk [OF slots] show ?thesis by blast
  qed
  have incomplete: "\<exists>msg. reference_build names mk chain = Inl msg"
    if "field_name ` set chain \<subset> set names" for chain
  proof -
    from that obtain f where "f \<in> set names" "last_set chain f = None"
      by (auto simp: last_set_None)
    then have "find (\<lambda>f. last_set chain f = None) names \<noteq> None"
      by (auto simp: find_None_iff)
    then show ?thesis by (auto simp: reference_build_def)
  qed
  show ?thesis
    by (rule derive_builder.intro [OF assms(1)], rule derive_builder_axioms.intro)
      (use complete incomplete in auto)
qed

section \<open>Reading the slots of a reference builder\<close>

definition slot_current_rank :: "(string \<Rightarrow> field option) \<Rightarrow> MpiRank" where
  "slot_current_rank v = (case v ''current_rank'' of Some (Current_rank x) \<Rightarrow> x | _ \<Rightarrow> 0)"

definition slot_partner_rank :: "(string \<Rightarrow> field option) \<Rightarrow> MpiRank" where
  "slot_partner_rank v = (case v ''partner_rank'' of Some (Partner_rank x) \<Rightarrow> x | _ \<Rightarrow> 0)"

definition slot_nb_bytes :: "(string \<Rightarrow> field option) \<Rightarrow> u32" where
  "slot_nb_bytes v = (case v ''nb_bytes'' of Some (Nb_bytes x) \<Rightarrow> x | _ \<Rightarrow> 0)"

definition slot_nb_bytes_send :: "(string \<Rightarrow> field option) \<Rightarrow> u32" where
  "slot_nb_bytes_send v = (case v ''nb_bytes_send'' of Some (Nb_bytes_send x) \<Rightarrow> x | _ \<Rightarrow> 0)"

definition slot_nb_bytes_recv :: "(string \<Rightarrow> field option) \<Rightarrow> u32" where
  "slot_nb_bytes_recv v = (case v ''nb_bytes_recv'' of Some (Nb_bytes_recv x) \<Rightarrow> x | _ \<Rightarrow> 0)"

definition slot_comm :: "(string \<Rightarrow> field option) \<Rightarrow> MpiComm" where
  "slot_comm v = (case v ''comm'' of Some (Comm x) \<Rightarrow> x | _ \<Rightarrow> 0)"

definition slot_req :: "(string \<Rightarrow> field option) \<Rightarrow> MpiReq" where
  "slot_req v = (case v ''req'' of Some (Req x) \<Rightarrow> x | _ \<Rightarrow> 0)"

definition slot_tag :: "(string \<Rightarrow> field option) \<Rightarrow> MpiTag" where
  "slot_tag v = (case v ''tag'' of Some (Tag x) \<Rightarrow> x | _ \<Rightarrow> 0)"

definition slot_required_thread_lvl :: "(string \<Rightarrow> field option) \<Rightarrow> i32" where
  "slot_required_thread_lvl v = (case v ''required_thread_lvl'' of Some (Required_thread_lvl x) \<Rightarrow> x | _ \<Rightarrow> 0)"

definition slot_provided_thread_lvl :: "(string \<Rightarrow> field option) \<Rightarrow> i32" where
  "slot_provided_thread_lvl v = (case v ''provided_thread_lvl'' of Some (Provided_thread_lvl x) \<Rightarrow> x | _ \<Rightarrow> 0)"

definition slot_finished :: "(string \<Rightarrow> field option) \<Rightarrow> bool" where
  "slot_finished v = (case v ''finished'' of Some (Finished x) \<Rightarrow> x | _ \<Rightarrow> False)"

definition slot_op_type :: "(string \<Rightarrow> field option) \<Rightarrow> MpiOp" where
  "slot_op_type v = (case v ''op_type'' of Some (Op_type x) \<Rightarrow> x | _ \<Rightarrow> Opnull)"

definition slot_tsc :: "(string \<Rightarrow> field option) \<Rightarrow> Tsc" where
  "slot_tsc v = (case v ''tsc'' of Some (Tsc x) \<Rightarrow> x | _ \<Rightarrow> 0)"

definition slot_duration :: "(string \<Rightarrow> field option) \<Rightarrow> Tsc" where
  "slot_duration v = (case v ''duration'' of Some (Duration x) \<Rightarrow> x | _ \<Rightarrow> 0)"

definition slot_time :: "(string \<Rightarrow> field option) \<Rightarrow> Usecs" where
  "slot_time v = (case v ''time'' of Some (Time x) \<Rightarrow> x | _ \<Rightarrow> 0)"

lemma slot_current_rank_simp:
  "\<exists>s. v ''current_rank'' = Some s \<and> field_name s = ''current_rank'' \<Longrightarrow> v ''current_rank'' = Some (Current_rank (slot_current_rank v))"
  by (auto simp: slot_current_rank_def elim: field_name.elims)

lemma slot_partner_rank_simp:
  "\<exists>s. v ''partner_rank'' = Some s \<and> field_name s = ''partner_rank'' \<Longrightarrow> v ''partner_rank'' = Some (Partner_rank (slot_partner_rank v))"
  by (auto simp: slot_partner_rank_def elim: field_name.elims)

lemma slot_nb_bytes_simp:
  "\<exists>s. v ''nb_bytes'' = Some s \<and> field_name s = ''nb_bytes'' \<Longrightarrow> v ''nb_bytes'' = Some (Nb_bytes (slot_nb_bytes v))"
  by (auto simp: slot_nb_bytes_def elim: field_name.elims)

lemma slot_nb_bytes_send_simp:
  "\<exists>s. v ''nb_bytes_send'' = Some s \<and> field_name s = ''nb_bytes_send'' \<Longrightarrow> v ''nb_bytes_send'' = Some (Nb_bytes_send (slot_nb_bytes_send v))"
  by (auto simp: slot_nb_bytes_send_def elim: field_name.elims)

lemma slot_nb_bytes_recv_simp:
  "\<exists>s. v ''nb_bytes_recv'' = Some s \<and> field_name s = ''nb_bytes_recv'' \<Longrightarrow> v ''nb_bytes_recv'' = Some (Nb_bytes_recv (slot_nb_bytes_recv v))"
  by (auto simp: slot_nb_bytes_recv_def elim: field_name.elims)

lemma slot_comm_simp:
  "\<exists>s. v ''comm'' = Some s \<and> field_name s = ''comm'' \<Longrightarrow> v ''comm'' = Some (Comm (slot_comm v))"
  by (auto simp: slot_comm_def elim: field_name.elims)

lemma slot_req_simp:
  "\<exists>s. v ''req'' = Some s \<and> field_name s = ''req'' \<Longrightarrow> v ''req'' = Some (Req (slot_req v))"
  by (auto simp: slot_req_def elim: field_name.elims)

lemma slot_tag_simp:
  "\<exists>s. v ''tag'' = Some s \<and> field_name s = ''tag'' \<Longrightarrow> v ''tag'' = Some (Tag (slot_tag v))"
  by (auto simp: slot_tag_def elim: field_name.elims)

lemma slot_required_thread_lvl_simp:
  "\<exists>s. v ''required_thread_lvl'' = Some s \<and> field_name s = ''required_thread_lvl'' \<Longrightarrow> v ''required_thread_lvl'' = Some (Required_thread_lvl (slot_required_thread_lvl v))"
  by (auto simp: slot_required_thread_lvl_def elim: field_name.elims)

lemma slot_provided_thread_lvl_simp:
  "\<exists>s. v ''provided_thread_lvl'' = Some s \<and> field_name s = ''provided_thread_lvl'' \<Longrightarrow> v ''provided_thread_lvl'' = Some (Provided_thread_lvl (slot_provided_thread_lvl v))"
  by (auto simp: slot_provided_thread_lvl_def elim: field_name.elims)

lemma slot_finished_simp:
  "\<exists>s. v ''finished'' = Some s \<and> field_name s = ''finished'' \<Longrightarrow> v ''finished'' = Some (Finished (slot_finished v))"
  by (auto simp: slot_finished_def elim: field_name.elims)

lemma slot_op_type_simp:
  "\<exists>s. v ''op_type'' = Some s \<and> field_name s = ''op_type'' \<Longrightarrow> v ''op_type'' = Some (Op_type (slot_op_type v))"
  by (auto simp: slot_op_type_def elim: field_name.elims)

lemma slot_tsc_simp:
  "\<exists>s. v ''tsc'' = Some s \<and> field_name s = ''tsc'' \<Longrightarrow> v ''tsc'' = Some (Tsc (slot_tsc v))"
  by (auto simp: slot_tsc_def elim: field_name.elims)

lemma slot_duration_simp:
  "\<exists>s. v ''duration'' = Some s \<and> field_name s = ''duration'' \<Longrightarrow> v ''duration'' = Some (Duration (slot_duration v))"
  by (auto simp: slot_duration_def elim: field_name.elims)

lemma slot_time_simp:
  "\<exists>s. v ''time'' = Some s \<and> field_name s = ''time'' \<Longrightarrow> v ''time'' = Some (Time (slot_time v))"
  by (auto simp: slot_time_def elim: field_name.elims)

lemmas slot_simps =
  slot_current_rank_simp slot_partner_rank_simp slot_nb_bytes_simp slot_nb_bytes_send_simp
    slot_nb_bytes_recv_simp slot_comm_simp slot_req_simp slot_tag_simp
    slot_required_thread_lvl_simp slot_provided_thread_lvl_simp slot_finished_simp
    slot_op_type_simp slot_tsc_simp slot_duration_simp slot_time_simp

end
