(* ===== verification/Management_Events.thy ===== *)
theory Management_Events
  imports Struct_Fields
begin

text \<open>
  The event structs of \<open>mpi_events/management\<close>: MpiInit, MpiInitThread and MpiFinalize.
  For each: the record, its constructor \<open>new\<close>, its fields in declaration order, and its
  reference builder.
\<close>

section \<open>MpiInit\<close>

record MpiInit =
  current_rank :: MpiRank
  tsc :: Tsc
  time :: Usecs

definition MpiInit_new ::
    "MpiRank \<Rightarrow> Tsc \<Rightarrow> Usecs \<Rightarrow> MpiInit" where
  "MpiInit_new rk ts tm =
     \<lparr>MpiInit.current_rank = rk, MpiInit.tsc = ts, MpiInit.time = tm\<rparr>"

definition MpiInit_fields :: "string list" where
  "MpiInit_fields =
     [''current_rank'', ''tsc'', ''time'']"

definition MpiInit_view :: "MpiInit \<Rightarrow> field list" where
  "MpiInit_view e =
     [Current_rank (MpiInit.current_rank e), Tsc (MpiInit.tsc e), Time (MpiInit.time e)]"

interpretation MpiInit: struct_fields MpiInit_fields MpiInit_view
  by unfold_locales (simp_all add: MpiInit_fields_def MpiInit_view_def)

lemma MpiInit_view_new [simp]:
  "MpiInit_view (MpiInit_new rk ts tm) =
     [Current_rank rk, Tsc ts, Time tm]"
  by (simp add: MpiInit_view_def MpiInit_new_def)

definition MpiInit_reference :: "field list \<Rightarrow> string + MpiInit" where
  "MpiInit_reference = reference_build MpiInit_fields
     (\<lambda>v. MpiInit_new (slot_current_rank v) (slot_tsc v) (slot_time v))"

interpretation MpiInit_ref: derive_builder MpiInit_fields MpiInit_view MpiInit_reference
  unfolding MpiInit_reference_def
  by (rule reference_build_spec) (unfold_locales, auto simp: MpiInit_fields_def slot_simps)

section \<open>MpiInitThread\<close>

record MpiInitThread =
  current_rank :: MpiRank
  required_thread_lvl :: i32
  provided_thread_lvl :: i32
  tsc :: Tsc
  time :: Usecs

definition MpiInitThread_new ::
    "MpiRank \<Rightarrow> i32 \<Rightarrow> i32 \<Rightarrow> Tsc \<Rightarrow> Usecs \<Rightarrow> MpiInitThread" where
  "MpiInitThread_new rk rlvl plvl ts tm =
     \<lparr>MpiInitThread.current_rank = rk, MpiInitThread.required_thread_lvl = rlvl,
       MpiInitThread.provided_thread_lvl = plvl, MpiInitThread.tsc = ts,
       MpiInitThread.time = tm\<rparr>"

definition MpiInitThread_fields :: "string list" where
  "MpiInitThread_fields =
     [''current_rank'', ''required_thread_lvl'', ''provided_thread_lvl'', ''tsc'', ''time'']"

definition MpiInitThread_view :: "MpiInitThread \<Rightarrow> field list" where
  "MpiInitThread_view e =
     [Current_rank (MpiInitThread.current_rank e),
      Required_thread_lvl (MpiInitThread.required_thread_lvl e),
      Provided_thread_lvl (MpiInitThread.provided_thread_lvl e), Tsc (MpiInitThread.tsc e),
      Time (MpiInitThread.time e)]"

interpretation MpiInitThread: struct_fields MpiInitThread_fields MpiInitThread_view
  by unfold_locales (simp_all add: MpiInitThread_fields_def MpiInitThread_view_def)

lemma MpiInitThread_view_new [simp]:
  "MpiInitThread_view (MpiInitThread_new rk rlvl plvl ts tm) =
     [Current_rank rk, Required_thread_lvl rlvl, Provided_thread_lvl plvl, Tsc ts, Time tm]"
  by (simp add: MpiInitThread_view_def MpiInitThread_new_def)

definition MpiInitThread_reference :: "field list \<Rightarrow> string + MpiInitThread" where
  "MpiInitThread_reference = reference_build MpiInitThread_fields
     (\<lambda>v. MpiInitThread_new (slot_current_rank v) (slot_required_thread_lvl v) (slot_provided_thread_lvl v)
        (slot_tsc v) (slot_time v))"

interpretation MpiInitThread_ref: derive_builder MpiInitThread_fields MpiInitThread_view MpiInitThread_reference
  unfolding MpiInitThread_reference_def
  by (rule reference_build_spec) (unfold_locales, auto simp: MpiInitThread_fields_def slot_simps)

section \<open>MpiFinalize\<close>

record MpiFinalize =
  current_rank :: MpiRank
  tsc :: Tsc
  time :: Usecs

definition MpiFinalize_new ::
    "MpiRank \<Rightarrow> Tsc \<Rightarrow> Usecs \<Rightarrow> MpiFinalize" where
  "MpiFinalize_new rk ts tm =
     \<lparr>MpiFinalize.current_rank = rk, MpiFinalize.tsc = ts, MpiFinalize.time = tm\<rparr>"

definition MpiFinalize_fields :: "string list" where
  "MpiFinalize_fields =
     [''current_rank'', ''tsc'', ''time'']"

definition MpiFinalize_view :: "MpiFinalize \<Rightarrow> field list" where
  "MpiFinalize_view e =
     [Current_rank (MpiFinalize.current_rank e), Tsc (MpiFinalize.tsc e),
      Time (MpiFinalize.time e)]"

interpretation MpiFinalize: struct_fields MpiFinalize_fields MpiFinalize_view
  by unfold_locales (simp_all add: MpiFinalize_fields_def MpiFinalize_view_def)

lemma MpiFinalize_view_new [simp]:
  "MpiFinalize_view (MpiFinalize_new rk ts tm) =
     [Current_rank rk, Tsc ts, Time tm]"
  by (simp add: MpiFinalize_view_def MpiFinalize_new_def)

definition MpiFinalize_reference :: "field list \<Rightarrow> string + MpiFinalize" where
  "MpiFinalize_reference = reference_build MpiFinalize_fields
     (\<lambda>v. MpiFinalize_new (slot_current_rank v) (slot_tsc v) (slot_time v))"

interpretation MpiFinalize_ref: derive_builder MpiFinalize_fields MpiFinalize_view MpiFinalize_reference
  unfolding MpiFinalize_reference_def
  by (rule reference_build_spec) (unfold_locales, auto simp: MpiFinalize_fields_def slot_simps)

end
