(* ===== verification/Point_To_Point_Events.thy ===== *)
theory Point_To_Point_Events
  imports Struct_Fields
begin

text \<open>
  The event structs of \<open>mpi_events/point_to_point\<close>: MpiSend, MpiRecv, MpiIsend and MpiIrecv.
  For each: the record, its constructor \<open>new\<close>, its fields in declaration order, and its
  reference builder.
\<close>

section \<open>MpiSend\<close>

record MpiSend =
  current_rank :: MpiRank
  partner_rank :: MpiRank
  nb_bytes :: u32
  comm :: MpiComm
  tag :: MpiTag
  tsc :: Tsc
  duration :: Tsc

definition MpiSend_new ::
    "MpiRank \<Rightarrow> MpiRank \<Rightarrow> u32 \<Rightarrow> MpiComm \<Rightarrow> MpiTag \<Rightarrow> Tsc \<Rightarrow> Tsc \<Rightarrow> MpiSend" where
  "MpiSend_new rk partner nb cm tg ts dur =
     \<lparr>MpiSend.current_rank = rk, MpiSend.partner_rank = partner, MpiSend.nb_bytes = nb,
       MpiSend.comm = cm, MpiSend.tag = tg, MpiSend.tsc = ts, MpiSend.duration = dur\<rparr>"

definition MpiSend_fields :: "string list" where
  "MpiSend_fields =
     [''current_rank'', ''partner_rank'', ''nb_bytes'', ''comm'', ''tag'', ''tsc'',
      ''duration'']"

definition MpiSend_view :: "MpiSend \<Rightarrow> field list" where
  "MpiSend_view e =
     [Current_rank (MpiSend.current_rank e), Partner_rank (MpiSend.partner_rank e),
      Nb_bytes (MpiSend.nb_bytes e), Comm (MpiSend.comm e), Tag (MpiSend.tag e),
      Tsc (MpiSend.tsc e), Duration (MpiSend.duration e)]"

interpretation MpiSend: struct_fields MpiSend_fields MpiSend_view
  by unfold_locales (simp_all add: MpiSend_fields_def MpiSend_view_def)

lemma MpiSend_view_new [simp]:
  "MpiSend_view (MpiSend_new rk partner nb cm tg ts dur) =
     [Current_rank rk, Partner_rank partner, Nb_bytes nb, Comm cm, Tag tg, Tsc ts, Duration dur]"
  by (simp add: MpiSend_view_def MpiSend_new_def)

definition MpiSend_reference :: "field list \<Rightarrow> string + MpiSend" where
  "MpiSend_reference = reference_build MpiSend_fields
     (\<lambda>v. MpiSend_new (slot_current_rank v) (slot_partner_rank v) (slot_nb_bytes v) (slot_comm v)
        (slot_tag v) (slot_tsc v) (slot_duration v))"

interpretation MpiSend_ref: derive_builder MpiSend_fields MpiSend_view MpiSend_reference
  unfolding MpiSend_reference_def
  by (rule reference_build_spec) (unfold_locales, auto simp: MpiSend_fields_def slot_simps)

section \<open>MpiRecv\<close>

record MpiRecv =
  current_rank :: MpiRank
  partner_rank :: MpiRank
  nb_bytes :: u32
  comm :: MpiComm
  tag :: MpiTag
  tsc :: Tsc
  duration :: Tsc

definition MpiRecv_new ::
    "MpiRank \<Rightarrow> MpiRank \<Rightarrow> u32 \<Rightarrow> MpiComm \<Rightarrow> MpiTag \<Rightarrow> Tsc \<Rightarrow> Tsc \<Rightarrow> MpiRecv" where
  "MpiRecv_new rk partner nb cm tg ts dur =
     \<lparr>MpiRecv.current_rank = rk, MpiRecv.partner_rank = partner, MpiRecv.nb_bytes = nb,
       MpiRecv.comm = cm, MpiRecv.tag = tg, MpiRecv.tsc = ts, MpiRecv.duration = dur\<rparr>"

definition MpiRecv_fields :: "string list" where
  "MpiRecv_fields =
     [''current_rank'', ''partner_rank'', ''nb_bytes'', ''comm'', ''tag'', ''tsc'',
      ''duration'']"

definition MpiRecv_view :: "MpiRecv \<Rightarrow> field list" where
  "MpiRecv_view e =
     [Current_rank (MpiRecv.current_rank e), Partner_rank (MpiRecv.partner_rank e),
      Nb_bytes (MpiRecv.nb_bytes e), Comm (MpiRecv.comm e), Tag (MpiRecv.tag e),
      Tsc (MpiRecv.tsc e), Duration (MpiRecv.duration e)]"

interpretation MpiRecv: struct_fields MpiRecv_fields MpiRecv_view
  by unfold_locales (simp_all add: MpiRecv_fields_def MpiRecv_view_def)

lemma MpiRecv_view_new [simp]:
  "MpiRecv_view (MpiRecv_new rk partner nb cm tg ts dur) =
     [Current_rank rk, Partner_rank partner, Nb_bytes nb, Comm cm, Tag tg, Tsc ts, Duration dur]"
  by (simp add: MpiRecv_view_def MpiRecv_new_def)

definition MpiRecv_reference :: "field list \<Rightarrow> string + MpiRecv" where
  "MpiRecv_reference = reference_build MpiRecv_fields
     (\<lambda>v. MpiRecv_new (slot_current_rank v) (slot_partner_rank v) (slot_nb_bytes v) (slot_comm v)
        (slot_tag v) (slot_tsc v) (slot_duration v))"

interpretation MpiRecv_ref: derive_builder MpiRecv_fields MpiRecv_view MpiRecv_reference
  unfolding MpiRecv_reference_def
  by (rule reference_build_spec) (unfold_locales, auto simp: MpiRecv_fields_def slot_simps)

section \<open>MpiIsend\<close>

record MpiIsend =
  current_rank :: MpiRank
  partner_rank :: MpiRank
  nb_bytes :: u32
  comm :: MpiComm
  req :: MpiReq
  tag :: MpiTag
  tsc :: Tsc
  duration :: Tsc

definition MpiIsend_new ::
    "MpiRank \<Rightarrow> MpiRank \<Rightarrow> u32 \<Rightarrow> MpiComm \<Rightarrow> MpiReq \<Rightarrow> MpiTag \<Rightarrow> Tsc \<Rightarrow> Tsc \<Rightarrow> MpiIsend" where
  "MpiIsend_new rk partner nb cm rq tg ts dur =
     \<lparr>MpiIsend.current_rank = rk, MpiIsend.partner_rank = partner, MpiIsend.nb_bytes = nb,
       MpiIsend.comm = cm, MpiIsend.req = rq, MpiIsend.tag = tg, MpiIsend.tsc = ts,
       MpiIsend.duration = dur\<rparr>"

definition MpiIsend_fields :: "string list" where
  "MpiIsend_fields =
     [''current_rank'', ''partner_rank'', ''nb_bytes'', ''comm'', ''req'', ''tag'', ''tsc'',
      ''duration'']"

definition MpiIsend_view :: "MpiIsend \<Rightarrow> field list" where
  "MpiIsend_view e =
     [Current_rank (MpiIsend.current_rank e), Partner_rank (MpiIsend.partner_rank e),
      Nb_bytes (MpiIsend.nb_bytes e), Comm (MpiIsend.comm e), Req (MpiIsend.req e),
      Tag (MpiIsend.tag e), Tsc (MpiIsend.tsc e), Duration (MpiIsend.duration e)]"

interpretation MpiIsend: struct_fields MpiIsend_fields MpiIsend_view
  by unfold_locales (simp_all add: MpiIsend_fields_def MpiIsend_view_def)

lemma MpiIsend_view_new [simp]:
  "MpiIsend_view (MpiIsend_new rk partner nb cm rq tg ts dur) =
     [Current_rank rk, Partner_rank partner, Nb_bytes nb, Comm cm, Req rq, Tag tg, Tsc ts,
      Duration dur]"
  by (simp add: MpiIsend_view_def MpiIsend_new_def)

definition MpiIsend_reference :: "field list \<Rightarrow> string + MpiIsend" where
  "MpiIsend_reference = reference_build MpiIsend_fields
     (\<lambda>v. MpiIsend_new (slot_current_rank v) (slot_partner_rank v) (slot_nb_bytes v) (slot_comm v)
        (slot_req v) (slot_tag v) (slot_tsc v) (slot_duration v))"

interpretation MpiIsend_ref: derive_builder MpiIsend_fields MpiIsend_view MpiIsend_reference
  unfolding MpiIsend_reference_def
  by (rule reference_build_spec) (unfold_locales, auto simp: MpiIsend_fields_def slot_simps)

section \<open>MpiIrecv\<close>

record MpiIrecv =
  current_rank :: MpiRank
  partner_rank :: MpiRank
  nb_bytes :: u32
  comm :: MpiComm
  req :: MpiReq
  tag :: MpiTag
  tsc :: Tsc
  duration :: Tsc

definition MpiIrecv_new ::
    "MpiRank \<Rightarrow> MpiRank \<Rightarrow> u32 \<Rightarrow> MpiComm \<Rightarrow> MpiReq \<Rightarrow> MpiTag \<Rightarrow> Tsc \<Rightarrow> Tsc \<Rightarrow> MpiIrecv" where
  "MpiIrecv_new rk partner nb cm rq tg ts dur =
     \<lparr>MpiIrecv.current_rank = rk, MpiIrecv.partner_rank = partner, MpiIrecv.nb_bytes = nb,
       MpiIrecv.comm = cm, MpiIrecv.req = rq, MpiIrecv.tag = tg, MpiIrecv.tsc = ts,
       MpiIrecv.duration = dur\<rparr>"

definition MpiIrecv_fields :: "string list" where
  "MpiIrecv_fields =
     [''current_rank'', ''partner_rank'', ''nb_bytes'', ''comm'', ''req'', ''tag'', ''tsc'',
      ''duration'']"

definition MpiIrecv_view :: "MpiIrecv \<Rightarrow> field list" where
  "MpiIrecv_view e =
     [Current_rank (MpiIrecv.current_rank e), Partner_rank (MpiIrecv.partner_rank e),
      Nb_bytes (MpiIrecv.nb_bytes e), Comm (MpiIrecv.comm e), Req (MpiIrecv.req e),
      Tag (MpiIrecv.tag e), Tsc (MpiIrecv.tsc e), Duration (MpiIrecv.duration e)]"

interpretation MpiIrecv: struct_fields MpiIrecv_fields MpiIrecv_view
  by unfold_locales (simp_all add: MpiIrecv_fields_def MpiIrecv_view_def)

lemma MpiIrecv_view_new [simp]:
  "MpiIrecv_view (MpiIrecv_new rk partner nb cm rq tg ts dur) =
     [Current_rank rk, Partner_rank partner, Nb_bytes nb, Comm cm, Req rq, Tag tg, Tsc ts,
      Duration dur]"
  by (simp add: MpiIrecv_view_def MpiIrecv_new_def)

definition MpiIrecv_reference :: "field list \<Rightarrow> string + MpiIrecv" where
  "MpiIrecv_reference = reference_build MpiIrecv_fields
     (\<lambda>v. MpiIrecv_new (slot_current_rank v) (slot_partner_rank v) (slot_nb_bytes v) (slot_comm v)
        (slot_req v) (slot_tag v) (slot_tsc v) (slot_duration v))"

interpretation MpiIrecv_ref: derive_builder MpiIrecv_fields MpiIrecv_view MpiIrecv_reference
  unfolding MpiIrecv_reference_def
  by (rule reference_build_spec) (unfold_locales, auto simp: MpiIrecv_fields_def slot_simps)

end
