(* ===== verification/Synchronization_Events.thy ===== *)
theory Synchronization_Events
  imports Struct_Fields
begin

text \<open>
  The event structs of \<open>mpi_events/synchronization\<close>: MpiBarrier, MpiIbarrier, MpiTest and MpiWait.
  For each: the record, its constructor \<open>new\<close>, its fields in declaration order, and its
  reference builder.
\<close>

section \<open>MpiBarrier\<close>

record MpiBarrier =
  current_rank :: MpiRank
  comm :: MpiComm
  tsc :: Tsc
  duration :: Tsc

definition MpiBarrier_new ::
    "MpiRank \<Rightarrow> MpiComm \<Rightarrow> Tsc \<Rightarrow> Tsc \<Rightarrow> MpiBarrier" where
  "MpiBarrier_new rk cm ts dur =
     \<lparr>MpiBarrier.current_rank = rk, MpiBarrier.comm = cm, MpiBarrier.tsc = ts,
       MpiBarrier.duration = dur\<rparr>"

definition MpiBarrier_fields :: "string list" where
  "MpiBarrier_fields =
     [''current_rank'', ''comm'', ''tsc'', ''duration'']"

definition MpiBarrier_view :: "MpiBarrier \<Rightarrow> field list" where
  "MpiBarrier_view e =
     [Current_rank (MpiBarrier.current_rank e), Comm (MpiBarrier.comm e),
      Tsc (MpiBarrier.tsc e), Duration (MpiBarrier.duration e)]"

interpretation MpiBarrier: struct_fields MpiBarrier_fields MpiBarrier_view
  by unfold_locales (simp_all add: MpiBarrier_fields_def MpiBarrier_view_def)

lemma MpiBarrier_view_new [simp]:
  "MpiBarrier_view (MpiBarrier_new rk cm ts dur) =
     [Current_rank rk, Comm cm, Tsc ts, Duration dur]"
  by (simp add: MpiBarrier_view_def MpiBarrier_new_def)

definition MpiBarrier_reference :: "field list \<Rightarrow> string + MpiBarrier" where
  "MpiBarrier_reference = reference_build MpiBarrier_fields
     (\<lambda>v. MpiBarrier_new (slot_current_rank v) (slot_comm v) (slot_tsc v) (slot_duration v))"

interpretation MpiBarrier_ref: derive_builder MpiBarrier_fields MpiBarrier_view MpiBarrier_reference
  unfolding MpiBarrier_reference_def
  by (rule reference_build_spec) (unfold_locales, auto simp: MpiBarrier_fields_def slot_simps)

section \<open>MpiIbarrier\<close>

record MpiIbarrier =
  current_rank :: MpiRank
  comm :: MpiComm
  req :: MpiReq
  tsc :: Tsc
  duration :: Tsc

definition MpiIbarrier_new ::
    "MpiRank \<Rightarrow> MpiComm \<Rightarrow> MpiReq \<Rightarrow> Tsc \<Rightarrow> Tsc \<Rightarrow> MpiIbarrier" where
  "MpiIbarrier_new rk cm rq ts dur =
     \<lparr>MpiIbarrier.current_rank = rk, MpiIbarrier.comm = cm, MpiIbarrier.req = rq,
       MpiIbarrier.tsc = ts, MpiIbarrier.duration = dur\<rparr>"

definition MpiIbarrier_fields :: "string list" where
  "MpiIbarrier_fields =
     [''current_rank'', ''comm'', ''req'', ''tsc'', ''duration'']"

definition MpiIbarrier_view :: "MpiIbarrier \<Rightarrow> field list" where
  "MpiIbarrier_view e =
     [Current_rank (MpiIbarrier.current_rank e), Comm (MpiIbarrier.comm e),
      Req (MpiIbarrier.req e), Tsc (MpiIbarrier.tsc e), Duration (MpiIbarrier.duration e)]"

interpretation MpiIbarrier: struct_fields MpiIbarrier_fields MpiIbarrier_view
  by unfold_locales (simp_all add: MpiIbarrier_fields_def MpiIbarrier_view_def)

lemma MpiIbarrier_view_new [simp]:
  "MpiIbarrier_view (MpiIbarrier_new rk cm rq ts dur) =
     [Current_rank rk, Comm cm, Req rq, Tsc ts, Duration dur]"
  by (simp add: MpiIbarrier_view_def MpiIbarrier_new_def)

definition MpiIbarrier_reference :: "field list \<Rightarrow> string + MpiIbarrier" where
  "MpiIbarrier_reference = reference_build MpiIbarrier_fields
     (\<lambda>v. MpiIbarrier_new (slot_current_rank v) (slot_comm v) (slot_req v) (slot_tsc v) (slot_duration v))"

interpretation MpiIbarrier_ref: derive_builder MpiIbarrier_fields MpiIbarrier_view MpiIbarrier_reference
  unfolding MpiIbarrier_reference_def
  by (rule reference_build_spec) (unfold_locales, auto simp: MpiIbarrier_fields_def slot_simps)

section \<open>MpiTest\<close>

record MpiTest =
  current_rank :: MpiRank
  req :: MpiReq
  finished :: bool
  tsc :: Tsc
  duration :: Tsc

definition MpiTest_new ::
    "MpiRank \<Rightarrow> MpiReq \<Rightarrow> bool \<Rightarrow> Tsc \<Rightarrow> Tsc \<Rightarrow> MpiTest" where
  "MpiTest_new rk rq fin ts dur =
     \<lparr>MpiTest.current_rank = rk, MpiTest.req = rq, MpiTest.finished = fin, MpiTest.tsc = ts,
       MpiTest.duration = dur\<rparr>"

definition MpiTest_fields :: "string list" where
  "MpiTest_fields =
     [''current_rank'', ''req'', ''finished'', ''tsc'', ''duration'']"

definition MpiTest_view :: "MpiTest \<Rightarrow> field list" where
  "MpiTest_view e =
     [Current_rank (MpiTest.current_rank e), Req (MpiTest.req e),
      Finished (MpiTest.finished e), Tsc (MpiTest.tsc e), Duration (MpiTest.duration e)]"

interpretation MpiTest: struct_fields MpiTest_fields MpiTest_view
  by unfold_locales (simp_all add: MpiTest_fields_def MpiTest_view_def)

lemma MpiTest_view_new [simp]:
  "MpiTest_view (MpiTest_new rk rq fin ts dur) =
     [Current_rank rk, Req rq, Finished fin, Tsc ts, Duration dur]"
  by (simp add: MpiTest_view_def MpiTest_new_def)

definition MpiTest_reference :: "field list \<Rightarrow> string + MpiTest" where
  "MpiTest_reference = reference_build MpiTest_fields
     (\<lambda>v. MpiTest_new (slot_current_rank v) (slot_req v) (slot_finished v) (slot_tsc v) (slot_duration v))"

interpretation MpiTest_ref: derive_builder MpiTest_fields MpiTest_view MpiTest_reference
  unfolding MpiTest_reference_def
  by (rule reference_build_spec) (unfold_locales, auto simp: MpiTest_fields_def slot_simps)

section \<open>MpiWait\<close>

record MpiWait =
  current_rank :: MpiRank
  req :: MpiReq
  tsc :: Tsc
  duration :: Tsc

definition MpiWait_new ::
    "MpiRank \<Rightarrow> MpiReq \<Rightarrow> Tsc \<Rightarrow> Tsc \<Rightarrow> MpiWait" where
  "MpiWait_new rk rq ts dur =
     \<lparr>MpiWait.current_rank = rk, MpiWait.req = rq, MpiWait.tsc = ts, MpiWait.duration = dur\<rparr>"

definition MpiWait_fields :: "string list" where
  "MpiWait_fields =
     [''current_rank'', ''req'', ''tsc'', ''duration'']"

definition MpiWait_view :: "MpiWait \<Rightarrow> field list" where
  "MpiWait_view e =
     [Current_rank (MpiWait.current_rank e), Req (MpiWait.req e), Tsc (MpiWait.tsc e),
      Duration (MpiWait.duration e)]"

interpretation MpiWait: struct_fields MpiWait_fields MpiWait_view
  by unfold_locales (simp_all add: MpiWait_fields_def MpiWait_view_def)

lemma MpiWait_view_new [simp]:
  "MpiWait_view (MpiWait_new rk rq ts dur) =
     [Current_rank rk, Req rq, Tsc ts, Duration dur]"
  by (simp add: MpiWait_view_def MpiWait_new_def)

definition MpiWait_reference :: "field list \<Rightarrow> string + MpiWait" where
  "MpiWait_reference = reference_build MpiWait_fields
     (\<lambda>v. MpiWait_new (slot_current_rank v) (slot_req v) (slot_tsc v) (slot_duration v))"

interpretation MpiWait_ref: derive_builder MpiWait_fields MpiWait_view MpiWait_reference
  unfolding MpiWait_reference_def
  by (rule reference_build_spec) (unfold_locales, auto simp: MpiWait_fields_def slot_simps)

end
