(* ===== verification/Collective_Events.thy ===== *)
theory Collective_Events
  imports Struct_Fields
begin

text \<open>
  The event structs of \<open>mpi_events/collectives\<close>: MpiIbcast, MpiIgather, MpiIreduce and MpiIscatter.
  For each: the record, its constructor \<open>new\<close>, its fields in declaration order, and its
  reference builder.
\<close>

section \<open>MpiIbcast\<close>

record MpiIbcast =
  current_rank :: MpiRank
  partner_rank :: MpiRank
  nb_bytes :: u32
  comm :: MpiComm
  req :: MpiReq
  tsc :: Tsc
  duration :: Tsc

definition MpiIbcast_new ::
    "MpiRank \<Rightarrow> MpiRank \<Rightarrow> u32 \<Rightarrow> MpiComm \<Rightarrow> MpiReq \<Rightarrow> Tsc \<Rightarrow> Tsc \<Rightarrow> MpiIbcast" where
  "MpiIbcast_new rk partner nb cm rq ts dur =
     \<lparr>MpiIbcast.current_rank = rk, MpiIbcast.partner_rank = partner, MpiIbcast.nb_bytes = nb,
       MpiIbcast.comm = cm, MpiIbcast.req = rq, MpiIbcast.tsc = ts, MpiIbcast.duration = dur\<rparr>"

definition MpiIbcast_fields :: "string list" where
  "MpiIbcast_fields =
     [''current_rank'', ''partner_rank'', ''nb_bytes'', ''comm'', ''req'', ''tsc'',
      ''duration'']"

definition MpiIbcast_view :: "MpiIbcast \<Rightarrow> field list" where
  "MpiIbcast_view e =
     [Current_rank (MpiIbcast.current_rank e), Partner_rank (MpiIbcast.partner_rank e),
      Nb_bytes (MpiIbcast.nb_bytes e), Comm (MpiIbcast.comm e), Req (MpiIbcast.req e),
      Tsc (MpiIbcast.tsc e), Duration (MpiIbcast.duration e)]"

interpretation MpiIbcast: struct_fields MpiIbcast_fields MpiIbcast_view
  by unfold_locales (simp_all add: MpiIbcast_fields_def MpiIbcast_view_def)

lemma MpiIbcast_view_new [simp]:
  "MpiIbcast_view (MpiIbcast_new rk partner nb cm rq ts dur) =
     [Current_rank rk, Partner_rank partner, Nb_bytes nb, Comm cm, Req rq, Tsc ts, Duration dur]"
  by (simp add: MpiIbcast_view_def MpiIbcast_new_def)

definition MpiIbcast_reference :: "field list \<Rightarrow> string + MpiIbcast" where
  "MpiIbcast_reference = reference_build MpiIbcast_fields
     (\<lambda>v. MpiIbcast_new (slot_current_rank v) (slot_partner_rank v) (slot_nb_bytes v) (slot_comm v)
        (slot_req v) (slot_tsc v) (slot_duration v))"

interpretation MpiIbcast_ref: derive_builder MpiIbcast_fields MpiIbcast_view MpiIbcast_reference
  unfolding MpiIbcast_reference_def
  by (rule reference_build_spec) (unfold_locales, auto simp: MpiIbcast_fields_def slot_simps)

section \<open>MpiIgather\<close>

record MpiIgather =
  current_rank :: MpiRank
  partner_rank :: MpiRank
  nb_bytes_send :: u32
  nb_bytes_recv :: u32
  comm :: MpiComm
  req :: MpiReq
  tsc :: Tsc
  duration :: Tsc

definition MpiIgather_new ::
    "MpiRank \<Rightarrow> MpiRank \<Rightarrow> u32 \<Rightarrow> u32 \<Rightarrow> MpiComm \<Rightarrow> MpiReq \<Rightarrow> Tsc \<Rightarrow> Tsc \<Rightarrow> MpiIgather" where
  "MpiIgather_new rk partner nbs nbr cm rq ts dur =
     \<lparr>MpiIgather.current_rank = rk, MpiIgather.partner_rank = partner,
       MpiIgather.nb_bytes_send = nbs, MpiIgather.nb_bytes_recv = nbr, MpiIgather.comm = cm,
       MpiIgather.req = rq, MpiIgather.tsc = ts, MpiIgather.duration = dur\<rparr>"

definition MpiIgather_fields :: "string list" where
  "MpiIgather_fields =
     [''current_rank'', ''partner_rank'', ''nb_bytes_send'', ''nb_bytes_recv'', ''comm'',
      ''req'', ''tsc'', ''duration'']"

definition MpiIgather_view :: "MpiIgather \<Rightarrow> field list" where
  "MpiIgather_view e =
     [Current_rank (MpiIgather.current_rank e), Partner_rank (MpiIgather.partner_rank e),
      Nb_bytes_send (MpiIgather.nb_bytes_send e), Nb_bytes_recv (MpiIgather.nb_bytes_recv e),
      Comm (MpiIgather.comm e), Req (MpiIgather.req e), Tsc (MpiIgather.tsc e),
      Duration (MpiIgather.duration e)]"

interpretation MpiIgather: struct_fields MpiIgather_fields MpiIgather_view
  by unfold_locales (simp_all add: MpiIgather_fields_def MpiIgather_view_def)

lemma MpiIgather_view_new [simp]:
  "MpiIgather_view (MpiIgather_new rk partner nbs nbr cm rq ts dur) =
     [Current_rank rk, Partner_rank partner, Nb_bytes_send nbs, Nb_bytes_recv nbr, Comm cm,
      Req rq, Tsc ts, Duration dur]"
  by (simp add: MpiIgather_view_def MpiIgather_new_def)

definition MpiIgather_reference :: "field list \<Rightarrow> string + MpiIgather" where
  "MpiIgather_reference = reference_build MpiIgather_fields
     (\<lambda>v. MpiIgather_new (slot_current_rank v) (slot_partner_rank v) (slot_nb_bytes_send v)
        (slot_nb_bytes_recv v) (slot_comm v) (slot_req v) (slot_tsc v) (slot_duration v))"

interpretation MpiIgather_ref: derive_builder MpiIgather_fields MpiIgather_view MpiIgather_reference
  unfolding MpiIgather_reference_def
  by (rule reference_build_spec) (unfold_locales, auto simp: MpiIgather_fields_def slot_simps)

section \<open>MpiIreduce\<close>

record MpiIreduce =
  current_rank :: MpiRank
  partner_rank :: MpiRank
  nb_bytes :: u32
  op_type :: MpiOp
  comm :: MpiComm
  req :: MpiReq
  tsc :: Tsc
  duration :: Tsc

definition MpiIreduce_new ::
    "MpiRank \<Rightarrow> MpiRank \<Rightarrow> u32 \<Rightarrow> MpiOp \<Rightarrow> MpiComm \<Rightarrow> MpiReq \<Rightarrow> Tsc \<Rightarrow> Tsc \<Rightarrow> MpiIreduce" where
  "MpiIreduce_new rk partner nb opt cm rq ts dur =
     \<lparr>MpiIreduce.current_rank = rk, MpiIreduce.partner_rank = partner,
       MpiIreduce.nb_bytes = nb, MpiIreduce.op_type = opt, MpiIreduce.comm = cm,
       MpiIreduce.req = rq, MpiIreduce.tsc = ts, MpiIreduce.duration = dur\<rparr>"

definition MpiIreduce_fields :: "string list" where
  "MpiIreduce_fields =
     [''current_rank'', ''partner_rank'', ''nb_bytes'', ''op_type'', ''comm'', ''req'',
      ''tsc'', ''duration'']"

definition MpiIreduce_view :: "MpiIreduce \<Rightarrow> field list" where
  "MpiIreduce_view e =
     [Current_rank (MpiIreduce.current_rank e), Partner_rank (MpiIreduce.partner_rank e),
      Nb_bytes (MpiIreduce.nb_bytes e), Op_type (MpiIreduce.op_type e),
      Comm (MpiIreduce.comm e), Req (MpiIreduce.req e), Tsc (MpiIreduce.tsc e),
      Duration (MpiIreduce.duration e)]"

interpretation MpiIreduce: struct_fields MpiIreduce_fields MpiIreduce_view
  by unfold_locales (simp_all add: MpiIreduce_fields_def MpiIreduce_view_def)

lemma MpiIreduce_view_new [simp]:
  "MpiIreduce_view (MpiIreduce_new rk partner nb opt cm rq ts dur) =
     [Current_rank rk, Partner_rank partner, Nb_bytes nb, Op_type opt, Comm cm, Req rq, Tsc ts,
      Duration dur]"
  by (simp add: MpiIreduce_view_def MpiIreduce_new_def)

definition MpiIreduce_reference :: "field list \<Rightarrow> string + MpiIreduce" where
  "MpiIreduce_reference = reference_build MpiIreduce_fields
     (\<lambda>v. MpiIreduce_new (slot_current_rank v) (slot_partner_rank v) (slot_nb_bytes v) (slot_op_type v)
        (slot_comm v) (slot_req v) (slot_tsc v) (slot_duration v))"

interpretation MpiIreduce_ref: derive_builder MpiIreduce_fields MpiIreduce_view MpiIreduce_reference
  unfolding MpiIreduce_reference_def
  by (rule reference_build_spec) (unfold_locales, auto simp: MpiIreduce_fields_def slot_simps)

section \<open>MpiIscatter\<close>

record MpiIscatter =
  current_rank :: MpiRank
  partner_rank :: MpiRank
  nb_bytes_send :: u32
  nb_bytes_recv :: u32
  comm :: MpiComm
  req :: MpiReq
  tsc :: Tsc
  duration :: Tsc

definition MpiIscatter_new ::
    "MpiRank \<Rightarrow> MpiRank \<Rightarrow> u32 \<Rightarrow> u32 \<Rightarrow> MpiComm \<Rightarrow> MpiReq \<Rightarrow> Tsc \<Rightarrow> Tsc \<Rightarrow> MpiIscatter" where
  "MpiIscatter_new rk partner nbs nbr cm rq ts dur =
     \<lparr>MpiIscatter.current_rank = rk, MpiIscatter.partner_rank = partner,
       MpiIscatter.nb_bytes_send = nbs, MpiIscatter.nb_bytes_recv = nbr, MpiIscatter.comm = cm,
       MpiIscatter.req = rq, MpiIscatter.tsc = ts, MpiIscatter.duration = dur\<rparr>"

definition MpiIscatter_fields :: "string list" where
  "MpiIscatter_fields =
     [''current_rank'', ''partner_rank'', ''nb_bytes_send'', ''nb_bytes_recv'', ''comm'',
      ''req'', ''tsc'', ''duration'']"

definition MpiIscatter_view :: "MpiIscatter \<Rightarrow> field list" where
  "MpiIscatter_view e =
     [Current_rank (MpiIscatter.current_rank e), Partner_rank (MpiIscatter.partner_rank e),
      Nb_bytes_send (MpiIscatter.nb_bytes_send e), Nb_bytes_recv (MpiIscatter.nb_bytes_recv e),
      Comm (MpiIscatter.comm e), Req (MpiIscatter.req e), Tsc (MpiIscatter.tsc e),
      Duration (MpiIscatter.duration e)]"

interpretation MpiIscatter: struct_fields MpiIscatter_fields MpiIscatter_view
  by unfold_locales (simp_all add: MpiIscatter_fields_def MpiIscatter_view_def)

lemma MpiIscatter_view_new [simp]:
  "MpiIscatter_view (MpiIscatter_new rk partner nbs nbr cm rq ts dur) =
     [Current_rank rk, Partner_rank partner, Nb_bytes_send nbs, Nb_bytes_recv nbr, Comm cm,
      Req rq, Tsc ts, Duration dur]"
  by (simp add: MpiIscatter_view_def MpiIscatter_new_def)

definition MpiIscatter_reference :: "field list \<Rightarrow> string + MpiIscatter" where
  "MpiIscatter_reference = reference_build MpiIscatter_fields
     (\<lambda>v. MpiIscatter_new (slot_current_rank v) (slot_partner_rank v) (slot_nb_bytes_send v)
        (slot_nb_bytes_recv v) (slot_comm v) (slot_req v) (slot_tsc v) (slot_duration v))"

interpretation MpiIscatter_ref: derive_builder MpiIscatter_fields MpiIscatter_view MpiIscatter_reference
  unfolding MpiIscatter_reference_def
  by (rule reference_build_spec) (unfold_locales, auto simp: MpiIscatter_fields_def slot_simps)

end
