(* ===== verification/Register_Trait.thy ===== *)
theory Register_Trait
  imports Management_Events Point_To_Point_Events Synchronization_Events Collective_Events
begin

text \<open>
  The trait \<open>Register\<close> of \<open>interpol.rs\<close> as seen by its users: \<open>Box<dyn Register>\<close> is one of the
  fifteen event structs the macro \<open>impl_register\<close> is applied to, and \<open>tsc\<close> reads the struct's time
  stamp. The other method of the trait, \<open>register\<close>, is in the theory \<open>Trace_Vec\<close>.
\<close>

section \<open>Trait objects\<close>

datatype Register_dyn =
    DynInit MpiInit
  | DynInitThread MpiInitThread
  | DynFinalize MpiFinalize
  | DynSend MpiSend
  | DynRecv MpiRecv
  | DynIsend MpiIsend
  | DynIrecv MpiIrecv
  | DynBarrier MpiBarrier
  | DynIbarrier MpiIbarrier
  | DynTest MpiTest
  | DynWait MpiWait
  | DynIbcast MpiIbcast
  | DynIgather MpiIgather
  | DynIreduce MpiIreduce
  | DynIscatter MpiIscatter

fun Register_tsc :: "Register_dyn \<Rightarrow> Tsc" where
  "Register_tsc (DynInit e) = MpiInit.tsc e"
| "Register_tsc (DynInitThread e) = MpiInitThread.tsc e"
| "Register_tsc (DynFinalize e) = MpiFinalize.tsc e"
| "Register_tsc (DynSend e) = MpiSend.tsc e"
| "Register_tsc (DynRecv e) = MpiRecv.tsc e"
| "Register_tsc (DynIsend e) = MpiIsend.tsc e"
| "Register_tsc (DynIrecv e) = MpiIrecv.tsc e"
| "Register_tsc (DynBarrier e) = MpiBarrier.tsc e"
| "Register_tsc (DynIbarrier e) = MpiIbarrier.tsc e"
| "Register_tsc (DynTest e) = MpiTest.tsc e"
| "Register_tsc (DynWait e) = MpiWait.tsc e"
| "Register_tsc (DynIbcast e) = MpiIbcast.tsc e"
| "Register_tsc (DynIgather e) = MpiIgather.tsc e"
| "Register_tsc (DynIreduce e) = MpiIreduce.tsc e"
| "Register_tsc (DynIscatter e) = MpiIscatter.tsc e"

text \<open>The process that recorded an event, the fields of its struct and the struct itself.\<close>

fun Register_rank :: "Register_dyn \<Rightarrow> MpiRank" where
  "Register_rank (DynInit e) = MpiInit.current_rank e"
| "Register_rank (DynInitThread e) = MpiInitThread.current_rank e"
| "Register_rank (DynFinalize e) = MpiFinalize.current_rank e"
| "Register_rank (DynSend e) = MpiSend.current_rank e"
| "Register_rank (DynRecv e) = MpiRecv.current_rank e"
| "Register_rank (DynIsend e) = MpiIsend.current_rank e"
| "Register_rank (DynIrecv e) = MpiIrecv.current_rank e"
| "Register_rank (DynBarrier e) = MpiBarrier.current_rank e"
| "Register_rank (DynIbarrier e) = MpiIbarrier.current_rank e"
| "Register_rank (DynTest e) = MpiTest.current_rank e"
| "Register_rank (DynWait e) = MpiWait.current_rank e"
| "Register_rank (DynIbcast e) = MpiIbcast.current_rank e"
| "Register_rank (DynIgather e) = MpiIgather.current_rank e"
| "Register_rank (DynIreduce e) = MpiIreduce.current_rank e"
| "Register_rank (DynIscatter e) = MpiIscatter.current_rank e"

fun Register_view :: "Register_dyn \<Rightarrow> field list" where
  "Register_view (DynInit e) = MpiInit_view e"
| "Register_view (DynInitThread e) = MpiInitThread_view e"
| "Register_view (DynFinalize e) = MpiFinalize_view e"
| "Register_view (DynSend e) = MpiSend_view e"
| "Register_view (DynRecv e) = MpiRecv_view e"
| "Register_view (DynIsend e) = MpiIsend_view e"
| "Register_view (DynIrecv e) = MpiIrecv_view e"
| "Register_view (DynBarrier e) = MpiBarrier_view e"
| "Register_view (DynIbarrier e) = MpiIbarrier_view e"
| "Register_view (DynTest e) = MpiTest_view e"
| "Register_view (DynWait e) = MpiWait_view e"
| "Register_view (DynIbcast e) = MpiIbcast_view e"
| "Register_view (DynIgather e) = MpiIgather_view e"
| "Register_view (DynIreduce e) = MpiIreduce_view e"
| "Register_view (DynIscatter e) = MpiIscatter_view e"

fun Register_kind :: "Register_dyn \<Rightarrow> MpiCallType" where
  "Register_kind (DynInit e) = Init"
| "Register_kind (DynInitThread e) = Initthread"
| "Register_kind (DynFinalize e) = Finalize"
| "Register_kind (DynSend e) = Send"
| "Register_kind (DynRecv e) = Recv"
| "Register_kind (DynIsend e) = Isend"
| "Register_kind (DynIrecv e) = Irecv"
| "Register_kind (DynBarrier e) = Barrier"
| "Register_kind (DynIbarrier e) = Ibarrier"
| "Register_kind (DynTest e) = Test"
| "Register_kind (DynWait e) = Wait"
| "Register_kind (DynIbcast e) = Ibcast"
| "Register_kind (DynIgather e) = Igather"
| "Register_kind (DynIreduce e) = Ireduce"
| "Register_kind (DynIscatter e) = Iscatter"

lemmas view_defs =
  MpiInit_view_def MpiInitThread_view_def MpiFinalize_view_def MpiSend_view_def
  MpiRecv_view_def MpiIsend_view_def MpiIrecv_view_def MpiBarrier_view_def MpiIbarrier_view_def
  MpiTest_view_def MpiWait_view_def MpiIbcast_view_def MpiIgather_view_def MpiIreduce_view_def
  MpiIscatter_view_def

lemma Register_tsc_view: "Tsc t \<in> set (Register_view e) \<longleftrightarrow> t = Register_tsc e"
  by (cases e) (auto simp: view_defs)

lemma Register_rank_view: "Current_rank r \<in> set (Register_view e) \<longleftrightarrow> r = Register_rank e"
  by (cases e) (auto simp: view_defs)

text \<open>An event is determined by its struct and the fields of the struct.\<close>

lemma Register_view_inject:
  assumes "Register_kind e = Register_kind e'" and "Register_view e = Register_view e'"
  shows "e = e'"
  using assms by (cases e; cases e') (auto simp: view_defs)

section \<open>The builders of the fifteen structs\<close>

record builders =
  MpiInitBuilder :: "field list \<Rightarrow> string + MpiInit"
  MpiInitThreadBuilder :: "field list \<Rightarrow> string + MpiInitThread"
  MpiFinalizeBuilder :: "field list \<Rightarrow> string + MpiFinalize"
  MpiSendBuilder :: "field list \<Rightarrow> string + MpiSend"
  MpiRecvBuilder :: "field list \<Rightarrow> string + MpiRecv"
  MpiIsendBuilder :: "field list \<Rightarrow> string + MpiIsend"
  MpiIrecvBuilder :: "field list \<Rightarrow> string + MpiIrecv"
  MpiBarrierBuilder :: "field list \<Rightarrow> string + MpiBarrier"
  MpiIbarrierBuilder :: "field list \<Rightarrow> string + MpiIbarrier"
  MpiTestBuilder :: "field list \<Rightarrow> string + MpiTest"
  MpiWaitBuilder :: "field list \<Rightarrow> string + MpiWait"
  MpiIbcastBuilder :: "field list \<Rightarrow> string + MpiIbcast"
  MpiIgatherBuilder :: "field list \<Rightarrow> string + MpiIgather"
  MpiIreduceBuilder :: "field list \<Rightarrow> string + MpiIreduce"
  MpiIscatterBuilder :: "field list \<Rightarrow> string + MpiIscatter"

text \<open>The generated builders keep to the documented contract, each for its own struct.\<close>

locale derived_builders =
  fixes B :: builders
  assumes MpiInit_derived: "derive_builder MpiInit_fields MpiInit_view (MpiInitBuilder B)"
    and MpiInitThread_derived: "derive_builder MpiInitThread_fields MpiInitThread_view (MpiInitThreadBuilder B)"
    and MpiFinalize_derived: "derive_builder MpiFinalize_fields MpiFinalize_view (MpiFinalizeBuilder B)"
    and MpiSend_derived: "derive_builder MpiSend_fields MpiSend_view (MpiSendBuilder B)"
    and MpiRecv_derived: "derive_builder MpiRecv_fields MpiRecv_view (MpiRecvBuilder B)"
    and MpiIsend_derived: "derive_builder MpiIsend_fields MpiIsend_view (MpiIsendBuilder B)"
    and MpiIrecv_derived: "derive_builder MpiIrecv_fields MpiIrecv_view (MpiIrecvBuilder B)"
    and MpiBarrier_derived: "derive_builder MpiBarrier_fields MpiBarrier_view (MpiBarrierBuilder B)"
    and MpiIbarrier_derived: "derive_builder MpiIbarrier_fields MpiIbarrier_view (MpiIbarrierBuilder B)"
    and MpiTest_derived: "derive_builder MpiTest_fields MpiTest_view (MpiTestBuilder B)"
    and MpiWait_derived: "derive_builder MpiWait_fields MpiWait_view (MpiWaitBuilder B)"
    and MpiIbcast_derived: "derive_builder MpiIbcast_fields MpiIbcast_view (MpiIbcastBuilder B)"
    and MpiIgather_derived: "derive_builder MpiIgather_fields MpiIgather_view (MpiIgatherBuilder B)"
    and MpiIreduce_derived: "derive_builder MpiIreduce_fields MpiIreduce_view (MpiIreduceBuilder B)"
    and MpiIscatter_derived: "derive_builder MpiIscatter_fields MpiIscatter_view (MpiIscatterBuilder B)"
begin

text \<open>Setting all fields in declaration order builds what \<open>new\<close> builds.\<close>

lemma MpiInit_build:
  "MpiInitBuilder B [Current_rank rk, Tsc ts, Time tm] =
     Inr (MpiInit_new rk ts tm)"
  by (rule derive_builder.build_view [OF MpiInit_derived]) simp

lemma MpiInitThread_build:
  "MpiInitThreadBuilder B [Current_rank rk, Required_thread_lvl rlvl, Provided_thread_lvl plvl, Tsc ts, Time tm] =
     Inr (MpiInitThread_new rk rlvl plvl ts tm)"
  by (rule derive_builder.build_view [OF MpiInitThread_derived]) simp

lemma MpiFinalize_build:
  "MpiFinalizeBuilder B [Current_rank rk, Tsc ts, Time tm] =
     Inr (MpiFinalize_new rk ts tm)"
  by (rule derive_builder.build_view [OF MpiFinalize_derived]) simp

lemma MpiSend_build:
  "MpiSendBuilder B [Current_rank rk, Partner_rank partner, Nb_bytes nb, Comm cm, Tag tg, Tsc ts, Duration dur] =
     Inr (MpiSend_new rk partner nb cm tg ts dur)"
  by (rule derive_builder.build_view [OF MpiSend_derived]) simp

lemma MpiRecv_build:
  "MpiRecvBuilder B [Current_rank rk, Partner_rank partner, Nb_bytes nb, Comm cm, Tag tg, Tsc ts, Duration dur] =
     Inr (MpiRecv_new rk partner nb cm tg ts dur)"
  by (rule derive_builder.build_view [OF MpiRecv_derived]) simp

lemma MpiIsend_build:
  "MpiIsendBuilder B [Current_rank rk, Partner_rank partner, Nb_bytes nb, Comm cm, Req rq, Tag tg, Tsc ts,
      Duration dur] =
     Inr (MpiIsend_new rk partner nb cm rq tg ts dur)"
  by (rule derive_builder.build_view [OF MpiIsend_derived]) simp

lemma MpiIrecv_build:
  "MpiIrecvBuilder B [Current_rank rk, Partner_rank partner, Nb_bytes nb, Comm cm, Req rq, Tag tg, Tsc ts,
      Duration dur] =
     Inr (MpiIrecv_new rk partner nb cm rq tg ts dur)"
  by (rule derive_builder.build_view [OF MpiIrecv_derived]) simp

lemma MpiBarrier_build:
  "MpiBarrierBuilder B [Current_rank rk, Comm cm, Tsc ts, Duration dur] =
     Inr (MpiBarrier_new rk cm ts dur)"
  by (rule derive_builder.build_view [OF MpiBarrier_derived]) simp

lemma MpiIbarrier_build:
  "MpiIbarrierBuilder B [Current_rank rk, Comm cm, Req rq, Tsc ts, Duration dur] =
     Inr (MpiIbarrier_new rk cm rq ts dur)"
  by (rule derive_builder.build_view [OF MpiIbarrier_derived]) simp

lemma MpiTest_build:
  "MpiTestBuilder B [Current_rank rk, Req rq, Finished fin, Tsc ts, Duration dur] =
     Inr (MpiTest_new rk rq fin ts dur)"
  by (rule derive_builder.build_view [OF MpiTest_derived]) simp

lemma MpiWait_build:
  "MpiWaitBuilder B [Current_rank rk, Req rq, Tsc ts, Duration dur] =
     Inr (MpiWait_new rk rq ts dur)"
  by (rule derive_builder.build_view [OF MpiWait_derived]) simp

lemma MpiIbcast_build:
  "MpiIbcastBuilder B [Current_rank rk, Partner_rank partner, Nb_bytes nb, Comm cm, Req rq, Tsc ts, Duration dur] =
     Inr (MpiIbcast_new rk partner nb cm rq ts dur)"
  by (rule derive_builder.build_view [OF MpiIbcast_derived]) simp

lemma MpiIgather_build:
  "MpiIgatherBuilder B [Current_rank rk, Partner_rank partner, Nb_bytes_send nbs, Nb_bytes_recv nbr, Comm cm,
      Req rq, Tsc ts, Duration dur] =
     Inr (MpiIgather_new rk partner nbs nbr cm rq ts dur)"
  by (rule derive_builder.build_view [OF MpiIgather_derived]) simp

lemma MpiIreduce_build:
  "MpiIreduceBuilder B [Current_rank rk, Partner_rank partner, Nb_bytes nb, Op_type opt, Comm cm, Req rq, Tsc ts,
      Duration dur] =
     Inr (MpiIreduce_new rk partner nb opt cm rq ts dur)"
  by (rule derive_builder.build_view [OF MpiIreduce_derived]) simp

lemma MpiIscatter_build:
  "MpiIscatterBuilder B [Current_rank rk, Partner_rank partner, Nb_bytes_send nbs, Nb_bytes_recv nbr, Comm cm,
      Req rq, Tsc ts, Duration dur] =
     Inr (MpiIscatter_new rk partner nbs nbr cm rq ts dur)"
  by (rule derive_builder.build_view [OF MpiIscatter_derived]) simp

lemmas build_new =
  MpiInit_build MpiInitThread_build MpiFinalize_build MpiSend_build MpiRecv_build
  MpiIsend_build MpiIrecv_build MpiBarrier_build MpiIbarrier_build MpiTest_build MpiWait_build
  MpiIbcast_build MpiIgather_build MpiIreduce_build MpiIscatter_build

end

definition reference_builders :: builders where
  "reference_builders =
     \<lparr>MpiInitBuilder = MpiInit_reference, MpiInitThreadBuilder = MpiInitThread_reference,
       MpiFinalizeBuilder = MpiFinalize_reference, MpiSendBuilder = MpiSend_reference,
       MpiRecvBuilder = MpiRecv_reference, MpiIsendBuilder = MpiIsend_reference,
       MpiIrecvBuilder = MpiIrecv_reference, MpiBarrierBuilder = MpiBarrier_reference,
       MpiIbarrierBuilder = MpiIbarrier_reference, MpiTestBuilder = MpiTest_reference,
       MpiWaitBuilder = MpiWait_reference, MpiIbcastBuilder = MpiIbcast_reference,
       MpiIgatherBuilder = MpiIgather_reference, MpiIreduceBuilder = MpiIreduce_reference,
       MpiIscatterBuilder = MpiIscatter_reference\<rparr>"

lemmas reference_axioms =
  MpiInit_ref.derive_builder_axioms MpiInitThread_ref.derive_builder_axioms
  MpiFinalize_ref.derive_builder_axioms MpiSend_ref.derive_builder_axioms
  MpiRecv_ref.derive_builder_axioms MpiIsend_ref.derive_builder_axioms
  MpiIrecv_ref.derive_builder_axioms MpiBarrier_ref.derive_builder_axioms
  MpiIbarrier_ref.derive_builder_axioms MpiTest_ref.derive_builder_axioms
  MpiWait_ref.derive_builder_axioms MpiIbcast_ref.derive_builder_axioms
  MpiIgather_ref.derive_builder_axioms MpiIreduce_ref.derive_builder_axioms
  MpiIscatter_ref.derive_builder_axioms

interpretation reference: derived_builders reference_builders
  by (rule derived_builders.intro)
    (simp_all only: reference_builders_def builders.simps reference_axioms)

end
