(* ===== verification/Trace_Vec.thy ===== *)
theory Trace_Vec
  imports Append_Log Register_Trait
begin

text \<open>
  The growable vector behind \<open>EVENTS\<close> and the method \<open>register\<close> that the macro \<open>impl_register\<close>
  gives every event struct: reserve, box the event, push. The vector is the standard library's
  \<open>Vec<Box<dyn Register>>\<close> on a 64-bit target: its elements are two words wide, a reservation is
  refused when the new capacity would take more than \<open>isize::MAX\<close> bytes, and \<open>push\<close> on a full
  vector grows it infallibly, that is, it ends the process when the allocator refuses. The answers
  of the allocator are a parameter of every registration.
\<close>

section \<open>Vec\<close>

record 'a rvec =
  items :: "'a list"
  capacity :: nat

definition elem_size :: nat where
  "elem_size = 16"

definition isize_max :: nat where
  "isize_max = 2 ^ 63 - 1"

definition vec_new :: "'a rvec" where
  "vec_new = \<lparr>items = [], capacity = 0\<rparr>"

definition vec_inv :: "'a rvec \<Rightarrow> bool" where
  "vec_inv v \<longleftrightarrow> length (items v) \<le> capacity v \<and> capacity v * elem_size \<le> isize_max"

text \<open>
  The allocator's answers during one registration: to the allocation of the event's box, to a
  reservation of so many bytes, and to the growth of the vector inside \<open>push\<close>.
\<close>

record allocator =
  alloc_box :: bool
  alloc_reserve :: "nat \<Rightarrow> bool"
  alloc_grow :: "nat \<Rightarrow> bool"

definition try_reserve_exact :: "allocator \<Rightarrow> usize \<Rightarrow> 'a rvec \<Rightarrow> TryReserveError + 'a rvec" where
  "try_reserve_exact A additional v =
     (let needed = length (items v) + unat additional in
      if unat additional \<le> capacity v - length (items v) then Inr v
      else if 2 ^ 64 \<le> needed \<or> isize_max < needed * elem_size then Inl CapacityOverflow
      else if alloc_reserve A (needed * elem_size) then Inr (v\<lparr>capacity := needed\<rparr>)
      else Inl AllocError)"

definition vec_push :: "allocator \<Rightarrow> 'a \<Rightarrow> 'a rvec \<Rightarrow> 'a rvec run" where
  "vec_push A e v =
     (if length (items v) = capacity v then
        (let cap = max 4 (max (2 * capacity v) (length (items v) + 1)) in
         if isize_max < cap * elem_size then Panicked ''capacity overflow''
         else if alloc_grow A (cap * elem_size)
           then Done (v\<lparr>items := items v @ [e], capacity := cap\<rparr>)
         else Aborted)
      else Done (v\<lparr>items := items v @ [e]\<rparr>))"

section \<open>The method register\<close>

definition register :: "allocator \<Rightarrow> 'a \<Rightarrow> 'a rvec \<Rightarrow> (TryReserveError + unit) run \<times> 'a rvec" where
  "register A e events =
     (case try_reserve_exact A (2 * word_of_nat (length (items events))) events of
        Inl err \<Rightarrow> (Done (Inl err), events)
      | Inr events' \<Rightarrow>
          if alloc_box A then
            (case vec_push A e events' of
               Done events'' \<Rightarrow> (Done (Inr ()), events'')
             | Panicked m \<Rightarrow> (Panicked m, events')
             | Aborted \<Rightarrow> (Aborted, events'))
          else (Aborted, events'))"

section \<open>The reservation request\<close>

text \<open>Under the invariant the product \<open>2 * events.len()\<close> does not wrap.\<close>

lemma request_unat:
  assumes "vec_inv v"
  shows "unat (2 * word_of_nat (length (items v)) :: usize) = 2 * length (items v)"
proof -
  have "length (items v) * elem_size \<le> isize_max"
    using assms unfolding vec_inv_def by (meson le_trans mult_le_mono1)
  then have "2 * length (items v) < 2 ^ 64"
    by (simp add: elem_size_def isize_max_def)
  then show ?thesis
    by (simp add: unat_mult_lem [THEN iffD1] unat_of_nat unat_word_ariths)
qed

lemma reserve_request:
  assumes "vec_inv v"
  shows "try_reserve_exact A (2 * word_of_nat (length (items v))) v =
    (if 3 * length (items v) \<le> capacity v then Inr v
     else if isize_max < 3 * length (items v) * elem_size then Inl CapacityOverflow
     else if alloc_reserve A (3 * length (items v) * elem_size)
       then Inr (v\<lparr>capacity := 3 * length (items v)\<rparr>)
     else Inl AllocError)"
proof -
  have "2 * length (items v) \<le> capacity v - length (items v) \<longleftrightarrow> 3 * length (items v) \<le> capacity v"
    using assms by (auto simp: vec_inv_def)
  moreover have "length (items v) + 2 * length (items v) = 3 * length (items v)" by simp
  ultimately show ?thesis
    by (simp only: try_reserve_exact_def request_unat [OF assms] Let_def)
      (simp add: elem_size_def isize_max_def)
qed

lemma try_reserve_exact_Inr:
  assumes "vec_inv v" and "try_reserve_exact A n v = Inr v'"
  shows "items v' = items v \<and> vec_inv v' \<and> length (items v) + unat n \<le> capacity v' \<and>
    capacity v' = max (capacity v) (length (items v) + unat n)"
  using assms
  by (auto simp: try_reserve_exact_def vec_inv_def Let_def split: if_splits)

lemma vec_push_room:
  "length (items v) < capacity v \<Longrightarrow> vec_push A e v = Done (v\<lparr>items := items v @ [e]\<rparr>)"
  by (simp add: vec_push_def)

lemma vec_push_new:
  "items v = [] \<Longrightarrow> capacity v = 0 \<Longrightarrow> vec_push A e v =
     (if alloc_grow A 64 then Done (v\<lparr>items := [e], capacity := 4\<rparr>) else Aborted)"
  by (simp add: vec_push_def elem_size_def isize_max_def)

text \<open>
  After the reservation there is room for the event, but for the very first one: a reservation of
  zero elements leaves the empty vector without capacity.
\<close>

lemma reserve_gives_room:
  assumes "vec_inv v"
    and "try_reserve_exact A (2 * word_of_nat (length (items v))) v = Inr v'"
  shows "length (items v') < capacity v' \<or> items v' = [] \<and> capacity v' = 0"
  using try_reserve_exact_Inr [OF assms] request_unat [OF assms(1)]
  by (cases "items v") auto

text \<open>The ways a registration can end, with the vector it leaves.\<close>

lemma register_cases:
  assumes inv: "vec_inv v" and reg: "register A e v = (r, v')"
  obtains (ok) "r = Done (Inr ())" and "items v' = items v @ [e]" and "vec_inv v'"
      and "alloc_box A"
      and "capacity v' = (if capacity v = 0 then 4 else max (capacity v) (3 * length (items v)))"
    | (error) err where "r = Done (Inl err)" and "v' = v" and "items v \<noteq> []"
    | (abort) "r = Aborted" and "items v' = items v" and "vec_inv v'"
      and "alloc_box A \<Longrightarrow> items v = [] \<and> \<not> alloc_grow A 64"
proof (cases "try_reserve_exact A (2 * word_of_nat (length (items v))) v")
  case (Inl err)
  with reg have "r = Done (Inl err)" and "v' = v"
    by (simp_all add: register_def)
  moreover from Inl have "items v \<noteq> []"
    by (auto simp: try_reserve_exact_def)
  ultimately show ?thesis by (rule error)
next
  case (Inr w)
  note facts = try_reserve_exact_Inr [OF inv Inr] request_unat [OF inv]
  show ?thesis
  proof (cases "alloc_box A")
    case False
    with Inr reg facts show ?thesis by (intro abort) (auto simp: register_def)
  next
    case True
    from reserve_gives_room [OF inv Inr] show ?thesis
    proof
      assume room: "length (items w) < capacity w"
      then have nz: "capacity v \<noteq> 0"
        using facts inv by (auto simp: vec_inv_def)
      from room have "v' = w\<lparr>items := items w @ [e]\<rparr>" "r = Done (Inr ())"
        using Inr reg True by (simp_all add: register_def vec_push_room)
      with True facts room nz show ?thesis
        by (intro ok) (auto simp: vec_inv_def)
    next
      assume empty: "items w = [] \<and> capacity w = 0"
      with facts have v: "items v = []" "capacity v = 0" by auto
      show ?thesis
      proof (cases "alloc_grow A 64")
        case True
        with empty have "v' = w\<lparr>items := [e], capacity := 4\<rparr>" "r = Done (Inr ())"
          using Inr reg \<open>alloc_box A\<close> by (simp_all add: register_def vec_push_new)
        with \<open>alloc_box A\<close> v show ?thesis
          by (intro ok) (auto simp: vec_inv_def elem_size_def isize_max_def)
      next
        case False
        with empty have "v' = w" "r = Aborted"
          using Inr reg \<open>alloc_box A\<close> by (simp_all add: register_def vec_push_new)
        with False v facts show ?thesis by (intro abort) auto
      qed
    qed
  qed
qed

section \<open>The vector is a log\<close>

lemma vec_inv_new: "vec_inv vec_new"
  by (simp add: vec_inv_def vec_new_def)

interpretation trace_log: append_log vec_inv items vec_new register
proof (unfold_locales, goal_cases)
  case 1
  show ?case by (rule vec_inv_new)
next
  case 2
  show ?case by (simp add: vec_new_def)
next
  case (3 s A e r s')
  show ?case by (rule register_cases [OF 3]) (use 3 in auto)
next
  case (4 s A e s')
  then show ?case by (rule register_cases) auto
next
  case (5 s A e r s')
  show ?case by (rule register_cases [OF 5(1,2)]) (use 5 in auto)
qed

section \<open>Growth\<close>

text \<open>An allocator that grants every request.\<close>

definition generous :: "allocator \<Rightarrow> bool" where
  "generous A \<longleftrightarrow> alloc_box A \<and> alloc_reserve A = (\<lambda>_. True) \<and> alloc_grow A = (\<lambda>_. True)"

text \<open>
  The capacity after \<open>n\<close> registrations, and the lengths at which the buffer is allocated anew in
  a run (the allocator may then have to move that many elements).
\<close>

definition capacity_after :: "nat \<Rightarrow> nat" where
  "capacity_after n = (if n = 0 then 0 else if n \<le> 2 then 4 else 3 * (n - 1))"

fun relocations :: "(allocator \<times> 'a) list \<Rightarrow> 'a rvec \<Rightarrow> nat list" where
  "relocations [] v = []"
| "relocations ((A, e) # es) v =
     (let v' = snd (register A e v) in
      (if capacity v' = capacity v then [] else [length (items v)]) @ relocations es v')"

text \<open>With a generous allocator and room in the address space a registration succeeds.\<close>

lemma register_generous:
  assumes inv: "vec_inv v" and A: "generous A"
    and room: "3 * length (items v) * elem_size \<le> isize_max"
  shows "\<exists>v'. register A e v = (Done (Inr ()), v')"
proof (cases "register A e v")
  case (Pair r v')
  from inv Pair show ?thesis
  proof (cases rule: register_cases)
    case ok
    with Pair show ?thesis by auto
  next
    case (error err)
    with Pair request_unat [OF inv] A room show ?thesis
      by (auto simp: register_def try_reserve_exact_def Let_def generous_def elem_size_def
          isize_max_def split: if_splits run.splits)
  next
    case abort
    with A show ?thesis by (simp add: generous_def)
  qed
qed

lemma register_capacity_after:
  assumes "vec_inv v" and "register A e v = (Done (Inr ()), v')"
    and v: "capacity v = capacity_after (length (items v))"
  shows "capacity v' = capacity_after (Suc (length (items v))) \<and>
    (capacity v' = capacity v \<longleftrightarrow> length (items v) = 1)"
  using assms(1,2)
proof (cases rule: register_cases)
  case ok
  then have "capacity v' = (if capacity v = 0 then 4 else max (capacity v) (3 * length (items v)))"
    by simp
  moreover define n where "n = length (items v)"
  ultimately show ?thesis
    unfolding v n_def [symmetric] by (auto simp: capacity_after_def max_def split: if_splits)
qed simp_all

lemma register_run:
  assumes "vec_inv v" and "capacity v = capacity_after (length (items v))"
    and "\<forall>(A, e) \<in> set es. generous A"
    and "3 * (length (items v) + length es) * elem_size \<le> isize_max"
  shows "capacity (snd (run_appends register es v)) =
      capacity_after (length (items v) + length es) \<and>
    items (snd (run_appends register es v)) = items v @ map snd es \<and>
    fst (run_appends register es v) = replicate (length es) (Done (Inr ())) \<and>
    relocations es v = filter (\<lambda>k. k \<noteq> 1) [length (items v)..<length (items v) + length es]"
  using assms
proof (induction es arbitrary: v)
  case Nil
  then show ?case by simp
next
  case (Cons Ae es)
  obtain A e where Ae: "Ae = (A, e)" by (cases Ae)
  have "3 * length (items v) * elem_size \<le> isize_max"
    using Cons.prems(4) by (simp add: elem_size_def)
  then obtain v' where reg: "register A e v = (Done (Inr ()), v')"
    using register_generous [of v A e] Cons.prems(1,3) Ae by auto
  note v' = trace_log.inv_append [OF Cons.prems(1) reg]
    trace_log.append_accepted [OF Cons.prems(1) reg]
    register_capacity_after [OF Cons.prems(1) reg Cons.prems(2)]
  have IH: "capacity (snd (run_appends register es v')) =
        capacity_after (length (items v') + length es) \<and>
      items (snd (run_appends register es v')) = items v' @ map snd es \<and>
      fst (run_appends register es v') = replicate (length es) (Done (Inr ())) \<and>
      relocations es v' = filter (\<lambda>k. k \<noteq> 1) [length (items v')..<length (items v') + length es]"
    using Cons.prems v' by (intro Cons.IH) simp_all
  moreover have "snd (run_appends register (Ae # es) v) = snd (run_appends register es v')"
    "fst (run_appends register (Ae # es) v) = Done (Inr ()) # fst (run_appends register es v')"
    using reg Ae by (simp_all add: case_prod_beta Let_def)
  moreover have "relocations (Ae # es) v =
      (if length (items v) = 1 then [] else [length (items v)]) @ relocations es v'"
    using reg Ae v' by (cases "length (items v) = 1") simp_all
  moreover have "[length (items v)..<length (items v) + length (Ae # es)] =
      length (items v) # [length (items v')..<length (items v') + length es]"
    using v' by (simp add: upt_conv_Cons del: upt_Suc)
  ultimately show ?case
    using v' Ae IH by (cases "length (items v) = 1") simp_all
qed

lemma sum_list_upt: "2 * sum_list [0..<n] = n * (n - 1)"
proof (induction n)
  case (Suc n)
  then show ?case by (cases n) (simp_all add: algebra_simps)
qed simp

lemma sum_list_skip_one:
  "2 * sum_list (filter (\<lambda>k. k \<noteq> 1) [0..<Suc (Suc n)]) + 2 = Suc (Suc n) * Suc n"
proof (induction n)
  case (Suc n)
  have "[0..<Suc (Suc (Suc n))] = [0..<Suc (Suc n)] @ [Suc (Suc n)]" by simp
  then have "sum_list (filter (\<lambda>k. k \<noteq> 1) [0..<Suc (Suc (Suc n))]) =
      sum_list (filter (\<lambda>k. k \<noteq> 1) [0..<Suc (Suc n)]) + Suc (Suc n)"
    by (simp del: upt_Suc)
  with Suc show ?case by simp
qed simp

end
