(* ===== verification/File_System.thy ===== *)
theory File_System
  imports Prelude "HOL-Library.AList"
begin

text \<open>
  The directory \<open>interpol-tmp\<close> and the operations of \<open>std::fs\<close> and \<open>std::path\<close> that the back end
  performs on it. The operating system is a parameter: it may refuse any operation, stop a write
  after some bytes, and list a directory in any order.
\<close>

section \<open>The directory\<close>

definition INTERPOL_DIR :: string where
  "INTERPOL_DIR = ''interpol-tmp''"

datatype node = File string | Subdir

text \<open>The entries of \<open>interpol-tmp\<close> by name; \<open>None\<close> while the directory does not exist.\<close>

type_synonym disk = "(string \<times> node) list option"

definition in_dir :: "string \<Rightarrow> string" where
  "in_dir name = INTERPOL_DIR @ ''/'' @ name"

definition entry_name :: "string \<Rightarrow> string option" where
  "entry_name path =
     (let n = length INTERPOL_DIR + 1 in
      if take n path = INTERPOL_DIR @ ''/'' then Some (drop n path) else None)"

lemma entry_name_in_dir [simp]: "entry_name (in_dir name) = Some name"
  by (simp add: entry_name_def in_dir_def INTERPOL_DIR_def)

lemma entry_name_Some: "entry_name path = Some name \<longleftrightarrow> path = in_dir name"
proof
  assume "entry_name path = Some name"
  then have "take (length INTERPOL_DIR + 1) path = INTERPOL_DIR @ ''/''"
    and "drop (length INTERPOL_DIR + 1) path = name"
    by (simp_all add: entry_name_def Let_def split: if_splits)
  then show "path = in_dir name"
    using append_take_drop_id [of "length INTERPOL_DIR + 1" path]
    by (simp only: in_dir_def append.assoc)
qed simp

lemma in_dir_inject [simp]: "in_dir a = in_dir b \<longleftrightarrow> a = b"
  by (simp add: in_dir_def)

definition entries :: "disk \<Rightarrow> (string \<times> node) list" where
  "entries d = (case d of None \<Rightarrow> [] | Some es \<Rightarrow> es)"

lemma entries_simps [simp]: "entries None = []" "entries (Some es) = es"
  by (simp_all add: entries_def)

definition content :: "disk \<Rightarrow> string \<Rightarrow> string option" where
  "content d path =
     (case entry_name path of
        None \<Rightarrow> None
      | Some name \<Rightarrow> (case map_of (entries d) name of Some (File c) \<Rightarrow> Some c | _ \<Rightarrow> None))"

definition disk_inv :: "disk \<Rightarrow> bool" where
  "disk_inv d \<longleftrightarrow> distinct (map fst (entries d))"

section \<open>The operating system\<close>

record os =
  os_create_dir :: "string option"
  os_open :: "string \<Rightarrow> string option"
  os_write :: "string \<Rightarrow> (nat \<times> string) option"
  os_read_dir :: "string option"
  os_entry :: "string \<Rightarrow> string option"
  os_read :: "string \<Rightarrow> string option"
  os_remove :: "string \<Rightarrow> string option"
  os_listing :: "string list \<Rightarrow> string list"
  os_var :: "string \<Rightarrow> string option"
  os_elapsed :: string

definition not_found :: string where
  "not_found = ''No such file or directory (os error 2)''"

definition is_a_directory :: string where
  "is_a_directory = ''Is a directory (os error 21)''"

definition invalid_argument :: string where
  "invalid_argument = ''Invalid argument (os error 22)''"

text \<open>\<open>fs::create_dir_all\<close>: an existing directory is fine.\<close>

definition create_dir_all :: "os \<Rightarrow> disk \<Rightarrow> string + disk" where
  "create_dir_all S d =
     (case os_create_dir S of
        Some e \<Rightarrow> Inl e
      | None \<Rightarrow> Inr (Some (entries d)))"

text \<open>\<open>File::options()\<close> and \<open>open\<close>.\<close>

record open_options =
  oo_write :: bool
  oo_truncate :: bool
  oo_create :: bool

definition open_file :: "os \<Rightarrow> open_options \<Rightarrow> string \<Rightarrow> disk \<Rightarrow> string + disk" where
  "open_file S opts path d =
     (if (oo_truncate opts \<or> oo_create opts) \<and> \<not> oo_write opts then Inl invalid_argument
      else case os_open S path of
        Some e \<Rightarrow> Inl e
      | None \<Rightarrow>
          (case (entry_name path, d) of
             (Some name, Some es) \<Rightarrow>
               (case map_of es name of
                  Some Subdir \<Rightarrow> Inl is_a_directory
                | Some (File c) \<Rightarrow>
                    Inr (Some (if oo_truncate opts then AList.update name (File []) es else es))
                | None \<Rightarrow>
                    if oo_create opts then Inr (Some (AList.update name (File []) es))
                    else Inl not_found)
           | _ \<Rightarrow> Inl not_found))"

text \<open>
  \<open>write!\<close> on a file just opened, at offset 0: the bytes written replace the file's first bytes and
  the rest of the old content stays. A fault stops the write after some bytes.
\<close>

definition write_all :: "os \<Rightarrow> string \<Rightarrow> string \<Rightarrow> disk \<Rightarrow> string option \<times> disk" where
  "write_all S path s d =
     (case (entry_name path, content d path) of
        (Some name, Some c) \<Rightarrow>
          (let (err, n) = (case os_write S path of
               None \<Rightarrow> (None, length s)
             | Some (k, e) \<Rightarrow> (Some e, min k (length s)))
           in (err, Some (AList.update name (File (take n s @ drop n c)) (entries d))))
      | _ \<Rightarrow> (Some not_found, d))"

definition remove_file :: "os \<Rightarrow> string \<Rightarrow> disk \<Rightarrow> string + disk" where
  "remove_file S path d =
     (case os_remove S path of
        Some e \<Rightarrow> Inl e
      | None \<Rightarrow>
          (case (entry_name path, d) of
             (Some name, Some es) \<Rightarrow>
               (case map_of es name of
                  Some (File c) \<Rightarrow> Inr (Some (AList.delete name es))
                | Some Subdir \<Rightarrow> Inl is_a_directory
                | None \<Rightarrow> Inl not_found)
           | _ \<Rightarrow> Inl not_found))"

definition read_to_string :: "os \<Rightarrow> string \<Rightarrow> disk \<Rightarrow> string + string" where
  "read_to_string S path d =
     (case os_read S path of
        Some e \<Rightarrow> Inl e
      | None \<Rightarrow>
          (case content d path of
             Some c \<Rightarrow> Inr c
           | None \<Rightarrow>
               if entry_name path \<noteq> None \<and> map_of (entries d) (the (entry_name path)) = Some Subdir
               then Inl is_a_directory else Inl not_found))"

text \<open>\<open>fs::read_dir\<close>: the names of the directory, in the order the system lists them.\<close>

definition read_dir :: "os \<Rightarrow> disk \<Rightarrow> string + string list" where
  "read_dir S d =
     (case os_read_dir S of
        Some e \<Rightarrow> Inl e
      | None \<Rightarrow> (case d of None \<Rightarrow> Inl not_found | Some es \<Rightarrow> Inr (os_listing S (map fst es))))"

text \<open>
  \<open>Path::extension\<close> of a file name: what follows the last dot, unless the name has no dot, starts
  with its only dot, or is \<open>..\<close>.
\<close>

definition path_extension :: "string \<Rightarrow> string option" where
  "path_extension name =
     (if name = ''..'' then None
      else case dropWhile (\<lambda>c. c \<noteq> CHR ''.'') (rev name) of
        [] \<Rightarrow> None
      | _ # [] \<Rightarrow> None
      | _ # _ \<Rightarrow> Some (rev (takeWhile (\<lambda>c. c \<noteq> CHR ''.'') (rev name))))"

lemma path_extension_append:
  assumes "stem \<noteq> []" and "CHR ''.'' \<notin> set ext" and "ext \<noteq> []"
  shows "path_extension (stem @ CHR ''.'' # ext) = Some ext"
proof -
  have rev: "rev (stem @ CHR ''.'' # ext) = rev ext @ CHR ''.'' # rev stem" by simp
  have ext: "\<forall>c \<in> set (rev ext). c \<noteq> CHR ''.''" using assms(2) by auto
  then have drop: "dropWhile (\<lambda>c. c \<noteq> CHR ''.'') (rev ext @ CHR ''.'' # rev stem) =
      CHR ''.'' # rev stem"
    and take: "takeWhile (\<lambda>c. c \<noteq> CHR ''.'') (rev ext @ CHR ''.'' # rev stem) = rev ext"
    by (subst dropWhile_append2 takeWhile_append2; auto)+
  have "length (stem @ CHR ''.'' # ext) > 2"
    using assms(1,3) by (cases stem; cases ext) simp_all
  then have "stem @ CHR ''.'' # ext \<noteq> ''..''"
    by (intro notI) simp
  moreover obtain c cs where "rev stem = c # cs"
    using assms(1) by (cases "rev stem") auto
  ultimately show ?thesis
    unfolding path_extension_def rev drop take by simp
qed

lemma path_extension_no_dot:
  assumes "CHR ''.'' \<notin> set name"
  shows "path_extension name = None"
proof -
  have "dropWhile (\<lambda>c. c \<noteq> CHR ''.'') (rev name) = []"
    using assms by (auto simp: dropWhile_eq_Nil_conv)
  then show ?thesis unfolding path_extension_def by (simp only: list.case if_cancel)
qed

section \<open>The directory as a file store\<close>

text \<open>
  What the two writers of the program need of the file system: truncating and writing a file leaves
  exactly the written text in it, a failed write leaves a prefix, and other files are not touched.
\<close>

locale file_store =
  fixes content_of :: "'d \<Rightarrow> string \<Rightarrow> string option"
    and open_trunc :: "'env \<Rightarrow> string \<Rightarrow> 'd \<Rightarrow> string + 'd"
    and write_text :: "'env \<Rightarrow> string \<Rightarrow> string \<Rightarrow> 'd \<Rightarrow> string option \<times> 'd"
  assumes open_trunc_content: "open_trunc S p d = Inr d' \<Longrightarrow> content_of d' p = Some []"
    and open_trunc_frame:
      "open_trunc S p d = Inr d' \<Longrightarrow> q \<noteq> p \<Longrightarrow> content_of d' q = content_of d q"
    and write_text_content:
      "content_of d p = Some c \<Longrightarrow> write_text S p s d = (None, d') \<Longrightarrow>
         content_of d' p = Some (s @ drop (length s) c)"
    and write_text_fault:
      "content_of d p = Some c \<Longrightarrow> write_text S p s d = (Some e, d') \<Longrightarrow>
         \<exists>n \<le> length s. content_of d' p = Some (take n s @ drop n c)"
    and write_text_frame:
      "write_text S p s d = (r, d') \<Longrightarrow> q \<noteq> p \<Longrightarrow> content_of d' q = content_of d q"
begin

lemma save_content:
  assumes "open_trunc S p d = Inr d1" and "write_text S p s d1 = (None, d2)"
  shows "content_of d2 p = Some s"
  using write_text_content [OF open_trunc_content [OF assms(1)] assms(2)] by simp

lemma save_fault:
  assumes "open_trunc S p d = Inr d1" and "write_text S p s d1 = (Some e, d2)"
  shows "\<exists>n \<le> length s. content_of d2 p = Some (take n s)"
  using write_text_fault [OF open_trunc_content [OF assms(1)] assms(2)] by simp

lemma save_frame:
  assumes "open_trunc S p d = Inr d1" and "write_text S p s d1 = (r, d2)" and "q \<noteq> p"
  shows "content_of d2 q = content_of d q"
  using open_trunc_frame [OF assms(1)] write_text_frame [OF assms(2)] assms(3) by metis

end

definition trace_file_options :: open_options where
  "trace_file_options = \<lparr>oo_write = True, oo_truncate = True, oo_create = True\<rparr>"

lemma content_Some_entries:
  "content (Some es) p = (case entry_name p of None \<Rightarrow> None
     | Some name \<Rightarrow> (case map_of es name of Some (File c) \<Rightarrow> Some c | _ \<Rightarrow> None))"
  by (simp add: content_def split: option.split)

lemma content_None [simp]: "content None p = None"
  by (simp add: content_def split: option.split)

lemma content_Some:
  "content d p = Some c \<longleftrightarrow>
     (\<exists>name es. p = in_dir name \<and> d = Some es \<and> map_of es name = Some (File c))"
  by (cases d) (auto simp: content_def entry_name_Some split: option.splits node.splits)

lemma content_update:
  "content (Some (AList.update name (File c) es)) p =
     (if p = in_dir name then Some c else content (Some es) p)"
  by (auto simp: content_Some_entries update_conv' entry_name_Some split: option.splits)

lemma open_file_trace_file:
  "open_file S trace_file_options p d = Inr d' \<longleftrightarrow>
     (\<exists>name es. p = in_dir name \<and> d = Some es \<and> os_open S p = None \<and>
        map_of es name \<noteq> Some Subdir \<and> d' = Some (AList.update name (File []) es))"
  by (auto simp: open_file_def trace_file_options_def entry_name_Some
      split: option.splits node.splits)

interpretation trace_dir: file_store content "\<lambda>S. open_file S trace_file_options" write_all
proof (unfold_locales, goal_cases)
  case (1 S p d d')
  then show ?case by (auto simp: open_file_trace_file content_update)
next
  case (2 S p d d' q)
  then show ?case by (auto simp: open_file_trace_file content_update)
next
  case (3 d p c S s d')
  then show ?case
    by (auto simp: content_Some write_all_def content_Some_entries update_conv'
        split: option.splits)
next
  case (4 d p c S s e d')
  then show ?case
    by (auto simp: content_Some write_all_def content_Some_entries update_conv'
        split: option.splits intro!: exI [where x = "min _ (length s)"])
next
  case (5 S p s d r d' q)
  then show ?case
    by (cases d) (auto simp: write_all_def content_update entries_def entry_name_Some
        Let_def split: option.splits prod.splits)
qed

end
