(* ===== verification/Process_State.thy ===== *)
theory Process_State
  imports Trace_Vec File_System
begin

text \<open>
  The state one MPI process works on: the static \<open>EVENTS\<close> (a mutex around the vector of events,
  with its poison flag), the directory of trace files, and what was printed. Here are also the two
  steps every registration function takes after it has built its event: take the lock, and call
  \<open>register\<close> through the guard.
\<close>

section \<open>State\<close>

record process =
  poisoned :: bool
  guarded :: "Register_dyn rvec"
  disk :: disk
  stdout :: "string list"
  stderr :: "string list"

text \<open>\<open>static EVENTS: Trace = Trace(Mutex::new(Vec::new()))\<close>, in a process that starts on a disk.\<close>

definition process_init :: "disk \<Rightarrow> process" where
  "process_init d =
     \<lparr>poisoned = False, guarded = vec_new, disk = d, stdout = [], stderr = []\<rparr>"

definition events :: "process \<Rightarrow> Register_dyn list" where
  "events p = items (guarded p)"

definition process_inv :: "process \<Rightarrow> bool" where
  "process_inv p \<longleftrightarrow> vec_inv (guarded p)"

lemma process_inv_init: "process_inv (process_init d)"
  by (simp add: process_inv_def process_init_def vec_inv_new)

lemma events_init [simp]: "events (process_init d) = []"
  by (simp add: events_def process_init_def vec_new_def)

lemma process_init_simps [simp]:
  "poisoned (process_init d) = False" "guarded (process_init d) = vec_new"
  "disk (process_init d) = d" "stdout (process_init d) = []" "stderr (process_init d) = []"
  by (simp_all add: process_init_def)

definition println :: "string \<Rightarrow> process \<Rightarrow> process" where
  "println line p = p\<lparr>stdout := stdout p @ [line]\<rparr>"

definition eprintln :: "string \<Rightarrow> process \<Rightarrow> process" where
  "eprintln line p = p\<lparr>stderr := stderr p @ [line]\<rparr>"

lemma print_frame [simp]:
  "poisoned (println l p) = poisoned p" "poisoned (eprintln l p) = poisoned p"
  "guarded (println l p) = guarded p" "guarded (eprintln l p) = guarded p"
  "disk (println l p) = disk p" "disk (eprintln l p) = disk p"
  "stderr (println l p) = stderr p" "stdout (eprintln l p) = stdout p"
  "stdout (println l p) = stdout p @ [l]" "stderr (eprintln l p) = stderr p @ [l]"
  by (simp_all add: println_def eprintln_def)

section \<open>The lock\<close>

text \<open>\<open>EVENTS.0.lock().expect(msg)\<close>: a mutex poisoned by a panic makes \<open>expect\<close> panic.\<close>

definition lock_events :: "string \<Rightarrow> process \<Rightarrow> string + Register_dyn rvec" where
  "lock_events msg p =
     (if poisoned p then Inl (expect_msg msg ''PoisonError { .. }'') else Inr (guarded p))"

text \<open>
  \<open>event.register(&mut guard)?\<close> with the lock held: an error leaves the function (the guard is
  dropped and the mutex stays clean), a panic poisons the mutex.
\<close>

definition lock_and_register ::
    "allocator \<Rightarrow> string \<Rightarrow> Register_dyn \<Rightarrow> process \<Rightarrow> unit result run \<times> process" where
  "lock_and_register A msg e p =
     (case lock_events msg p of
        Inl m \<Rightarrow> (Panicked m, p)
      | Inr guard \<Rightarrow>
          (case register A e guard of
             (Done (Inr u), guard') \<Rightarrow> (Done (Inr u), p\<lparr>guarded := guard'\<rparr>)
           | (Done (Inl err), guard') \<Rightarrow>
               (Done (Inl (from_try_reserve_error err)), p\<lparr>guarded := guard'\<rparr>)
           | (Panicked m, guard') \<Rightarrow> (Panicked m, p\<lparr>guarded := guard', poisoned := True\<rparr>)
           | (Aborted, guard') \<Rightarrow> (Aborted, p\<lparr>guarded := guard'\<rparr>)))"

lemma lock_and_register_poisoned:
  "poisoned p \<Longrightarrow>
     lock_and_register A msg e p = (Panicked (expect_msg msg ''PoisonError { .. }''), p)"
  by (simp add: lock_and_register_def lock_events_def)

text \<open>
  The whole effect of \<open>lock_and_register\<close> on a mutex that is not poisoned: it never panics, and the
  only parts of the state it changes are the events (one more on success, the same otherwise) and
  the capacity behind them.
\<close>

lemma lock_and_register_cases:
  assumes "process_inv p" and "\<not> poisoned p" and "lock_and_register A msg e p = (r, p')"
  obtains (ok) "r = Done (Inr ())" and "events p' = events p @ [e]"
      and "\<exists>g. p' = p\<lparr>guarded := g\<rparr>" and "process_inv p'"
    | (error) err where "r = Done (Inl (from_try_reserve_error err))" and "p' = p"
      and "events p \<noteq> []"
    | (abort) "r = Aborted" and "events p' = events p"
      and "\<exists>g. p' = p\<lparr>guarded := g\<rparr>" and "process_inv p'"
      and "alloc_box A \<Longrightarrow> events p = [] \<and> \<not> alloc_grow A 64"
proof (cases "register A e (guarded p)")
  case (Pair q g)
  have inv: "vec_inv (guarded p)" using assms(1) by (simp add: process_inv_def)
  from inv Pair show ?thesis
  proof (cases rule: register_cases)
    case ok
    with assms Pair show ?thesis
      by (intro that(1)) (auto simp: lock_and_register_def lock_events_def events_def
          process_inv_def)
  next
    case (error err)
    with assms Pair show ?thesis
      by (intro that(2)) (auto simp: lock_and_register_def lock_events_def events_def)
  next
    case abort
    with assms Pair show ?thesis
      by (intro that(3)) (auto simp: lock_and_register_def lock_events_def events_def
          process_inv_def)
  qed
qed

text \<open>With an allocator that grants every request the event is recorded.\<close>

definition has_room :: "process \<Rightarrow> bool" where
  "has_room p \<longleftrightarrow> 3 * length (events p) * elem_size \<le> isize_max"

lemma lock_and_register_generous:
  assumes "process_inv p" and "\<not> poisoned p" and "generous A" and "has_room p"
  shows "\<exists>g. lock_and_register A msg e p = (Done (Inr ()), p\<lparr>guarded := g\<rparr>) \<and>
    items g = events p @ [e] \<and> vec_inv g"
proof -
  from assms obtain g where g: "register A e (guarded p) = (Done (Inr ()), g)"
    using register_generous [of "guarded p" A e]
    by (auto simp: process_inv_def has_room_def events_def)
  with assms trace_log.append_accepted [OF _ g] trace_log.inv_append [OF _ g] show ?thesis
    by (auto simp: lock_and_register_def lock_events_def events_def process_inv_def)
qed

end
