(* ===== verification/Trace_Output.thy ===== *)
theory Trace_Output
  imports Process_State
begin

text \<open>
  Writing a process's events to its trace file (\<open>serialize\<close>), and the aggregated traces to theirs
  (\<open>write_all_traces\<close>). The JSON text of a list of events is the business of serde, serde\_json and
  typetag, which are parameters; their documented behaviour is the locale \<open>serde_codec\<close>.
\<close>

section \<open>JSON, a parameter\<close>

record serde =
  to_string :: "Register_dyn list \<Rightarrow> string + string"
  to_string_pretty :: "Register_dyn list \<Rightarrow> string + string"
  from_str :: "string \<Rightarrow> string + Register_dyn list"

text \<open>
  The only fields that are not integers, booleans or enums are the wall-clock times of the
  management events. \<open>map_time\<close> applies a function to them.
\<close>

fun Register_time :: "Register_dyn \<Rightarrow> Usecs option" where
  "Register_time (DynInit e) = Some (MpiInit.time e)"
| "Register_time (DynInitThread e) = Some (MpiInitThread.time e)"
| "Register_time (DynFinalize e) = Some (MpiFinalize.time e)"
| "Register_time _ = None"

fun map_time :: "(Usecs \<Rightarrow> Usecs) \<Rightarrow> Register_dyn \<Rightarrow> Register_dyn" where
  "map_time f (DynInit e) = DynInit (e\<lparr>MpiInit.time := f (MpiInit.time e)\<rparr>)"
| "map_time f (DynInitThread e) = DynInitThread (e\<lparr>MpiInitThread.time := f (MpiInitThread.time e)\<rparr>)"
| "map_time f (DynFinalize e) = DynFinalize (e\<lparr>MpiFinalize.time := f (MpiFinalize.time e)\<rparr>)"
| "map_time f e = e"

definition finite_times :: "Register_dyn list \<Rightarrow> bool" where
  "finite_times es \<longleftrightarrow>
     list_all (\<lambda>e. case Register_time e of None \<Rightarrow> True | Some t \<Rightarrow> f64_is_finite t) es"

lemma map_time_tsc [simp]: "Register_tsc (map_time f e) = Register_tsc e"
  by (cases e) auto

lemma map_time_rank [simp]: "Register_rank (map_time f e) = Register_rank e"
  by (cases e) auto

lemma map_time_time [simp]: "Register_time (map_time f e) = map_option f (Register_time e)"
  by (cases e) auto

lemma map_time_id [simp]: "map_time id e = e"
  by (cases e) auto

lemma map_time_comp: "map_time f (map_time g e) = map_time (f \<circ> g) e"
  by (cases e) auto

lemma finite_times_simps [simp]:
  "finite_times []"
  "finite_times (es @ es') \<longleftrightarrow> finite_times es \<and> finite_times es'"
  by (simp_all add: finite_times_def)

text \<open>
  What the crate documents. Serialising these types into a string does not fail. Parsing the text of
  events with finite times gives the events back, but for their times: without the feature
  \<open>float_roundtrip\<close>, which \<open>Cargo.toml\<close> does not enable, a double is read back with best effort;
  \<open>reread\<close> is that reading. (A NaN or an infinity is written as \<open>null\<close>.)
\<close>

locale serde_codec =
  fixes J :: serde
    and reread :: "Usecs \<Rightarrow> Usecs"
  assumes to_string_total: "\<exists>s. to_string J es = Inr s"
    and to_string_pretty_total: "\<exists>s. to_string_pretty J es = Inr s"
    and from_to_string:
      "finite_times es \<Longrightarrow> to_string J es = Inr s \<Longrightarrow> from_str J s = Inr (map (map_time reread) es)"
    and from_to_string_pretty:
      "finite_times es \<Longrightarrow> to_string_pretty J es = Inr s \<Longrightarrow>
         from_str J s = Inr (map (map_time reread) es)"
    and reread_finite: "f64_is_finite t \<Longrightarrow> f64_is_finite (reread t)"
begin

lemma reread_finite_times: "finite_times es \<Longrightarrow> finite_times (map (map_time reread) es)"
  by (induction es) (auto simp: finite_times_def reread_finite split: option.splits)

end

section \<open>Writing a rank's trace file\<close>

definition rank_file :: "MpiRank \<Rightarrow> string" where
  "rank_file rank = ''rank'' @ show_i32 rank @ ''_traces.json''"

definition serialize ::
    "serde \<Rightarrow> os \<Rightarrow> Register_dyn list \<Rightarrow> MpiRank \<Rightarrow> process \<Rightarrow> unit result run \<times> process" where
  "serialize J S es rank p0 =
     (let p = println (''[interpol]: serializing traces for rank '' @ show_i32 rank) p0 in
      case to_string J es of
        Inl dbg \<Rightarrow> (Panicked (expect_msg ''failed to serialize traces to string'' dbg), p)
      | Inr traces \<Rightarrow>
          (let filename = INTERPOL_DIR @ ''/rank'' @ show_i32 rank @ ''_traces.json'' in
           case create_dir_all S (disk p) of
             Inl e \<Rightarrow> (Done (Inl (from_io_error e)), p)
           | Inr d \<Rightarrow>
               (case open_file S trace_file_options filename d of
                  Inl e \<Rightarrow> (Done (Inl (from_io_error e)), p\<lparr>disk := d\<rparr>)
                | Inr d' \<Rightarrow>
                    (case write_all S filename traces d' of
                       (Some e, d'') \<Rightarrow> (Done (Inl (from_io_error e)), p\<lparr>disk := d''\<rparr>)
                     | (None, d'') \<Rightarrow> (Done (Inr ()), p\<lparr>disk := d''\<rparr>)))))"

definition aggregate_file :: string where
  "aggregate_file = ''interpol_traces.json''"

definition write_all_traces ::
    "os \<Rightarrow> string \<Rightarrow> process \<Rightarrow> unit result \<times> process" where
  "write_all_traces S serialized p =
     (let filename = INTERPOL_DIR @ ''/'' @ ''interpol_traces.json'' in
      case open_file S trace_file_options filename (disk p) of
        Inl e \<Rightarrow> (Inl (from_io_error e), p)
      | Inr d \<Rightarrow>
          (case write_all S filename serialized d of
             (Some e, d') \<Rightarrow> (Inl (from_io_error e), p\<lparr>disk := d'\<rparr>)
           | (None, d') \<Rightarrow> (Inr (), p\<lparr>disk := d'\<rparr>)))"

section \<open>The names of the files\<close>

lemma rank_filename: "INTERPOL_DIR @ ''/rank'' @ show_i32 rank @ ''_traces.json'' = in_dir (rank_file rank)"
  by (simp add: in_dir_def rank_file_def)

lemma aggregate_filename: "INTERPOL_DIR @ ''/'' @ ''interpol_traces.json'' = in_dir aggregate_file"
  by (simp add: in_dir_def aggregate_file_def)

lemma rank_file_inject [simp]: "rank_file r = rank_file q \<longleftrightarrow> r = q"
  by (simp add: rank_file_def)

lemma rank_file_not_aggregate [simp]: "rank_file r \<noteq> aggregate_file" "aggregate_file \<noteq> rank_file r"
  by (simp_all add: rank_file_def aggregate_file_def)

lemma rank_file_extension [simp]: "path_extension (rank_file r) = Some ''json''"
  using path_extension_append [of "''rank'' @ show_i32 r @ ''_traces''" "''json''"]
  by (simp add: rank_file_def)

section \<open>What serialize does to the disk\<close>

lemma create_dir_all_content: "create_dir_all S d = Inr d' \<Longrightarrow> content d' q = content d q"
  by (cases d) (auto simp: create_dir_all_def content_Some_entries split: option.splits)

lemma serialize_frame:
  assumes "serialize J S es rank p = (r, p')"
  shows "guarded p' = guarded p" and "poisoned p' = poisoned p" and "stderr p' = stderr p"
    and "q \<noteq> in_dir (rank_file rank) \<Longrightarrow> content (disk p') q = content (disk p) q"
  using assms unfolding serialize_def rank_filename Let_def
  by (auto split: sum.splits prod.splits option.splits simp: create_dir_all_content)
    (metis create_dir_all_content trace_dir.save_frame)+

text \<open>After a successful \<open>serialize\<close> the rank's file holds the JSON text of the events, whatever it
  held before.\<close>

lemma serialize_ok:
  assumes "serialize J S es rank p = (Done (Inr ()), p')"
  shows "\<exists>s. to_string J es = Inr s \<and> content (disk p') (in_dir (rank_file rank)) = Some s"
  using assms unfolding serialize_def rank_filename Let_def
  by (auto split: sum.splits prod.splits option.splits dest: trace_dir.save_content)

lemma serialize_panics_only_on_json:
  assumes "serialize J S es rank p = (Panicked m, p')"
  shows "\<exists>dbg. to_string J es = Inl dbg \<and> disk p' = disk p"
  using assms unfolding serialize_def Let_def
  by (auto split: sum.splits prod.splits option.splits)

section \<open>On a system that refuses nothing\<close>

definition grants_writes :: "os \<Rightarrow> bool" where
  "grants_writes S \<longleftrightarrow>
     os_create_dir S = None \<and> os_open S = (\<lambda>_. None) \<and> os_write S = (\<lambda>_. None)"

definition disk_put :: "string \<Rightarrow> string \<Rightarrow> disk \<Rightarrow> disk" where
  "disk_put name s d = Some (AList.update name (File s) (entries d))"

lemma content_disk_put [simp]:
  "content (disk_put name s d) q = (if q = in_dir name then Some s else content d q)"
proof -
  have "content (Some (entries d)) q = content d q"
    by (cases d) (simp_all add: content_Some_entries split: option.split)
  then show ?thesis by (simp add: disk_put_def content_update)
qed

lemma save_granted:
  assumes "grants_writes S" and "map_of es name \<noteq> Some Subdir"
  obtains d where "open_file S trace_file_options (in_dir name) (Some es) = Inr d"
    and "write_all S (in_dir name) s d = (None, disk_put name s (Some es))"
proof (rule that)
  let ?d = "Some (AList.update name (File []) es)"
  show "open_file S trace_file_options (in_dir name) (Some es) = Inr ?d"
    using assms by (simp add: open_file_trace_file grants_writes_def)
  show "write_all S (in_dir name) s ?d = (None, disk_put name s (Some es))"
    using assms(1) by (simp add: write_all_def grants_writes_def content_update disk_put_def)
qed

lemma serialize_granted:
  assumes "grants_writes S" and "map_of (entries (disk p)) (rank_file rank) \<noteq> Some Subdir"
    and "to_string J es = Inr s"
  shows "serialize J S es rank p =
    (Done (Inr ()), (println (''[interpol]: serializing traces for rank '' @ show_i32 rank) p)
       \<lparr>disk := disk_put (rank_file rank) s (disk p)\<rparr>)"
proof -
  have dir: "create_dir_all S (disk p) = Inr (Some (entries (disk p)))"
    using assms(1) by (simp add: create_dir_all_def grants_writes_def)
  obtain d where "open_file S trace_file_options (in_dir (rank_file rank))
      (Some (entries (disk p))) = Inr d"
    and "write_all S (in_dir (rank_file rank)) s d =
      (None, disk_put (rank_file rank) s (Some (entries (disk p))))"
    by (rule save_granted [OF assms(1,2)])
  with dir assms(3) show ?thesis
    unfolding serialize_def rank_filename Let_def by (simp add: disk_put_def)
qed

lemma write_all_traces_granted:
  assumes "grants_writes S" and "disk p = Some es" and "map_of es aggregate_file \<noteq> Some Subdir"
  shows "write_all_traces S s p = (Inr (), p\<lparr>disk := disk_put aggregate_file s (disk p)\<rparr>)"
proof -
  obtain d where "open_file S trace_file_options (in_dir aggregate_file) (Some es) = Inr d"
    and "write_all S (in_dir aggregate_file) s d = (None, disk_put aggregate_file s (Some es))"
    by (rule save_granted [OF assms(1,3)])
  with assms(2) show ?thesis
    unfolding write_all_traces_def aggregate_filename Let_def by simp
qed

section \<open>What a successful serialize leaves\<close>

text \<open>Whatever the system refuses elsewhere, success puts the text into the rank's file and no more.\<close>

lemma update_update [simp]: "AList.update k v (AList.update k u es) = AList.update k v es"
  by (induction es) auto

lemma save_put:
  assumes "open_file S trace_file_options (in_dir name) d = Inr d'"
    and "write_all S (in_dir name) s d' = (None, d'')"
  shows "d'' = disk_put name s d"
  using assms
  by (auto simp: open_file_trace_file write_all_def content_update disk_put_def Let_def
      split: option.splits)

lemma serialize_put:
  assumes "serialize J S es rank p = (Done (Inr ()), p')"
  shows "\<exists>s. to_string J es = Inr s \<and> disk p' = disk_put (rank_file rank) s (disk p)"
proof -
  have dir: "disk_put name s d' = disk_put name s d" if "create_dir_all S d = Inr d'" for name s d d'
    using that by (auto simp: create_dir_all_def disk_put_def split: option.splits)
  show ?thesis
    using assms unfolding serialize_def rank_filename Let_def
    by (auto split: sum.splits prod.splits option.splits dest!: save_put dir)
qed

end
