(* ===== verification/Registration.thy ===== *)
theory Registration
  imports Trace_Output
begin

text \<open>
  The entry points of \<open>interpol.rs\<close>: one registration function per intercepted MPI function, the
  dispatcher, and \<open>register_mpi_call\<close>, which the wrappers call. Every function first builds its
  event, then takes the lock, then registers the event; \<open>register_finalize\<close> goes on to write the
  rank's trace file under the same lock.
\<close>

section \<open>The registration functions\<close>

definition register_init ::
    "builders \<Rightarrow> allocator \<Rightarrow> MpiRank \<Rightarrow> Tsc \<Rightarrow> Usecs \<Rightarrow> process \<Rightarrow> unit result run \<times> process" where
  "register_init B A rk ts tm p =
     (case MpiInitBuilder B
       [Current_rank rk, Tsc ts, Time tm] of
        Inl e \<Rightarrow> (Done (Inl (from_builder_error e)), p)
      | Inr init_event \<Rightarrow>
          lock_and_register A
            ''failed to take the lock on vector for `MpiInit` event''
            (DynInit init_event) p)"

definition register_init_thread ::
    "builders \<Rightarrow> allocator \<Rightarrow> MpiRank \<Rightarrow> i32 \<Rightarrow> i32 \<Rightarrow> Tsc \<Rightarrow> Usecs \<Rightarrow> process \<Rightarrow> unit result run \<times> process" where
  "register_init_thread B A rk rlvl plvl ts tm p =
     (case MpiInitThreadBuilder B
       [Current_rank rk, Required_thread_lvl rlvl, Provided_thread_lvl plvl, Tsc ts, Time tm] of
        Inl e \<Rightarrow> (Done (Inl (from_builder_error e)), p)
      | Inr init_thread_event \<Rightarrow>
          lock_and_register A
            ''failed to take the lock on vector for `MpiInitThread` event''
            (DynInitThread init_thread_event) p)"

definition register_finalize ::
    "builders \<Rightarrow> serde \<Rightarrow> allocator \<Rightarrow> os \<Rightarrow> MpiRank \<Rightarrow> Tsc \<Rightarrow> Usecs \<Rightarrow> process \<Rightarrow> unit result run \<times> process" where
  "register_finalize B J A S rk ts tm p =
     (case MpiFinalizeBuilder B
       [Current_rank rk, Tsc ts, Time tm] of
        Inl e \<Rightarrow> (Done (Inl (from_builder_error e)), p)
      | Inr finalize_event \<Rightarrow>
          (case lock_and_register A
              ''failed to take the lock on vector for `MpiFinalize` event''
              (DynFinalize finalize_event) p of
             (Done (Inr u), p') \<Rightarrow>
               (case serialize J S (events p') rk p' of
                  (Panicked m, p'') \<Rightarrow> (Panicked m, p''\<lparr>poisoned := True\<rparr>)
                | r \<Rightarrow> r)
           | r \<Rightarrow> r))"

definition register_send ::
    "builders \<Rightarrow> allocator \<Rightarrow> MpiRank \<Rightarrow> MpiRank \<Rightarrow> u32 \<Rightarrow> MpiComm \<Rightarrow> MpiTag \<Rightarrow> Tsc \<Rightarrow> Tsc \<Rightarrow> process \<Rightarrow> unit result run \<times> process" where
  "register_send B A rk partner nb cm tg ts dur p =
     (case MpiSendBuilder B
       [Current_rank rk, Partner_rank partner, Nb_bytes nb, Comm cm, Tag tg, Tsc ts,
        Duration dur] of
        Inl e \<Rightarrow> (Done (Inl (from_builder_error e)), p)
      | Inr send_event \<Rightarrow>
          lock_and_register A
            ''failed to take the lock on vector for `MpiSend` event''
            (DynSend send_event) p)"

definition register_recv ::
    "builders \<Rightarrow> allocator \<Rightarrow> MpiRank \<Rightarrow> MpiRank \<Rightarrow> u32 \<Rightarrow> MpiComm \<Rightarrow> MpiTag \<Rightarrow> Tsc \<Rightarrow> Tsc \<Rightarrow> process \<Rightarrow> unit result run \<times> process" where
  "register_recv B A rk partner nb cm tg ts dur p =
     (case MpiRecvBuilder B
       [Current_rank rk, Partner_rank partner, Nb_bytes nb, Comm cm, Tag tg, Tsc ts,
        Duration dur] of
        Inl e \<Rightarrow> (Done (Inl (from_builder_error e)), p)
      | Inr recv_event \<Rightarrow>
          lock_and_register A
            ''failed to take the lock on vector for `MpiRecv` event''
            (DynRecv recv_event) p)"

definition register_isend ::
    "builders \<Rightarrow> allocator \<Rightarrow> MpiRank \<Rightarrow> MpiRank \<Rightarrow> u32 \<Rightarrow> MpiComm \<Rightarrow> MpiReq \<Rightarrow> MpiTag \<Rightarrow> Tsc \<Rightarrow> Tsc \<Rightarrow> process \<Rightarrow> unit result run \<times> process" where
  "register_isend B A rk partner nb cm rq tg ts dur p =
     (case MpiIsendBuilder B
       [Current_rank rk, Partner_rank partner, Nb_bytes nb, Comm cm, Req rq, Tag tg, Tsc ts,
        Duration dur] of
        Inl e \<Rightarrow> (Done (Inl (from_builder_error e)), p)
      | Inr isend_event \<Rightarrow>
          lock_and_register A
            ''failed to take the lock on vector for `MpiIsend` event''
            (DynIsend isend_event) p)"

definition register_irecv ::
    "builders \<Rightarrow> allocator \<Rightarrow> MpiRank \<Rightarrow> MpiRank \<Rightarrow> u32 \<Rightarrow> MpiComm \<Rightarrow> MpiReq \<Rightarrow> MpiTag \<Rightarrow> Tsc \<Rightarrow> Tsc \<Rightarrow> process \<Rightarrow> unit result run \<times> process" where
  "register_irecv B A rk partner nb cm rq tg ts dur p =
     (case MpiIrecvBuilder B
       [Current_rank rk, Partner_rank partner, Nb_bytes nb, Comm cm, Req rq, Tag tg, Tsc ts,
        Duration dur] of
        Inl e \<Rightarrow> (Done (Inl (from_builder_error e)), p)
      | Inr irecv_event \<Rightarrow>
          lock_and_register A
            ''failed to take the lock on vector for `MpiIrecv` event''
            (DynIrecv irecv_event) p)"

definition register_barrier ::
    "builders \<Rightarrow> allocator \<Rightarrow> MpiRank \<Rightarrow> MpiComm \<Rightarrow> Tsc \<Rightarrow> Tsc \<Rightarrow> process \<Rightarrow> unit result run \<times> process" where
  "register_barrier B A rk cm ts dur p =
     (case MpiBarrierBuilder B
       [Current_rank rk, Comm cm, Tsc ts, Duration dur] of
        Inl e \<Rightarrow> (Done (Inl (from_builder_error e)), p)
      | Inr barrier_event \<Rightarrow>
          lock_and_register A
            ''failed to take the lock on vector for `MpiBarrier` event''
            (DynBarrier barrier_event) p)"

definition register_ibarrier ::
    "builders \<Rightarrow> allocator \<Rightarrow> MpiRank \<Rightarrow> MpiComm \<Rightarrow> MpiReq \<Rightarrow> Tsc \<Rightarrow> Tsc \<Rightarrow> process \<Rightarrow> unit result run \<times> process" where
  "register_ibarrier B A rk cm rq ts dur p =
     (case MpiIbarrierBuilder B
       [Current_rank rk, Comm cm, Req rq, Tsc ts, Duration dur] of
        Inl e \<Rightarrow> (Done (Inl (from_builder_error e)), p)
      | Inr ibarrier_event \<Rightarrow>
          lock_and_register A
            ''failed to take the lock on vector for `MpiIbarrier` event''
            (DynIbarrier ibarrier_event) p)"

definition register_test ::
    "builders \<Rightarrow> allocator \<Rightarrow> MpiRank \<Rightarrow> MpiReq \<Rightarrow> bool \<Rightarrow> Tsc \<Rightarrow> Tsc \<Rightarrow> process \<Rightarrow> unit result run \<times> process" where
  "register_test B A rk rq fin ts dur p =
     (case MpiTestBuilder B
       [Current_rank rk, Req rq, Finished fin, Tsc ts, Duration dur] of
        Inl e \<Rightarrow> (Done (Inl (from_builder_error e)), p)
      | Inr test_event \<Rightarrow>
          lock_and_register A
            ''failed to take the lock on vector for `MpiTest` event''
            (DynTest test_event) p)"

definition register_wait ::
    "builders \<Rightarrow> allocator \<Rightarrow> MpiRank \<Rightarrow> MpiReq \<Rightarrow> Tsc \<Rightarrow> Tsc \<Rightarrow> process \<Rightarrow> unit result run \<times> process" where
  "register_wait B A rk rq ts dur p =
     (case MpiWaitBuilder B
       [Current_rank rk, Req rq, Tsc ts, Duration dur] of
        Inl e \<Rightarrow> (Done (Inl (from_builder_error e)), p)
      | Inr wait_event \<Rightarrow>
          lock_and_register A
            ''failed to take the lock on vector for `MpiWait` event''
            (DynWait wait_event) p)"

definition register_ibcast ::
    "builders \<Rightarrow> allocator \<Rightarrow> MpiRank \<Rightarrow> MpiRank \<Rightarrow> u32 \<Rightarrow> MpiComm \<Rightarrow> MpiReq \<Rightarrow> Tsc \<Rightarrow> Tsc \<Rightarrow> process \<Rightarrow> unit result run \<times> process" where
  "register_ibcast B A rk partner nb cm rq ts dur p =
     (case MpiIbcastBuilder B
       [Current_rank rk, Partner_rank partner, Nb_bytes nb, Comm cm, Req rq, Tsc ts,
        Duration dur] of
        Inl e \<Rightarrow> (Done (Inl (from_builder_error e)), p)
      | Inr ibcast_event \<Rightarrow>
          lock_and_register A
            ''failed to take the lock on vector for `MpiIbcast` event''
            (DynIbcast ibcast_event) p)"

definition register_igather ::
    "builders \<Rightarrow> allocator \<Rightarrow> MpiRank \<Rightarrow> MpiRank \<Rightarrow> u32 \<Rightarrow> u32 \<Rightarrow> MpiComm \<Rightarrow> MpiReq \<Rightarrow> Tsc \<Rightarrow> Tsc \<Rightarrow> process \<Rightarrow> unit result run \<times> process" where
  "register_igather B A rk partner nbs nbr cm rq ts dur p =
     (case MpiIgatherBuilder B
       [Current_rank rk, Partner_rank partner, Nb_bytes_send nbs, Nb_bytes_recv nbr, Comm cm,
        Req rq, Tsc ts, Duration dur] of
        Inl e \<Rightarrow> (Done (Inl (from_builder_error e)), p)
      | Inr igather_event \<Rightarrow>
          lock_and_register A
            ''failed to take the lock on vector for `MpiIbcast` event''
            (DynIgather igather_event) p)"

definition register_ireduce ::
    "builders \<Rightarrow> allocator \<Rightarrow> MpiRank \<Rightarrow> MpiRank \<Rightarrow> u32 \<Rightarrow> MpiOp \<Rightarrow> MpiComm \<Rightarrow> MpiReq \<Rightarrow> Tsc \<Rightarrow> Tsc \<Rightarrow> process \<Rightarrow> unit result run \<times> process" where
  "register_ireduce B A rk partner nb opt cm rq ts dur p =
     (case MpiIreduceBuilder B
       [Current_rank rk, Partner_rank partner, Nb_bytes nb, Op_type opt, Comm cm, Req rq,
        Tsc ts, Duration dur] of
        Inl e \<Rightarrow> (Done (Inl (from_builder_error e)), p)
      | Inr ireduce_event \<Rightarrow>
          lock_and_register A
            ''failed to take the lock on vector for `MpiIbcast` event''
            (DynIreduce ireduce_event) p)"

definition register_iscatter ::
    "builders \<Rightarrow> allocator \<Rightarrow> MpiRank \<Rightarrow> MpiRank \<Rightarrow> u32 \<Rightarrow> u32 \<Rightarrow> MpiComm \<Rightarrow> MpiReq \<Rightarrow> Tsc \<Rightarrow> Tsc \<Rightarrow> process \<Rightarrow> unit result run \<times> process" where
  "register_iscatter B A rk partner nbs nbr cm rq ts dur p =
     (case MpiIscatterBuilder B
       [Current_rank rk, Partner_rank partner, Nb_bytes_send nbs, Nb_bytes_recv nbr, Comm cm,
        Req rq, Tsc ts, Duration dur] of
        Inl e \<Rightarrow> (Done (Inl (from_builder_error e)), p)
      | Inr iscatter_event \<Rightarrow>
          lock_and_register A
            ''failed to take the lock on vector for `MpiIbcast` event''
            (DynIscatter iscatter_event) p)"

section \<open>The dispatcher\<close>

definition dispatch ::
    "builders \<Rightarrow> serde \<Rightarrow> allocator \<Rightarrow> os \<Rightarrow> MpiCall \<Rightarrow> process \<Rightarrow> unit result run \<times> process" where
  "dispatch B J A S call p =
     (case MpiCall.kind call of
        Init \<Rightarrow>
          register_init B A (MpiCall.current_rank call) (MpiCall.tsc call) (MpiCall.time call)
          p
      | Initthread \<Rightarrow>
          register_init_thread B A (MpiCall.current_rank call)
          (MpiCall.required_thread_lvl call) (MpiCall.provided_thread_lvl call)
          (MpiCall.tsc call) (MpiCall.time call) p
      | Finalize \<Rightarrow>
          register_finalize B J A S (MpiCall.current_rank call) (MpiCall.tsc call)
          (MpiCall.time call) p
      | Send \<Rightarrow>
          register_send B A (MpiCall.current_rank call) (MpiCall.partner_rank call)
          (MpiCall.nb_bytes_s call) (MpiCall.comm call) (MpiCall.tag call) (MpiCall.tsc call)
          (MpiCall.duration call) p
      | Isend \<Rightarrow>
          register_isend B A (MpiCall.current_rank call) (MpiCall.partner_rank call)
          (MpiCall.nb_bytes_s call) (MpiCall.comm call) (MpiCall.req call) (MpiCall.tag call)
          (MpiCall.tsc call) (MpiCall.duration call) p
      | Recv \<Rightarrow>
          register_recv B A (MpiCall.current_rank call) (MpiCall.partner_rank call)
          (MpiCall.nb_bytes_r call) (MpiCall.comm call) (MpiCall.tag call) (MpiCall.tsc call)
          (MpiCall.duration call) p
      | Irecv \<Rightarrow>
          register_irecv B A (MpiCall.current_rank call) (MpiCall.partner_rank call)
          (MpiCall.nb_bytes_r call) (MpiCall.comm call) (MpiCall.req call) (MpiCall.tag call)
          (MpiCall.tsc call) (MpiCall.duration call) p
      | Barrier \<Rightarrow>
          register_barrier B A (MpiCall.current_rank call) (MpiCall.comm call)
          (MpiCall.tsc call) (MpiCall.duration call) p
      | Ibarrier \<Rightarrow>
          register_ibarrier B A (MpiCall.current_rank call) (MpiCall.comm call)
          (MpiCall.req call) (MpiCall.tsc call) (MpiCall.duration call) p
      | Test \<Rightarrow>
          register_test B A (MpiCall.current_rank call) (MpiCall.req call)
          (MpiCall.finished call) (MpiCall.tsc call) (MpiCall.duration call) p
      | Wait \<Rightarrow>
          register_wait B A (MpiCall.current_rank call) (MpiCall.req call) (MpiCall.tsc call)
          (MpiCall.duration call) p
      | Ibcast \<Rightarrow>
          register_ibcast B A (MpiCall.current_rank call) (MpiCall.partner_rank call)
          (MpiCall.nb_bytes_s call) (MpiCall.comm call) (MpiCall.req call) (MpiCall.tsc call)
          (MpiCall.duration call) p
      | Igather \<Rightarrow>
          register_igather B A (MpiCall.current_rank call) (MpiCall.partner_rank call)
          (MpiCall.nb_bytes_s call) (MpiCall.nb_bytes_r call) (MpiCall.comm call)
          (MpiCall.req call) (MpiCall.tsc call) (MpiCall.duration call) p
      | Ireduce \<Rightarrow>
          register_ireduce B A (MpiCall.current_rank call) (MpiCall.partner_rank call)
          (MpiCall.nb_bytes_s call) (MpiCall.op_type call) (MpiCall.comm call)
          (MpiCall.req call) (MpiCall.tsc call) (MpiCall.duration call) p
      | Iscatter \<Rightarrow>
          register_iscatter B A (MpiCall.current_rank call) (MpiCall.partner_rank call)
          (MpiCall.nb_bytes_s call) (MpiCall.nb_bytes_r call) (MpiCall.comm call)
          (MpiCall.req call) (MpiCall.tsc call) (MpiCall.duration call) p)"

definition register_mpi_call ::
    "builders \<Rightarrow> serde \<Rightarrow> allocator \<Rightarrow> os \<Rightarrow> MpiCall \<Rightarrow> process \<Rightarrow> unit run \<times> process" where
  "register_mpi_call B J A S mpi_call p =
     (let rank = MpiCall.current_rank mpi_call in
      case dispatch B J A S mpi_call p of
        (Done (Inr u), p') \<Rightarrow> (Done (), p')
      | (Done (Inl e), p') \<Rightarrow> (Done (), eprintln (rank_error_line rank e) p')
      | (Panicked m, p') \<Rightarrow> (Panicked m, p')
      | (Aborted, p') \<Rightarrow> (Aborted, p'))"

section \<open>What a call records\<close>

text \<open>
  The abstract view of the dispatcher: the event of a call, with the fields of the call each event
  keeps. Sends and collectives record the bytes sent, receives the bytes received.
\<close>

fun event_of_call :: "MpiCall \<Rightarrow> Register_dyn" where
  "event_of_call c =
     (case MpiCall.kind c of
        Init \<Rightarrow>
          DynInit (MpiInit_new (MpiCall.current_rank c) (MpiCall.tsc c) (MpiCall.time c))
      | Initthread \<Rightarrow>
          DynInitThread (MpiInitThread_new (MpiCall.current_rank c)
          (MpiCall.required_thread_lvl c) (MpiCall.provided_thread_lvl c) (MpiCall.tsc c)
          (MpiCall.time c))
      | Finalize \<Rightarrow>
          DynFinalize (MpiFinalize_new (MpiCall.current_rank c) (MpiCall.tsc c)
          (MpiCall.time c))
      | Send \<Rightarrow>
          DynSend (MpiSend_new (MpiCall.current_rank c) (MpiCall.partner_rank c)
          (MpiCall.nb_bytes_s c) (MpiCall.comm c) (MpiCall.tag c) (MpiCall.tsc c)
          (MpiCall.duration c))
      | Recv \<Rightarrow>
          DynRecv (MpiRecv_new (MpiCall.current_rank c) (MpiCall.partner_rank c)
          (MpiCall.nb_bytes_r c) (MpiCall.comm c) (MpiCall.tag c) (MpiCall.tsc c)
          (MpiCall.duration c))
      | Isend \<Rightarrow>
          DynIsend (MpiIsend_new (MpiCall.current_rank c) (MpiCall.partner_rank c)
          (MpiCall.nb_bytes_s c) (MpiCall.comm c) (MpiCall.req c) (MpiCall.tag c)
          (MpiCall.tsc c) (MpiCall.duration c))
      | Irecv \<Rightarrow>
          DynIrecv (MpiIrecv_new (MpiCall.current_rank c) (MpiCall.partner_rank c)
          (MpiCall.nb_bytes_r c) (MpiCall.comm c) (MpiCall.req c) (MpiCall.tag c)
          (MpiCall.tsc c) (MpiCall.duration c))
      | Barrier \<Rightarrow>
          DynBarrier (MpiBarrier_new (MpiCall.current_rank c) (MpiCall.comm c) (MpiCall.tsc c)
          (MpiCall.duration c))
      | Ibarrier \<Rightarrow>
          DynIbarrier (MpiIbarrier_new (MpiCall.current_rank c) (MpiCall.comm c)
          (MpiCall.req c) (MpiCall.tsc c) (MpiCall.duration c))
      | Test \<Rightarrow>
          DynTest (MpiTest_new (MpiCall.current_rank c) (MpiCall.req c) (MpiCall.finished c)
          (MpiCall.tsc c) (MpiCall.duration c))
      | Wait \<Rightarrow>
          DynWait (MpiWait_new (MpiCall.current_rank c) (MpiCall.req c) (MpiCall.tsc c)
          (MpiCall.duration c))
      | Ibcast \<Rightarrow>
          DynIbcast (MpiIbcast_new (MpiCall.current_rank c) (MpiCall.partner_rank c)
          (MpiCall.nb_bytes_s c) (MpiCall.comm c) (MpiCall.req c) (MpiCall.tsc c)
          (MpiCall.duration c))
      | Igather \<Rightarrow>
          DynIgather (MpiIgather_new (MpiCall.current_rank c) (MpiCall.partner_rank c)
          (MpiCall.nb_bytes_s c) (MpiCall.nb_bytes_r c) (MpiCall.comm c) (MpiCall.req c)
          (MpiCall.tsc c) (MpiCall.duration c))
      | Ireduce \<Rightarrow>
          DynIreduce (MpiIreduce_new (MpiCall.current_rank c) (MpiCall.partner_rank c)
          (MpiCall.nb_bytes_s c) (MpiCall.op_type c) (MpiCall.comm c) (MpiCall.req c)
          (MpiCall.tsc c) (MpiCall.duration c))
      | Iscatter \<Rightarrow>
          DynIscatter (MpiIscatter_new (MpiCall.current_rank c) (MpiCall.partner_rank c)
          (MpiCall.nb_bytes_s c) (MpiCall.nb_bytes_r c) (MpiCall.comm c) (MpiCall.req c)
          (MpiCall.tsc c) (MpiCall.duration c)))"

declare event_of_call.simps [simp del]

text \<open>The message of \<open>expect\<close> when the lock is poisoned.\<close>

fun lock_message :: "MpiCallType \<Rightarrow> string" where
  "lock_message Init =
     ''failed to take the lock on vector for `MpiInit` event''"
| "lock_message Initthread =
     ''failed to take the lock on vector for `MpiInitThread` event''"
| "lock_message Finalize =
     ''failed to take the lock on vector for `MpiFinalize` event''"
| "lock_message Send =
     ''failed to take the lock on vector for `MpiSend` event''"
| "lock_message Recv =
     ''failed to take the lock on vector for `MpiRecv` event''"
| "lock_message Isend =
     ''failed to take the lock on vector for `MpiIsend` event''"
| "lock_message Irecv =
     ''failed to take the lock on vector for `MpiIrecv` event''"
| "lock_message Barrier =
     ''failed to take the lock on vector for `MpiBarrier` event''"
| "lock_message Ibarrier =
     ''failed to take the lock on vector for `MpiIbarrier` event''"
| "lock_message Test =
     ''failed to take the lock on vector for `MpiTest` event''"
| "lock_message Wait =
     ''failed to take the lock on vector for `MpiWait` event''"
| "lock_message Ibcast =
     ''failed to take the lock on vector for `MpiIbcast` event''"
| "lock_message Igather =
     ''failed to take the lock on vector for `MpiIbcast` event''"
| "lock_message Ireduce =
     ''failed to take the lock on vector for `MpiIbcast` event''"
| "lock_message Iscatter =
     ''failed to take the lock on vector for `MpiIbcast` event''"

lemmas register_defs =
  register_init_def register_init_thread_def register_send_def register_recv_def
  register_isend_def register_irecv_def register_barrier_def register_ibarrier_def
  register_test_def register_wait_def register_ibcast_def register_igather_def
  register_ireduce_def register_iscatter_def

lemmas new_defs =
  MpiInit_new_def MpiInitThread_new_def MpiFinalize_new_def MpiSend_new_def MpiRecv_new_def
  MpiIsend_new_def MpiIrecv_new_def MpiBarrier_new_def MpiIbarrier_new_def MpiTest_new_def
  MpiWait_new_def MpiIbcast_new_def MpiIgather_new_def MpiIreduce_new_def MpiIscatter_new_def

lemma event_of_call_kind [simp]: "Register_kind (event_of_call c) = MpiCall.kind c"
  by (cases "MpiCall.kind c") (simp_all add: event_of_call.simps)

lemma event_of_call_tsc [simp]: "Register_tsc (event_of_call c) = MpiCall.tsc c"
  by (cases "MpiCall.kind c") (simp_all add: event_of_call.simps new_defs)

lemma event_of_call_rank [simp]: "Register_rank (event_of_call c) = MpiCall.current_rank c"
  by (cases "MpiCall.kind c") (simp_all add: event_of_call.simps new_defs)

context derived_builders
begin

text \<open>Every call but \<open>MPI_Finalize\<close> takes the lock and registers the event of the call.\<close>

lemma dispatch_other:
  assumes "MpiCall.kind c \<noteq> Finalize"
  shows "dispatch B J A S c p =
    lock_and_register A (lock_message (MpiCall.kind c)) (event_of_call c) p"
  using assms
  by (cases "MpiCall.kind c")
    (simp_all add: dispatch_def register_defs build_new event_of_call.simps)

lemma dispatch_finalize:
  assumes "MpiCall.kind c = Finalize"
  shows "dispatch B J A S c p =
    (case lock_and_register A (lock_message Finalize) (event_of_call c) p of
       (Done (Inr u), p') \<Rightarrow>
         (case serialize J S (events p') (MpiCall.current_rank c) p' of
            (Panicked m, p'') \<Rightarrow> (Panicked m, p''\<lparr>poisoned := True\<rparr>)
          | r \<Rightarrow> r)
     | r \<Rightarrow> r)"
  using assms
  by (simp add: dispatch_def register_finalize_def build_new event_of_call.simps)

text \<open>A poisoned lock makes every registration panic; nothing is recorded or written.\<close>

lemma dispatch_poisoned:
  "poisoned p \<Longrightarrow> dispatch B J A S c p =
     (Panicked (expect_msg (lock_message (MpiCall.kind c)) ''PoisonError { .. }''), p)"
  by (cases "MpiCall.kind c = Finalize")
    (simp_all add: dispatch_other dispatch_finalize lock_and_register_poisoned)

end

text \<open>From here on the messages are names, not strings.\<close>

declare lock_message.simps [simp del]

end
