(* ===== verification/Trace_Merge.thy ===== *)
theory Trace_Merge
  imports Registration
begin

text \<open>
  The aggregation that rank 0 runs after everybody has finalized: read every trace file of the
  directory (\<open>deserialize_all_traces\<close>), sort the events by time stamp, and write them to one file
  (\<open>sort_all_traces\<close>). rayon's parallel sort is a parameter with its documented contract.
\<close>

section \<open>Sorting, a parameter\<close>

type_synonym sorter = "(Register_dyn \<Rightarrow> Tsc) \<Rightarrow> Register_dyn list \<Rightarrow> Register_dyn list"

text \<open>\<open>par_sort_unstable_by_key\<close>: sorted by the key, the same elements, ties in any order.\<close>

locale unstable_sort =
  fixes par_sort :: sorter
  assumes par_sort_mset: "mset (par_sort key xs) = mset xs"
    and par_sort_sorted: "sorted (map key (par_sort key xs))"
begin

lemma par_sort_set [simp]: "set (par_sort key xs) = set xs"
  by (metis par_sort_mset set_mset_mset)

text \<open>Without ties the result is determined, whatever the order of the input.\<close>

lemma par_sort_unique:
  assumes "inj_on key (set xs)" and "mset xs = mset ys"
  shows "par_sort key ys = sort_key key xs"
proof -
  have "mset xs = mset (par_sort key ys)" using assms(2) by (simp add: par_sort_mset)
  from sort_key_inj_key_eq [OF this assms(1) par_sort_sorted] show ?thesis by simp
qed

end

definition reference_sort :: sorter where
  "reference_sort key xs = sort_key key xs"

interpretation reference_sort: unstable_sort reference_sort
  by unfold_locales (simp_all add: reference_sort_def)

section \<open>Reading the trace files\<close>

fun read_entries ::
    "serde \<Rightarrow> os \<Rightarrow> string list \<Rightarrow> disk \<Rightarrow> Register_dyn list \<Rightarrow> Register_dyn list result run \<times> disk" where
  "read_entries J S [] d all_traces = (Done (Inr all_traces), d)"
| "read_entries J S (name # names) d all_traces =
     (case os_entry S name of
        Some e \<Rightarrow> (Done (Inl (from_io_error e)), d)
      | None \<Rightarrow>
          if name = ''interpol_traces.json'' then
            (case remove_file S (in_dir name) d of
               Inl e \<Rightarrow> (Done (Inl (from_io_error e)), d)
             | Inr d' \<Rightarrow> read_entries J S names d' all_traces)
          else
            (case path_extension name of
               None \<Rightarrow> (Panicked ''called `Option::unwrap()` on a `None` value'', d)
             | Some ext \<Rightarrow>
                 if ext = ''json'' then
                   (case read_to_string S (in_dir name) d of
                      Inl e \<Rightarrow> (Done (Inl (from_io_error e)), d)
                    | Inr contents \<Rightarrow>
                        (case from_str J contents of
                           Inl dbg \<Rightarrow>
                             (Panicked (expect_msg ''failed to deserialize trace file contents'' dbg), d)
                         | Inr deserialized \<Rightarrow>
                             read_entries J S names d (all_traces @ deserialized)))
                 else read_entries J S names d all_traces))"

definition deserialize_all_traces ::
    "serde \<Rightarrow> os \<Rightarrow> disk \<Rightarrow> Register_dyn list result run \<times> disk" where
  "deserialize_all_traces J S d =
     (case read_dir S d of
        Inl e \<Rightarrow> (Done (Inl (from_io_error e)), d)
      | Inr names \<Rightarrow> read_entries J S names d [])"

section \<open>Sorting and writing all traces\<close>

definition sort_all_traces :: "serde \<Rightarrow> sorter \<Rightarrow> os \<Rightarrow> process \<Rightarrow> unit run \<times> process" where
  "sort_all_traces J par_sort S p0 =
     (let p = println ''[interpol]: deserializing traces for each rank'' p0 in
      case deserialize_all_traces J S (disk p) of
        (Panicked m, d) \<Rightarrow> (Panicked m, p\<lparr>disk := d\<rparr>)
      | (Aborted, d) \<Rightarrow> (Aborted, p\<lparr>disk := d\<rparr>)
      | (Done (Inl e), d) \<Rightarrow> (Panicked (InterpolError_fmt e), p\<lparr>disk := d\<rparr>)
      | (Done (Inr all_traces), d) \<Rightarrow>
          (let sorted_traces = par_sort Register_tsc all_traces;
               p1 = println (''[interpol]: sorting traces... finished in '' @ os_elapsed S)
                      (p\<lparr>disk := d\<rparr>);
               readable = (case os_var S ''INTERPOL_OUTPUT'' of
                             Some val \<Rightarrow> val = ''readable''
                           | None \<Rightarrow> False);
               p2 = println
                      (if readable then ''[interpol]: serializing all traces (pretty print)''
                       else ''[interpol]: serializing all traces (compressed print)'') p1
           in
           case (if readable then to_string_pretty J sorted_traces else to_string J sorted_traces) of
             Inl dbg \<Rightarrow> (Panicked (expect_msg ''failed to serialize all traces'' dbg), p2)
           | Inr serialized_traces \<Rightarrow>
               (case write_all_traces S serialized_traces p2 of
                  (Inr u, p3) \<Rightarrow> (Done (), p3)
                | (Inl e, p3) \<Rightarrow> (Done (), eprintln (InterpolError_fmt e) p3))))"

section \<open>What is read\<close>

text \<open>A system that refuses nothing and lists every entry of a directory once.\<close>

definition healthy :: "os \<Rightarrow> bool" where
  "healthy S \<longleftrightarrow> os_create_dir S = None \<and> os_open S = (\<lambda>_. None) \<and> os_write S = (\<lambda>_. None) \<and>
     os_read_dir S = None \<and> os_entry S = (\<lambda>_. None) \<and> os_read S = (\<lambda>_. None) \<and>
     os_remove S = (\<lambda>_. None) \<and> (\<forall>names. mset (os_listing S names) = mset names)"

definition is_trace_name :: "string \<Rightarrow> bool" where
  "is_trace_name name \<longleftrightarrow> name \<noteq> aggregate_file \<and> path_extension name = Some ''json''"

lemma is_trace_name_rank_file [simp]: "is_trace_name (rank_file r)"
  by (simp add: is_trace_name_def)

definition parsed :: "serde \<Rightarrow> disk \<Rightarrow> string \<Rightarrow> Register_dyn list" where
  "parsed J d name =
     (case content d (in_dir name) of
        None \<Rightarrow> []
      | Some c \<Rightarrow> (case from_str J c of Inl _ \<Rightarrow> [] | Inr es \<Rightarrow> es))"

text \<open>
  A directory that \<open>deserialize_all_traces\<close> can read: every name but the aggregate's has an
  extension, the aggregate is a file, and every \<open>.json\<close> entry is a file of events.
\<close>

definition mergeable :: "serde \<Rightarrow> (string \<times> node) list \<Rightarrow> bool" where
  "mergeable J es \<longleftrightarrow> distinct (map fst es) \<and>
     (\<forall>(name, nd) \<in> set es.
        (if name = aggregate_file then \<exists>c. nd = File c
         else path_extension name \<noteq> None \<and>
           (path_extension name = Some ''json'' \<longrightarrow> (\<exists>c es'. nd = File c \<and> from_str J c = Inr es'))))"

definition without_aggregate :: "disk \<Rightarrow> disk" where
  "without_aggregate d = map_option (AList.delete aggregate_file) d"

lemma content_without_aggregate:
  "content (without_aggregate d) q = (if q = in_dir aggregate_file then None else content d q)"
  by (cases d) (auto simp: without_aggregate_def content_Some_entries entry_name_Some
      delete_conv' split: option.splits)

lemma parsed_without_aggregate:
  "name \<noteq> aggregate_file \<Longrightarrow> parsed J (without_aggregate d) name = parsed J d name"
  by (simp add: parsed_def content_without_aggregate)

lemma mergeable_trace_file:
  assumes "mergeable J es" and "name \<in> fst ` set es" and "name \<noteq> aggregate_file"
    and "path_extension name = Some ''json''"
  shows "\<exists>c. content (Some es) (in_dir name) = Some c \<and> from_str J c = Inr (parsed J (Some es) name)"
proof -
  from assms obtain c es' where c: "(name, File c) \<in> set es" "from_str J c = Inr es'"
    by (fastforce simp: mergeable_def)
  moreover have "distinct (map fst es)" using assms(1) by (simp add: mergeable_def)
  ultimately have "content (Some es) (in_dir name) = Some c"
    by (simp add: content_Some_entries)
  with c show ?thesis by (simp add: parsed_def)
qed

lemma mergeable_extension:
  assumes "mergeable J es" and "name \<in> fst ` set es" and "name \<noteq> aggregate_file"
  shows "\<exists>ext. path_extension name = Some ext"
  using assms by (fastforce simp: mergeable_def)

lemma remove_aggregate:
  assumes "healthy S" and "mergeable J es" and "aggregate_file \<in> fst ` set es"
  shows "remove_file S (in_dir aggregate_file) (Some es) = Inr (without_aggregate (Some es))"
proof -
  from assms(2,3) obtain c where "(aggregate_file, File c) \<in> set es" "distinct (map fst es)"
    by (fastforce simp: mergeable_def)
  then have "map_of es aggregate_file = Some (File c)" by simp
  with assms(1) show ?thesis
    by (simp add: remove_file_def healthy_def without_aggregate_def)
qed

lemma read_entries_mergeable:
  assumes "healthy S" and "mergeable J es"
    and "distinct names" and "set names \<subseteq> fst ` set es"
    and "d = Some es \<or> d = without_aggregate (Some es) \<and> aggregate_file \<notin> set names"
  shows "read_entries J S names d acc =
    (Done (Inr (acc @ concat (map (parsed J (Some es)) (filter is_trace_name names)))),
     if aggregate_file \<in> set names then without_aggregate (Some es) else d)"
  using assms(3-5)
proof (induction names arbitrary: d acc)
  case Nil
  then show ?case by simp
next
  case (Cons name names)
  have entry: "os_entry S name = None" and read: "os_read S p = None" for p
    using assms(1) by (simp_all add: healthy_def)
  show ?case
  proof (cases "name = aggregate_file")
    case True
    with Cons.prems have d: "d = Some es" and notin: "aggregate_file \<notin> set names" by auto
    have rm: "remove_file S (in_dir name) d = Inr (without_aggregate (Some es))"
      unfolding True d using remove_aggregate [OF assms(1,2)] Cons.prems(2) True by simp
    have "read_entries J S (name # names) d acc =
        read_entries J S names (without_aggregate (Some es)) acc"
      using entry rm True by (simp add: aggregate_file_def [symmetric])
    with Cons.IH [of "without_aggregate (Some es)" acc] Cons.prems notin True show ?thesis
      by (simp add: is_trace_name_def)
  next
    case False
    then have not_agg: "name \<noteq> ''interpol_traces.json''" by (simp add: aggregate_file_def)
    from Cons.prems False have name: "name \<in> fst ` set es" by simp
    from mergeable_extension [OF assms(2) name False] obtain ext
      where ext: "path_extension name = Some ext" by blast
    have IH: "read_entries J S names d acc' =
        (Done (Inr (acc' @ concat (map (parsed J (Some es)) (filter is_trace_name names)))),
         if aggregate_file \<in> set names then without_aggregate (Some es) else d)" for acc'
      using Cons.prems by (intro Cons.IH) auto
    show ?thesis
    proof (cases "ext = ''json''")
      case True
      from mergeable_trace_file [OF assms(2) name False] ext True obtain c
        where c: "content (Some es) (in_dir name) = Some c"
          and parse: "from_str J c = Inr (parsed J (Some es) name)" by blast
      have "content d (in_dir name) = Some c"
        using Cons.prems(3) c False by (auto simp: content_without_aggregate)
      then have "read_to_string S (in_dir name) d = Inr c"
        by (simp add: read_to_string_def read)
      moreover have "is_trace_name name"
        using ext True False by (simp add: is_trace_name_def)
      ultimately show ?thesis
        using entry not_agg ext True parse IH False by simp
    next
      case other: False
      with ext have "\<not> is_trace_name name" by (simp add: is_trace_name_def)
      with entry not_agg ext other IH False show ?thesis by simp
    qed
  qed
qed

text \<open>
  The files a merge reads, in the order the system lists them, and all their events. Only the
  multiset of the events does not depend on that order.
\<close>

definition trace_names :: "os \<Rightarrow> (string \<times> node) list \<Rightarrow> string list" where
  "trace_names S es = filter is_trace_name (os_listing S (map fst es))"

definition node_events :: "serde \<Rightarrow> node \<Rightarrow> Register_dyn list" where
  "node_events J nd =
     (case nd of Subdir \<Rightarrow> [] | File c \<Rightarrow> (case from_str J c of Inl _ \<Rightarrow> [] | Inr es \<Rightarrow> es))"

definition disk_events :: "serde \<Rightarrow> (string \<times> node) list \<Rightarrow> Register_dyn multiset" where
  "disk_events J es =
     (\<Sum>p \<in># filter_mset (\<lambda>p. is_trace_name (fst p)) (mset es). mset (node_events J (snd p)))"

lemma parsed_node_events:
  assumes "distinct (map fst es)" and "(name, nd) \<in> set es"
  shows "parsed J (Some es) name = node_events J nd"
  using assms by (cases nd) (simp_all add: parsed_def node_events_def content_Some_entries)

lemma deserialize_mergeable:
  assumes "healthy S" and "mergeable J es"
  shows "deserialize_all_traces J S (Some es) =
    (Done (Inr (concat (map (parsed J (Some es)) (trace_names S es)))),
     without_aggregate (Some es))"
proof -
  let ?names = "os_listing S (map fst es)"
  have perm: "mset ?names = mset (map fst es)"
    using assms(1) by (simp add: healthy_def)
  then have set: "set ?names = fst ` set es"
    by (metis mset_eq_setD set_map)
  have distinct: "distinct ?names"
    using perm assms(2) by (metis mergeable_def mset_eq_imp_distinct_iff)
  have absent: "aggregate_file \<notin> fst ` set es \<Longrightarrow> without_aggregate (Some es) = Some es"
    by (simp add: without_aggregate_def delete_id)
  have "read_dir S (Some es) = Inr ?names"
    using assms(1) by (simp add: read_dir_def healthy_def)
  with read_entries_mergeable [OF assms distinct, of "Some es" "[]"] set absent show ?thesis
    by (auto simp: deserialize_all_traces_def trace_names_def)
qed

lemma mset_concat_map: "mset (concat (map f xs)) = (\<Sum>x \<in># mset xs. mset (f x))"
  by (induction xs) auto

lemma mset_trace_names:
  assumes "healthy S" and "distinct (map fst es)"
  shows "mset (concat (map (parsed J (Some es)) (trace_names S es))) = disk_events J es"
proof -
  have "mset (trace_names S es) =
      image_mset fst (filter_mset (\<lambda>p. is_trace_name (fst p)) (mset es))"
    using assms(1) by (simp add: trace_names_def healthy_def filter_mset_image_mset)
  moreover have "image_mset (\<lambda>p. mset (parsed J (Some es) (fst p)))
        (filter_mset (\<lambda>p. is_trace_name (fst p)) (mset es)) =
      image_mset (\<lambda>p. mset (node_events J (snd p)))
        (filter_mset (\<lambda>p. is_trace_name (fst p)) (mset es))"
    using parsed_node_events [OF assms(2)] by (intro image_mset_cong) auto
  ultimately show ?thesis
    by (simp add: mset_concat_map disk_events_def image_mset.compositionality comp_def)
qed

text \<open>Writing a file replaces the entry of its name and keeps the directory mergeable.\<close>

lemma mset_update:
  "distinct (map fst es) \<Longrightarrow>
     mset (AList.update k v es) = add_mset (k, v) (filter_mset (\<lambda>p. fst p \<noteq> k) (mset es))"
proof (induction es)
  case Nil
  then show ?case by simp
next
  case (Cons e es)
  show ?case
  proof (cases "fst e = k")
    case True
    with Cons.prems have "k \<notin> fst ` set es" by auto
    then have "filter (\<lambda>p. fst p \<noteq> k) es = es"
      by (intro filter_True) (metis image_eqI)
    then have "filter_mset (\<lambda>p. fst p \<noteq> k) (mset es) = mset es"
      by (metis mset_filter)
    with True show ?thesis by (cases e) simp
  next
    case False
    with Cons show ?thesis by (cases e) simp
  qed
qed

lemma mergeable_update:
  assumes "mergeable J es" and "is_trace_name k" and "from_str J c = Inr x"
  shows "mergeable J (AList.update k (File c) es)"
proof -
  have d: "distinct (map fst es)" using assms(1) by (simp add: mergeable_def)
  have "set (AList.update k (File c) es) = insert (k, File c) {p \<in> set es. fst p \<noteq> k}"
    using mset_update [OF d, of k "File c"] by (metis set_mset_mset set_mset_add_mset_insert
        set_mset_filter)
  moreover have "distinct (map fst (AList.update k (File c) es))"
    using d by (rule distinct_update)
  ultimately show ?thesis
    using assms by (auto simp: mergeable_def is_trace_name_def)
qed

lemma mergeable_no_subdir:
  assumes "mergeable J es" and "is_trace_name k"
  shows "map_of es k \<noteq> Some Subdir"
  using assms by (auto simp: mergeable_def is_trace_name_def dest!: map_of_SomeD)

section \<open>What sort\_all\_traces writes\<close>

definition wants_readable :: "os \<Rightarrow> bool" where
  "wants_readable S \<longleftrightarrow> os_var S ''INTERPOL_OUTPUT'' = Some ''readable''"

lemma wants_readable_case:
  "(case os_var S ''INTERPOL_OUTPUT'' of Some val \<Rightarrow> val = ''readable'' | None \<Rightarrow> False) =
     wants_readable S"
  by (simp add: wants_readable_def split: option.split)

lemma healthy_grants_writes: "healthy S \<Longrightarrow> grants_writes S"
  by (simp add: healthy_def grants_writes_def)

text \<open>
  On a mergeable directory the aggregation writes, for the events of all trace files sorted by time
  stamp, their text in the form \<open>INTERPOL_OUTPUT\<close> asks for.
\<close>

lemma sort_all_traces_mergeable:
  assumes "serde_codec J reread" and "unstable_sort par_sort"
    and "healthy S" and "mergeable J es" and d: "disk p = Some es"
  obtains out json p' where "sort_all_traces J par_sort S p = (Done (), p')"
    and "out = par_sort Register_tsc (concat (map (parsed J (Some es)) (trace_names S es)))"
    and "(if wants_readable S then to_string_pretty J out else to_string J out) = Inr json"
    and "disk p' = disk_put aggregate_file json (without_aggregate (Some es))"
    and "guarded p' = guarded p" and "stderr p' = stderr p"
proof -
  define out where
    "out = par_sort Register_tsc (concat (map (parsed J (Some es)) (trace_names S es)))"
  obtain json where
    json: "(if wants_readable S then to_string_pretty J out else to_string J out) = Inr json"
    using serde_codec.to_string_total [OF assms(1)] serde_codec.to_string_pretty_total [OF assms(1)]
    by metis
  have no_dir: "map_of (AList.delete aggregate_file es) aggregate_file \<noteq> Some Subdir"
    by (simp add: delete_conv')
  have writes: "write_all_traces S json q =
      (Inr (), q\<lparr>disk := disk_put aggregate_file json (disk q)\<rparr>)"
    if "disk q = without_aggregate (Some es)" for q
    using write_all_traces_granted [OF healthy_grants_writes [OF assms(3)] _ no_dir] that
    by (simp add: without_aggregate_def)
  show ?thesis
  proof (rule that)
    show "sort_all_traces J par_sort S p = (Done (), snd (sort_all_traces J par_sort S p))"
      and "disk (snd (sort_all_traces J par_sort S p)) =
        disk_put aggregate_file json (without_aggregate (Some es))"
      and "guarded (snd (sort_all_traces J par_sort S p)) = guarded p"
      and "stderr (snd (sort_all_traces J par_sort S p)) = stderr p"
      using json deserialize_mergeable [OF assms(3,4)]
      by (cases "wants_readable S"; simp add: sort_all_traces_def d Let_def wants_readable_case
          out_def [symmetric] writes)+
  qed (use json out_def in auto)
qed

end
