(* ===== verification/Mpi_Job.thy ===== *)
theory Mpi_Job
  imports Trace_Merge
begin

text \<open>
  Whole runs: the calls of one rank in order (\<open>run_calls\<close>), all ranks of a job that share the
  directory (\<open>run_ranks\<close>), and the aggregation by rank 0. The barrier around the finalize call
  makes every rank write its file before rank 0 aggregates; in which order the ranks write is not
  fixed, so the lemmas hold for every order of the list of ranks.
\<close>

section \<open>The calls of one rank\<close>

type_synonym env_call = "allocator \<times> os \<times> MpiCall"

text \<open>A panic or an abort ends the process, and with it the run.\<close>

fun run_calls :: "builders \<Rightarrow> serde \<Rightarrow> env_call list \<Rightarrow> process \<Rightarrow> unit run \<times> process" where
  "run_calls B J [] p = (Done (), p)"
| "run_calls B J ((A, S, c) # cs) p =
     (case register_mpi_call B J A S c p of
        (Done u, p') \<Rightarrow> run_calls B J cs p'
      | r \<Rightarrow> r)"

definition call_of :: "env_call \<Rightarrow> MpiCall" where
  "call_of ec = snd (snd ec)"

definition calls_of :: "env_call list \<Rightarrow> MpiCall list" where
  "calls_of = map call_of"

lemma calls_of_simps [simp]:
  "calls_of [] = []" "calls_of ((A, S, c) # cs) = c # calls_of cs"
  "calls_of (xs @ ys) = calls_of xs @ calls_of ys" "length (calls_of cs) = length cs"
  by (simp_all add: calls_of_def call_of_def)

lemma run_calls_append:
  "run_calls B J (cs @ cs') p =
     (case run_calls B J cs p of (Done u, p') \<Rightarrow> run_calls B J cs' p' | r \<Rightarrow> r)"
  by (induction B J cs p rule: run_calls.induct) (auto split: prod.splits run.splits)

definition ample :: "env_call list \<Rightarrow> bool" where
  "ample cs \<longleftrightarrow> (\<forall>(A, S, c) \<in> set cs. generous A \<and> grants_writes S)"

lemma ample_simps [simp]:
  "ample []" "ample ((A, S, c) # cs) \<longleftrightarrow> generous A \<and> grants_writes S \<and> ample cs"
  "ample (xs @ ys) \<longleftrightarrow> ample xs \<and> ample ys"
  by (simp_all add: ample_def ball_Un)

text \<open>Without faults, calls other than \<open>MPI_Finalize\<close> only add their events to the trace.\<close>

lemma run_calls_ample:
  assumes B: "derived_builders B" and "process_inv p" and "\<not> poisoned p" and "ample cs"
    and "\<forall>c \<in> set (calls_of cs). MpiCall.kind c \<noteq> Finalize"
    and "3 * (length (events p) + length cs) * elem_size \<le> isize_max"
  shows "\<exists>g. run_calls B J cs p = (Done (), p\<lparr>guarded := g\<rparr>) \<and> vec_inv g \<and>
    items g = events p @ map event_of_call (calls_of cs)"
  using assms(2-6)
proof (induction cs arbitrary: p)
  case Nil
  then show ?case
    by (intro exI [where x = "guarded p"]) (simp add: process_inv_def events_def)
next
  case (Cons ec cs)
  obtain A S c where ec: "ec = (A, S, c)" by (cases ec)
  have "has_room p" using Cons.prems(5) by (simp add: has_room_def elem_size_def)
  moreover have "generous A" using Cons.prems(3) ec by simp
  ultimately obtain g where g: "lock_and_register A (lock_message (MpiCall.kind c)) (event_of_call c) p =
      (Done (Inr ()), p\<lparr>guarded := g\<rparr>)"
    and items: "items g = events p @ [event_of_call c]" and inv: "vec_inv g"
    using lock_and_register_generous [OF Cons.prems(1,2)] by blast
  have "MpiCall.kind c \<noteq> Finalize" using Cons.prems(4) ec by simp
  with g have step: "register_mpi_call B J A S c p = (Done (), p\<lparr>guarded := g\<rparr>)"
    by (simp add: register_mpi_call_def derived_builders.dispatch_other [OF B])
  have "\<exists>g'. run_calls B J cs (p\<lparr>guarded := g\<rparr>) = (Done (), p\<lparr>guarded := g\<rparr>\<lparr>guarded := g'\<rparr>) \<and>
      vec_inv g' \<and> items g' = events (p\<lparr>guarded := g\<rparr>) @ map event_of_call (calls_of cs)"
    using Cons.prems ec inv items
    by (intro Cons.IH) (simp_all add: process_inv_def events_def)
  then show ?case using step ec items by (simp add: events_def)
qed

section \<open>A rank from start to finalize\<close>

text \<open>The calls of rank \<open>r\<close>: calls other than \<open>MPI_Finalize\<close>, then \<open>MPI_Finalize\<close> with its rank.\<close>

definition rank_run :: "MpiRank \<Rightarrow> env_call list \<Rightarrow> bool" where
  "rank_run r cs \<longleftrightarrow> cs \<noteq> [] \<and>
     (\<forall>c \<in> set (calls_of (butlast cs)). MpiCall.kind c \<noteq> Finalize) \<and>
     MpiCall.kind (call_of (last cs)) = Finalize \<and>
     MpiCall.current_rank (call_of (last cs)) = r"

definition fits :: "env_call list \<Rightarrow> bool" where
  "fits cs \<longleftrightarrow> 3 * length cs * elem_size \<le> isize_max"

definition finalize_state :: "MpiRank \<Rightarrow> string \<Rightarrow> Register_dyn rvec \<Rightarrow> process \<Rightarrow> process" where
  "finalize_state r json g p =
     (println (''[interpol]: serializing traces for rank '' @ show_i32 r) (p\<lparr>guarded := g\<rparr>))
       \<lparr>disk := disk_put (rank_file r) json (disk p)\<rparr>"

text \<open>Without faults \<open>MPI_Finalize\<close> writes the text of all events to the rank's file.\<close>

lemma finalize_call:
  assumes B: "derived_builders B" and "process_inv p" and "\<not> poisoned p" and "has_room p"
    and "generous A" and S: "grants_writes S"
    and c: "MpiCall.kind c = Finalize" "MpiCall.current_rank c = r"
    and no_subdir: "map_of (entries (disk p)) (rank_file r) \<noteq> Some Subdir"
    and J: "to_string J (events p @ [event_of_call c]) = Inr json"
  shows "\<exists>g. register_mpi_call B J A S c p = (Done (), finalize_state r json g p) \<and>
    items g = events p @ [event_of_call c] \<and> vec_inv g"
proof -
  from lock_and_register_generous [OF assms(2,3,5,4)] obtain g
    where g: "lock_and_register A (lock_message Finalize) (event_of_call c) p =
        (Done (Inr ()), p\<lparr>guarded := g\<rparr>)"
      and items: "items g = events p @ [event_of_call c]" and inv: "vec_inv g" by blast
  have "serialize J S (items g) r (p\<lparr>guarded := g\<rparr>) = (Done (Inr ()), finalize_state r json g p)"
    using serialize_granted [OF S, of "p\<lparr>guarded := g\<rparr>" r J "items g" json] no_subdir J items
    by (simp add: finalize_state_def)
  then have "register_mpi_call B J A S c p = (Done (), finalize_state r json g p)"
    using g c by (simp add: register_mpi_call_def derived_builders.dispatch_finalize [OF B] events_def)
  with items inv show ?thesis by blast
qed

lemma run_rank:
  assumes B: "derived_builders B" and J: "to_string J (map event_of_call (calls_of cs)) = Inr json"
    and run: "rank_run r cs" and "ample cs" and "fits cs"
    and no_subdir: "map_of (entries d) (rank_file r) \<noteq> Some Subdir"
  shows "\<exists>g. run_calls B J cs (process_init d) = (Done (), finalize_state r json g (process_init d)) \<and>
    items g = map event_of_call (calls_of cs) \<and> vec_inv g"
proof -
  obtain A S c where last: "last cs = (A, S, c)" by (cases "last cs")
  define body where "body = butlast cs"
  have cs: "cs = body @ [(A, S, c)]"
    using run last by (metis append_butlast_last_id body_def rank_run_def)
  have c: "MpiCall.kind c = Finalize" "MpiCall.current_rank c = r"
    using run last by (simp_all add: rank_run_def call_of_def)
  have len: "3 * (length (events (process_init d)) + length body) * elem_size \<le> isize_max"
    using \<open>fits cs\<close> cs by (simp add: fits_def elem_size_def)
  obtain g where g: "run_calls B J body (process_init d) = (Done (), process_init d\<lparr>guarded := g\<rparr>)"
    and inv: "vec_inv g" and items: "items g = map event_of_call (calls_of body)"
    using run_calls_ample [OF B process_inv_init _ _ _ len] run \<open>ample cs\<close> cs
    by (fastforce simp: rank_run_def)
  let ?p = "process_init d\<lparr>guarded := g\<rparr>"
  have "process_inv ?p" "\<not> poisoned ?p" "has_room ?p" "generous A" "grants_writes S"
    and evs: "events ?p @ [event_of_call c] = map event_of_call (calls_of cs)"
    using inv items \<open>fits cs\<close> \<open>ample cs\<close> cs
    by (simp_all add: process_inv_def has_room_def events_def fits_def elem_size_def)
  with finalize_call [OF B _ _ _ _ _ c, of ?p A S J json] J no_subdir obtain g'
    where "register_mpi_call B J A S c ?p = (Done (), finalize_state r json g' ?p)"
      and "items g' = events ?p @ [event_of_call c]" and "vec_inv g'" by auto
  with g cs evs show ?thesis by (auto simp: run_calls_append finalize_state_def)
qed

section \<open>All ranks of a job\<close>

type_synonym job = "(MpiRank \<times> env_call list) list"

fun run_ranks :: "builders \<Rightarrow> serde \<Rightarrow> job \<Rightarrow> disk \<Rightarrow> disk option" where
  "run_ranks B J [] d = Some d"
| "run_ranks B J ((r, cs) # rs) d =
     (case run_calls B J cs (process_init d) of
        (Done u, p) \<Rightarrow> run_ranks B J rs (disk p)
      | _ \<Rightarrow> None)"

definition job_ok :: "job \<Rightarrow> bool" where
  "job_ok ranks \<longleftrightarrow> distinct (map fst ranks) \<and>
     (\<forall>(r, cs) \<in> set ranks. rank_run r cs \<and> ample cs \<and> fits cs \<and>
        finite_times (map event_of_call (calls_of cs)))"

definition recorded :: "env_call list \<Rightarrow> Register_dyn list" where
  "recorded cs = map event_of_call (calls_of cs)"

text \<open>The events of a job after a reading of their times, and the entries of a directory that the
  job does not overwrite.\<close>

definition job_events :: "(Usecs \<Rightarrow> Usecs) \<Rightarrow> job \<Rightarrow> Register_dyn multiset" where
  "job_events f ranks = (\<Sum>(r, cs) \<leftarrow> ranks. mset (map (map_time f) (recorded cs)))"

definition leftovers :: "job \<Rightarrow> (string \<times> node) list \<Rightarrow> (string \<times> node) list" where
  "leftovers ranks es = filter (\<lambda>p. fst p \<notin> rank_file ` fst ` set ranks) es"

lemma job_ok_Cons:
  "job_ok ((r, cs) # rs) \<longleftrightarrow> r \<notin> fst ` set rs \<and> rank_run r cs \<and> ample cs \<and> fits cs \<and>
     finite_times (recorded cs) \<and> job_ok rs"
  by (auto simp: job_ok_def recorded_def)

lemma disk_events_put:
  assumes "distinct (map fst es)" and "is_trace_name k" and "r = rank_file ` X" and "k \<notin> r"
    and "from_str J c = Inr evs"
  shows "disk_events J (filter (\<lambda>p. fst p \<notin> r) (AList.update k (File c) es)) =
    disk_events J (filter (\<lambda>p. fst p \<noteq> k \<and> fst p \<notin> r) es) + mset evs"
  using assms
  by (simp add: disk_events_def mset_update filter_filter_mset conj_ac node_events_def)

text \<open>Writing a rank's trace file into a readable directory.\<close>

lemma put_trace:
  assumes "mergeable J (entries d)" and "from_str J s = Inr evs"
  shows "mergeable J (entries (disk_put (rank_file r) s d))"
    and "r \<notin> fst ` set rs \<Longrightarrow> disk_events J (leftovers rs (entries (disk_put (rank_file r) s d))) =
      disk_events J (leftovers ((r, cs) # rs) (entries d)) + mset evs"
proof -
  show "mergeable J (entries (disk_put (rank_file r) s d))"
    using mergeable_update [OF assms(1) _ assms(2)] by (simp add: disk_put_def)
  have "distinct (map fst (entries d))" using assms(1) by (simp add: mergeable_def)
  then show "r \<notin> fst ` set rs \<Longrightarrow> disk_events J (leftovers rs (entries (disk_put (rank_file r) s d))) =
      disk_events J (leftovers ((r, cs) # rs) (entries d)) + mset evs"
    using disk_events_put [OF _ _ refl _ assms(2), of "entries d" "rank_file r" "fst ` set rs"]
    by (simp add: leftovers_def disk_put_def image_iff)
qed

text \<open>A rank without faults writes a file from which its events are read back.\<close>

lemma rank_leaves_file:
  assumes B: "derived_builders B" and J: "serde_codec J reread" and merge: "mergeable J (entries d)"
    and ok: "rank_run r cs" "ample cs" "fits cs" "finite_times (recorded cs)"
  obtains json p where "run_calls B J cs (process_init d) = (Done (), p)"
    and "disk p = disk_put (rank_file r) json d"
    and "from_str J json = Inr (map (map_time reread) (recorded cs))"
proof -
  obtain json where json: "to_string J (recorded cs) = Inr json"
    using serde_codec.to_string_total [OF J] by blast
  with ok(4) have parse: "from_str J json = Inr (map (map_time reread) (recorded cs))"
    using serde_codec.from_to_string [OF J] by blast
  have "map_of (entries d) (rank_file r) \<noteq> Some Subdir"
    using mergeable_no_subdir [OF merge] by simp
  from run_rank [OF B json [unfolded recorded_def] ok(1-3) this] obtain g
    where "run_calls B J cs (process_init d) = (Done (), finalize_state r json g (process_init d))" by blast
  with parse that show ?thesis by (simp add: finalize_state_def)
qed

lemma run_ranks_ok:
  assumes B: "derived_builders B" and J: "serde_codec J reread"
    and "job_ok ranks" and "mergeable J (entries d)"
  shows "\<exists>d'. run_ranks B J ranks d = Some d' \<and> mergeable J (entries d') \<and>
    (ranks \<noteq> [] \<longrightarrow> d' \<noteq> None) \<and>
    disk_events J (entries d') =
      job_events reread ranks + disk_events J (leftovers ranks (entries d))"
  using assms(3,4)
proof (induction ranks arbitrary: d)
  case Nil
  then show ?case by (simp add: job_events_def leftovers_def)
next
  case (Cons rcs rs)
  obtain r cs where rcs: "rcs = (r, cs)" by (cases rcs)
  note ok = Cons.prems(1) [unfolded rcs job_ok_Cons]
  obtain json p where run: "run_calls B J cs (process_init d) = (Done (), p)"
    and disk: "disk p = disk_put (rank_file r) json d"
    and parse: "from_str J json = Inr (map (map_time reread) (recorded cs))"
    using rank_leaves_file [OF B J Cons.prems(2)] ok by blast
  let ?d = "disk_put (rank_file r) json d"
  note put = put_trace [OF Cons.prems(2) parse]
  have merge: "mergeable J (entries ?d)" by (rule put(1))
  from Cons.IH [OF _ merge] ok obtain d' where d': "run_ranks B J rs ?d = Some d'"
    "mergeable J (entries d')" "rs \<noteq> [] \<longrightarrow> d' \<noteq> None"
    "disk_events J (entries d') =
      job_events reread rs + disk_events J (leftovers rs (entries ?d))" by blast
  have "disk_events J (leftovers rs (entries ?d)) =
      disk_events J (leftovers ((r, cs) # rs) (entries d)) + mset (map (map_time reread) (recorded cs))"
    using ok by (intro put(2)) simp
  moreover have "run_ranks B J (rcs # rs) d = Some d'"
    using run d'(1) rcs disk by simp
  moreover have "d' \<noteq> None"
    using d'(1,3) by (cases rs) (auto simp: disk_put_def)
  ultimately show ?case
    using d'(2,4) rcs by (simp add: job_events_def)
qed

end
