(* ===== verification/Json_Text.thy ===== *)
theory Json_Text
  imports Prelude
begin

text \<open>
  JSON text for arrays of flat objects, the shape of every trace file: tokens, a lexer that skips
  white space, a parser of token lists, and the two layouts of serde\_json (compact and pretty).
  This is the reference instance of the parameter of \<open>Trace_Output\<close>, not code of the repository.
\<close>

section \<open>Tokens\<close>

datatype token =
    LBrack | RBrack | LBrace | RBrace | Colon | Comma
  | TStr string | TNum string | TBool bool | TNull

fun show_token :: "token \<Rightarrow> string" where
  "show_token LBrack = ''[''"
| "show_token RBrack = '']''"
| "show_token LBrace = ''{''"
| "show_token RBrace = ''}''"
| "show_token Colon = '':''"
| "show_token Comma = '',''"
| "show_token (TStr s) = CHR 0x22 # s @ [CHR 0x22]"
| "show_token (TNum s) = s"
| "show_token (TBool b) = (if b then ''true'' else ''false'')"
| "show_token TNull = ''null''"

definition is_space :: "char \<Rightarrow> bool" where
  "is_space c \<longleftrightarrow> c = CHR '' '' \<or> c = CHR 0x0A"

definition num_start :: "char \<Rightarrow> bool" where
  "num_start c \<longleftrightarrow> is_digit_char c \<or> c = CHR ''-''"

definition word_char :: "char \<Rightarrow> bool" where
  "word_char c \<longleftrightarrow> num_start c \<or> c = CHR ''+'' \<or> c = CHR ''.'' \<or>
     97 \<le> (of_char c :: nat) \<and> (of_char c :: nat) \<le> 122"

definition word_token :: "string \<Rightarrow> token option" where
  "word_token s =
     (if s = ''true'' then Some (TBool True)
      else if s = ''false'' then Some (TBool False)
      else if s = ''null'' then Some TNull
      else case s of c # _ \<Rightarrow> if num_start c then Some (TNum s) else None | [] \<Rightarrow> None)"

definition punct :: "char \<Rightarrow> token option" where
  "punct c =
     (if c = CHR ''['' then Some LBrack else if c = CHR '']'' then Some RBrack
      else if c = CHR ''{'' then Some LBrace else if c = CHR ''}'' then Some RBrace
      else if c = CHR '':'' then Some Colon else if c = CHR '','' then Some Comma else None)"

function lex :: "string \<Rightarrow> token list option" where
  "lex [] = Some []"
| "lex (c # cs) =
     (if is_space c then lex cs
      else case punct c of
        Some t \<Rightarrow> map_option (Cons t) (lex cs)
      | None \<Rightarrow>
          if c = CHR 0x22 then
            (case dropWhile (\<lambda>d. d \<noteq> CHR 0x22) cs of
               [] \<Rightarrow> None
             | _ # rest \<Rightarrow>
                 map_option (Cons (TStr (takeWhile (\<lambda>d. d \<noteq> CHR 0x22) cs)))
                   (if length rest < length (c # cs) then lex rest else None))
          else if word_char c then
            (case word_token (c # takeWhile word_char cs) of
               None \<Rightarrow> None
             | Some t \<Rightarrow> map_option (Cons t) (lex (dropWhile word_char cs)))
          else None)"
  by pat_completeness auto
termination
  by (relation "measure length") (auto simp: le_imp_less_Suc length_dropWhile_le)

declare lex.simps(2) [simp del]

fun wordlike :: "token \<Rightarrow> bool" where
  "wordlike (TNum _) = True"
| "wordlike (TBool _) = True"
| "wordlike TNull = True"
| "wordlike _ = False"

fun token_ok :: "token \<Rightarrow> bool" where
  "token_ok (TStr s) \<longleftrightarrow> CHR 0x22 \<notin> set s"
| "token_ok (TNum s) \<longleftrightarrow>
     (case s of [] \<Rightarrow> False | c # cs \<Rightarrow> num_start c \<and> list_all word_char cs)"
| "token_ok _ \<longleftrightarrow> True"

definition ends_word :: "string \<Rightarrow> bool" where
  "ends_word rest \<longleftrightarrow> (case rest of [] \<Rightarrow> True | c # _ \<Rightarrow> \<not> word_char c)"

lemma num_start_chars:
  "num_start c \<Longrightarrow> word_char c \<and> \<not> is_space c \<and> punct c = None \<and> c \<noteq> CHR 0x22 \<and>
     c \<noteq> CHR ''t'' \<and> c \<noteq> CHR ''f'' \<and> c \<noteq> CHR ''n''"
proof -
  assume c: "num_start c"
  have "\<forall>d \<in> set ''[]{}:, tfn''. \<not> num_start d"
    and "\<not> num_start (CHR 0x0A)" and "\<not> num_start (CHR 0x22)"
    by (simp_all add: num_start_def is_digit_char_def)
  with c have "c \<notin> set ''[]{}:, tfn''" and "c \<noteq> CHR 0x0A" and "c \<noteq> CHR 0x22"
    by blast+
  with c show ?thesis by (simp add: word_char_def is_space_def punct_def)
qed

lemma take_word:
  assumes "list_all word_char cs" and "ends_word rest"
  shows "takeWhile word_char (cs @ rest) = cs" and "dropWhile word_char (cs @ rest) = rest"
proof -
  have "takeWhile word_char rest = []" and "dropWhile word_char rest = rest"
    using assms(2) by (auto simp: ends_word_def split: list.splits)
  with assms(1) show "takeWhile word_char (cs @ rest) = cs"
    and "dropWhile word_char (cs @ rest) = rest"
    by (simp_all add: takeWhile_append dropWhile_append list_all_iff)
qed

lemma lex_word:
  assumes "word_char c" "\<not> is_space c" "punct c = None" "c \<noteq> CHR 0x22"
    and "list_all word_char cs" and "word_token (c # cs) = Some t" and "ends_word rest"
  shows "lex ((c # cs) @ rest) = map_option (Cons t) (lex rest)"
  using assms take_word [OF assms(5,7)] by (simp add: lex.simps(2))

lemma word_chars: "word_char (CHR ''t'')" "word_char (CHR ''f'')" "word_char (CHR ''n'')"
  "list_all word_char ''rue''" "list_all word_char ''alse''" "list_all word_char ''ull''"
  by (simp_all add: word_char_def)

lemma lex_token:
  assumes "token_ok t" and "wordlike t \<Longrightarrow> ends_word rest"
  shows "lex (show_token t @ rest) = map_option (Cons t) (lex rest)"
proof (cases t)
  case (TStr s)
  with assms(1) have no: "\<forall>d \<in> set s. d \<noteq> CHR 0x22" by auto
  then have "takeWhile (\<lambda>d. d \<noteq> CHR 0x22) (s @ CHR 0x22 # rest) = s"
    and "dropWhile (\<lambda>d. d \<noteq> CHR 0x22) (s @ CHR 0x22 # rest) = CHR 0x22 # rest"
    by (simp_all add: takeWhile_append dropWhile_append)
  with TStr show ?thesis by (simp add: lex.simps(2) is_space_def punct_def)
next
  case (TNum s)
  with assms(1) obtain c cs where s: "s = c # cs" "num_start c" "list_all word_char cs"
    by (auto split: list.splits)
  moreover have "word_token (c # cs) = Some (TNum (c # cs))"
    using num_start_chars [OF s(2)] s(2) by (auto simp: word_token_def)
  ultimately show ?thesis
    using lex_word [of c cs "TNum s" rest] num_start_chars [OF s(2)] assms(2) TNum by simp
next
  case (TBool b)
  then show ?thesis
    using lex_word [of "CHR ''t''" "''rue''" t rest] lex_word [of "CHR ''f''" "''alse''" t rest]
      assms(2) word_chars
    by (cases b) (simp_all add: is_space_def punct_def word_token_def)
next
  case TNull
  then show ?thesis
    using lex_word [of "CHR ''n''" "''ull''" t rest] assms(2) word_chars
    by (simp add: is_space_def punct_def word_token_def)
qed (simp_all add: lex.simps(2) is_space_def punct_def)

lemma lex_space: "list_all is_space w \<Longrightarrow> lex (w @ rest) = lex rest"
  by (induction w) (auto simp: lex.simps(2))

section \<open>Laid out token lists\<close>

text \<open>A layout puts white space before every token.\<close>

fun show_layout :: "(string \<times> token) list \<Rightarrow> string" where
  "show_layout [] = []"
| "show_layout ((w, t) # wts) = w @ show_token t @ show_layout wts"

fun separated :: "token list \<Rightarrow> bool" where
  "separated (t # u # ts) \<longleftrightarrow> (wordlike t \<longrightarrow> \<not> wordlike u) \<and> separated (u # ts)"
| "separated _ \<longleftrightarrow> True"

lemma separated_tl: "separated (t # ts) \<Longrightarrow> separated ts"
  by (cases ts) auto

lemma ends_word_layout:
  assumes "list_all (\<lambda>(w, t). list_all is_space w) wts"
    and "wts = [] \<or> \<not> wordlike (snd (hd wts))"
  shows "ends_word (show_layout wts)"
proof (cases wts)
  case Nil
  then show ?thesis by (simp add: ends_word_def)
next
  case (Cons wt rest)
  obtain w t where wt: "wt = (w, t)" by (cases wt)
  have space: "\<not> word_char c" if "is_space c" for c
    using that by (auto simp: is_space_def word_char_def num_start_def is_digit_char_def)
  have "ends_word (show_token t @ x)" for x
    using assms(2) Cons wt
    by (cases t) (auto simp: ends_word_def word_char_def num_start_def is_digit_char_def)
  with assms(1) Cons wt space show ?thesis
    by (cases w) (auto simp: ends_word_def)
qed

lemma lex_layout:
  assumes "list_all (\<lambda>(w, t). list_all is_space w \<and> token_ok t) wts"
    and "separated (map snd wts)"
  shows "lex (show_layout wts) = Some (map snd wts)"
  using assms
proof (induction wts)
  case Nil
  then show ?case by simp
next
  case (Cons wt wts)
  obtain w t where wt: "wt = (w, t)" by (cases wt)
  have "list_all (\<lambda>(w, t). list_all is_space w) wts"
    using Cons.prems(1) by (auto simp: list_all_iff)
  moreover have "wordlike t \<Longrightarrow> wts = [] \<or> \<not> wordlike (snd (hd wts))"
    using Cons.prems(2) wt by (cases wts) auto
  ultimately have word: "wordlike t \<Longrightarrow> ends_word (show_layout wts)"
    by (intro ends_word_layout) simp_all
  have IH: "lex (show_layout wts) = Some (map snd wts)"
    using Cons.prems by (intro Cons.IH) (auto dest: separated_tl)
  have "lex (show_layout (wt # wts)) = lex (show_token t @ show_layout wts)"
    using Cons.prems(1) wt by (simp add: lex_space)
  also have "\<dots> = map_option (Cons t) (lex (show_layout wts))"
    using Cons.prems(1) wt word by (intro lex_token) simp_all
  finally show ?case using IH wt by simp
qed

end
