(* ===== verification/Json_Codec.thy ===== *)
theory Json_Codec
  imports Json_Text Trace_Output
begin

text \<open>
  A reference serde: events as internally tagged JSON objects (the tag \<open>type\<close> holds the struct's
  name, as \<open>#[typetag::serde(tag = "type")]\<close> asks for), the fields in declaration order, numbers in
  decimal and checked against the width of their field on the way back, enums by the name of the
  variant. How a double is printed and read is a parameter of this codec in turn. It shows that the
  contract \<open>serde_codec\<close> can be met, and the witnesses run the program with it.
\<close>

section \<open>Documents\<close>

type_synonym members = "(string \<times> token) list"

definition member_layout :: "bool \<Rightarrow> string \<times> token \<Rightarrow> (string \<times> token) list" where
  "member_layout pretty m =
     [(if pretty then CHR 0x0A # ''    '' else [], TStr (fst m)), ([], Colon),
      (if pretty then '' '' else [], snd m)]"

fun members_layout :: "bool \<Rightarrow> members \<Rightarrow> (string \<times> token) list" where
  "members_layout pretty [] = []"
| "members_layout pretty [m] = member_layout pretty m"
| "members_layout pretty (m # m' # ms) =
     member_layout pretty m @ ([], Comma) # members_layout pretty (m' # ms)"

definition obj_layout :: "bool \<Rightarrow> members \<Rightarrow> (string \<times> token) list" where
  "obj_layout pretty ms =
     (let ind = (if pretty then CHR 0x0A # ''  '' else [])
      in (ind, LBrace) # members_layout pretty ms @ [(ind, RBrace)])"

fun objs_layout :: "bool \<Rightarrow> members list \<Rightarrow> (string \<times> token) list" where
  "objs_layout pretty [] = []"
| "objs_layout pretty [ms] = obj_layout pretty ms"
| "objs_layout pretty (ms # ms' # os) =
     obj_layout pretty ms @ ([], Comma) # objs_layout pretty (ms' # os)"

definition doc_layout :: "bool \<Rightarrow> members list \<Rightarrow> (string \<times> token) list" where
  "doc_layout pretty os =
     ([], LBrack) # objs_layout pretty os @
     [(if pretty \<and> os \<noteq> [] then [CHR 0x0A] else [], RBrack)]"

text \<open>The parser: \<open>objs\<close> are the objects read so far, \<open>ms\<close> the members of the current one.\<close>

definition parse_member :: "token list \<Rightarrow> ((string \<times> token) \<times> token list) option" where
  "parse_member ts =
     (case ts of
        t # u # v # rest \<Rightarrow>
          (case t of TStr k \<Rightarrow> if u = Colon then Some ((k, v), rest) else None | _ \<Rightarrow> None)
      | _ \<Rightarrow> None)"

lemma parse_member_length: "parse_member ts = Some (m, rest) \<Longrightarrow> length rest < length ts"
  by (auto simp: parse_member_def split: list.splits token.splits if_splits)

function parse_members :: "members list \<Rightarrow> members \<Rightarrow> token list \<Rightarrow> members list option" where
  "parse_members objs ms ts =
     (case parse_member ts of
        None \<Rightarrow> None
      | Some (m, rest) \<Rightarrow>
          if take 1 rest = [Comma] then parse_members objs (ms @ [m]) (drop 1 rest)
          else if take 3 rest = [RBrace, Comma, LBrace]
            then parse_members (objs @ [ms @ [m]]) [] (drop 3 rest)
          else if rest = [RBrace, RBrack] then Some (objs @ [ms @ [m]])
          else None)"
  by pat_completeness auto
termination
  by (relation "measure (\<lambda>(objs, ms, ts). length ts)") (auto dest: parse_member_length)

declare parse_members.simps [simp del]

fun parse_doc :: "token list \<Rightarrow> members list option" where
  "parse_doc [LBrack, RBrack] = Some []"
| "parse_doc (LBrack # LBrace # ts) = parse_members [] [] ts"
| "parse_doc _ = None"

section \<open>Numbers\<close>

fun read_nat :: "string \<Rightarrow> nat option" where
  "read_nat cs = (if cs \<noteq> [] \<and> list_all is_digit_char cs then Some (read_digits 0 cs) else None)"

fun read_int :: "string \<Rightarrow> int option" where
  "read_int (c # cs) =
     (if c = CHR ''-'' then map_option (\<lambda>n. - int n) (read_nat cs)
      else map_option int (read_nat (c # cs)))"
| "read_int [] = None"

definition read_i32 :: "string \<Rightarrow> i32 option" where
  "read_i32 s = (case read_int s of
       Some i \<Rightarrow> if - (2 ^ 31) \<le> i \<and> i < 2 ^ 31 then Some (word_of_int i) else None
     | None \<Rightarrow> None)"

definition read_u32 :: "string \<Rightarrow> u32 option" where
  "read_u32 s = (case read_nat s of
       Some n \<Rightarrow> if n < 2 ^ 32 then Some (word_of_nat n) else None
     | None \<Rightarrow> None)"

definition read_u64 :: "string \<Rightarrow> u64 option" where
  "read_u64 s = (case read_nat s of
       Some n \<Rightarrow> if n < 2 ^ 64 then Some (word_of_nat n) else None
     | None \<Rightarrow> None)"

lemma read_nat_show [simp]: "read_nat (show_nat n) = Some n"
  using show_nat_digits [of n] by (simp add: list_all_iff)

declare read_nat.simps [simp del]

lemma show_nat_Cons: "\<exists>c cs. show_nat n = c # cs \<and> is_digit_char c"
  using show_nat_digits [of n] by (cases "show_nat n") auto

lemma read_int_show [simp]: "read_int (show_int i) = Some i"
proof (cases "i < 0")
  case True
  then show ?thesis by (simp add: show_int_def)
next
  case False
  obtain c cs where c: "show_nat (nat i) = c # cs" "is_digit_char c"
    using show_nat_Cons by blast
  then have "c \<noteq> CHR ''-''" by auto
  moreover have "read_nat (c # cs) = Some (nat i)"
    using read_nat_show [of "nat i"] c by simp
  ultimately show ?thesis using False c by (simp add: show_int_def)
qed

lemma read_i32_show [simp]: "read_i32 (show_i32 w) = Some w"
  using sint_range_size [of w] by (simp add: read_i32_def show_i32_def word_size)

lemma read_u32_show [simp]: "read_u32 (show_nat (unat w)) = Some w"
  using unsigned_less [where ?'a = nat and w = w] by (simp add: read_u32_def)

lemma read_u64_show [simp]: "read_u64 (show_nat (unat w)) = Some w"
  using unsigned_less [where ?'a = nat and w = w] by (simp add: read_u64_def)

section \<open>Fields\<close>

record float_text =
  show_f64 :: "f64 \<Rightarrow> string"
  read_f64 :: "string \<Rightarrow> f64 option"

definition op_name :: "MpiOp \<Rightarrow> string" where
  "op_name x = (case x of
       Opnull \<Rightarrow> ''Opnull'' | OpMax \<Rightarrow> ''Max'' | OpMin \<Rightarrow> ''Min'' | OpSum \<Rightarrow> ''Sum''
     | OpProd \<Rightarrow> ''Prod'' | Land \<Rightarrow> ''Land'' | Band \<Rightarrow> ''Band'' | Lor \<Rightarrow> ''Lor'' | Bor \<Rightarrow> ''Bor''
     | Lxor \<Rightarrow> ''Lxor'' | Bxor \<Rightarrow> ''Bxor'' | Minloc \<Rightarrow> ''Minloc'' | Maxloc \<Rightarrow> ''Maxloc''
     | Replace \<Rightarrow> ''Replace'')"

definition op_of_name :: "string \<Rightarrow> MpiOp option" where
  "op_of_name s = find (\<lambda>x. op_name x = s) MpiOp_variants"

lemma op_of_name_op_name [simp]: "op_of_name (op_name x) = Some x"
  by (cases x) (simp_all add: op_of_name_def op_name_def MpiOp_variants_def)

fun field_token :: "float_text \<Rightarrow> field \<Rightarrow> token" where
  "field_token T (Current_rank x) = TNum (show_i32 x)"
| "field_token T (Partner_rank x) = TNum (show_i32 x)"
| "field_token T (Nb_bytes x) = TNum (show_nat (unat x))"
| "field_token T (Nb_bytes_send x) = TNum (show_nat (unat x))"
| "field_token T (Nb_bytes_recv x) = TNum (show_nat (unat x))"
| "field_token T (Comm x) = TNum (show_i32 x)"
| "field_token T (Req x) = TNum (show_i32 x)"
| "field_token T (Tag x) = TNum (show_i32 x)"
| "field_token T (Required_thread_lvl x) = TNum (show_i32 x)"
| "field_token T (Provided_thread_lvl x) = TNum (show_i32 x)"
| "field_token T (Finished x) = TBool x"
| "field_token T (Op_type x) = TStr (op_name x)"
| "field_token T (Tsc x) = TNum (show_nat (unat x))"
| "field_token T (Duration x) = TNum (show_nat (unat x))"
| "field_token T (Time x) = (if f64_is_finite x then TNum (show_f64 T x) else TNull)"

definition num :: "(string \<Rightarrow> 'a option) \<Rightarrow> token \<Rightarrow> 'a option" where
  "num rd t = (case t of TNum s \<Rightarrow> rd s | _ \<Rightarrow> None)"

lemma num_TNum [simp]: "num rd (TNum s) = rd s"
  by (simp add: num_def)

definition field_of_token :: "float_text \<Rightarrow> string \<Rightarrow> token \<Rightarrow> field option" where
  "field_of_token T name t =
     (if name = ''current_rank'' then map_option Current_rank (num read_i32 t)
      else if name = ''partner_rank'' then map_option Partner_rank (num read_i32 t)
      else if name = ''nb_bytes'' then map_option Nb_bytes (num read_u32 t)
      else if name = ''nb_bytes_send'' then map_option Nb_bytes_send (num read_u32 t)
      else if name = ''nb_bytes_recv'' then map_option Nb_bytes_recv (num read_u32 t)
      else if name = ''comm'' then map_option Comm (num read_i32 t)
      else if name = ''req'' then map_option Req (num read_i32 t)
      else if name = ''tag'' then map_option Tag (num read_i32 t)
      else if name = ''required_thread_lvl'' then map_option Required_thread_lvl (num read_i32 t)
      else if name = ''provided_thread_lvl'' then map_option Provided_thread_lvl (num read_i32 t)
      else if name = ''finished'' then (case t of TBool b \<Rightarrow> Some (Finished b) | _ \<Rightarrow> None)
      else if name = ''op_type'' then (case t of TStr s \<Rightarrow> map_option Op_type (op_of_name s) | _ \<Rightarrow> None)
      else if name = ''tsc'' then map_option Tsc (num read_u64 t)
      else if name = ''duration'' then map_option Duration (num read_u64 t)
      else if name = ''time'' then map_option Time (num (read_f64 T) t)
      else None)"

fun map_field_time :: "(Usecs \<Rightarrow> Usecs) \<Rightarrow> field \<Rightarrow> field" where
  "map_field_time f (Time t) = Time (f t)"
| "map_field_time f s = s"

lemma map_field_time_name [simp]: "field_name (map_field_time f s) = field_name s"
  by (cases s) auto

lemma view_map_time: "Register_view (map_time f e) = map (map_field_time f) (Register_view e)"
  by (cases e) (simp_all add: view_defs)

text \<open>What a pair of functions on doubles must satisfy to serve as their JSON text.\<close>

locale float_format =
  fixes T :: float_text
    and reread :: "f64 \<Rightarrow> f64"
  assumes show_f64_ok: "f64_is_finite x \<Longrightarrow> token_ok (TNum (show_f64 T x))"
    and read_show_f64: "f64_is_finite x \<Longrightarrow> read_f64 T (show_f64 T x) = Some (reread x)"
    and reread_f64_finite: "f64_is_finite x \<Longrightarrow> f64_is_finite (reread x)"
begin

definition field_finite :: "field \<Rightarrow> bool" where
  "field_finite s \<longleftrightarrow> (case s of Time t \<Rightarrow> f64_is_finite t | _ \<Rightarrow> True)"

lemma field_of_token_field_token:
  "field_finite s \<Longrightarrow>
     field_of_token T (field_name s) (field_token T s) = Some (map_field_time reread s)"
  by (cases s) (simp_all add: field_of_token_def field_finite_def read_show_f64)

end

section \<open>Events\<close>

fun type_name :: "Register_dyn \<Rightarrow> string" where
  "type_name (DynInit _) = ''MpiInit''"
| "type_name (DynInitThread _) = ''MpiInitThread''"
| "type_name (DynFinalize _) = ''MpiFinalize''"
| "type_name (DynSend _) = ''MpiSend''"
| "type_name (DynRecv _) = ''MpiRecv''"
| "type_name (DynIsend _) = ''MpiIsend''"
| "type_name (DynIrecv _) = ''MpiIrecv''"
| "type_name (DynBarrier _) = ''MpiBarrier''"
| "type_name (DynIbarrier _) = ''MpiIbarrier''"
| "type_name (DynTest _) = ''MpiTest''"
| "type_name (DynWait _) = ''MpiWait''"
| "type_name (DynIbcast _) = ''MpiIbcast''"
| "type_name (DynIgather _) = ''MpiIgather''"
| "type_name (DynIreduce _) = ''MpiIreduce''"
| "type_name (DynIscatter _) = ''MpiIscatter''"

definition event_members :: "float_text \<Rightarrow> Register_dyn \<Rightarrow> members" where
  "event_members T e =
     (''type'', TStr (type_name e)) #
     map (\<lambda>s. (field_name s, field_token T s)) (Register_view e)"

definition decode_fields :: "float_text \<Rightarrow> members \<Rightarrow> string list \<Rightarrow> field list option" where
  "decode_fields T ms names =
     those (map (\<lambda>f. Option.bind (map_of ms f) (field_of_token T f)) names)"

definition rebuild ::
    "('e \<Rightarrow> Register_dyn) \<Rightarrow> string list \<Rightarrow> (field list \<Rightarrow> string + 'e) \<Rightarrow>
     float_text \<Rightarrow> members \<Rightarrow> Register_dyn option" where
  "rebuild D names build T ms =
     (case decode_fields T ms names of
        None \<Rightarrow> None
      | Some chain \<Rightarrow> (case build chain of Inl _ \<Rightarrow> None | Inr e \<Rightarrow> Some (D e)))"

definition event_of_members :: "float_text \<Rightarrow> members \<Rightarrow> Register_dyn option" where
  "event_of_members T ms =
     (case map_of ms ''type'' of
        Some (TStr name) \<Rightarrow>
          (if name = ''MpiInit'' then rebuild DynInit MpiInit_fields MpiInit_reference T ms
           else if name = ''MpiInitThread'' then rebuild DynInitThread MpiInitThread_fields MpiInitThread_reference T ms
           else if name = ''MpiFinalize'' then rebuild DynFinalize MpiFinalize_fields MpiFinalize_reference T ms
           else if name = ''MpiSend'' then rebuild DynSend MpiSend_fields MpiSend_reference T ms
           else if name = ''MpiRecv'' then rebuild DynRecv MpiRecv_fields MpiRecv_reference T ms
           else if name = ''MpiIsend'' then rebuild DynIsend MpiIsend_fields MpiIsend_reference T ms
           else if name = ''MpiIrecv'' then rebuild DynIrecv MpiIrecv_fields MpiIrecv_reference T ms
           else if name = ''MpiBarrier'' then rebuild DynBarrier MpiBarrier_fields MpiBarrier_reference T ms
           else if name = ''MpiIbarrier'' then rebuild DynIbarrier MpiIbarrier_fields MpiIbarrier_reference T ms
           else if name = ''MpiTest'' then rebuild DynTest MpiTest_fields MpiTest_reference T ms
           else if name = ''MpiWait'' then rebuild DynWait MpiWait_fields MpiWait_reference T ms
           else if name = ''MpiIbcast'' then rebuild DynIbcast MpiIbcast_fields MpiIbcast_reference T ms
           else if name = ''MpiIgather'' then rebuild DynIgather MpiIgather_fields MpiIgather_reference T ms
           else if name = ''MpiIreduce'' then rebuild DynIreduce MpiIreduce_fields MpiIreduce_reference T ms
           else if name = ''MpiIscatter'' then rebuild DynIscatter MpiIscatter_fields MpiIscatter_reference T ms
           else None)
      | _ \<Rightarrow> None)"

definition json_serde :: "float_text \<Rightarrow> serde" where
  "json_serde T =
     \<lparr>to_string = (\<lambda>es. Inr (show_layout (doc_layout False (map (event_members T) es)))),
      to_string_pretty = (\<lambda>es. Inr (show_layout (doc_layout True (map (event_members T) es)))),
      from_str = (\<lambda>s.
        case Option.bind (lex s) parse_doc of
          None \<Rightarrow> Inl ''Error(\"syntax\")''
        | Some objs \<Rightarrow>
            (case those (map (event_of_members T) objs) of
               None \<Rightarrow> Inl ''Error(\"data\")''
             | Some es \<Rightarrow> Inr es))\<rparr>"

section \<open>The text of a document is read back\<close>

fun scalar :: "token \<Rightarrow> bool" where
  "scalar t \<longleftrightarrow> t \<noteq> LBrack \<and> t \<noteq> RBrack \<and> t \<noteq> LBrace \<and> t \<noteq> RBrace \<and> t \<noteq> Colon \<and> t \<noteq> Comma"

definition member_ok :: "string \<times> token \<Rightarrow> bool" where
  "member_ok m \<longleftrightarrow> CHR 0x22 \<notin> set (fst m) \<and> token_ok (snd m)"

abbreviation spaced_ok :: "(string \<times> token) list \<Rightarrow> bool" where
  "spaced_ok wts \<equiv> list_all (\<lambda>(w, t). list_all is_space w \<and> token_ok t) wts"

lemma members_layout_ok: "list_all member_ok ms \<Longrightarrow> spaced_ok (members_layout pretty ms)"
  by (induction pretty ms rule: members_layout.induct)
    (auto simp: member_layout_def member_ok_def is_space_def)

lemma obj_layout_ok: "list_all member_ok ms \<Longrightarrow> spaced_ok (obj_layout pretty ms)"
  using members_layout_ok by (simp add: obj_layout_def Let_def is_space_def)

lemma doc_layout_ok:
  assumes "list_all (list_all member_ok) os"
  shows "spaced_ok (doc_layout pretty os)"
proof -
  have "spaced_ok (objs_layout pretty os)"
    using assms by (induction pretty os rule: objs_layout.induct) (simp_all add: obj_layout_ok)
  then show ?thesis by (simp add: doc_layout_def is_space_def)
qed

lemma separated_nonword [simp]: "\<not> wordlike u \<Longrightarrow> separated (u # ts) \<longleftrightarrow> separated ts"
  by (cases ts) auto

lemma members_separated:
  "\<not> wordlike t \<Longrightarrow> separated (t # ts) \<Longrightarrow>
     separated (map snd (members_layout pretty ms) @ t # ts)"
  by (induction pretty ms rule: members_layout.induct) (simp_all add: member_layout_def)

lemma obj_separated:
  assumes "\<not> wordlike t" and "separated (t # ts)"
  shows "separated (map snd (obj_layout pretty ms) @ t # ts)"
proof -
  have "separated (map snd (members_layout pretty ms) @ RBrace # t # ts)"
    using assms by (intro members_separated) simp_all
  then have "separated (LBrace # map snd (members_layout pretty ms) @ RBrace # t # ts)"
    by simp
  then show ?thesis by (simp add: obj_layout_def Let_def)
qed

lemma objs_separated:
  "\<not> wordlike t \<Longrightarrow> separated (t # ts) \<Longrightarrow>
     separated (map snd (objs_layout pretty os) @ t # ts)"
proof (induction pretty os rule: objs_layout.induct)
  case (2 pretty ms)
  then show ?case by (simp add: obj_separated)
next
  case (3 pretty ms ms' os)
  then have "separated (map snd (objs_layout pretty (ms' # os)) @ t # ts)" by simp
  then have "separated (Comma # map snd (objs_layout pretty (ms' # os)) @ t # ts)"
    by simp
  then show ?case by (simp add: obj_separated)
qed simp

lemma doc_separated: "separated (map snd (doc_layout pretty os))"
proof -
  have "separated (map snd (objs_layout pretty os) @ [RBrack])"
    by (rule objs_separated) simp_all
  then show ?thesis by (simp add: doc_layout_def)
qed

lemma parse_member_layout:
  "parse_member (map snd (member_layout pretty m) @ rest) = Some (m, rest)"
  by (simp add: parse_member_def member_layout_def)

lemma parse_members_layout:
  assumes "ms \<noteq> []"
  shows "parse_members objs ms0 (map snd (members_layout pretty ms) @ RBrace # Comma # LBrace # ts) =
      parse_members (objs @ [ms0 @ ms]) [] ts"
    and "parse_members objs ms0 (map snd (members_layout pretty ms) @ [RBrace, RBrack]) =
      Some (objs @ [ms0 @ ms])"
  using assms
proof (induction pretty ms arbitrary: ms0 rule: members_layout.induct)
  case (2 pretty m)
  {
    case 1
    show ?case by (simp add: parse_members.simps [of _ _ "_ @ _"] parse_member_layout)
  next
    case 2
    show ?case by (simp add: parse_members.simps [of _ _ "_ @ _"] parse_member_layout)
  }
next
  case (3 pretty m m' ms)
  {
    case 1
    show ?case
      using "3.IH"(1) [of "ms0 @ [m]"]
      by (simp add: parse_members.simps [of _ _ "_ @ _"] parse_member_layout)
  next
    case 2
    show ?case
      using "3.IH"(2) [of "ms0 @ [m]"]
      by (simp add: parse_members.simps [of _ _ "_ @ _"] parse_member_layout)
  }
qed simp_all

lemma parse_objs_layout:
  "list_all (\<lambda>ms. ms \<noteq> []) os \<Longrightarrow> ms \<noteq> [] \<Longrightarrow>
     parse_members objs [] (tl (map snd (objs_layout pretty (ms # os))) @ [RBrack]) =
       Some (objs @ ms # os)"
proof (induction os arbitrary: objs ms)
  case Nil
  then show ?case by (simp add: obj_layout_def Let_def parse_members_layout)
next
  case (Cons ms' os)
  have "parse_members objs [] (tl (map snd (objs_layout pretty (ms # ms' # os))) @ [RBrack]) =
      parse_members objs [] (map snd (members_layout pretty ms) @ RBrace # Comma # LBrace #
        tl (map snd (objs_layout pretty (ms' # os))) @ [RBrack])"
    by (cases os) (simp_all add: obj_layout_def Let_def)
  with Cons show ?case by (simp add: parse_members_layout)
qed

lemma parse_doc_layout:
  assumes "list_all (\<lambda>ms. ms \<noteq> []) os"
  shows "parse_doc (map snd (doc_layout pretty os)) = Some os"
proof (cases os)
  case Nil
  then show ?thesis by (simp add: doc_layout_def)
next
  case (Cons ms rest)
  have "map snd (doc_layout pretty os) =
      LBrack # LBrace # tl (map snd (objs_layout pretty (ms # rest))) @ [RBrack]"
    using Cons by (cases rest) (simp_all add: doc_layout_def obj_layout_def Let_def)
  with Cons assms parse_objs_layout [of rest ms "[]" pretty] show ?thesis by simp
qed

end
