(* ===== verification/Reference_Serde.thy ===== *)
theory Reference_Serde
  imports Json_Codec
begin

text \<open>
  The reference serde of \<open>Json_Codec\<close> keeps to the contract \<open>serde_codec\<close>, whatever format of doubles
  it is given; with the bit patterns of doubles as their text it is a concrete instance, which the
  witnesses of the development use.
\<close>

section \<open>Decoding an event\<close>

lemma map_of_members:
  "distinct (map field_name fs) \<Longrightarrow> s \<in> set fs \<Longrightarrow>
     map_of (map (\<lambda>s. (field_name s, g s)) fs) (field_name s) = Some (g s)"
  by (induction fs) (auto simp: image_iff)

lemma those_map_Some: "(\<And>x. x \<in> set xs \<Longrightarrow> f x = Some (g x)) \<Longrightarrow> those (map f xs) = Some (map g xs)"
  by (induction xs) auto

lemma rebuild_view:
  assumes "derive_builder names view build" and "decode_fields T ms names = Some (view e)"
  shows "rebuild D names build T ms = Some (D e)"
  using derive_builder.build_view [OF assms(1), of "view e" e] assms(2)
  by (simp add: rebuild_def)

lemmas struct_defs = view_defs
  MpiInit_fields_def MpiInitThread_fields_def MpiFinalize_fields_def MpiSend_fields_def
  MpiRecv_fields_def MpiIsend_fields_def MpiIrecv_fields_def MpiBarrier_fields_def
  MpiIbarrier_fields_def MpiTest_fields_def MpiWait_fields_def MpiIbcast_fields_def
  MpiIgather_fields_def MpiIreduce_fields_def MpiIscatter_fields_def

lemma Register_view_distinct: "distinct (map field_name (Register_view e))"
  by (cases e) (auto simp: view_defs)

lemma Register_view_no_type: "''type'' \<notin> field_name ` set (Register_view e)"
  by (cases e) (auto simp: view_defs)

lemma quote_not_digit [simp]: "\<not> is_digit_char (CHR 0x22)"
  by (simp add: is_digit_char_def)

lemma show_nat_token_ok [simp]: "token_ok (TNum (show_nat n))"
  using show_nat_digits [of n]
  by (cases "show_nat n") (auto simp: num_start_def word_char_def list_all_iff)

lemma show_i32_token_ok [simp]: "token_ok (TNum (show_i32 w))"
proof -
  have "token_ok (TNum (show_int i))" for i
    using show_nat_digits [of "nat (- i)"] show_nat_token_ok [of "nat i"]
    by (auto simp: show_int_def num_start_def word_char_def list_all_iff)
  then show ?thesis by (simp add: show_i32_def)
qed

context float_format
begin

lemma decode_members:
  assumes "distinct (map field_name fs)" and "''type'' \<notin> field_name ` set fs"
    and "\<forall>s \<in> set fs. field_finite s"
  shows "decode_fields T
      ((''type'', t) # map (\<lambda>s. (field_name s, field_token T s)) fs) (map field_name fs) =
    Some (map (map_field_time reread) fs)"
proof -
  have "Option.bind (map_of ((''type'', t) # map (\<lambda>s. (field_name s, field_token T s)) fs)
      (field_name s)) (field_of_token T (field_name s)) = Some (map_field_time reread s)"
    if "s \<in> set fs" for s
    using that assms map_of_members [OF assms(1) that, of "field_token T"]
      field_of_token_field_token [of s]
    by (auto simp: image_iff)
  then show ?thesis
    by (simp add: decode_fields_def comp_def those_map_Some)
qed

lemma finite_times_view:
  assumes "finite_times [e]"
  shows "\<forall>s \<in> set (Register_view e). field_finite s"
  using assms by (cases e) (simp_all add: view_defs field_finite_def finite_times_def)

lemma event_members_decode:
  assumes "finite_times [e]" and "names = map field_name (Register_view e)"
  shows "decode_fields T (event_members T e) names = Some (Register_view (map_time reread e))"
  unfolding assms(2) event_members_def view_map_time
  by (intro decode_members Register_view_distinct Register_view_no_type finite_times_view assms(1))

lemma event_rebuild:
  assumes "derive_builder names view build" and "finite_times [e]"
    and "names = map field_name (Register_view e)"
    and "Register_view (map_time reread e) = view x"
  shows "rebuild D names build T (event_members T e) = Some (D x)"
  using rebuild_view [OF assms(1)] event_members_decode [OF assms(2,3)] assms(4) by simp

lemma event_type: "map_of (event_members T e) ''type'' = Some (TStr (type_name e))"
  by (simp add: event_members_def)

lemma event_roundtrip:
  "finite_times [e] \<Longrightarrow> event_of_members T (event_members T e) = Some (map_time reread e)"
  by (cases e; simp add: event_of_members_def event_type;
      rule reference_axioms [THEN event_rebuild]; simp add: struct_defs)

text \<open>The text of a list of events, in either layout, is lexed, parsed and decoded back.\<close>

lemma field_token_ok: "field_finite s \<Longrightarrow> token_ok (field_token T s)"
  by (cases s) (simp_all add: field_finite_def show_f64_ok op_name_def del: token_ok.simps(2)
      split: MpiOp.split)

lemma event_members_ok:
  assumes "finite_times [e]"
  shows "list_all member_ok (event_members T e)"
proof -
  have "CHR 0x22 \<notin> set (field_name s)" for s
    by (cases s) simp_all
  moreover have "CHR 0x22 \<notin> set (type_name e)"
    by (cases e) simp_all
  ultimately show ?thesis
    using finite_times_view [OF assms] field_token_ok
    by (auto simp: event_members_def member_ok_def list_all_iff)
qed

lemma document_roundtrip:
  assumes "finite_times es"
  shows "Option.bind (lex (show_layout (doc_layout pretty (map (event_members T) es)))) parse_doc =
    Some (map (event_members T) es)"
proof -
  have each: "finite_times [e]" if "e \<in> set es" for e
    using assms that by (simp add: finite_times_def list_all_iff)
  have "list_all (list_all member_ok) (map (event_members T) es)"
    using each event_members_ok by (auto simp: list_all_iff)
  then have "lex (show_layout (doc_layout pretty (map (event_members T) es))) =
      Some (map snd (doc_layout pretty (map (event_members T) es)))"
    using doc_separated by (intro lex_layout doc_layout_ok)
  moreover have "list_all (\<lambda>ms. ms \<noteq> []) (map (event_members T) es)"
    by (simp add: list_all_iff event_members_def)
  ultimately show ?thesis by (simp add: parse_doc_layout)
qed

lemma json_serde_reads:
  assumes "finite_times es"
  shows "from_str (json_serde T) (show_layout (doc_layout pretty (map (event_members T) es))) =
    Inr (map (map_time reread) es)"
proof -
  have "event_of_members T (event_members T e) = Some (map_time reread e)" if "e \<in> set es" for e
    using assms that by (intro event_roundtrip) (simp add: finite_times_def list_all_iff)
  then have "those (map (event_of_members T) (map (event_members T) es)) =
      Some (map (map_time reread) es)"
    by (simp add: comp_def those_map_Some)
  with document_roundtrip [OF assms] show ?thesis by (simp add: json_serde_def)
qed

lemma json_serde_codec: "serde_codec (json_serde T) reread"
proof (unfold_locales, goal_cases)
  case (3 es s)
  then have "s = show_layout (doc_layout False (map (event_members T) es))"
    by (simp add: json_serde_def)
  with 3 show ?case by (simp add: json_serde_reads)
next
  case (4 es s)
  then have "s = show_layout (doc_layout True (map (event_members T) es))"
    by (simp add: json_serde_def)
  with 4 show ?case by (simp add: json_serde_reads)
next
  case (5 t)
  then show ?case by (rule reread_f64_finite)
qed (simp_all add: json_serde_def)

end

section \<open>A concrete instance\<close>

definition bits_text :: float_text where
  "bits_text = \<lparr>show_f64 = (\<lambda>x. show_nat (unat x)), read_f64 = read_u64\<rparr>"

interpretation bits_text: float_format bits_text id
  by unfold_locales (simp_all add: bits_text_def del: token_ok.simps)

definition reference_serde :: serde where
  "reference_serde = json_serde bits_text"

interpretation reference_serde: serde_codec reference_serde id
  unfolding reference_serde_def by (rule bits_text.json_serde_codec)

end
