(* ===== verification/Recording_Properties.thy ===== *)
theory Recording_Properties
  imports Mpi_Job Reference_Serde "HOL-Library.Sublist"
begin

text \<open>
  Properties of recording: the vector of events, one registration through the dispatcher, runs of
  calls, poisoning, and what \<open>MPI_Finalize\<close> writes. Every property with hypotheses is followed by
  its instance on concrete calls.
\<close>

section \<open>Concrete inputs\<close>

definition generous_allocator :: allocator where
  "generous_allocator =
     \<lparr>alloc_box = True, alloc_reserve = (\<lambda>_. True), alloc_grow = (\<lambda>_. True)\<rparr>"

definition failing_allocator :: allocator where
  "failing_allocator =
     \<lparr>alloc_box = True, alloc_reserve = (\<lambda>_. False), alloc_grow = (\<lambda>_. False)\<rparr>"

definition healthy_os :: os where
  "healthy_os =
     \<lparr>os_create_dir = None, os_open = (\<lambda>_. None), os_write = (\<lambda>_. None), os_read_dir = None,
      os_entry = (\<lambda>_. None), os_read = (\<lambda>_. None), os_remove = (\<lambda>_. None),
      os_listing = (\<lambda>names. names), os_var = (\<lambda>_. None), os_elapsed = ''1ms''\<rparr>"

text \<open>A system whose disk is full after one byte.\<close>

definition full_os :: os where
  "full_os = healthy_os\<lparr>os_write := (\<lambda>_. Some (1, ''No space left on device (os error 28)''))\<rparr>"

definition sample_call :: "MpiCallType \<Rightarrow> MpiRank \<Rightarrow> Tsc \<Rightarrow> MpiCall" where
  "sample_call k rk ts =
     \<lparr>MpiCall.time = 0, tsc = ts, duration = 2048, partner_rank = 1, current_rank = rk,
      nb_bytes_s = 8, nb_bytes_r = 16, comm = 0, req = 7, tag = 42, required_thread_lvl = 0,
      provided_thread_lvl = 0, finished = True, op_type = OpSum, kind = k\<rparr>"

lemma sample_simps [simp]:
  "generous generous_allocator" "alloc_box failing_allocator"
  "MpiCall.kind (sample_call k rk ts) = k" "MpiCall.current_rank (sample_call k rk ts) = rk"
  "MpiCall.tsc (sample_call k rk ts) = ts"
  by (simp_all add: generous_allocator_def failing_allocator_def generous_def sample_call_def)

lemma healthy_os_grants [simp]: "grants_writes healthy_os"
  by (simp add: grants_writes_def healthy_os_def)

section \<open>The vector of events\<close>

text \<open>The first three registrations, computed.\<close>

lemma register_first:
  "register A e vec_new =
     (if alloc_box A \<and> alloc_grow A 64 then (Done (Inr ()), \<lparr>items = [e], capacity = 4\<rparr>)
      else (Aborted, vec_new))"
  by (simp add: register_def try_reserve_exact_def vec_new_def vec_push_new)

lemma register_second:
  "register A e \<lparr>items = [x], capacity = 4\<rparr> =
     (if alloc_box A then (Done (Inr ()), \<lparr>items = [x, e], capacity = 4\<rparr>)
      else (Aborted, \<lparr>items = [x], capacity = 4\<rparr>))"
  by (simp add: register_def try_reserve_exact_def vec_push_def)

lemma register_third:
  "register A e \<lparr>items = [x, y], capacity = 4\<rparr> =
     (if alloc_reserve A 96 then
        (if alloc_box A then (Done (Inr ()), \<lparr>items = [x, y, e], capacity = 6\<rparr>)
         else (Aborted, \<lparr>items = [x, y], capacity = 6\<rparr>))
      else (Done (Inl AllocError), \<lparr>items = [x, y], capacity = 4\<rparr>))"
  by (simp add: register_def try_reserve_exact_def vec_push_def elem_size_def isize_max_def)

declare register_first [run_simps] register_second [run_simps] register_third [run_simps]
  register_mpi_call_def [run_simps] lock_and_register_def [run_simps] lock_events_def [run_simps]
  reference.dispatch_other [run_simps] reference.dispatch_finalize [run_simps]
  generous_allocator_def [run_simps] failing_allocator_def [run_simps]

lemma register_run_new:
  assumes "\<forall>(A, e) \<in> set es. generous A" and "3 * length es * elem_size \<le> isize_max"
  shows "capacity (snd (run_appends register es vec_new)) = capacity_after (length es)"
    and "items (snd (run_appends register es vec_new)) = map snd es"
    and "relocations es vec_new = filter (\<lambda>k. k \<noteq> 1) [0..<length es]"
proof -
  have new: "items vec_new = []" "capacity vec_new = 0" by (simp_all add: vec_new_def)
  show "capacity (snd (run_appends register es vec_new)) = capacity_after (length es)"
    and "items (snd (run_appends register es vec_new)) = map snd es"
    and "relocations es vec_new = filter (\<lambda>k. k \<noteq> 1) [0..<length es]"
    using register_run [OF vec_inv_new _ assms(1)] assms(2)
    by (simp_all add: new capacity_after_def)
qed

text \<open>
  C28: a registration never panics, keeps the vector within its capacity and the capacity within the
  address space, and appends the event exactly when it reports success.
\<close>

theorem register_outcome:
  assumes "vec_inv v" and "register A e v = (r, v')"
  shows "vec_inv v' \<and> (\<forall>msg. r \<noteq> Panicked msg) \<and>
    items v' = items v @ (if r = Done (Inr ()) then [e] else [])"
  using assms by (cases rule: register_cases [consumes 2]) (use assms in auto)

theorem register_outcome_witness:
  "items (snd (register failing_allocator (5::nat) \<lparr>items = [1, 2, 3, 4], capacity = 4\<rparr>)) =
     [1, 2, 3, 4]"
  using register_outcome [of "\<lparr>items = [1, 2, 3, 4], capacity = 4\<rparr>" failing_allocator "5::nat"
      "Done (Inl AllocError)" "\<lparr>items = [1, 2, 3, 4], capacity = 4\<rparr>"]
  by (simp add: vec_inv_def elem_size_def isize_max_def register_def try_reserve_exact_def
      failing_allocator_def)

text \<open>
  C30: the very first registration is the one that can end the process: reserving twice a length of
  zero reserves nothing, so \<open>push\<close> grows the vector itself, and it cannot report a refusal.
\<close>

theorem first_registration:
  "register A e vec_new =
     (if alloc_box A \<and> alloc_grow A 64 then (Done (Inr ()), \<lparr>items = [e], capacity = 4\<rparr>)
      else (Aborted, vec_new))"
  by (rule register_first)

text \<open>
  C29: once there is an event, the outcome of a registration is decided: with room for twice the
  length beyond the length, the event is pushed; otherwise a buffer of three times the length is
  asked for, and a size beyond the address space or a refusal of the allocator is reported as the
  error it is, the vector unchanged; otherwise the vector has the event and exactly that capacity.
  Only the allocation of the event's box can still end the process.
\<close>

theorem later_registration:
  assumes "vec_inv v" and "items v \<noteq> []"
  shows "register A e v =
    (let room = 3 * length (items v)
     in if room \<le> capacity v then
          (if alloc_box A then (Done (Inr ()), v\<lparr>items := items v @ [e]\<rparr>) else (Aborted, v))
        else if isize_max < room * elem_size then (Done (Inl CapacityOverflow), v)
        else if \<not> alloc_reserve A (room * elem_size) then (Done (Inl AllocError), v)
        else if alloc_box A then (Done (Inr ()), \<lparr>items = items v @ [e], capacity = room\<rparr>)
        else (Aborted, v\<lparr>capacity := room\<rparr>))"
proof -
  have "length (items v) < 3 * length (items v)" using assms(2) by simp
  moreover from this have "3 * length (items v) \<le> capacity v \<Longrightarrow> length (items v) < capacity v"
    by linarith
  ultimately show ?thesis
    by (simp add: register_def reserve_request [OF assms(1)] vec_push_room)
qed

theorem later_registration_witness:
  "register failing_allocator (5::nat) \<lparr>items = [1, 2, 3, 4], capacity = 4\<rparr> =
     (Done (Inl AllocError), \<lparr>items = [1, 2, 3, 4], capacity = 4\<rparr>) \<and>
   register generous_allocator (5::nat) \<lparr>items = [1, 2, 3, 4], capacity = 4\<rparr> =
     (Done (Inr ()), \<lparr>items = [1, 2, 3, 4, 5], capacity = 12\<rparr>)"
proof -
  have "vec_inv \<lparr>items = [1, 2, 3, 4 :: nat], capacity = 4\<rparr>"
    by (simp add: vec_inv_def elem_size_def isize_max_def)
  from later_registration [OF this] show ?thesis
    by (simp add: elem_size_def isize_max_def failing_allocator_def generous_allocator_def)
qed

text \<open>
  C32: without refusals every event of a run is stored in order, and the capacity after \<open>n\<close> events is
  four for one or two of them and three times \<open>n - 1\<close> beyond.
\<close>

theorem registrations_capacity:
  assumes "\<forall>(A, e) \<in> set es. generous A" and "3 * length es * elem_size \<le> isize_max"
  shows "items (snd (run_appends register es vec_new)) = map snd es \<and>
    capacity (snd (run_appends register es vec_new)) =
      (if length es = 0 then 0 else if length es \<le> 2 then 4 else 3 * (length es - 1))"
  using register_run_new [OF assms] by (simp add: capacity_after_def)

theorem registrations_capacity_witness:
  "capacity (snd (run_appends register (replicate 5 (generous_allocator, True)) vec_new)) = 12"
  using registrations_capacity [of "replicate 5 (generous_allocator, True)"]
  by (simp add: elem_size_def isize_max_def)

text \<open>
  C31: \<open>try_reserve_exact\<close> asks for twice the length beyond the length, more than any earlier
  reservation gave, so every registration but the second allocates the buffer anew; the elements
  that \<open>n\<close> registrations may have to move are about \<open>n * n / 2\<close>.
\<close>

theorem registrations_relocate:
  assumes "\<forall>(A, e) \<in> set es. generous A" and "3 * length es * elem_size \<le> isize_max"
    and "2 \<le> length es"
  shows "relocations es vec_new = filter (\<lambda>k. k \<noteq> 1) [0..<length es] \<and>
    2 * sum_list (relocations es vec_new) + 2 = length es * (length es - 1)"
proof -
  obtain n where n: "length es = Suc (Suc n)"
    using assms(3) by (metis Suc_le_D Suc_le_mono numeral_2_eq_2)
  have "relocations es vec_new = filter (\<lambda>k. k \<noteq> 1) [0..<length es]"
    using register_run_new [OF assms(1,2)] by simp
  then show ?thesis
    using sum_list_skip_one [of n] unfolding n by (simp del: upt_Suc)
qed

theorem registrations_relocate_witness:
  "2 * sum_list (relocations (replicate 5 (generous_allocator, True)) vec_new) + 2 = 20"
proof -
  have "\<forall>(A, e) \<in> set (replicate 5 (generous_allocator, True)). generous A" by simp
  from registrations_relocate [OF this, THEN conjunct2] show ?thesis
    by (simp add: elem_size_def isize_max_def)
qed

section \<open>One call\<close>

lemma lock_outcome:
  assumes "derived_builders B" and "process_inv p" and "\<not> poisoned p"
    and "MpiCall.kind c \<noteq> Finalize" and "register_mpi_call B J A S c p = (r, p')"
  shows "process_inv p' \<and> \<not> poisoned p' \<and> disk p' = disk p \<and>
    (r = Done () \<and> events p' = events p @ [event_of_call c] \<and> stderr p' = stderr p \<or>
     r = Done () \<and> (\<exists>err. p' = eprintln (rank_error_line (MpiCall.current_rank c)
        (from_try_reserve_error err)) p) \<or>
     r = Aborted \<and> events p' = events p \<and> (alloc_box A \<longrightarrow> events p = []))"
proof -
  obtain q p1 where q: "lock_and_register A (lock_message (MpiCall.kind c)) (event_of_call c) p = (q, p1)"
    by fastforce
  note res = assms(5) [unfolded register_mpi_call_def
      derived_builders.dispatch_other [OF assms(1,4)] q Let_def]
  from assms(2,3) q show ?thesis
  proof (cases rule: lock_and_register_cases [consumes 3])
    case ok
    with res assms(3) show ?thesis by auto
  next
    case (error err)
    with res assms(2,3) show ?thesis by (auto simp: process_inv_def)
  next
    case abort
    with res assms(3) show ?thesis by auto
  qed
qed

text \<open>
  C8: a call other than \<open>MPI_Finalize\<close> either adds exactly its event to the trace, or prints one line
  that names the rank and changes nothing else, or ends the process with the trace as it was; it
  never touches the disk.
\<close>

theorem call_outcome:
  assumes "derived_builders B" and "process_inv p" and "\<not> poisoned p"
    and "MpiCall.kind c \<noteq> Finalize" and "register_mpi_call B J A S c p = (r, p')"
  shows "process_inv p' \<and> \<not> poisoned p' \<and> disk p' = disk p \<and>
    (r = Done () \<and> events p' = events p @ [event_of_call c] \<and> stderr p' = stderr p \<or>
     r = Done () \<and> (\<exists>err. p' = eprintln (rank_error_line (MpiCall.current_rank c)
        (from_try_reserve_error err)) p) \<or>
     r = Aborted \<and> events p' = events p \<and> (alloc_box A \<longrightarrow> events p = []))"
  by (rule lock_outcome [OF assms])

theorem call_outcome_witness:
  "events (snd (register_mpi_call reference_builders reference_serde generous_allocator healthy_os
      (sample_call Recv 3 99) (process_init None))) = [event_of_call (sample_call Recv 3 99)]"
proof -
  obtain r p' where res: "register_mpi_call reference_builders reference_serde generous_allocator
      healthy_os (sample_call Recv 3 99) (process_init None) = (r, p')" by fastforce
  have "r = Done ()" and "stderr p' = []"
    using res by (auto simp: run_simps)
  then show ?thesis
    using call_outcome [OF reference.derived_builders_axioms process_inv_init _ _ res] res
    by auto
qed

text \<open>
  What becomes of the calls of a run, in order: the events that are recorded and the lines that are
  printed. A call adds its event, or prints the line that names its rank and the refusal.
\<close>

inductive accounted :: "MpiCall list \<Rightarrow> Register_dyn list \<Rightarrow> string list \<Rightarrow> bool" where
  none: "accounted [] [] []"
| event: "accounted cs es ls \<Longrightarrow> accounted (c # cs) (event_of_call c # es) ls"
| line: "accounted cs es ls \<Longrightarrow> accounted (c # cs) es
    (rank_error_line (MpiCall.current_rank c) (from_try_reserve_error err) # ls)"

inductive_simps accounted_simps [simp]: "accounted [] es ls"

lemma accounted_subseq: "accounted cs es ls \<Longrightarrow> subseq es (map event_of_call cs)"
  by (induction rule: accounted.induct) (auto simp: list_emb_Cons)

lemma accounted_length: "accounted cs es ls \<Longrightarrow> length es + length ls = length cs"
  by (induction rule: accounted.induct) auto

lemma run_accounts:
  assumes "derived_builders B" and "process_inv p" and "\<not> poisoned p"
    and "\<forall>c \<in> set (calls_of cs). MpiCall.kind c \<noteq> Finalize"
    and "run_calls B J cs p = (Done (), p')"
  shows "\<exists>es ls. events p' = events p @ es \<and> stderr p' = stderr p @ ls \<and>
    accounted (calls_of cs) es ls \<and> disk p' = disk p \<and> process_inv p' \<and> \<not> poisoned p'"
  using assms(2-5)
proof (induction cs arbitrary: p)
  case Nil
  then show ?case by simp
next
  case (Cons ec cs)
  obtain A S c where ec: "ec = (A, S, c)" by (cases ec)
  obtain r q where q: "register_mpi_call B J A S c p = (r, q)" by fastforce
  with Cons.prems(4) ec have r: "r = Done ()" and rest: "run_calls B J cs q = (Done (), p')"
    by (cases r; simp)+
  have "MpiCall.kind c \<noteq> Finalize" and others: "\<forall>c \<in> set (calls_of cs). MpiCall.kind c \<noteq> Finalize"
    using Cons.prems(3) ec by simp_all
  note out = lock_outcome [OF assms(1) Cons.prems(1,2) this(1) q]
  from out Cons.IH [OF _ _ others rest] obtain es ls
    where es: "events p' = events q @ es" "stderr p' = stderr q @ ls" "accounted (calls_of cs) es ls"
      "disk p' = disk q" "process_inv p'" "\<not> poisoned p'"
    by blast
  from out r show ?case
  proof (elim conjE disjE exE)
    assume "events q = events p @ [event_of_call c]" "stderr q = stderr p" "disk q = disk p"
    with es ec show ?thesis
      by (intro exI [where x = "event_of_call c # es"] exI [where x = ls]) (simp add: accounted.event)
  next
    fix err assume "q = eprintln (rank_error_line (MpiCall.current_rank c)
        (from_try_reserve_error err)) p"
    with es ec show ?thesis
      by (intro exI [where x = es]
          exI [where x = "rank_error_line (MpiCall.current_rank c) (from_try_reserve_error err) # ls"])
        (simp add: events_def eprintln_def accounted.line)
  qed simp
qed

text \<open>
  C11: in a run of calls other than \<open>MPI_Finalize\<close>, on a process whose mutex is not poisoned, that
  comes to its end, each call in order has either added its event to the trace or printed the line
  with its own rank and the refused reservation; nothing is lost silently and the disk is untouched.
\<close>

theorem run_accounts_for_calls:
  assumes "derived_builders B" and "process_inv p" and "\<not> poisoned p"
    and "\<forall>c \<in> set (calls_of cs). MpiCall.kind c \<noteq> Finalize"
    and "run_calls B J cs p = (Done (), p')"
  shows "\<exists>es ls. events p' = events p @ es \<and> stderr p' = stderr p @ ls \<and>
    accounted (calls_of cs) es ls \<and> subseq es (map event_of_call (calls_of cs)) \<and>
    length es + length ls = length (calls_of cs) \<and> disk p' = disk p"
  using run_accounts [OF assms] accounted_subseq accounted_length by blast

theorem run_accounts_for_calls_witness:
  "\<exists>p'. run_calls reference_builders reference_serde
       [(generous_allocator, healthy_os, sample_call Send 0 1),
        (failing_allocator, healthy_os, sample_call Test 0 2),
        (failing_allocator, healthy_os, sample_call Recv 0 3)] (process_init None) = (Done (), p') \<and>
     length (events p') + length (stderr p') = 3"
proof -
  let ?cs = "[(generous_allocator, healthy_os, sample_call Send 0 1),
    (failing_allocator, healthy_os, sample_call Test 0 2),
    (failing_allocator, healthy_os, sample_call Recv 0 3)]"
  obtain r p' where res: "run_calls reference_builders reference_serde ?cs (process_init None) = (r, p')"
    by fastforce
  have "r = Done ()"
    using res by (simp add: run_simps)
  with res run_accounts_for_calls [OF reference.derived_builders_axioms process_inv_init, of None ?cs
      reference_serde p'] show ?thesis by auto
qed

text \<open>
  C35: once the mutex is poisoned, the next call panics with the message of its lock and leaves the
  process as it is, whatever calls were to follow.
\<close>

theorem poisoned_process_records_nothing:
  assumes "derived_builders B" and "poisoned p"
  shows "run_calls B J ((A, S, c) # cs) p =
    (Panicked (expect_msg (lock_message (MpiCall.kind c)) ''PoisonError { .. }''), p)"
  using assms by (simp add: register_mpi_call_def derived_builders.dispatch_poisoned)

theorem poisoned_process_records_nothing_witness:
  "run_calls reference_builders reference_serde
     [(generous_allocator, healthy_os, sample_call Iscatter 0 1)] ((process_init None)\<lparr>poisoned := True\<rparr>) =
   (Panicked ''failed to take the lock on vector for `MpiIbcast` event: PoisonError { .. }'',
    (process_init None)\<lparr>poisoned := True\<rparr>)"
  using poisoned_process_records_nothing [OF reference.derived_builders_axioms,
      of "(process_init None)\<lparr>poisoned := True\<rparr>" reference_serde generous_allocator healthy_os
        "sample_call Iscatter 0 1" "[]"]
  by (simp add: expect_msg_def lock_message.simps)

section \<open>Finalize\<close>

text \<open>A finalize call that reports nothing has put the text of all events into the rank's file.\<close>

lemma finalize_put:
  assumes "derived_builders B" and "process_inv p" and "MpiCall.kind c = Finalize"
    and "register_mpi_call B J A S c p = (Done (), p')" and "stderr p' = stderr p"
  shows "\<exists>s. to_string J (events p @ [event_of_call c]) = Inr s \<and>
    disk p' = disk_put (rank_file (MpiCall.current_rank c)) s (disk p)"
proof -
  have "\<not> poisoned p"
    using assms(4) derived_builders.dispatch_poisoned [OF assms(1)]
    by (auto simp: register_mpi_call_def)
  obtain q p1 where q: "lock_and_register A (lock_message Finalize) (event_of_call c) p = (q, p1)"
    by fastforce
  note res = assms(4) [unfolded register_mpi_call_def Let_def
      derived_builders.dispatch_finalize [OF assms(1,3)] q]
  from assms(2) \<open>\<not> poisoned p\<close> q show ?thesis
  proof (cases rule: lock_and_register_cases [consumes 3])
    case ok
    obtain x p2 where ser: "serialize J S (events p1) (MpiCall.current_rank c) p1 = (x, p2)"
      by fastforce
    have "x = Done (Inr ())" and p2: "p2 = p'"
      using res ok(1) ser assms(5) serialize_frame(3) [OF ser] ok(3)
      by (auto split: run.splits sum.splits)
    with ser serialize_put [of J S "events p1" "MpiCall.current_rank c" p1 p'] ok
    show ?thesis by auto
  next
    case (error err)
    with res assms(5) show ?thesis by (auto simp: eprintln_def)
  next
    case abort
    with res show ?thesis by simp
  qed
qed

text \<open>
  C7: when \<open>MPI_Finalize\<close> is registered and nothing is printed to the error stream, the rank's trace
  file holds exactly the text of all events of the process, the finalize event last, whatever the
  file held before, and no other file has changed.
\<close>

theorem finalize_writes_trace:
  assumes "derived_builders B" and "process_inv p" and "MpiCall.kind c = Finalize"
    and "register_mpi_call B J A S c p = (Done (), p')" and "stderr p' = stderr p"
  shows "\<exists>s. to_string J (events p @ [event_of_call c]) = Inr s \<and>
    content (disk p') (in_dir (rank_file (MpiCall.current_rank c))) = Some s \<and>
    (\<forall>q. q \<noteq> in_dir (rank_file (MpiCall.current_rank c)) \<longrightarrow> content (disk p') q = content (disk p) q)"
  using finalize_put [OF assms] by auto

lemma rank_three: "in_dir (rank_file 3) = ''interpol-tmp/rank3_traces.json''"
proof -
  have "digit_char 3 = CHR ''3''" by code_simp
  then show ?thesis
    by (simp add: in_dir_def INTERPOL_DIR_def rank_file_def show_i32_def show_int_def show_nat.simps)
qed

theorem finalize_writes_trace_witness:
  "\<exists>s. to_string reference_serde [event_of_call (sample_call Finalize 3 9)] = Inr s \<and>
     content (disk (snd (register_mpi_call reference_builders reference_serde generous_allocator
       healthy_os (sample_call Finalize 3 9) (process_init None))))
       ''interpol-tmp/rank3_traces.json'' = Some s"
proof -
  let ?c = "sample_call Finalize 3 9"
  obtain r p' where res: "register_mpi_call reference_builders reference_serde generous_allocator
      healthy_os ?c (process_init None) = (r, p')" by fastforce
  obtain s where s: "to_string reference_serde [event_of_call ?c] = Inr s"
    using reference_serde.to_string_total by blast
  have ser: "serialize reference_serde healthy_os [event_of_call ?c] 3 q =
      (Done (Inr ()), (println (''[interpol]: serializing traces for rank '' @ show_i32 3) q)
        \<lparr>disk := disk_put (rank_file 3) s None\<rparr>)" if "disk q = None" for q
    using serialize_granted [of healthy_os q 3 reference_serde _ s] s that by simp
  have "r = Done ()" and "stderr p' = []"
    using res ser by (auto simp: run_simps events_def)
  then show ?thesis
    using rank_three finalize_writes_trace [OF reference.derived_builders_axioms process_inv_init _, of ?c
        reference_serde generous_allocator healthy_os None p'] res by auto
qed

text \<open>
  C33: when writing the trace file fails, the error is an I/O error, and the file either is as it was
  or holds a prefix of the text; every other file is as it was.
\<close>

theorem serialize_fault:
  assumes "serialize J S es rank p = (Done (Inl err), p')"
  shows "error_kind err = Io \<and>
    (content (disk p') (in_dir (rank_file rank)) = content (disk p) (in_dir (rank_file rank)) \<or>
     (\<exists>s n. to_string J es = Inr s \<and> n \<le> length s \<and>
        content (disk p') (in_dir (rank_file rank)) = Some (take n s))) \<and>
    (\<forall>q. q \<noteq> in_dir (rank_file rank) \<longrightarrow> content (disk p') q = content (disk p) q)"
proof -
  have "error_kind err = Io \<and>
    (content (disk p') (in_dir (rank_file rank)) = content (disk p) (in_dir (rank_file rank)) \<or>
     (\<exists>s n. to_string J es = Inr s \<and> n \<le> length s \<and>
        content (disk p') (in_dir (rank_file rank)) = Some (take n s)))"
    using assms unfolding serialize_def rank_filename Let_def
    by (auto split: sum.splits prod.splits option.splits simp: create_dir_all_content)
      (use trace_dir.save_fault in blast)
  with serialize_frame(4) [OF assms] show ?thesis by blast
qed

theorem serialize_fault_witness:
  "\<exists>err p'. serialize reference_serde full_os [] 3 (process_init None) = (Done (Inl err), p') \<and>
     error_kind err = Io \<and>
     (\<forall>q. q \<noteq> in_dir (rank_file 3) \<longrightarrow> content (disk p') q = None)"
proof -
  obtain s where s: "to_string reference_serde [] = Inr s"
    using reference_serde.to_string_total by blast
  let ?d = "Some [(rank_file 3, File [])]"
  have "content ?d (in_dir (rank_file 3)) = Some []"
    by (simp add: content_Some_entries)
  then have "fst (write_all full_os (in_dir (rank_file 3)) s ?d) =
      Some ''No space left on device (os error 28)''"
    by (simp add: write_all_def full_os_def)
  moreover have "open_file full_os trace_file_options (in_dir (rank_file 3)) (Some []) = Inr ?d"
    by (simp add: open_file_trace_file full_os_def healthy_os_def)
  moreover have "create_dir_all full_os None = Inr (Some [])"
    by (simp add: create_dir_all_def full_os_def healthy_os_def)
  ultimately obtain err p' where res: "serialize reference_serde full_os [] 3 (process_init None) =
      (Done (Inl err), p')"
    unfolding serialize_def rank_filename Let_def using s
    by (cases "write_all full_os (in_dir (rank_file 3)) s ?d") auto
  from serialize_fault [OF res] res show ?thesis by auto
qed

text \<open>
  C34: serialising panics only when the events have no JSON text, with nothing written; the panic
  poisons the mutex, so that every later call of the process panics in turn.
\<close>

theorem finalize_json_failure:
  assumes "derived_builders B" and "process_inv p" and "\<not> poisoned p" and "generous A" and "has_room p"
    and "MpiCall.kind c = Finalize" and "to_string J (events p @ [event_of_call c]) = Inl dbg"
  shows "\<exists>p'. register_mpi_call B J A S c p =
      (Panicked (''failed to serialize traces to string: '' @ dbg), p') \<and>
    poisoned p' \<and> disk p' = disk p \<and> events p' = events p @ [event_of_call c]"
proof -
  from lock_and_register_generous [OF assms(2-5)] obtain g
    where g: "lock_and_register A (lock_message Finalize) (event_of_call c) p =
        (Done (Inr ()), p\<lparr>guarded := g\<rparr>)"
      and items: "items g = events p @ [event_of_call c]" by blast
  then show ?thesis
    using assms(7)
    by (simp add: register_mpi_call_def derived_builders.dispatch_finalize [OF assms(1,6)]
        serialize_def events_def expect_msg_def)
qed

theorem finalize_json_failure_witness:
  "\<exists>p'. register_mpi_call reference_builders
      (reference_serde\<lparr>to_string := (\<lambda>_. Inl ''Error'')\<rparr>) generous_allocator healthy_os
      (sample_call Finalize 0 1) (process_init None) =
      (Panicked ''failed to serialize traces to string: Error'', p') \<and> poisoned p'"
  using finalize_json_failure [OF reference.derived_builders_axioms process_inv_init [of None],
      of generous_allocator "sample_call Finalize 0 1" "reference_serde\<lparr>to_string := (\<lambda>_. Inl ''Error'')\<rparr>"
        "''Error''" healthy_os]
  by (auto simp: has_room_def)

section \<open>Names, messages and discriminants\<close>

text \<open>
  Different ranks write different files, none of them is the aggregate, and all of them carry
  the extension by which the aggregation finds them.
\<close>

theorem rank_files_apart:
  "(rank_file r = rank_file q \<longleftrightarrow> r = q) \<and> rank_file r \<noteq> aggregate_file \<and>
   path_extension (rank_file r) = Some ''json''"
  by simp

text \<open>
  C39: an error line tells which rank failed, with which kind of error and for which reason: lines of
  different ranks or different errors are different.
\<close>

theorem error_line_identifies:
  "rank_error_line r e = rank_error_line q e' \<longleftrightarrow> r = q \<and> e = e'"
proof -
  have split: "takeWhile (\<lambda>c. c \<noteq> CHR '':'') (show_i32 r @ '': '' @ x) = show_i32 r" for r x
  proof -
    have "CHR '':'' \<notin> set (show_i32 r)"
      using show_int_chars [of "CHR '':''" "sint r"] by (auto simp: show_i32_def is_digit_char_def)
    then show ?thesis by (simp add: takeWhile_append takeWhile_eq_all_conv)
  qed
  show ?thesis
    using split [of r "InterpolError_fmt e"] split [of q "InterpolError_fmt e'"]
    by (auto simp: rank_error_line_def InterpolError_fmt_inject)
qed

text \<open>
  A byte is a value of \<open>MpiCallType\<close> exactly when it is one of the fifteen discriminants, each of
  which belongs to one variant.
\<close>

theorem call_type_discriminants:
  "(MpiCallType_of_repr b = Some k \<longleftrightarrow> b = MpiCallType_repr k) \<and>
   (MpiCallType_of_repr b = None \<longleftrightarrow> 15 \<le> unat b)"
  by (simp add: MpiCallType_of_repr_Some)
    (simp add: MpiCallType_of_repr_def MpiCallType_variants_def not_less)

text \<open>
  A byte is a value of \<open>MpiOp\<close> exactly when it is one of its fourteen discriminants; the byte -1,
  which the C wrappers pass for calls without an operation, is none of them.
\<close>

theorem op_discriminants:
  "(MpiOp_of_repr b = Some x \<longleftrightarrow> b = MpiOp_repr x) \<and>
   (MpiOp_of_repr b = None \<longleftrightarrow> 14 \<le> unat b) \<and> MpiOp_of_repr (- 1) = None"
proof -
  have "unat (- 1 :: i8) = 255" by code_simp
  then show ?thesis
    by (simp add: MpiOp_of_repr_Some) (simp add: MpiOp_of_repr_def MpiOp_variants_def not_less)
qed

end
