(* ===== verification/Merge_Properties.thy ===== *)
theory Merge_Properties
  imports Recording_Properties
begin

text \<open>
  Properties of the aggregation: what \<open>sort_all_traces\<close> writes, what it leaves alone, on which
  directories it panics, and how far its result depends on the listing and on the sort.
\<close>

section \<open>Lemmas\<close>

lemma read_entries_frame:
  "q \<noteq> in_dir aggregate_file \<Longrightarrow> content (snd (read_entries J S names d acc)) q = content d q"
proof (induction J S names d acc rule: read_entries.induct)
  case (2 J S name names d acc)
  have removed: "content d' q = content d q"
    if "name = aggregate_file" and "remove_file S (in_dir name) d = Inr d'" for d'
    using that "2.prems"
    by (cases d) (auto simp: remove_file_def content_Some_entries entry_name_Some delete_conv'
        split: option.splits node.splits)
  show ?case
    using 2 removed
    by (auto simp: aggregate_file_def [symmetric] split: option.split sum.split)
qed simp

text \<open>Reading past the aggregate has found it and removed it.\<close>

lemma read_entries_loses_aggregate:
  assumes "read_entries J S names d acc = (Done (Inr ts), d')" and "aggregate_file \<in> set names"
  shows "\<exists>old. content d (in_dir aggregate_file) = Some old" and "content d' (in_dir aggregate_file) = None"
proof -
  have removed: "(\<exists>old. content d (in_dir aggregate_file) = Some old) \<and>
      content d1 (in_dir aggregate_file) = None"
    if "remove_file S (in_dir aggregate_file) d = Inr d1" for S d d1
    using that by (cases d) (auto simp: remove_file_def content_Some_entries delete_conv'
        split: option.splits node.splits)
  have stays: "content d' (in_dir aggregate_file) = None"
    if "read_entries J S names d acc = (Done (Inr ts), d')" and "content d (in_dir aggregate_file) = None"
    for J S names d acc
    using that
    by (induction J S names d acc rule: read_entries.induct)
      (auto simp: aggregate_file_def [symmetric] dest: removed split: option.splits sum.splits if_splits)
  have "(\<exists>old. content d (in_dir aggregate_file) = Some old) \<and>
      content d' (in_dir aggregate_file) = None"
    using assms
    by (induction J S names d acc rule: read_entries.induct)
      (auto simp: aggregate_file_def [symmetric] dest: removed intro: stays
        split: option.splits sum.splits if_splits)
  then show "\<exists>old. content d (in_dir aggregate_file) = Some old"
    and "content d' (in_dir aggregate_file) = None" by simp_all
qed

lemma write_all_traces_cases:
  assumes "write_all_traces S s p = (r, p')"
  shows "(r = Inr () \<longrightarrow> content (disk p') (in_dir aggregate_file) = Some s) \<and>
    (r \<noteq> Inr () \<longrightarrow>
       content (disk p') (in_dir aggregate_file) = content (disk p) (in_dir aggregate_file) \<or>
       (\<exists>n \<le> length s. content (disk p') (in_dir aggregate_file) = Some (take n s))) \<and>
    (\<forall>q. q \<noteq> in_dir aggregate_file \<longrightarrow> content (disk p') q = content (disk p) q) \<and>
    guarded p' = guarded p \<and> poisoned p' = poisoned p"
  using assms unfolding write_all_traces_def aggregate_filename Let_def
  by (auto split: sum.splits prod.splits option.splits
      dest: trace_dir.save_content trace_dir.save_frame)
    (use trace_dir.save_fault in blast)

lemma read_entries_append:
  "read_entries J S (names @ names') d acc =
     (case read_entries J S names d acc of
        (Done (Inr acc'), d') \<Rightarrow> read_entries J S names' d' acc'
      | r \<Rightarrow> r)"
  by (induction J S names d acc rule: read_entries.induct) (auto split: option.split sum.split)

text \<open>The directory after a successful aggregation.\<close>

definition aggregated :: "string \<Rightarrow> (string \<times> node) list \<Rightarrow> (string \<times> node) list" where
  "aggregated json es = AList.update aggregate_file (File json) (AList.delete aggregate_file es)"

lemma set_aggregated:
  assumes "distinct (map fst es)"
  shows "mset (aggregated json es) =
    add_mset (aggregate_file, File json) (filter_mset (\<lambda>p. fst p \<noteq> aggregate_file) (mset es))"
proof -
  have "distinct (map fst (AList.delete aggregate_file es))"
    using assms by (rule distinct_delete)
  then show ?thesis
    unfolding aggregated_def by (subst mset_update) (simp_all add: AList.delete_eq case_prod_beta filter_filter_mset eq_commute)
qed

lemma mergeable_aggregated:
  assumes "mergeable J es"
  shows "mergeable J (aggregated json es)" and "disk_events J (aggregated json es) = disk_events J es"
proof -
  have distinct: "distinct (map fst es)" using assms by (simp add: mergeable_def)
  then have "distinct (map fst (aggregated json es))"
    unfolding aggregated_def by (intro distinct_update distinct_delete)
  moreover have "set (aggregated json es) =
      insert (aggregate_file, File json) {p \<in> set es. fst p \<noteq> aggregate_file}"
    using set_aggregated [OF distinct, of json]
    by (metis set_mset_mset set_mset_add_mset_insert set_mset_filter)
  ultimately show "mergeable J (aggregated json es)"
    using assms by (auto simp: mergeable_def)
  show "disk_events J (aggregated json es) = disk_events J es"
    unfolding disk_events_def set_aggregated [OF distinct]
    by (simp add: is_trace_name_def filter_filter_mset conj_ac)
qed

text \<open>The aggregation in terms of the events of the directory.\<close>

lemma sort_all_traces_aggregates:
  assumes J: "serde_codec J reread" and sort: "unstable_sort par_sort"
    and "healthy S" and "mergeable J es" and "disk p = Some es"
  obtains out json p' where "sort_all_traces J par_sort S p = (Done (), p')"
    and "mset out = disk_events J es" and "sorted (map Register_tsc out)"
    and "(if wants_readable S then to_string_pretty J out else to_string J out) = Inr json"
    and "disk p' = Some (aggregated json es)" and "stderr p' = stderr p"
    and "\<And>ys. inj_on Register_tsc (set ys) \<Longrightarrow> mset ys = disk_events J es \<Longrightarrow>
      out = sort_key Register_tsc ys"
proof -
  obtain out json p' where run: "sort_all_traces J par_sort S p = (Done (), p')"
    and out: "out = par_sort Register_tsc (concat (map (parsed J (Some es)) (trace_names S es)))"
    and json: "(if wants_readable S then to_string_pretty J out else to_string J out) = Inr json"
    and disk: "disk p' = disk_put aggregate_file json (without_aggregate (Some es))"
    and err: "stderr p' = stderr p"
    using sort_all_traces_mergeable [OF assms] by metis
  have read: "mset (concat (map (parsed J (Some es)) (trace_names S es))) = disk_events J es"
    using assms(4) by (intro mset_trace_names [OF assms(3)]) (simp add: mergeable_def)
  show ?thesis
  proof (rule that [OF run _ _ json])
    show "mset out = disk_events J es"
      unfolding out by (simp only: unstable_sort.par_sort_mset [OF sort] read)
    show "sorted (map Register_tsc out)"
      unfolding out by (rule unstable_sort.par_sort_sorted [OF sort])
    show "disk p' = Some (aggregated json es)"
      using disk by (simp add: aggregated_def disk_put_def without_aggregate_def)
    show "stderr p' = stderr p" by (rule err)
    show "out = sort_key Register_tsc ys"
      if "inj_on Register_tsc (set ys)" and "mset ys = disk_events J es" for ys
      unfolding out using that read by (intro unstable_sort.par_sort_unique [OF sort]) simp_all
  qed
qed

lemma content_aggregated:
  "content (Some (aggregated json es)) q =
     (if q = in_dir aggregate_file then Some json else content (Some es) q)"
  by (auto simp: aggregated_def content_Some_entries update_conv' delete_conv' entry_name_Some
      split: option.splits)

section \<open>A job and its aggregate\<close>

text \<open>
  The whole program on a job without faults. Every rank records its calls and writes its file at
  \<open>MPI_Finalize\<close>, in whatever order the ranks come; then one rank aggregates. The aggregate holds the
  events of all calls of all ranks, and those of the trace files of other ranks that were already in
  the directory, each once, sorted by time stamp.
\<close>

theorem job_trace_complete:
  assumes "derived_builders B" and "serde_codec J reread" and "unstable_sort par_sort"
    and "job_ok ranks" and "ranks \<noteq> []" and "mergeable J (entries d)" and "healthy S"
  shows "\<exists>d' out json p'. run_ranks B J ranks d = Some d' \<and>
    sort_all_traces J par_sort S (p\<lparr>disk := d'\<rparr>) = (Done (), p') \<and>
    content (disk p') (in_dir aggregate_file) = Some json \<and>
    (if wants_readable S then to_string_pretty J out else to_string J out) = Inr json \<and>
    mset out = job_events reread ranks + disk_events J (leftovers ranks (entries d)) \<and>
    sorted (map Register_tsc out)"
proof -
  obtain d' where run: "run_ranks B J ranks d = Some d'" and "mergeable J (entries d')"
    and "d' \<noteq> None" and evs: "disk_events J (entries d') =
      job_events reread ranks + disk_events J (leftovers ranks (entries d))"
    using run_ranks_ok [OF assms(1,2,4,6)] assms(5) by blast
  then obtain es where d': "d' = Some es" and merge: "mergeable J es" by auto
  have "disk (p\<lparr>disk := d'\<rparr>) = Some es" by (simp add: d')
  from sort_all_traces_aggregates [OF assms(2,3,7) merge this] obtain out json p'
    where "sort_all_traces J par_sort S (p\<lparr>disk := d'\<rparr>) = (Done (), p')"
      and "mset out = disk_events J es" and "sorted (map Register_tsc out)"
      and "(if wants_readable S then to_string_pretty J out else to_string J out) = Inr json"
      and "disk p' = Some (aggregated json es)" by metis
  moreover from this have "content (disk p') (in_dir aggregate_file) = Some json"
    by (simp add: content_aggregated)
  ultimately show ?thesis using run evs d' by auto
qed

section \<open>A concrete directory\<close>

definition text_of :: "Register_dyn list \<Rightarrow> string" where
  "text_of es = (case to_string reference_serde es of Inl _ \<Rightarrow> [] | Inr s \<Rightarrow> s)"

definition sample_events :: "Register_dyn list" where
  "sample_events = [event_of_call (sample_call Send 0 5), event_of_call (sample_call Recv 0 3)]"

definition sample_dir :: "(string \<times> node) list" where
  "sample_dir = [(rank_file 0, File (text_of sample_events)), (''notes.txt'', File ''hello'')]"

lemma text_of_reads:
  assumes "finite_times es"
  shows "from_str reference_serde (text_of es) = Inr es"
proof -
  obtain s where s: "to_string reference_serde es = Inr s"
    using reference_serde.to_string_total by blast
  have "map (map_time id) es = es" by (simp add: map_idI)
  with reference_serde.from_to_string [OF assms s] show ?thesis by (simp add: text_of_def s)
qed

lemma sample_finite: "finite_times [event_of_call (sample_call k rk ts)]"
  by (cases k) (simp_all add: event_of_call.simps finite_times_def new_defs sample_call_def
      f64_is_finite_def)

lemma sample_events_read: "from_str reference_serde (text_of sample_events) = Inr sample_events"
proof (rule text_of_reads)
  have "finite_times ([event_of_call (sample_call Send 0 5)] @ [event_of_call (sample_call Recv 0 3)])"
    unfolding finite_times_simps using sample_finite by blast
  then show "finite_times sample_events" by (simp add: sample_events_def)
qed

lemma notes_names: "''notes.txt'' \<noteq> aggregate_file" "path_extension ''notes.txt'' = Some ''txt''"
  using path_extension_append [of "''notes''" "''txt''"] by (simp_all add: aggregate_file_def)

lemma sample_dir_mergeable: "mergeable reference_serde sample_dir"
proof -
  have "rank_file 0 \<noteq> ''notes.txt''" by (simp add: rank_file_def)
  then show ?thesis
    using sample_events_read notes_names by (auto simp: mergeable_def sample_dir_def)
qed

lemma sample_dir_events: "disk_events reference_serde sample_dir = mset sample_events"
  using sample_events_read notes_names
  by (simp add: disk_events_def sample_dir_def is_trace_name_def node_events_def)

lemma healthy_os_healthy [simp]: "healthy healthy_os" "wants_readable healthy_os = False"
  by (simp_all add: healthy_def healthy_os_def wants_readable_def)

lemma sample_tscs: "inj_on Register_tsc (set_mset (disk_events reference_serde sample_dir))"
  by (simp add: sample_dir_events sample_events_def inj_on_def)

section \<open>What is written\<close>

text \<open>
  C6: on a system without faults the aggregation of a readable directory returns, and leaves in
  \<open>interpol_traces.json\<close> the text, in the form \<open>INTERPOL_OUTPUT\<close> asks for, of all events of all trace
  files, each as often as it occurs there, sorted by time stamp; every other file is as it was.
\<close>

theorem sort_all_traces_effect:
  assumes "serde_codec J reread" and "unstable_sort par_sort"
    and "healthy S" and "mergeable J es" and "disk p = Some es"
  shows "\<exists>out json p'. sort_all_traces J par_sort S p = (Done (), p') \<and>
    mset out = disk_events J es \<and> sorted (map Register_tsc out) \<and>
    (if wants_readable S then to_string_pretty J out else to_string J out) = Inr json \<and>
    content (disk p') (in_dir aggregate_file) = Some json \<and>
    (\<forall>q. q \<noteq> in_dir aggregate_file \<longrightarrow> content (disk p') q = content (disk p) q) \<and>
    stderr p' = stderr p"
proof -
  obtain out json p' where "sort_all_traces J par_sort S p = (Done (), p')"
    and "mset out = disk_events J es" "sorted (map Register_tsc out)"
    and "(if wants_readable S then to_string_pretty J out else to_string J out) = Inr json"
    and "disk p' = Some (aggregated json es)" "stderr p' = stderr p"
    using sort_all_traces_aggregates [OF assms] by metis
  with assms(5) show ?thesis by (auto simp: content_aggregated)
qed

theorem sort_all_traces_effect_witness:
  "\<exists>out p'. sort_all_traces reference_serde reference_sort healthy_os
       (process_init (Some sample_dir)) = (Done (), p') \<and>
     mset out = mset sample_events \<and> sorted (map Register_tsc out) \<and>
     content (disk p') (in_dir aggregate_file) = Some (text_of out)"
proof -
  obtain out json p' where "sort_all_traces reference_serde reference_sort healthy_os
      (process_init (Some sample_dir)) = (Done (), p')"
    and "mset out = mset sample_events" "sorted (map Register_tsc out)"
    and json: "to_string reference_serde out = Inr json"
    and "content (disk p') (in_dir aggregate_file) = Some json"
    using sort_all_traces_effect [OF reference_serde.serde_codec_axioms
      reference_sort.unstable_sort_axioms healthy_os_healthy(1) sample_dir_mergeable,
      of "process_init (Some sample_dir)"]
    by (auto simp: sample_dir_events)
  moreover have "text_of out = json" using json by (simp add: text_of_def)
  ultimately show ?thesis by blast
qed

text \<open>
  C26: whatever fails, and wherever, \<open>sort_all_traces\<close> changes no file but \<open>interpol_traces.json\<close>,
  and neither the events of the process nor its mutex.
\<close>

theorem sort_all_traces_frame:
  "(q = in_dir aggregate_file \<or>
      content (disk (snd (sort_all_traces J par_sort S p))) q = content (disk p) q) \<and>
   guarded (snd (sort_all_traces J par_sort S p)) = guarded p \<and>
   poisoned (snd (sort_all_traces J par_sort S p)) = poisoned p"
proof -
  obtain r d where d: "deserialize_all_traces J S (disk p) = (r, d)" by fastforce
  have frame: "content d q = content (disk p) q" if "q \<noteq> in_dir aggregate_file"
    using d read_entries_frame [OF that, of J S _ "disk p" "[]"]
    by (auto simp: deserialize_all_traces_def split: sum.splits) (metis snd_conv)
  have written: "(q = in_dir aggregate_file \<or> content (disk p3) q = content (disk p) q) \<and>
      guarded p3 = guarded p \<and> poisoned p3 = poisoned p"
    if "write_all_traces S s p2 = (r2, p3)" "disk p2 = d" "guarded p2 = guarded p"
      "poisoned p2 = poisoned p" for s p2 r2 p3
    using write_all_traces_cases [OF that(1)] that(2-4) frame by metis
  show ?thesis
  proof (cases r)
    case (Done x)
    then show ?thesis
    proof (cases x)
      case (Inr ts)
      let ?text = "if wants_readable S then to_string_pretty J (par_sort Register_tsc ts)
        else to_string J (par_sort Register_tsc ts)"
      show ?thesis
      proof (cases ?text)
        case (Inl dbg)
        with Done Inr d frame show ?thesis
          by (cases "wants_readable S")
            (auto simp: sort_all_traces_def Let_def wants_readable_case)
      next
        case written_text: (Inr s)
        show ?thesis
          using Done Inr d written_text
          by (cases "wants_readable S")
            (auto simp: sort_all_traces_def Let_def wants_readable_case
              split: prod.split sum.split dest!: written)
      qed
    qed (use Done d frame in \<open>auto simp: sort_all_traces_def Let_def\<close>)
  qed (use d frame in \<open>auto simp: sort_all_traces_def Let_def\<close>)
qed

text \<open>
  C12: when the wall-clock times of all events are finite, parsing the aggregate gives the sorted
  events of all trace files again, in the compact as in the readable form, each with its wall-clock
  time as the JSON library reads back the number it printed.
\<close>

theorem aggregate_reads_back:
  assumes "serde_codec J reread" and "unstable_sort par_sort"
    and "healthy S" and "mergeable J es" and "disk p = Some es"
    and "\<forall>e \<in># disk_events J es. finite_times [e]"
  shows "\<exists>out json. content (disk (snd (sort_all_traces J par_sort S p))) (in_dir aggregate_file) = Some json \<and>
    from_str J json = Inr (map (map_time reread) out) \<and>
    mset out = disk_events J es \<and> sorted (map Register_tsc out)"
proof -
  obtain out json p' where run: "sort_all_traces J par_sort S p = (Done (), p')"
    and out: "mset out = disk_events J es" "sorted (map Register_tsc out)"
    and json: "(if wants_readable S then to_string_pretty J out else to_string J out) = Inr json"
    and disk: "disk p' = Some (aggregated json es)"
    using sort_all_traces_aggregates [OF assms(1-5)] by metis
  have "\<forall>e \<in> set out. finite_times [e]"
    using assms(6) out(1) by (metis set_mset_mset)
  then have "finite_times out" by (simp add: finite_times_def list_all_iff)
  with json have "from_str J json = Inr (map (map_time reread) out)"
    using serde_codec.from_to_string [OF assms(1)] serde_codec.from_to_string_pretty [OF assms(1)]
    by (auto split: if_splits)
  with run out disk show ?thesis by (auto simp: content_aggregated)
qed

theorem aggregate_reads_back_witness:
  "\<exists>json. content (disk (snd (sort_all_traces reference_serde reference_sort
       (healthy_os\<lparr>os_var := (\<lambda>_. Some ''readable'')\<rparr>) (process_init (Some sample_dir)))))
       (in_dir aggregate_file) = Some json \<and>
     (\<exists>out. from_str reference_serde json = Inr out \<and> length out = 2)"
proof -
  let ?S = "healthy_os\<lparr>os_var := (\<lambda>_. Some ''readable'')\<rparr>"
  have S: "healthy ?S" by (simp add: healthy_def healthy_os_def)
  have finite: "\<forall>e \<in># disk_events reference_serde sample_dir. finite_times [e]"
    by (simp add: sample_dir_events sample_events_def sample_finite)
  have "disk (process_init (Some sample_dir)) = Some sample_dir" by simp
  from aggregate_reads_back [OF reference_serde.serde_codec_axioms
      reference_sort.unstable_sort_axioms S sample_dir_mergeable this finite]
  obtain out json where "content (disk (snd (sort_all_traces reference_serde reference_sort ?S
      (process_init (Some sample_dir))))) (in_dir aggregate_file) = Some json"
    and "from_str reference_serde json = Inr (map (map_time id) out)"
    and out: "mset out = mset sample_events" unfolding sample_dir_events by blast
  moreover have "length out = 2"
    using mset_eq_length [OF out] by (simp add: sample_events_def)
  ultimately show ?thesis by auto
qed

section \<open>What the result depends on\<close>

text \<open>Without ties the aggregate is the text of the one sorted list of the directory's events.\<close>

lemma aggregate_text:
  assumes "serde_codec J reread" and "unstable_sort par_sort"
    and "healthy S" and "mergeable J es" and "disk p = Some es"
    and "inj_on Register_tsc (set ys)" and "mset ys = disk_events J es"
  shows "\<exists>json. (if wants_readable S then to_string_pretty J (sort_key Register_tsc ys)
      else to_string J (sort_key Register_tsc ys)) = Inr json \<and>
    disk (snd (sort_all_traces J par_sort S p)) = Some (aggregated json es)"
proof -
  obtain out json p' where "sort_all_traces J par_sort S p = (Done (), p')"
    and "mset out = disk_events J es" and "sorted (map Register_tsc out)"
    and "(if wants_readable S then to_string_pretty J out else to_string J out) = Inr json"
    and "disk p' = Some (aggregated json es)" and "stderr p' = stderr p"
    and "\<And>ys. inj_on Register_tsc (set ys) \<Longrightarrow> mset ys = disk_events J es \<Longrightarrow>
      out = sort_key Register_tsc ys"
    by (rule sort_all_traces_aggregates [OF assms(1-5)]) blast
  with assms(6,7) show ?thesis by auto
qed

text \<open>
  C19: when no two events have the same time stamp, the text of the aggregate depends neither on the
  order in which the system lists the trace files nor on the parallel sort.
\<close>

theorem aggregate_deterministic:
  assumes "serde_codec J reread" and "unstable_sort par_sort" and "unstable_sort par_sort'"
    and "healthy S" and "healthy S'" and "wants_readable S = wants_readable S'"
    and "mergeable J es" and "disk p = Some es"
    and "inj_on Register_tsc (set_mset (disk_events J es))"
  shows "content (disk (snd (sort_all_traces J par_sort S p))) (in_dir aggregate_file) =
    content (disk (snd (sort_all_traces J par_sort' S' p))) (in_dir aggregate_file)"
proof -
  obtain ys where ys: "mset ys = disk_events J es" using ex_mset by blast
  then have inj: "inj_on Register_tsc (set ys)" using assms(9) by (metis set_mset_mset)
  from aggregate_text [OF assms(1,2,4,7,8) inj ys] aggregate_text [OF assms(1,3,5,7,8) inj ys] assms(6)
  show ?thesis by (auto simp: content_aggregated split: if_splits)
qed

theorem aggregate_deterministic_witness:
  "content (disk (snd (sort_all_traces reference_serde reference_sort healthy_os
      (process_init (Some sample_dir))))) (in_dir aggregate_file) =
   content (disk (snd (sort_all_traces reference_serde reference_sort (healthy_os\<lparr>os_listing := rev\<rparr>)
      (process_init (Some sample_dir))))) (in_dir aggregate_file)"
proof (rule aggregate_deterministic [OF reference_serde.serde_codec_axioms
      reference_sort.unstable_sort_axioms reference_sort.unstable_sort_axioms healthy_os_healthy(1) _ _
      sample_dir_mergeable _ sample_tscs])
  show "healthy (healthy_os\<lparr>os_listing := rev\<rparr>)"
    by (simp add: healthy_def healthy_os_def)
  show "wants_readable healthy_os = wants_readable (healthy_os\<lparr>os_listing := rev\<rparr>)"
    by (simp add: wants_readable_def healthy_os_def)
qed simp

text \<open>
  C20: when no two events of the trace files have equal time stamps, aggregating a second time writes
  the same text again: the aggregate of the first run is not read, nothing is counted twice.
\<close>

theorem aggregate_again:
  assumes "serde_codec J reread" and "unstable_sort par_sort" and "unstable_sort par_sort'"
    and "healthy S" and "healthy S'" and "wants_readable S = wants_readable S'"
    and "mergeable J es" and "disk p = Some es"
    and "inj_on Register_tsc (set_mset (disk_events J es))"
  shows "content (disk (snd (sort_all_traces J par_sort' S' (snd (sort_all_traces J par_sort S p)))))
      (in_dir aggregate_file) =
    content (disk (snd (sort_all_traces J par_sort S p))) (in_dir aggregate_file)"
proof -
  obtain ys where ys: "mset ys = disk_events J es" using ex_mset by blast
  then have inj: "inj_on Register_tsc (set ys)" using assms(9) by (metis set_mset_mset)
  from aggregate_text [OF assms(1,2,4,7,8) inj ys] obtain json
    where json: "(if wants_readable S then to_string_pretty J (sort_key Register_tsc ys)
        else to_string J (sort_key Register_tsc ys)) = Inr json"
      and disk: "disk (snd (sort_all_traces J par_sort S p)) = Some (aggregated json es)" by blast
  note again = mergeable_aggregated [OF assms(7), of json]
  from aggregate_text [OF assms(1,3,5) again(1) disk inj] ys again(2) json disk assms(6)
  show ?thesis by (auto simp: content_aggregated split: if_splits)
qed

theorem aggregate_again_witness:
  "content (disk (snd (sort_all_traces reference_serde reference_sort healthy_os
      (snd (sort_all_traces reference_serde reference_sort healthy_os (process_init (Some sample_dir)))))))
      (in_dir aggregate_file) =
   content (disk (snd (sort_all_traces reference_serde reference_sort healthy_os
      (process_init (Some sample_dir))))) (in_dir aggregate_file)"
  by (rule aggregate_again [OF reference_serde.serde_codec_axioms
      reference_sort.unstable_sort_axioms reference_sort.unstable_sort_axioms healthy_os_healthy(1)
      healthy_os_healthy(1) refl sample_dir_mergeable _ sample_tscs]) simp

section \<open>When it does not return\<close>

text \<open>
  C36: an entry of the directory without an extension, a subdirectory for instance, makes the
  aggregation panic as soon as the listing reaches it, although it is no trace file.
\<close>

theorem extensionless_entry_panics:
  assumes "read_dir S (disk p) = Inr (names @ name # names')"
    and "read_entries J S names (disk p) [] = (Done (Inr ts), d)"
    and "os_entry S name = None" and "name \<noteq> aggregate_file" and "path_extension name = None"
  shows "fst (sort_all_traces J par_sort S p) =
    Panicked ''called `Option::unwrap()` on a `None` value''"
  using assms
  by (simp add: sort_all_traces_def deserialize_all_traces_def read_entries_append Let_def
      aggregate_file_def)

theorem extensionless_entry_panics_witness:
  "fst (sort_all_traces reference_serde reference_sort healthy_os
      (process_init (Some [(''notes.txt'', File ''hello''), (''old'', Subdir)]))) =
   Panicked ''called `Option::unwrap()` on a `None` value''"
proof (rule extensionless_entry_panics)
  show "read_dir healthy_os (disk (process_init (Some [(''notes.txt'', File ''hello''), (''old'', Subdir)]))) =
      Inr ([''notes.txt''] @ ''old'' # [])"
    by (simp add: read_dir_def healthy_os_def)
  show "read_entries reference_serde healthy_os [''notes.txt'']
      (disk (process_init (Some [(''notes.txt'', File ''hello''), (''old'', Subdir)]))) [] =
      (Done (Inr []), Some [(''notes.txt'', File ''hello''), (''old'', Subdir)])"
    using notes_names(2) by (simp add: healthy_os_def)
  show "path_extension ''old'' = None" by (rule path_extension_no_dot) simp
qed (simp_all add: healthy_os_def aggregate_file_def)

text \<open>
  Without the directory, when no rank has written a trace, the aggregation panics with the text
  of the I/O error and creates nothing.
\<close>

theorem missing_directory_panics:
  assumes "disk p = None" and "os_read_dir S = None"
  shows "sort_all_traces J par_sort S p =
    (Panicked ''I/O error: No such file or directory (os error 2)'',
     println ''[interpol]: deserializing traces for each rank'' p)"
  using assms
  by (simp add: sort_all_traces_def deserialize_all_traces_def read_dir_def Let_def not_found_def
      InterpolError_fmt_def from_io_error_def)

theorem missing_directory_panics_witness:
  "fst (sort_all_traces reference_serde reference_sort healthy_os (process_init None)) =
     Panicked ''I/O error: No such file or directory (os error 2)''"
  using missing_directory_panics [of "process_init None" healthy_os reference_serde reference_sort]
  by (simp add: healthy_os_def)

text \<open>
  C37: the old aggregate is removed before the trace files are read, so a trace file that does not
  parse, anywhere in the listing after the aggregate, costs the aggregate of the earlier run: the
  aggregation panics and leaves none.
\<close>

theorem failed_aggregation_loses_old:
  assumes "read_dir S (disk p) = Inr (names @ name # names')" and "aggregate_file \<in> set names"
    and "read_entries J S names (disk p) [] = (Done (Inr ts), d)"
    and "os_entry S name = None" and "os_read S (in_dir name) = None" and "is_trace_name name"
    and "content (disk p) (in_dir name) = Some broken" and "from_str J broken = Inl dbg"
  shows "\<exists>old p'. content (disk p) (in_dir aggregate_file) = Some old \<and>
    sort_all_traces J par_sort S p =
      (Panicked (''failed to deserialize trace file contents: '' @ dbg), p') \<and>
    content (disk p') (in_dir aggregate_file) = None"
proof -
  have name: "name \<noteq> aggregate_file" "path_extension name = Some ''json''"
    using assms(6) by (simp_all add: is_trace_name_def)
  note lost = read_entries_loses_aggregate [OF assms(3,2)]
  have "content d (in_dir name) = Some broken"
    using read_entries_frame [of "in_dir name" J S names "disk p" "[]"] assms(3,7) name by simp
  then have "read_to_string S (in_dir name) d = Inr broken"
    using assms(5) by (simp add: read_to_string_def)
  then have "deserialize_all_traces J S (disk p) =
      (Panicked (''failed to deserialize trace file contents: '' @ dbg), d)"
    using assms(1,3,4,8) name
    by (simp add: deserialize_all_traces_def read_entries_append aggregate_file_def [symmetric]
        expect_msg_def)
  then show ?thesis
    using lost by (simp add: sort_all_traces_def Let_def)
qed

theorem failed_aggregation_loses_old_witness:
  "\<exists>p'. sort_all_traces (reference_serde\<lparr>from_str := (\<lambda>_. Inl ''Error'')\<rparr>) reference_sort healthy_os
      (process_init (Some [(aggregate_file, File ''[]''), (''notes.txt'', File ''hello''),
        (rank_file 0, File ''[{'')])) =
      (Panicked ''failed to deserialize trace file contents: Error'', p') \<and>
    content (disk p') (in_dir aggregate_file) = None"
proof -
  let ?J = "reference_serde\<lparr>from_str := (\<lambda>_. Inl ''Error'')\<rparr>"
  let ?p = "process_init (Some [(aggregate_file, File ''[]''), (''notes.txt'', File ''hello''),
    (rank_file 0, File ''[{'')])"
  have "read_dir healthy_os (disk ?p) = Inr ([aggregate_file, ''notes.txt''] @ rank_file 0 # [])"
    by (simp add: read_dir_def healthy_os_def)
  moreover have "read_entries ?J healthy_os [aggregate_file, ''notes.txt''] (disk ?p) [] =
      (Done (Inr []), Some [(''notes.txt'', File ''hello''), (rank_file 0, File ''[{'')])"
    using notes_names
    by (simp add: healthy_os_def remove_file_def aggregate_file_def [symmetric])
  moreover have "os_entry healthy_os (rank_file 0) = None" "os_read healthy_os (in_dir (rank_file 0)) = None"
    by (simp_all add: healthy_os_def)
  moreover have "rank_file 0 \<noteq> ''notes.txt''" by (simp add: rank_file_def)
  then have "content (disk ?p) (in_dir (rank_file 0)) = Some ''[{''"
    by (simp add: content_Some_entries)
  moreover have "is_trace_name (rank_file 0)" by (simp add: is_trace_name_def)
  ultimately show ?thesis
    using failed_aggregation_loses_old [of healthy_os ?p "[aggregate_file, ''notes.txt'']" "rank_file 0" "[]"
        ?J "[]" "Some [(''notes.txt'', File ''hello''), (rank_file 0, File ''[{'')]" "''[{''" "''Error''"
        reference_sort] by auto
qed

text \<open>
  C38: when writing the aggregate fails, the error is returned and the file is as it was or holds a
  prefix of the text; when it succeeds the file holds exactly the text. No other file changes.
\<close>

theorem write_all_traces_outcome:
  assumes "write_all_traces S s p = (r, p')"
  shows "(r = Inr () \<and> content (disk p') (in_dir aggregate_file) = Some s \<or>
     (\<exists>err. r = Inl err) \<and>
       (content (disk p') (in_dir aggregate_file) = content (disk p) (in_dir aggregate_file) \<or>
        (\<exists>n \<le> length s. content (disk p') (in_dir aggregate_file) = Some (take n s)))) \<and>
    (\<forall>q. q \<noteq> in_dir aggregate_file \<longrightarrow> content (disk p') q = content (disk p) q)"
  using write_all_traces_cases [OF assms] by (cases r) auto

theorem write_all_traces_outcome_witness:
  "\<exists>r p'. write_all_traces healthy_os ''[]'' (process_init (Some sample_dir)) = (r, p') \<and>
     content (disk p') (in_dir (rank_file 0)) = content (Some sample_dir) (in_dir (rank_file 0))"
proof -
  obtain r p' where "write_all_traces healthy_os ''[]'' (process_init (Some sample_dir)) = (r, p')"
    by fastforce
  with write_all_traces_outcome [OF this] show ?thesis by simp
qed

end
