(* ===== verification/Thread_Steps.thy ===== *)
theory Thread_Steps
  imports Mpi_Job "HOL-Library.Sublist"
begin

text \<open>
  Threads of one process that register calls concurrently (\<open>MPI_THREAD_MULTIPLE\<close>). A call of
  \<open>register_mpi_call\<close> is cut at its accesses to what the threads share: building the event is local,
  taking the lock of \<open>EVENTS\<close> waits until nobody holds it, registering and serialising happen
  with the guard alive, the guard is dropped on return or while a panic unwinds (which poisons the
  mutex), and the error line is printed after that. The steps of the threads interleave
  freely; here are the steps, the termination of every run, and mutual exclusion.
\<close>

section \<open>The parts of a dispatch\<close>

text \<open>The local part: the builder chain of the call's registration function.\<close>

definition build_event :: "builders \<Rightarrow> MpiCall \<Rightarrow> string + Register_dyn" where
  "build_event B c =
     (case MpiCall.kind c of
        Init \<Rightarrow> map_sum id DynInit (MpiInitBuilder B
          [Current_rank (MpiCall.current_rank c), Tsc (MpiCall.tsc c), Time (MpiCall.time c)])
      | Initthread \<Rightarrow> map_sum id DynInitThread (MpiInitThreadBuilder B
          [Current_rank (MpiCall.current_rank c),
           Required_thread_lvl (MpiCall.required_thread_lvl c),
           Provided_thread_lvl (MpiCall.provided_thread_lvl c), Tsc (MpiCall.tsc c),
           Time (MpiCall.time c)])
      | Finalize \<Rightarrow> map_sum id DynFinalize (MpiFinalizeBuilder B
          [Current_rank (MpiCall.current_rank c), Tsc (MpiCall.tsc c), Time (MpiCall.time c)])
      | Send \<Rightarrow> map_sum id DynSend (MpiSendBuilder B
          [Current_rank (MpiCall.current_rank c), Partner_rank (MpiCall.partner_rank c),
           Nb_bytes (MpiCall.nb_bytes_s c), Comm (MpiCall.comm c), Tag (MpiCall.tag c),
           Tsc (MpiCall.tsc c), Duration (MpiCall.duration c)])
      | Recv \<Rightarrow> map_sum id DynRecv (MpiRecvBuilder B
          [Current_rank (MpiCall.current_rank c), Partner_rank (MpiCall.partner_rank c),
           Nb_bytes (MpiCall.nb_bytes_r c), Comm (MpiCall.comm c), Tag (MpiCall.tag c),
           Tsc (MpiCall.tsc c), Duration (MpiCall.duration c)])
      | Isend \<Rightarrow> map_sum id DynIsend (MpiIsendBuilder B
          [Current_rank (MpiCall.current_rank c), Partner_rank (MpiCall.partner_rank c),
           Nb_bytes (MpiCall.nb_bytes_s c), Comm (MpiCall.comm c), Req (MpiCall.req c),
           Tag (MpiCall.tag c), Tsc (MpiCall.tsc c), Duration (MpiCall.duration c)])
      | Irecv \<Rightarrow> map_sum id DynIrecv (MpiIrecvBuilder B
          [Current_rank (MpiCall.current_rank c), Partner_rank (MpiCall.partner_rank c),
           Nb_bytes (MpiCall.nb_bytes_r c), Comm (MpiCall.comm c), Req (MpiCall.req c),
           Tag (MpiCall.tag c), Tsc (MpiCall.tsc c), Duration (MpiCall.duration c)])
      | Barrier \<Rightarrow> map_sum id DynBarrier (MpiBarrierBuilder B
          [Current_rank (MpiCall.current_rank c), Comm (MpiCall.comm c), Tsc (MpiCall.tsc c),
           Duration (MpiCall.duration c)])
      | Ibarrier \<Rightarrow> map_sum id DynIbarrier (MpiIbarrierBuilder B
          [Current_rank (MpiCall.current_rank c), Comm (MpiCall.comm c), Req (MpiCall.req c),
           Tsc (MpiCall.tsc c), Duration (MpiCall.duration c)])
      | Test \<Rightarrow> map_sum id DynTest (MpiTestBuilder B
          [Current_rank (MpiCall.current_rank c), Req (MpiCall.req c),
           Finished (MpiCall.finished c), Tsc (MpiCall.tsc c), Duration (MpiCall.duration c)])
      | Wait \<Rightarrow> map_sum id DynWait (MpiWaitBuilder B
          [Current_rank (MpiCall.current_rank c), Req (MpiCall.req c), Tsc (MpiCall.tsc c),
           Duration (MpiCall.duration c)])
      | Ibcast \<Rightarrow> map_sum id DynIbcast (MpiIbcastBuilder B
          [Current_rank (MpiCall.current_rank c), Partner_rank (MpiCall.partner_rank c),
           Nb_bytes (MpiCall.nb_bytes_s c), Comm (MpiCall.comm c), Req (MpiCall.req c),
           Tsc (MpiCall.tsc c), Duration (MpiCall.duration c)])
      | Igather \<Rightarrow> map_sum id DynIgather (MpiIgatherBuilder B
          [Current_rank (MpiCall.current_rank c), Partner_rank (MpiCall.partner_rank c),
           Nb_bytes_send (MpiCall.nb_bytes_s c), Nb_bytes_recv (MpiCall.nb_bytes_r c),
           Comm (MpiCall.comm c), Req (MpiCall.req c), Tsc (MpiCall.tsc c),
           Duration (MpiCall.duration c)])
      | Ireduce \<Rightarrow> map_sum id DynIreduce (MpiIreduceBuilder B
          [Current_rank (MpiCall.current_rank c), Partner_rank (MpiCall.partner_rank c),
           Nb_bytes (MpiCall.nb_bytes_s c), Op_type (MpiCall.op_type c), Comm (MpiCall.comm c),
           Req (MpiCall.req c), Tsc (MpiCall.tsc c), Duration (MpiCall.duration c)])
      | Iscatter \<Rightarrow> map_sum id DynIscatter (MpiIscatterBuilder B
          [Current_rank (MpiCall.current_rank c), Partner_rank (MpiCall.partner_rank c),
           Nb_bytes_send (MpiCall.nb_bytes_s c), Nb_bytes_recv (MpiCall.nb_bytes_r c),
           Comm (MpiCall.comm c), Req (MpiCall.req c), Tsc (MpiCall.tsc c),
           Duration (MpiCall.duration c)]))"

lemma dispatch_build_error:
  assumes "build_event B c = Inl e"
  shows "dispatch B J A S c p = (Done (Inl (from_builder_error e)), p)"
  using assms
  by (cases "MpiCall.kind c")
    (auto simp: dispatch_def register_defs register_finalize_def build_event_def lock_message.simps split: sum.splits)

lemma dispatch_built:
  assumes "build_event B c = Inr e" and "MpiCall.kind c \<noteq> Finalize"
  shows "dispatch B J A S c p = lock_and_register A (lock_message (MpiCall.kind c)) e p"
  using assms
  by (cases "MpiCall.kind c")
    (auto simp: dispatch_def register_defs build_event_def lock_message.simps split: sum.splits)

lemma dispatch_built_finalize:
  assumes "build_event B c = Inr e" and "MpiCall.kind c = Finalize"
  shows "dispatch B J A S c p =
    (case lock_and_register A (lock_message Finalize) e p of
       (Done (Inr u), p') \<Rightarrow>
         (case serialize J S (events p') (MpiCall.current_rank c) p' of
            (Panicked m, p'') \<Rightarrow> (Panicked m, p''\<lparr>poisoned := True\<rparr>)
          | r \<Rightarrow> r)
     | r \<Rightarrow> r)"
  using assms
  by (auto simp: dispatch_def register_finalize_def build_event_def lock_message.simps split: sum.splits)

context derived_builders
begin

lemma build_event_total: "build_event B c = Inr (event_of_call c)"
  by (cases "MpiCall.kind c") (simp_all add: build_event_def event_of_call.simps build_new)

end

section \<open>Threads\<close>

text \<open>
  Where a thread is in its current call, the head of \<open>todo\<close>. Between \<open>Locked\<close> and \<open>Leaving\<close> the
  thread owns the guard.
\<close>

datatype phase =
    Ready
  | Built Register_dyn
  | Locked Register_dyn
  | Registered
  | Leaving "unit result"
  | Returning "unit result"
  | Crashed string

record thread =
  todo :: "env_call list"
  phase :: phase

text \<open>
  A process with its threads. \<open>owner\<close> is the thread that holds the guard, \<open>halted\<close> says that the
  process was aborted, and \<open>history\<close> lists the calls whose guard has been dropped, in that order.
\<close>

record machine =
  proc :: process
  owner :: "nat option"
  threads :: "thread list"
  history :: "(nat \<times> env_call) list"
  halted :: bool

definition machine_init :: "process \<Rightarrow> env_call list list \<Rightarrow> machine" where
  "machine_init p progs =
     \<lparr>proc = p, owner = None, threads = map (\<lambda>cs. \<lparr>todo = cs, phase = Ready\<rparr>) progs,
       history = [], halted = False\<rparr>"

definition at :: "machine \<Rightarrow> nat \<Rightarrow> env_call list \<Rightarrow> phase \<Rightarrow> bool" where
  "at m t cs ph \<longleftrightarrow>
     \<not> halted m \<and> t < length (threads m) \<and> threads m ! t = \<lparr>todo = cs, phase = ph\<rparr>"

definition go :: "nat \<Rightarrow> env_call list \<Rightarrow> phase \<Rightarrow> machine \<Rightarrow> machine" where
  "go t cs ph m = m\<lparr>threads := (threads m)[t := \<lparr>todo = cs, phase = ph\<rparr>]\<rparr>"

text \<open>What the thread does with the guard in hand after \<open>register\<close> succeeded.\<close>

definition after_register :: "MpiCall \<Rightarrow> phase" where
  "after_register c = (if MpiCall.kind c = Finalize then Registered else Leaving (Inr ()))"

inductive mstep :: "builders \<Rightarrow> serde \<Rightarrow> machine \<Rightarrow> machine \<Rightarrow> bool" for B J where
  build: "at m t ((A, S, c) # cs) Ready \<Longrightarrow> build_event B c = Inr e \<Longrightarrow>
    mstep B J m (go t ((A, S, c) # cs) (Built e) m)"
| build_error: "at m t ((A, S, c) # cs) Ready \<Longrightarrow> build_event B c = Inl err \<Longrightarrow>
    mstep B J m (go t ((A, S, c) # cs) (Returning (Inl (from_builder_error err))) m)"
| lock: "at m t ((A, S, c) # cs) (Built e) \<Longrightarrow> owner m = None \<Longrightarrow>
    lock_events (lock_message (MpiCall.kind c)) (proc m) = Inr g \<Longrightarrow>
    mstep B J m (go t ((A, S, c) # cs) (Locked e) (m\<lparr>owner := Some t\<rparr>))"
| lock_poisoned: "at m t ((A, S, c) # cs) (Built e) \<Longrightarrow> owner m = None \<Longrightarrow>
    lock_events (lock_message (MpiCall.kind c)) (proc m) = Inl msg \<Longrightarrow>
    mstep B J m (go t ((A, S, c) # cs) (Crashed msg) m)"
| register: "at m t ((A, S, c) # cs) (Locked e) \<Longrightarrow>
    register A e (guarded (proc m)) = (Done (Inr u), g) \<Longrightarrow>
    mstep B J m (go t ((A, S, c) # cs) (after_register c) (m\<lparr>proc := (proc m)\<lparr>guarded := g\<rparr>\<rparr>))"
| register_error: "at m t ((A, S, c) # cs) (Locked e) \<Longrightarrow>
    register A e (guarded (proc m)) = (Done (Inl err), g) \<Longrightarrow>
    mstep B J m (go t ((A, S, c) # cs) (Leaving (Inl (from_try_reserve_error err)))
      (m\<lparr>proc := (proc m)\<lparr>guarded := g\<rparr>\<rparr>))"
| register_panic: "at m t ((A, S, c) # cs) (Locked e) \<Longrightarrow>
    register A e (guarded (proc m)) = (Panicked msg, g) \<Longrightarrow>
    mstep B J m (go t cs (Crashed msg)
      (m\<lparr>proc := (proc m)\<lparr>guarded := g, poisoned := True\<rparr>, owner := None,
         history := history m @ [(t, A, S, c)]\<rparr>))"
| register_abort: "at m t ((A, S, c) # cs) (Locked e) \<Longrightarrow>
    register A e (guarded (proc m)) = (Aborted, g) \<Longrightarrow>
    mstep B J m (m\<lparr>proc := (proc m)\<lparr>guarded := g\<rparr>, halted := True\<rparr>)"
| serialize: "at m t ((A, S, c) # cs) Registered \<Longrightarrow>
    serialize J S (events (proc m)) (MpiCall.current_rank c) (proc m) = (Done r, p) \<Longrightarrow>
    mstep B J m (go t ((A, S, c) # cs) (Leaving r) (m\<lparr>proc := p\<rparr>))"
| serialize_panic: "at m t ((A, S, c) # cs) Registered \<Longrightarrow>
    serialize J S (events (proc m)) (MpiCall.current_rank c) (proc m) = (Panicked msg, p) \<Longrightarrow>
    mstep B J m (go t cs (Crashed msg)
      (m\<lparr>proc := p\<lparr>poisoned := True\<rparr>, owner := None, history := history m @ [(t, A, S, c)]\<rparr>))"
| unlock: "at m t ((A, S, c) # cs) (Leaving r) \<Longrightarrow>
    mstep B J m (go t ((A, S, c) # cs) (Returning r)
      (m\<lparr>owner := None, history := history m @ [(t, A, S, c)]\<rparr>))"
| return: "at m t ((A, S, c) # cs) (Returning (Inr u)) \<Longrightarrow> mstep B J m (go t cs Ready m)"
| return_error: "at m t ((A, S, c) # cs) (Returning (Inl e)) \<Longrightarrow>
    mstep B J m (go t cs Ready
      (m\<lparr>proc := eprintln (rank_error_line (MpiCall.current_rank c) e) (proc m)\<rparr>))"

section \<open>Invariants of step relations\<close>

text \<open>What the proofs need of a transition system: an invariant, or a measure that decreases.\<close>

locale step_invariant =
  fixes step :: "'s \<Rightarrow> 's \<Rightarrow> bool"
    and inv :: "'s \<Rightarrow> bool"
  assumes step_inv: "step s s' \<Longrightarrow> inv s \<Longrightarrow> inv s'"
begin

lemma steps_inv: "step\<^sup>*\<^sup>* s s' \<Longrightarrow> inv s \<Longrightarrow> inv s'"
  by (induction rule: rtranclp_induct) (auto intro: step_inv)

end

locale step_measure =
  fixes step :: "'s \<Rightarrow> 's \<Rightarrow> bool"
    and size_of :: "'s \<Rightarrow> nat"
  assumes step_decreases: "step s s' \<Longrightarrow> size_of s' < size_of s"
begin

lemma run_length: "(step ^^ n) s s' \<Longrightarrow> n + size_of s' \<le> size_of s"
proof (induction n arbitrary: s')
  case (Suc n)
  then obtain u where "(step ^^ n) s u" and "step u s'" by auto
  with Suc.IH [of u] step_decreases [of u s'] show ?case by simp
qed simp

lemma reaches_final: "\<exists>s'. step\<^sup>*\<^sup>* s s' \<and> (\<forall>u. \<not> step s' u)"
proof (induction "size_of s" arbitrary: s rule: less_induct)
  case less
  show ?case
  proof (cases "\<exists>u. step s u")
    case True
    then obtain u where u: "step s u" by blast
    from less [OF step_decreases [OF u]] u show ?thesis
      by (meson converse_rtranclp_into_rtranclp)
  qed blast
qed

end

section \<open>Every run ends\<close>

fun phase_steps :: "phase \<Rightarrow> nat" where
  "phase_steps Ready = 7"
| "phase_steps (Built _) = 6"
| "phase_steps (Locked _) = 5"
| "phase_steps Registered = 4"
| "phase_steps (Leaving _) = 3"
| "phase_steps (Returning _) = 2"
| "phase_steps (Crashed _) = 0"

definition thread_steps :: "thread \<Rightarrow> nat" where
  "thread_steps th = 6 * length (todo th) + phase_steps (phase th)"

definition machine_steps :: "machine \<Rightarrow> nat" where
  "machine_steps m = sum_list (map thread_steps (threads m)) + (if halted m then 0 else 1)"

lemma sum_list_update_less:
  assumes "t < length xs" and "f y < f (xs ! t)"
  shows "sum_list (map f (xs[t := y])) < (sum_list (map f xs) :: nat)"
proof -
  have "sum_list (map f xs) = sum_list (map f (take t xs)) + f (xs ! t) + sum_list (map f (drop (Suc t) xs))"
    using assms(1) by (metis append.assoc append_Cons append_Nil id_take_nth_drop list.map(2)
        map_append sum_list.Cons sum_list_append group_cancel.add1)
  moreover have "sum_list (map f (xs[t := y])) =
      sum_list (map f (take t xs)) + f y + sum_list (map f (drop (Suc t) xs))"
    using assms(1) by (simp add: upd_conv_take_nth_drop)
  ultimately show ?thesis using assms(2) by simp
qed

lemma go_decreases:
  assumes "at m t cs ph" and "thread_steps \<lparr>todo = cs', phase = ph'\<rparr> < thread_steps \<lparr>todo = cs, phase = ph\<rparr>"
    and "threads m' = threads m" and "halted m' = halted m"
  shows "machine_steps (go t cs' ph' m') < machine_steps m"
  using assms sum_list_update_less [of t "threads m" thread_steps "\<lparr>todo = cs', phase = ph'\<rparr>"]
  by (simp add: machine_steps_def go_def at_def)

interpretation machine_runs: step_measure "mstep B J" machine_steps for B J
proof
  fix m m' assume "mstep B J m m'"
  then show "machine_steps m' < machine_steps m"
    by cases
      (auto intro!: go_decreases simp: thread_steps_def after_register_def, simp_all add: at_def machine_steps_def)
qed

lemma machine_steps_init:
  "machine_steps (machine_init p progs) = 6 * sum_list (map length progs) + 7 * length progs + 1"
proof -
  have "sum_list (map (\<lambda>cs. 6 * length cs + 7) progs) =
      6 * sum_list (map length progs) + 7 * length progs"
    by (induction progs) simp_all
  then show ?thesis
    by (simp add: machine_steps_def machine_init_def thread_steps_def comp_def)
qed

section \<open>Mutual exclusion\<close>

fun in_section :: "phase \<Rightarrow> bool" where
  "in_section (Locked _) \<longleftrightarrow> True"
| "in_section Registered \<longleftrightarrow> True"
| "in_section (Leaving _) \<longleftrightarrow> True"
| "in_section _ \<longleftrightarrow> False"

definition exclusive :: "machine \<Rightarrow> bool" where
  "exclusive m \<longleftrightarrow>
     (\<forall>t < length (threads m). in_section (phase (threads m ! t)) \<longleftrightarrow> owner m = Some t) \<and>
     (\<forall>t. owner m = Some t \<longrightarrow> t < length (threads m))"

lemma go_simps [simp]:
  "proc (go t cs ph m) = proc m" "owner (go t cs ph m) = owner m"
  "history (go t cs ph m) = history m" "halted (go t cs ph m) = halted m"
  "threads (go t cs ph m) = (threads m)[t := \<lparr>todo = cs, phase = ph\<rparr>]"
  by (simp_all add: go_def)

lemma after_register_section [simp]: "in_section (after_register c)"
  by (simp add: after_register_def)

lemma exclusive_owner: "exclusive m \<Longrightarrow> at m t cs ph \<Longrightarrow> in_section ph \<longleftrightarrow> owner m = Some t"
  by (auto simp: exclusive_def at_def)

interpretation machine_exclusive: step_invariant "mstep B J" exclusive for B J
proof
  fix m m' assume step: "mstep B J m m'" and inv: "exclusive m"
  from step show "exclusive m'"
    by cases
      (insert inv exclusive_owner [OF inv], fastforce simp: exclusive_def at_def nth_list_update)+
qed

end
