(* ===== verification/Job_Steps.thy ===== *)
theory Job_Steps
  imports Merge_Properties Thread_Steps
begin

text \<open>
  The ranks of a job as they run side by side. \<open>MPI_Finalize\<close> of \<open>interpol-c.c\<close> waits at a barrier,
  registers the finalize call (which writes the rank's trace file), waits at a second barrier, and
  on rank 0 calls \<open>sort_all_traces\<close>. The directory is shared, everything else is local to a rank. A
  step is one call of the back end; ranks interleave freely between the barriers. Member \<open>i\<close> is the
  process of rank \<open>i\<close> in \<open>MPI_COMM_WORLD\<close>, the number that \<open>MPI_Init\<close> puts into \<open>current_rank\<close>, so
  \<open>current_rank == 0\<close> is \<open>i = 0\<close>. The barrier in \<open>MPI_Init\<close> and the ordering that the recorded MPI
  calls impose on the ranks are left out, which only adds interleavings, and so is \<open>PMPI_Finalize\<close>,
  which follows the last step of a rank. The lemmas relate every interleaving to a run of the ranks
  one after the other (theory \<open>Mpi_Job\<close>).
\<close>

section \<open>States and steps\<close>

text \<open>
  Where a rank is: \<open>Entered1\<close> and \<open>Entered2\<close> are the two barriers, \<open>Died n\<close> is a rank whose process
  ended (by a panic or an abort) after it had come as far as \<open>n\<close>.
\<close>

datatype stage = Running | Entered1 | Finalizing | Entered2 | Aggregating | Exited | Died nat

fun stage_no :: "stage \<Rightarrow> nat" where
  "stage_no Running = 0"
| "stage_no Entered1 = 1"
| "stage_no Finalizing = 2"
| "stage_no Entered2 = 3"
| "stage_no Aggregating = 4"
| "stage_no Exited = 5"
| "stage_no (Died n) = n"

record rank_state =
  rank_proc :: process
  rank_todo :: "env_call list"
  rank_stage :: stage

record cluster =
  members :: "rank_state list"
  shared :: disk

definition cluster_init :: "env_call list list \<Rightarrow> disk \<Rightarrow> cluster" where
  "cluster_init progs d =
     \<lparr>members = map (\<lambda>cs. \<lparr>rank_proc = process_init d, rank_todo = cs, rank_stage = Running\<rparr>) progs,
       shared = d\<rparr>"

definition member :: "cluster \<Rightarrow> nat \<Rightarrow> process \<Rightarrow> env_call list \<Rightarrow> stage \<Rightarrow> bool" where
  "member m i p cs st \<longleftrightarrow> i < length (members m) \<and>
     members m ! i = \<lparr>rank_proc = p, rank_todo = cs, rank_stage = st\<rparr>"

definition set_member :: "nat \<Rightarrow> process \<Rightarrow> env_call list \<Rightarrow> stage \<Rightarrow> cluster \<Rightarrow> cluster" where
  "set_member i p cs st m =
     m\<lparr>members := (members m)[i := \<lparr>rank_proc = p, rank_todo = cs, rank_stage = st\<rparr>]\<rparr>"

text \<open>A barrier lets a rank go on when every rank has entered it.\<close>

definition all_reached :: "nat \<Rightarrow> cluster \<Rightarrow> bool" where
  "all_reached n m \<longleftrightarrow> list_all (\<lambda>x. n \<le> stage_no (rank_stage x)) (members m)"

text \<open>Which handler of \<open>interpol-c.c\<close> made the call: \<open>MPI_Finalize\<close> or one without barriers.\<close>

definition is_finalize :: "MpiCall \<Rightarrow> bool" where
  "is_finalize c \<longleftrightarrow> MpiCall.kind c = Finalize"

inductive cstep :: "builders \<Rightarrow> serde \<Rightarrow> sorter \<Rightarrow> os \<Rightarrow> cluster \<Rightarrow> cluster \<Rightarrow> bool"
  for B J par_sort So where
  call: "member m i p ((A, S, c) # cs) Running \<Longrightarrow> \<not> is_finalize c \<Longrightarrow>
    register_mpi_call B J A S c (p\<lparr>disk := shared m\<rparr>) = (Done u, p') \<Longrightarrow>
    cstep B J par_sort So m (set_member i p' cs Running (m\<lparr>shared := disk p'\<rparr>))"
| call_dies: "member m i p ((A, S, c) # cs) Running \<Longrightarrow> \<not> is_finalize c \<Longrightarrow>
    register_mpi_call B J A S c (p\<lparr>disk := shared m\<rparr>) = (r, p') \<Longrightarrow> r \<noteq> Done () \<Longrightarrow>
    cstep B J par_sort So m (set_member i p' cs (Died 0) (m\<lparr>shared := disk p'\<rparr>))"
| enter1: "member m i p ((A, S, c) # cs) Running \<Longrightarrow> is_finalize c \<Longrightarrow>
    cstep B J par_sort So m (set_member i p ((A, S, c) # cs) Entered1 m)"
| leave1: "member m i p cs Entered1 \<Longrightarrow> all_reached 1 m \<Longrightarrow>
    cstep B J par_sort So m (set_member i p cs Finalizing m)"
| finalize: "member m i p ((A, S, c) # cs) Finalizing \<Longrightarrow>
    register_mpi_call B J A S c (p\<lparr>disk := shared m\<rparr>) = (Done u, p') \<Longrightarrow>
    cstep B J par_sort So m (set_member i p' cs Entered2 (m\<lparr>shared := disk p'\<rparr>))"
| finalize_dies: "member m i p ((A, S, c) # cs) Finalizing \<Longrightarrow>
    register_mpi_call B J A S c (p\<lparr>disk := shared m\<rparr>) = (r, p') \<Longrightarrow> r \<noteq> Done () \<Longrightarrow>
    cstep B J par_sort So m (set_member i p' cs (Died 2) (m\<lparr>shared := disk p'\<rparr>))"
| leave2: "member m i p cs Entered2 \<Longrightarrow> all_reached 3 m \<Longrightarrow>
    cstep B J par_sort So m (set_member i p cs (if i = 0 then Aggregating else Exited) m)"
| aggregate: "member m i p cs Aggregating \<Longrightarrow>
    sort_all_traces J par_sort So (p\<lparr>disk := shared m\<rparr>) = (Done u, p') \<Longrightarrow>
    cstep B J par_sort So m (set_member i p' cs Exited (m\<lparr>shared := disk p'\<rparr>))"
| aggregate_dies: "member m i p cs Aggregating \<Longrightarrow>
    sort_all_traces J par_sort So (p\<lparr>disk := shared m\<rparr>) = (r, p') \<Longrightarrow> r \<noteq> Done () \<Longrightarrow>
    cstep B J par_sort So m (set_member i p' cs (Died 4) (m\<lparr>shared := disk p'\<rparr>))"

lemma set_member_simps [simp]:
  "shared (set_member i p cs st m) = shared m"
  "members (set_member i p cs st m) =
     (members m)[i := \<lparr>rank_proc = p, rank_todo = cs, rank_stage = st\<rparr>]"
  by (simp_all add: set_member_def)

section \<open>The barriers\<close>

text \<open>
  Whatever fails: once a rank is past the first barrier every rank has come to it, and once a rank is
  past the second every rank has registered its finalize call.
\<close>

definition behind_barriers :: "cluster \<Rightarrow> bool" where
  "behind_barriers m \<longleftrightarrow>
     (\<forall>x \<in> set (members m). (2 \<le> stage_no (rank_stage x) \<longrightarrow> all_reached 1 m) \<and>
        (4 \<le> stage_no (rank_stage x) \<longrightarrow> all_reached 3 m))"

lemma all_reached_update:
  assumes "all_reached n m" and "member m i p cs st" and "stage_no st \<le> stage_no st' \<or> n \<le> stage_no st'"
    and "members m' = members m"
  shows "all_reached n (set_member i p' cs' st' m')"
proof -
  have "n \<le> stage_no st" using assms(1,2) by (force simp: all_reached_def member_def list_all_iff
        dest: nth_mem)
  with assms show ?thesis
    using set_update_subset_insert [of "members m" i "\<lparr>rank_proc = p', rank_todo = cs', rank_stage = st'\<rparr>"]
    by (auto simp: all_reached_def list_all_iff)
qed

lemma behind_barriers_update:
  assumes inv: "behind_barriers m" and m: "member m i p cs st" and up: "stage_no st \<le> stage_no st'"
    and "members m' = members m"
    and first: "2 \<le> stage_no st' \<Longrightarrow> all_reached 1 m" and second: "4 \<le> stage_no st' \<Longrightarrow> all_reached 3 m"
  shows "behind_barriers (set_member i p' cs' st' m')"
proof -
  have keep: "all_reached n (set_member i p' cs' st' m')" if "all_reached n m" for n
    using all_reached_update [OF that m] up assms(4) by blast
  show ?thesis
    unfolding behind_barriers_def
  proof
    fix x assume "x \<in> set (members (set_member i p' cs' st' m'))"
    then have "x = \<lparr>rank_proc = p', rank_todo = cs', rank_stage = st'\<rparr> \<or> x \<in> set (members m)"
      using set_update_subset_insert [of "members m" i "\<lparr>rank_proc = p', rank_todo = cs', rank_stage = st'\<rparr>"]
        assms(4) by auto
    then show "(2 \<le> stage_no (rank_stage x) \<longrightarrow> all_reached 1 (set_member i p' cs' st' m')) \<and>
        (4 \<le> stage_no (rank_stage x) \<longrightarrow> all_reached 3 (set_member i p' cs' st' m'))"
      using keep first second inv by (auto simp: behind_barriers_def)
  qed
qed

interpretation cluster_barriers: step_invariant "cstep B J par_sort So" behind_barriers
  for B J par_sort So
proof
  fix m m' assume step: "cstep B J par_sort So m m'" and inv: "behind_barriers m"
  have past: "(2 \<le> stage_no st \<longrightarrow> all_reached 1 m) \<and> (4 \<le> stage_no st \<longrightarrow> all_reached 3 m)"
    if "member m i p cs st" for i p cs st
    using inv that by (force simp: behind_barriers_def member_def dest: nth_mem)
  from step show "behind_barriers m'"
  proof cases
    case (call i p A S c cs u p')
    show ?thesis unfolding call(1)
      by (rule behind_barriers_update [OF inv call(2)]) (use past [OF call(2)] in simp_all)
  next
    case (call_dies i p A S c cs r p')
    show ?thesis unfolding call_dies(1)
      by (rule behind_barriers_update [OF inv call_dies(2)]) (use past [OF call_dies(2)] in simp_all)
  next
    case (enter1 i p A S c cs)
    show ?thesis unfolding enter1(1)
      by (rule behind_barriers_update [OF inv enter1(2)]) (use past [OF enter1(2)] in simp_all)
  next
    case (leave1 i p cs)
    show ?thesis unfolding leave1(1)
      by (rule behind_barriers_update [OF inv leave1(2)]) (use leave1(3) in simp_all)
  next
    case (finalize i p A S c cs u p')
    show ?thesis unfolding finalize(1)
      by (rule behind_barriers_update [OF inv finalize(2)]) (use past [OF finalize(2)] in simp_all)
  next
    case (finalize_dies i p A S c cs r p')
    show ?thesis unfolding finalize_dies(1)
      by (rule behind_barriers_update [OF inv finalize_dies(2)])
        (use past [OF finalize_dies(2)] in simp_all)
  next
    case (leave2 i p cs)
    show ?thesis unfolding leave2(1)
      by (rule behind_barriers_update [OF inv leave2(2)])
        (use past [OF leave2(2)] leave2(3) in simp_all)
  next
    case (aggregate i p cs u p')
    show ?thesis unfolding aggregate(1)
      by (rule behind_barriers_update [OF inv aggregate(2)]) (use past [OF aggregate(2)] in simp_all)
  next
    case (aggregate_dies i p cs r p')
    show ?thesis unfolding aggregate_dies(1)
      by (rule behind_barriers_update [OF inv aggregate_dies(2)])
        (use past [OF aggregate_dies(2)] in simp_all)
  qed
qed

section \<open>A job without faults\<close>

definition job_entry :: "env_call list list \<Rightarrow> nat \<Rightarrow> MpiRank \<times> env_call list" where
  "job_entry progs i = (word_of_nat i, progs ! i)"

definition job_of :: "env_call list list \<Rightarrow> job" where
  "job_of progs = map (job_entry progs) [0..<length progs]"

definition faultless ::
    "builders \<Rightarrow> serde \<Rightarrow> (Usecs \<Rightarrow> Usecs) \<Rightarrow> sorter \<Rightarrow> os \<Rightarrow> env_call list list \<Rightarrow> disk \<Rightarrow> bool" where
  "faultless B J reread par_sort So progs d \<longleftrightarrow>
     derived_builders B \<and> serde_codec J reread \<and> unstable_sort par_sort \<and> healthy So \<and>
     progs \<noteq> [] \<and> job_ok (job_of progs) \<and> mergeable J (entries d)"

lemma job_ok_sub:
  assumes "job_ok (job_of progs)" and "distinct order" and "\<forall>i \<in> set order. i < length progs"
  shows "job_ok (map (job_entry progs) order)"
proof -
  have "distinct (map fst (job_of progs))" using assms(1) by (simp add: job_ok_def)
  then have "inj_on (word_of_nat :: nat \<Rightarrow> MpiRank) {0..<length progs}"
    by (simp add: job_of_def job_entry_def comp_def distinct_map)
  then have "inj_on (word_of_nat :: nat \<Rightarrow> MpiRank) (set order)"
    by (rule inj_on_subset) (use assms(3) in auto)
  with assms(2) have "distinct (map fst (map (job_entry progs) order))"
    by (simp add: job_entry_def comp_def distinct_map)
  moreover have "set (map (job_entry progs) order) \<subseteq> set (job_of progs)"
    using assms(3) by (auto simp: job_of_def)
  ultimately show ?thesis using assms(1) unfolding job_ok_def by blast
qed

lemma run_ranks_snoc:
  "run_ranks B J (js @ [(r, cs)]) d =
     (case run_ranks B J js d of
        None \<Rightarrow> None
      | Some d' \<Rightarrow> (case run_calls B J cs (process_init d') of (Done u, p) \<Rightarrow> Some (disk p) | _ \<Rightarrow> None))"
  by (induction B J js d rule: run_ranks.induct) (auto split: prod.split run.split)

lemma job_ok_member:
  assumes "job_ok (job_of progs)" and "i < length progs"
  shows "rank_run (word_of_nat i) (progs ! i)" and "ample (progs ! i)" and "fits (progs ! i)"
    and "finite_times (recorded (progs ! i))"
proof -
  have "job_entry progs i \<in> set (job_of progs)" using assms(2) by (simp add: job_of_def)
  then have "(word_of_nat i, progs ! i) \<in> set (job_of progs)" by (simp add: job_entry_def)
  with assms(1) show "rank_run (word_of_nat i) (progs ! i)" and "ample (progs ! i)"
    and "fits (progs ! i)" and "finite_times (recorded (progs ! i))"
    by (auto simp: job_ok_def recorded_def)
qed

text \<open>A rank of such a job: what it has recorded are the calls it has made.\<close>

definition local_ok :: "env_call list \<Rightarrow> process \<Rightarrow> bool" where
  "local_ok made p \<longleftrightarrow> process_inv p \<and> \<not> poisoned p \<and> events p = recorded made"

definition rank_ok :: "env_call list \<Rightarrow> rank_state \<Rightarrow> bool" where
  "rank_ok prog x \<longleftrightarrow>
     (case rank_stage x of
        Running \<Rightarrow> \<exists>made. prog = made @ rank_todo x \<and> local_ok made (rank_proc x) \<and> rank_todo x \<noteq> []
      | Entered1 \<Rightarrow> \<exists>made ec. rank_todo x = [ec] \<and> prog = made @ [ec] \<and> local_ok made (rank_proc x)
      | Finalizing \<Rightarrow> \<exists>made ec. rank_todo x = [ec] \<and> prog = made @ [ec] \<and> local_ok made (rank_proc x)
      | Died _ \<Rightarrow> False
      | _ \<Rightarrow> True)"

lemma local_ok_disk [simp]: "local_ok made (p\<lparr>disk := d\<rparr>) = local_ok made p"
  by (simp add: local_ok_def process_inv_def events_def)

lemma rank_ok_simps:
  "rank_ok prog \<lparr>rank_proc = p, rank_todo = cs, rank_stage = Running\<rparr> \<longleftrightarrow>
     (\<exists>made. prog = made @ cs \<and> local_ok made p \<and> cs \<noteq> [])"
  "rank_ok prog \<lparr>rank_proc = p, rank_todo = cs, rank_stage = Entered1\<rparr> \<longleftrightarrow>
     (\<exists>made ec. cs = [ec] \<and> prog = made @ [ec] \<and> local_ok made p)"
  "rank_ok prog \<lparr>rank_proc = p, rank_todo = cs, rank_stage = Finalizing\<rparr> \<longleftrightarrow>
     (\<exists>made ec. cs = [ec] \<and> prog = made @ [ec] \<and> local_ok made p)"
  "rank_ok prog \<lparr>rank_proc = p, rank_todo = cs, rank_stage = Entered2\<rparr>"
  "rank_ok prog \<lparr>rank_proc = p, rank_todo = cs, rank_stage = Aggregating\<rparr>"
  "rank_ok prog \<lparr>rank_proc = p, rank_todo = cs, rank_stage = Exited\<rparr>"
  "\<not> rank_ok prog \<lparr>rank_proc = p, rank_todo = cs, rank_stage = Died n\<rparr>"
  by (simp_all add: rank_ok_def)

text \<open>One call of a rank on the shared directory.\<close>

lemma member_call:
  assumes B: "derived_builders B" and prog: "prog = made @ (A, S, c) # cs" and run: "rank_run r prog"
    and "ample prog" and "fits prog" and p: "local_ok made p" and "\<not> is_finalize c"
  shows "\<exists>p'. register_mpi_call B J A S c p = (Done (), p') \<and> disk p' = disk p \<and>
    local_ok (made @ [(A, S, c)]) p'" and "cs \<noteq> []"
proof -
  have "ample [(A, S, c)]" using \<open>ample prog\<close> prog by simp
  moreover have "3 * (length (events p) + length [(A, S, c)]) * elem_size \<le> isize_max"
    using \<open>fits prog\<close> prog p by (simp add: local_ok_def recorded_def fits_def elem_size_def)
  ultimately obtain g where "run_calls B J [(A, S, c)] p = (Done (), p\<lparr>guarded := g\<rparr>)"
    and "vec_inv g" and "items g = events p @ map event_of_call (calls_of [(A, S, c)])"
    using run_calls_ample [OF B, of p "[(A, S, c)]" J] p \<open>\<not> is_finalize c\<close>
    by (auto simp: local_ok_def is_finalize_def)
  then show "\<exists>p'. register_mpi_call B J A S c p = (Done (), p') \<and> disk p' = disk p \<and>
      local_ok (made @ [(A, S, c)]) p'"
    using p by (auto simp: local_ok_def process_inv_def events_def recorded_def
        split: prod.splits run.splits)
  show "cs \<noteq> []"
    using run prog \<open>\<not> is_finalize c\<close> by (auto simp: rank_run_def call_of_def is_finalize_def)
qed

lemma finalize_is_last:
  assumes "prog = made @ (A, S, c) # cs" and "rank_run r prog" and "is_finalize c"
  shows "cs = []" and "MpiCall.current_rank c = r"
proof -
  show "cs = []"
  proof (rule ccontr)
    assume "cs \<noteq> []"
    with assms(1) have "c \<in> set (calls_of (butlast prog))"
      by (cases cs) (simp_all add: butlast_append)
    with assms(2,3) show False by (auto simp: rank_run_def is_finalize_def)
  qed
  with assms show "MpiCall.current_rank c = r" by (simp add: rank_run_def call_of_def)
qed

text \<open>The finalize call of a rank does to the shared directory what the whole rank alone would do.\<close>

lemma member_finalize:
  assumes B: "derived_builders B" and J: "serde_codec J reread" and prog: "prog = made @ [(A, S, c)]"
    and run: "rank_run r prog" and "ample prog" and "fits prog" and p: "local_ok made p"
    and no_subdir: "map_of (entries (disk p)) (rank_file r) \<noteq> Some Subdir"
  shows "\<exists>p' q. register_mpi_call B J A S c p = (Done (), p') \<and>
    run_calls B J prog (process_init (disk p)) = (Done (), q) \<and> disk q = disk p'"
proof -
  have c: "MpiCall.kind c = Finalize" "MpiCall.current_rank c = r"
    using run prog by (simp_all add: rank_run_def call_of_def)
  obtain json where json: "to_string J (map event_of_call (calls_of prog)) = Inr json"
    using serde_codec.to_string_total [OF J] by blast
  have "events p @ [event_of_call c] = map event_of_call (calls_of prog)"
    using p prog by (simp add: local_ok_def recorded_def)
  moreover have "has_room p"
    using \<open>fits prog\<close> prog p
    by (simp add: has_room_def local_ok_def recorded_def fits_def elem_size_def)
  moreover have "generous A" "grants_writes S" using \<open>ample prog\<close> prog by simp_all
  ultimately obtain g where "register_mpi_call B J A S c p = (Done (), finalize_state r json g p)"
    using finalize_call [OF B _ _ _ _ _ c no_subdir, of A S J json] p json
    by (auto simp: local_ok_def)
  moreover obtain g' where "run_calls B J prog (process_init (disk p)) =
      (Done (), finalize_state r json g' (process_init (disk p)))"
    using run_rank [OF B json run \<open>ample prog\<close> \<open>fits prog\<close> no_subdir] by blast
  ultimately show ?thesis by (simp add: finalize_state_def)
qed

section \<open>Every interleaving is a run one after the other\<close>

text \<open>
  The shared directory is what the ranks that have finalized make of it when each runs on its own, in
  the order in which they finalized; once rank 0 has left, it is that directory aggregated.
\<close>

definition finalized :: "cluster \<Rightarrow> nat set" where
  "finalized m = {i. i < length (members m) \<and> 3 \<le> stage_no (rank_stage (members m ! i))}"

definition in_sequence ::
    "builders \<Rightarrow> serde \<Rightarrow> sorter \<Rightarrow> os \<Rightarrow> env_call list list \<Rightarrow> disk \<Rightarrow> cluster \<Rightarrow> nat list \<Rightarrow> disk \<Rightarrow> bool" where
  "in_sequence B J par_sort So progs d0 m order d \<longleftrightarrow>
     distinct order \<and> set order = finalized m \<and>
     run_ranks B J (map (job_entry progs) order) d0 = Some d \<and>
     (if rank_stage (members m ! 0) = Exited
      then \<exists>p p'. disk p = d \<and> sort_all_traces J par_sort So p = (Done (), p') \<and> shared m = disk p'
      else shared m = d)"

definition cluster_ok ::
    "builders \<Rightarrow> serde \<Rightarrow> sorter \<Rightarrow> os \<Rightarrow> env_call list list \<Rightarrow> disk \<Rightarrow> cluster \<Rightarrow> bool" where
  "cluster_ok B J par_sort So progs d0 m \<longleftrightarrow>
     behind_barriers m \<and> length (members m) = length progs \<and>
     (\<forall>i < length progs. rank_ok (progs ! i) (members m ! i) \<and>
        (rank_stage (members m ! i) = Aggregating \<longrightarrow> i = 0)) \<and>
     (\<exists>order d. in_sequence B J par_sort So progs d0 m order d)"

lemma cluster_ok_init:
  assumes "progs \<noteq> []" and "[] \<notin> set progs"
  shows "cluster_ok B J par_sort So progs d (cluster_init progs d)"
proof -
  have "rank_ok (progs ! i) (members (cluster_init progs d) ! i)" if "i < length progs" for i
  proof -
    have "progs ! i \<noteq> []" using that assms(2) by (metis nth_mem)
    with that show ?thesis
      by (simp add: cluster_init_def rank_ok_simps local_ok_def process_inv_init recorded_def)
  qed
  moreover have "in_sequence B J par_sort So progs d (cluster_init progs d) [] d"
    using assms(1) by (auto simp: in_sequence_def finalized_def cluster_init_def)
  moreover have "behind_barriers (cluster_init progs d)"
    by (simp add: behind_barriers_def cluster_init_def)
  ultimately show ?thesis
    by (auto simp: cluster_ok_def) (simp_all add: cluster_init_def)
qed

text \<open>Before a rank has come to the second barrier rank 0 has not left.\<close>

lemma rank_zero_stays:
  assumes "cluster_ok B J par_sort So progs d0 m" and "member m i p cs st" and "stage_no st < 3"
  shows "rank_stage (members m ! 0) \<noteq> Exited"
proof
  assume exited: "rank_stage (members m ! 0) = Exited"
  have i: "i < length (members m)" "rank_stage (members m ! i) = st"
    using assms(2) by (simp_all add: member_def)
  then have "members m ! 0 \<in> set (members m)" by (intro nth_mem) linarith
  moreover have "4 \<le> stage_no (rank_stage (members m ! 0))" using exited by simp
  moreover have "behind_barriers m" using assms(1) by (simp add: cluster_ok_def)
  ultimately have "all_reached 3 m" unfolding behind_barriers_def by blast
  then have "3 \<le> stage_no (rank_stage (members m ! i))"
    using i(1) by (simp add: all_reached_def list_all_length)
  with assms(3) i(2) show False by simp
qed

text \<open>A step of a rank that neither finalizes nor touches the directory.\<close>

lemma cluster_ok_quiet:
  assumes ok: "cluster_ok B J par_sort So progs d0 m" and mem: "member m i p cs st"
    and "behind_barriers (set_member i p' cs' st' m')"
    and same: "members m' = members m" "shared m' = shared m"
    and no: "3 \<le> stage_no st \<longleftrightarrow> 3 \<le> stage_no st'"
    and new: "rank_ok (progs ! i) \<lparr>rank_proc = p', rank_todo = cs', rank_stage = st'\<rparr>"
    and zero: "st' = Aggregating \<longrightarrow> i = 0" "i = 0 \<longrightarrow> st \<noteq> Exited \<and> st' \<noteq> Exited"
  shows "cluster_ok B J par_sort So progs d0 (set_member i p' cs' st' m')"
proof -
  have i: "i < length (members m)" "rank_stage (members m ! i) = st"
    using mem by (simp_all add: member_def)
  obtain order d where seq: "in_sequence B J par_sort So progs d0 m order d"
    using ok by (auto simp: cluster_ok_def)
  have "finalized (set_member i p' cs' st' m') = finalized m"
    using same(1) i no by (auto simp: finalized_def nth_list_update)
  moreover have "rank_stage (members (set_member i p' cs' st' m') ! 0) = Exited \<longleftrightarrow>
      rank_stage (members m ! 0) = Exited"
    using same(1) i zero(2) by (cases "i = 0") auto
  moreover have "shared (set_member i p' cs' st' m') = shared m" using same(2) by simp
  ultimately have "in_sequence B J par_sort So progs d0 (set_member i p' cs' st' m') order d"
    using seq by (simp only: in_sequence_def simp_thms) blast
  moreover have "rank_ok (progs ! k) (members (set_member i p' cs' st' m') ! k) \<and>
      (rank_stage (members (set_member i p' cs' st' m') ! k) = Aggregating \<longrightarrow> k = 0)"
    if "k < length progs" for k
    using ok new zero(1) same(1) i that
    by (cases "k = i") (auto simp: cluster_ok_def)
  ultimately show ?thesis
    using ok assms(3) same(1) unfolding cluster_ok_def by auto
qed

text \<open>A rank finalizes: the sequence grows by this rank.\<close>

lemma in_sequence_finalize:
  assumes fl: "faultless B J reread par_sort So progs d0" and ok: "cluster_ok B J par_sort So progs d0 m"
    and mem: "member m i p cs Finalizing"
  obtains A S c p' where "cs = [(A, S, c)]"
    and "register_mpi_call B J A S c (p\<lparr>disk := shared m\<rparr>) = (Done (), p')"
    and "\<exists>order d. in_sequence B J par_sort So progs d0
      (set_member i p' [] Entered2 (m\<lparr>shared := disk p'\<rparr>)) order d"
proof -
  have B: "derived_builders B" and J: "serde_codec J reread" and job: "job_ok (job_of progs)"
    and merge: "mergeable J (entries d0)"
    using fl by (simp_all add: faultless_def)
  have i: "i < length progs" "members m ! i = \<lparr>rank_proc = p, rank_todo = cs, rank_stage = Finalizing\<rparr>"
    using mem ok by (simp_all add: member_def cluster_ok_def)
  then have "rank_ok (progs ! i) \<lparr>rank_proc = p, rank_todo = cs, rank_stage = Finalizing\<rparr>"
    using ok by (auto simp: cluster_ok_def)
  then obtain made ec where cs: "cs = [ec]" and prog: "progs ! i = made @ [ec]" and p: "local_ok made p"
    by (auto simp: rank_ok_simps)
  obtain A S c where ec: "ec = (A, S, c)" by (cases ec)
  obtain order d where seq: "in_sequence B J par_sort So progs d0 m order d"
    using ok by (auto simp: cluster_ok_def)
  have stays: "rank_stage (members m ! 0) \<noteq> Exited"
    using rank_zero_stays [OF ok mem] by simp
  with seq have d: "shared m = d" and run: "run_ranks B J (map (job_entry progs) order) d0 = Some d"
    and order: "distinct order" "set order = finalized m"
    by (simp_all add: in_sequence_def)
  have len: "length (members m) = length progs" using ok by (simp add: cluster_ok_def)
  have "job_ok (map (job_entry progs) order)"
    using order len by (intro job_ok_sub [OF job]) (auto simp: finalized_def)
  from run_ranks_ok [OF B J this merge] run have "mergeable J (entries d)" by auto
  then have no_subdir: "map_of (entries (disk (p\<lparr>disk := shared m\<rparr>))) (rank_file (word_of_nat i)) \<noteq> Some Subdir"
    using mergeable_no_subdir d by simp
  from member_finalize [OF B J prog [unfolded ec] job_ok_member(1,2,3) [OF job i(1)] _ no_subdir] p
  obtain p' q where p': "register_mpi_call B J A S c (p\<lparr>disk := shared m\<rparr>) = (Done (), p')"
    and q: "run_calls B J (progs ! i) (process_init d) = (Done (), q)" "disk q = disk p'"
    using d by auto
  let ?m = "set_member i p' [] Entered2 (m\<lparr>shared := disk p'\<rparr>)"
  have "i \<notin> set order" using order i by (simp add: finalized_def)
  moreover have "finalized ?m = insert i (finalized m)"
    using i len by (auto simp: finalized_def nth_list_update)
  moreover have "rank_stage (members ?m ! 0) \<noteq> Exited"
    using stays i len by (cases "i = 0") auto
  moreover have "run_ranks B J (map (job_entry progs) (order @ [i])) d0 = Some (disk p')"
    using run q by (simp add: job_entry_def run_ranks_snoc)
  ultimately have "in_sequence B J par_sort So progs d0 ?m (order @ [i]) (disk p')"
    using order by (simp add: in_sequence_def)
  with p' cs ec show ?thesis by (intro that) auto
qed


text \<open>The directory of such a sequence is readable and holds the events of its ranks.\<close>

lemma in_sequence_directory:
  assumes fl: "faultless B J reread par_sort So progs d0" and ok: "cluster_ok B J par_sort So progs d0 m"
    and seq: "in_sequence B J par_sort So progs d0 m order d"
  shows "mergeable J (entries d)" and "order \<noteq> [] \<longrightarrow> d \<noteq> None"
    and "disk_events J (entries d) = job_events reread (map (job_entry progs) order) +
      disk_events J (leftovers (map (job_entry progs) order) (entries d0))"
proof -
  have "job_ok (map (job_entry progs) order)"
    using seq ok fl
    by (intro job_ok_sub) (auto simp: faultless_def in_sequence_def finalized_def cluster_ok_def)
  then have "\<exists>d'. run_ranks B J (map (job_entry progs) order) d0 = Some d' \<and>
      mergeable J (entries d') \<and> (map (job_entry progs) order \<noteq> [] \<longrightarrow> d' \<noteq> None) \<and>
      disk_events J (entries d') = job_events reread (map (job_entry progs) order) +
        disk_events J (leftovers (map (job_entry progs) order) (entries d0))"
    using fl unfolding faultless_def by (intro run_ranks_ok) blast+
  with seq show "mergeable J (entries d)" and "order \<noteq> [] \<longrightarrow> d \<noteq> None"
    and "disk_events J (entries d) = job_events reread (map (job_entry progs) order) +
      disk_events J (leftovers (map (job_entry progs) order) (entries d0))"
    by (auto simp: in_sequence_def)
qed

lemma aggregating_zero:
  assumes "cluster_ok B J par_sort So progs d0 m" and "member m i p cs Aggregating"
  shows "i = 0"
  using assms by (auto simp: cluster_ok_def member_def)

text \<open>Rank 0 aggregates: the aggregation of a readable directory returns.\<close>

lemma in_sequence_aggregate:
  assumes fl: "faultless B J reread par_sort So progs d0" and ok: "cluster_ok B J par_sort So progs d0 m"
    and mem: "member m i p cs Aggregating"
  obtains p' where "sort_all_traces J par_sort So (p\<lparr>disk := shared m\<rparr>) = (Done (), p')"
    and "\<exists>order d. in_sequence B J par_sort So progs d0
      (set_member i p' cs Exited (m\<lparr>shared := disk p'\<rparr>)) order d"
proof -
  obtain order d where seq: "in_sequence B J par_sort So progs d0 m order d"
    using ok by (auto simp: cluster_ok_def)
  have i: "i = 0" "0 < length (members m)" "rank_stage (members m ! 0) = Aggregating"
    using mem aggregating_zero [OF ok mem] by (auto simp: member_def)
  then have "0 \<in> set order" using seq by (simp add: in_sequence_def finalized_def)
  then obtain es where es: "d = Some es" "mergeable J es"
    using in_sequence_directory [OF fl ok seq] by (cases d) auto
  have shared: "shared m = d" using seq i by (simp add: in_sequence_def)
  obtain p' where p': "sort_all_traces J par_sort So (p\<lparr>disk := shared m\<rparr>) = (Done (), p')"
    using sort_all_traces_aggregates [of J reread par_sort So es "p\<lparr>disk := shared m\<rparr>"] fl es shared
    unfolding faultless_def by (metis (no_types, lifting) process.select_convs(3) process.surjective
        process.update_convs(3))
  let ?m = "set_member i p' cs Exited (m\<lparr>shared := disk p'\<rparr>)"
  have "finalized ?m = finalized m"
    using i by (auto simp: finalized_def nth_list_update)
  moreover have "\<exists>q q'. disk q = d \<and> sort_all_traces J par_sort So q = (Done (), q') \<and> disk p' = disk q'"
    using p' shared by (intro exI [of _ "p\<lparr>disk := shared m\<rparr>"] exI [of _ p']) simp
  ultimately have "in_sequence B J par_sort So progs d0 ?m order d"
    using seq i by (simp add: in_sequence_def)
  with p' show ?thesis by (intro that) auto
qed


section \<open>A job without faults keeps the sequence\<close>

lemma cluster_ok_seq:
  assumes ok: "cluster_ok B J par_sort So progs d0 m" and mem: "member m i p cs st"
    and "behind_barriers (set_member i p' cs' st' m')" and same: "members m' = members m"
    and new: "rank_ok (progs ! i) \<lparr>rank_proc = p', rank_todo = cs', rank_stage = st'\<rparr>"
    and zero: "st' = Aggregating \<longrightarrow> i = 0"
    and "\<exists>order d. in_sequence B J par_sort So progs d0 (set_member i p' cs' st' m') order d"
  shows "cluster_ok B J par_sort So progs d0 (set_member i p' cs' st' m')"
proof -
  have i: "i < length (members m)" using mem by (simp add: member_def)
  have "rank_ok (progs ! k) (members (set_member i p' cs' st' m') ! k) \<and>
      (rank_stage (members (set_member i p' cs' st' m') ! k) = Aggregating \<longrightarrow> k = 0)"
    if "k < length progs" for k
    using ok new zero same i that by (cases "k = i") (auto simp: cluster_ok_def)
  then show ?thesis using ok assms(3,7) same unfolding cluster_ok_def by auto
qed

lemma cluster_ok_rank:
  assumes "cluster_ok B J par_sort So progs d0 m" and "member m i p cs st"
  shows "i < length progs" and "rank_ok (progs ! i) \<lparr>rank_proc = p, rank_todo = cs, rank_stage = st\<rparr>"
  using assms by (auto simp: cluster_ok_def member_def)

text \<open>The next call of a rank that runs.\<close>

lemma running_call:
  assumes fl: "faultless B J reread par_sort So progs d0" and ok: "cluster_ok B J par_sort So progs d0 m"
    and mem: "member m i p ((A, S, c) # cs) Running" and "\<not> is_finalize c"
  obtains p' where "register_mpi_call B J A S c (p\<lparr>disk := shared m\<rparr>) = (Done (), p')"
    and "disk p' = shared m"
    and "rank_ok (progs ! i) \<lparr>rank_proc = p', rank_todo = cs, rank_stage = Running\<rparr>"
proof -
  have B: "derived_builders B" and job: "job_ok (job_of progs)"
    using fl by (simp_all add: faultless_def)
  obtain made where prog: "progs ! i = made @ (A, S, c) # cs" and p: "local_ok made p"
    using cluster_ok_rank(2) [OF ok mem] by (auto simp: rank_ok_simps)
  note rank = job_ok_member [OF job cluster_ok_rank(1) [OF ok mem]]
  have "local_ok made (p\<lparr>disk := shared m\<rparr>)" using p by simp
  from member_call(1) [OF B prog rank(1-3) this assms(4), of J] obtain p'
    where "register_mpi_call B J A S c (p\<lparr>disk := shared m\<rparr>) = (Done (), p')"
      and "disk p' = shared m" and "local_ok (made @ [(A, S, c)]) p'" by auto
  moreover have "cs \<noteq> []" using member_call(2) [OF B prog rank(1-3) p assms(4)] .
  ultimately show ?thesis using prog by (intro that) (auto simp: rank_ok_simps)
qed

lemma cluster_ok_step:
  assumes fl: "faultless B J reread par_sort So progs d0" and step: "cstep B J par_sort So m m'"
    and ok: "cluster_ok B J par_sort So progs d0 m"
  shows "cluster_ok B J par_sort So progs d0 m'"
proof -
  have barriers: "behind_barriers m'"
    using cluster_barriers.step_inv [OF step] ok by (simp add: cluster_ok_def)
  from step show ?thesis
  proof cases
    case (call i p A S c cs u p')
    obtain q where q: "register_mpi_call B J A S c (p\<lparr>disk := shared m\<rparr>) = (Done (), q)"
      "disk q = shared m" "rank_ok (progs ! i) \<lparr>rank_proc = q, rank_todo = cs, rank_stage = Running\<rparr>"
      using running_call [OF fl ok call(2,3)] by blast
    then show ?thesis unfolding call(1)
      using barriers [unfolded call(1)] call(4)
      by (intro cluster_ok_quiet [OF ok call(2)]) simp_all
  next
    case (call_dies i p A S c cs r p')
    then show ?thesis using running_call [OF fl ok call_dies(2,3)] by (metis prod.inject)
  next
    case (enter1 i p A S c cs)
    have "rank_ok (progs ! i) \<lparr>rank_proc = p, rank_todo = (A, S, c) # cs, rank_stage = Entered1\<rparr>"
      using cluster_ok_rank [OF ok enter1(2)] finalize_is_last(1) [OF _ _ enter1(3)] fl
        job_ok_member(1) unfolding faultless_def by (fastforce simp: rank_ok_simps)
    then show ?thesis unfolding enter1(1)
      using barriers [unfolded enter1(1)]
      by (intro cluster_ok_quiet [OF ok enter1(2)]) simp_all
  next
    case (leave1 i p cs)
    then show ?thesis unfolding leave1(1)
      using barriers [unfolded leave1(1)] cluster_ok_rank(2) [OF ok leave1(2)]
      by (intro cluster_ok_quiet [OF ok leave1(2)]) (simp_all add: rank_ok_simps)
  next
    case (finalize i p A S c cs u p')
    obtain q where "register_mpi_call B J A S c (p\<lparr>disk := shared m\<rparr>) = (Done (), q)" "cs = []"
      and "\<exists>order d. in_sequence B J par_sort So progs d0
        (set_member i q [] Entered2 (m\<lparr>shared := disk q\<rparr>)) order d"
      by (rule in_sequence_finalize [OF fl ok finalize(2)]) auto
    then show ?thesis unfolding finalize(1)
      using barriers [unfolded finalize(1)] finalize(3)
      by (intro cluster_ok_seq [OF ok finalize(2)]) (simp_all add: rank_ok_simps)
  next
    case (finalize_dies i p A S c cs r p')
    from finalize_dies(3,4) show ?thesis
      by (auto intro: in_sequence_finalize [OF fl ok finalize_dies(2)])
  next
    case (leave2 i p cs)
    show ?thesis
    proof (cases "i = 0")
      case True
      then show ?thesis unfolding leave2(1)
        using barriers [unfolded leave2(1)]
        by (intro cluster_ok_quiet [OF ok leave2(2)]) (simp_all add: rank_ok_simps)
    next
      case False
      then show ?thesis unfolding leave2(1)
        using barriers [unfolded leave2(1)]
        by (intro cluster_ok_quiet [OF ok leave2(2)]) (simp_all add: rank_ok_simps)
    qed
  next
    case (aggregate i p cs u p')
    obtain q where "sort_all_traces J par_sort So (p\<lparr>disk := shared m\<rparr>) = (Done (), q)"
      and "\<exists>order d. in_sequence B J par_sort So progs d0
        (set_member i q cs Exited (m\<lparr>shared := disk q\<rparr>)) order d"
      by (rule in_sequence_aggregate [OF fl ok aggregate(2)]) auto
    then show ?thesis unfolding aggregate(1)
      using barriers [unfolded aggregate(1)] aggregate(3)
      by (intro cluster_ok_seq [OF ok aggregate(2)]) (simp_all add: rank_ok_simps)
  next
    case (aggregate_dies i p cs r p')
    from aggregate_dies(3,4) show ?thesis
      by (auto intro: in_sequence_aggregate [OF fl ok aggregate_dies(2)])
  qed
qed


lemma faultless_init:
  assumes "faultless B J reread par_sort So progs d"
  shows "cluster_ok B J par_sort So progs d (cluster_init progs d)"
proof (rule cluster_ok_init)
  show "progs \<noteq> []" using assms by (simp add: faultless_def)
  have "progs ! i \<noteq> []" if "i < length progs" for i
    using job_ok_member(1) [OF _ that] assms by (auto simp: faultless_def rank_run_def)
  then show "[] \<notin> set progs" by (auto simp: in_set_conv_nth)
qed

lemma cluster_ok_steps:
  assumes "faultless B J reread par_sort So progs d"
    and "(cstep B J par_sort So)\<^sup>*\<^sup>* (cluster_init progs d) m"
  shows "cluster_ok B J par_sort So progs d m"
  using assms(2) by (induction rule: rtranclp_induct)
    (blast intro: faultless_init [OF assms(1)] cluster_ok_step [OF assms(1)])+

section \<open>Every run ends, and without faults it ends well\<close>

fun stages_left :: "stage \<Rightarrow> nat" where
  "stages_left Running = 5"
| "stages_left Entered1 = 4"
| "stages_left Finalizing = 3"
| "stages_left Entered2 = 2"
| "stages_left Aggregating = 1"
| "stages_left Exited = 0"
| "stages_left (Died _) = 0"

definition rank_steps :: "rank_state \<Rightarrow> nat" where
  "rank_steps x = length (rank_todo x) + stages_left (rank_stage x)"

definition cluster_steps :: "cluster \<Rightarrow> nat" where
  "cluster_steps m = sum_list (map rank_steps (members m))"

lemma set_member_decreases:
  assumes "member m i p cs st" and "members m' = members m"
    and "length cs' + stages_left st' < length cs + stages_left st"
  shows "cluster_steps (set_member i p' cs' st' m') < cluster_steps m"
  using assms sum_list_update_less [of i "members m" rank_steps
      "\<lparr>rank_proc = p', rank_todo = cs', rank_stage = st'\<rparr>"]
  by (simp add: cluster_steps_def member_def rank_steps_def)

interpretation cluster_runs: step_measure "cstep B J par_sort So" cluster_steps for B J par_sort So
proof
  fix m m' assume "cstep B J par_sort So m m'"
  then show "cluster_steps m' < cluster_steps m"
    by cases (auto elim!: set_member_decreases)
qed

text \<open>In a job without faults the rank that is furthest behind can always go on.\<close>

lemma cluster_progress:
  assumes fl: "faultless B J reread par_sort So progs d0" and ok: "cluster_ok B J par_sort So progs d0 m"
    and stuck: "\<And>m'. \<not> cstep B J par_sort So m m'"
  shows "list_all (\<lambda>x. rank_stage x = Exited) (members m)"
proof -
  have rank: "member m i (rank_proc (members m ! i)) (rank_todo (members m ! i)) (rank_stage (members m ! i))"
    if "i < length (members m)" for i
    using that by (simp add: member_def)
  have not_dead: "rank_stage (members m ! i) \<noteq> Died n" if "i < length (members m)" for i n
    using cluster_ok_rank(2) [OF ok rank [OF that]] by (auto simp: rank_ok_def)
  have not_running: "\<not> member m i p cs Running" for i p cs
  proof
    assume mem: "member m i p cs Running"
    then have "cs \<noteq> []" using cluster_ok_rank(2) [OF ok mem] by (auto simp: rank_ok_simps)
    then obtain A S c cs' where cs: "cs = (A, S, c) # cs'" by (cases cs) auto
    show False
    proof (cases "is_finalize c")
      case True
      then show False using stuck cstep.enter1 mem cs by blast
    next
      case False
      then show False using running_call [OF fl ok mem [unfolded cs]] cstep.call mem cs stuck by metis
    qed
  qed
  have one: "all_reached 1 m"
    unfolding all_reached_def list_all_length
  proof (intro allI impI)
    fix i assume i: "i < length (members m)"
    show "1 \<le> stage_no (rank_stage (members m ! i))"
      using rank [OF i] not_dead [OF i] not_running by (cases "rank_stage (members m ! i)") auto
  qed
  have not_entered1: "\<not> member m i p cs Entered1" for i p cs
    using cstep.leave1 one stuck by blast
  have not_finalizing: "\<not> member m i p cs Finalizing" for i p cs
    using in_sequence_finalize [OF fl ok] cstep.finalize stuck by metis
  have three: "all_reached 3 m"
    unfolding all_reached_def list_all_length
  proof (intro allI impI)
    fix i assume i: "i < length (members m)"
    show "3 \<le> stage_no (rank_stage (members m ! i))"
      using rank [OF i] not_dead [OF i] not_running not_entered1 not_finalizing
      by (cases "rank_stage (members m ! i)") auto
  qed
  have not_entered2: "\<not> member m i p cs Entered2" for i p cs
    using cstep.leave2 three stuck by blast
  have not_aggregating: "\<not> member m i p cs Aggregating" for i p cs
    using in_sequence_aggregate [OF fl ok] cstep.aggregate stuck by metis
  show ?thesis
    unfolding list_all_length
  proof (intro allI impI)
    fix i assume i: "i < length (members m)"
    show "rank_stage (members m ! i) = Exited"
      using rank [OF i] not_dead [OF i] not_running not_entered1 not_finalizing not_entered2 not_aggregating
      by (cases "rank_stage (members m ! i)") auto
  qed
qed


text \<open>While rank 0 aggregates, and afterwards, no other rank touches the directory.\<close>

lemma all_reached_member: "all_reached n m \<Longrightarrow> member m i p cs st \<Longrightarrow> n \<le> stage_no st"
  by (auto simp: all_reached_def member_def list_all_length)

lemma behind_barriers_init: "behind_barriers (cluster_init progs d)"
  by (simp add: behind_barriers_def cluster_init_def)

lemma only_aggregation_writes:
  assumes "cstep B J par_sort So m m'" and reached: "all_reached 3 m"
  shows "shared m' = shared m \<or>
    (\<exists>p r p'. sort_all_traces J par_sort So p = (r, p') \<and> disk p = shared m \<and> shared m' = disk p')"
  using assms(1)
proof cases
  case (aggregate i p cs u p')
  then show ?thesis
    by (intro disjI2 exI [of _ "p\<lparr>disk := shared m\<rparr>"] exI [of _ "Done u"] exI [of _ p']) simp
next
  case (aggregate_dies i p cs r p')
  then show ?thesis
    by (intro disjI2 exI [of _ "p\<lparr>disk := shared m\<rparr>"] exI [of _ r] exI [of _ p']) simp
qed (auto dest: all_reached_member [OF reached])

text \<open>When rank 0 has left, the sequence holds every rank.\<close>

lemma exited_directory:
  assumes fl: "faultless B J reread par_sort So progs d0" and ok: "cluster_ok B J par_sort So progs d0 m"
    and exited: "rank_stage (members m ! 0) = Exited"
  obtains es p p' where "mergeable J es" and "disk p = Some es"
    and "disk_events J es = job_events reread (job_of progs) +
      disk_events J (leftovers (job_of progs) (entries d0))"
    and "sort_all_traces J par_sort So p = (Done (), p')" and "shared m = disk p'"
proof -
  obtain order d where seq: "in_sequence B J par_sort So progs d0 m order d"
    using ok by (auto simp: cluster_ok_def)
  have len: "length (members m) = length progs" "0 < length progs"
    using ok fl by (simp_all add: cluster_ok_def faultless_def)
  then have "members m ! 0 \<in> set (members m)" by simp
  moreover have "4 \<le> stage_no (rank_stage (members m ! 0))" using exited by simp
  moreover have "behind_barriers m" using ok by (simp add: cluster_ok_def)
  ultimately have "all_reached 3 m" unfolding behind_barriers_def by blast
  then have "finalized m = {0..<length progs}"
    using len by (auto simp: finalized_def all_reached_def list_all_length)
  then have order: "distinct order" "set order = {0..<length progs}"
    using seq by (simp_all add: in_sequence_def)
  then have "mset order = mset [0..<length progs]"
    by (intro iffD1 [OF set_eq_iff_mset_eq_distinct]) simp_all
  then have same: "mset (map (job_entry progs) order) = mset (job_of progs)"
    by (simp add: job_of_def)
  have "job_events reread js = job_events reread js'" if "mset js = mset js'" for js js'
    unfolding job_events_def sum_mset_sum_list [symmetric] mset_map that ..
  from this [OF same]
  have "job_events reread (map (job_entry progs) order) = job_events reread (job_of progs)" .
  moreover have "leftovers (map (job_entry progs) order) es = leftovers (job_of progs) es" for es
    using mset_eq_setD [OF same] by (simp add: leftovers_def)
  moreover have "order \<noteq> []" using order len by auto
  then obtain es where "d = Some es" using in_sequence_directory(2) [OF fl ok seq] by auto
  moreover obtain p p' where "disk p = d" "sort_all_traces J par_sort So p = (Done (), p')"
    "shared m = disk p'"
    using seq exited by (auto simp: in_sequence_def)
  ultimately show ?thesis
    using in_sequence_directory(1,3) [OF fl ok seq] by (intro that) auto
qed

end
