(* ===== verification/Job_Failure.thy ===== *)
theory Job_Failure
  imports Job_Steps
begin

text \<open>
  What becomes of a job in which a rank dies, by a panic or an abort in the back end, before it has come
  to the second barrier of \<open>MPI_Finalize\<close>: the barrier never opens.
\<close>

section \<open>No call of the back end writes the aggregate\<close>

lemma lock_and_register_disk: "lock_and_register A msg e p = (r, p') \<Longrightarrow> disk p' = disk p"
  by (auto simp: lock_and_register_def split: sum.splits prod.splits run.splits)

lemma dispatch_aggregate:
  assumes "dispatch B J A S c p = (r, p')"
  shows "content (disk p') (in_dir aggregate_file) = content (disk p) (in_dir aggregate_file)"
proof (cases "build_event B c")
  case (Inl err)
  with assms show ?thesis by (simp add: dispatch_build_error)
next
  case (Inr e)
  show ?thesis
  proof (cases "MpiCall.kind c = Finalize")
    case True
    obtain q p1 where lock: "lock_and_register A (lock_message Finalize) e p = (q, p1)" by fastforce
    obtain q2 p2 where ser: "serialize J S (events p1) (MpiCall.current_rank c) p1 = (q2, p2)" by fastforce
    note frame = serialize_frame(4) [OF ser, of "in_dir aggregate_file"]
    show ?thesis
      using assms lock ser frame lock_and_register_disk [OF lock]
      by (auto simp: dispatch_built_finalize [OF Inr True] split: run.splits sum.splits)
  next
    case False
    with assms show ?thesis
      using lock_and_register_disk by (metis dispatch_built [OF Inr False])
  qed
qed

lemma register_mpi_call_aggregate:
  assumes "register_mpi_call B J A S c p = (r, p')"
  shows "content (disk p') (in_dir aggregate_file) = content (disk p) (in_dir aggregate_file)"
proof -
  obtain q p1 where dispatch: "dispatch B J A S c p = (q, p1)" by fastforce
  then have "disk p' = disk p1"
    using assms by (auto simp: register_mpi_call_def Let_def split: run.splits sum.splits)
  with dispatch_aggregate [OF dispatch] show ?thesis by simp
qed

section \<open>Invariants of a job with a dead rank\<close>

text \<open>A rank that has died stays as it is.\<close>

definition dead :: "nat \<Rightarrow> nat \<Rightarrow> cluster \<Rightarrow> bool" where
  "dead i n m \<longleftrightarrow> i < length (members m) \<and> rank_stage (members m ! i) = Died n"

interpretation cluster_dead: step_invariant "cstep B J par_sort So" "dead i n" for B J par_sort So i n
proof
  fix m m' assume "cstep B J par_sort So m m'" and "dead i n m"
  then show "dead i n m'"
    by cases (auto simp: dead_def member_def nth_list_update intro!: gr0I)
qed

text \<open>The aggregate is written by nobody until a rank is past the second barrier.\<close>

definition untouched :: "string option \<Rightarrow> cluster \<Rightarrow> bool" where
  "untouched old m \<longleftrightarrow> (\<exists>y \<in> set (members m). 4 \<le> stage_no (rank_stage y)) \<or>
     content (shared m) (in_dir aggregate_file) = old"

lemma stage_kept:
  assumes "member m i p cs st" and "stage_no st \<le> stage_no st'" and "members m' = members m"
    and "y \<in> set (members m)" and "n \<le> stage_no (rank_stage y)"
  shows "\<exists>y \<in> set (members (set_member i p' cs' st' m')). n \<le> stage_no (rank_stage y)"
proof -
  obtain j where j: "j < length (members m)" "y = members m ! j"
    using assms(4) by (metis in_set_conv_nth)
  have i: "i < length (members m)" "rank_stage (members m ! i) = st"
    using assms(1) by (simp_all add: member_def)
  have "n \<le> stage_no (rank_stage (members (set_member i p' cs' st' m') ! j))"
    using i j assms(2,3,5) by (cases "i = j") (auto intro: le_trans)
  moreover have "members (set_member i p' cs' st' m') ! j \<in> set (members (set_member i p' cs' st' m'))"
    using j assms(3) by (intro nth_mem) simp
  ultimately show ?thesis by blast
qed

lemma untouched_update:
  assumes "untouched old m" and "member m i p cs st" and "stage_no st \<le> stage_no st'"
    and "members m' = members m"
    and "4 \<le> stage_no st \<or> content (shared m') (in_dir aggregate_file) = content (shared m) (in_dir aggregate_file)"
  shows "untouched old (set_member i p' cs' st' m')"
proof (cases "\<exists>y \<in> set (members m). 4 \<le> stage_no (rank_stage y)")
  case True
  then show ?thesis using stage_kept [OF assms(2-4)] by (auto simp: untouched_def)
next
  case False
  then have "\<not> 4 \<le> stage_no st" using assms(2) by (force simp: member_def dest: nth_mem)
  with False assms(1,5) show ?thesis by (simp add: untouched_def)
qed

interpretation cluster_untouched: step_invariant "cstep B J par_sort So" "untouched old"
  for B J par_sort So old
proof
  fix m m' assume step: "cstep B J par_sort So m m'" and inv: "untouched old m"
  from step show "untouched old m'"
  proof cases
    case (call i p A S c cs u p')
    then show ?thesis using register_mpi_call_aggregate [OF call(4)]
      by (auto intro!: untouched_update [OF inv call(2)])
  next
    case (call_dies i p A S c cs r p')
    then show ?thesis using register_mpi_call_aggregate [OF call_dies(4)]
      by (auto intro!: untouched_update [OF inv call_dies(2)])
  next
    case (finalize i p A S c cs u p')
    then show ?thesis using register_mpi_call_aggregate [OF finalize(3)]
      by (auto intro!: untouched_update [OF inv finalize(2)])
  next
    case (finalize_dies i p A S c cs r p')
    then show ?thesis using register_mpi_call_aggregate [OF finalize_dies(3)]
      by (auto intro!: untouched_update [OF inv finalize_dies(2)])
  qed (auto intro!: untouched_update [OF inv])
qed

text \<open>A rank that has entered the first barrier still has its finalize call to make.\<close>

definition call_ahead :: "cluster \<Rightarrow> bool" where
  "call_ahead m \<longleftrightarrow> (\<forall>y \<in> set (members m). rank_stage y \<in> {Entered1, Finalizing} \<longrightarrow> rank_todo y \<noteq> [])"

lemma call_ahead_update:
  assumes "call_ahead m" and "members m' = members m" and "st \<in> {Entered1, Finalizing} \<Longrightarrow> cs \<noteq> []"
  shows "call_ahead (set_member i p cs st m')"
  using assms set_update_subset_insert [of "members m" i "\<lparr>rank_proc = p, rank_todo = cs, rank_stage = st\<rparr>"]
  by (auto simp: call_ahead_def)

interpretation cluster_call_ahead: step_invariant "cstep B J par_sort So" call_ahead
  for B J par_sort So
proof
  fix m m' assume step: "cstep B J par_sort So m m'" and inv: "call_ahead m"
  from step show "call_ahead m'"
  proof cases
    case (leave1 i p cs)
    have "cs \<noteq> []" using inv leave1(2) by (force simp: call_ahead_def member_def dest: nth_mem)
    then show ?thesis unfolding leave1(1) by (intro call_ahead_update [OF inv]) simp_all
  qed (auto intro!: call_ahead_update [OF inv])
qed

section \<open>The barrier that never opens\<close>

lemma dead_blocks:
  assumes "behind_barriers m" and "dead i n m" and "n < 3" and "y \<in> set (members m)"
  shows "stage_no (rank_stage y) \<le> 3"
proof (rule ccontr)
  assume "\<not> stage_no (rank_stage y) \<le> 3"
  then have "all_reached 3 m" using assms(1,4) by (simp add: behind_barriers_def)
  with assms(2,3) show False by (auto simp: all_reached_def dead_def list_all_length)
qed

text \<open>Where no step is possible, a rank is at a barrier, has died, or has no call left to make.\<close>

lemma stuck_member:
  assumes ahead: "call_ahead m" and stuck: "\<And>u. \<not> cstep B J par_sort So m u"
    and y: "y \<in> set (members m)" and low: "stage_no (rank_stage y) \<le> 3"
  shows "rank_stage y = Entered1 \<or> rank_stage y = Entered2 \<or> (\<exists>k. rank_stage y = Died k) \<or>
    rank_stage y = Running \<and> rank_todo y = []"
proof -
  obtain i where i: "i < length (members m)" "y = members m ! i"
    using y by (metis in_set_conv_nth)
  obtain p cs st where st: "y = \<lparr>rank_proc = p, rank_todo = cs, rank_stage = st\<rparr>" by (cases y)
  then have mem: "member m i p cs st" using i by (simp add: member_def)
  have no_call: False if cs: "cs = (A, S, c) # cs'" and "st = Running" for A S c cs'
  proof -
    obtain r p' where "register_mpi_call B J A S c (p\<lparr>disk := shared m\<rparr>) = (r, p')" by fastforce
    with mem that stuck show False
      by (cases "is_finalize c"; cases "r = Done ()") (blast intro: cstep.intros)+
  qed
  have no_finalize: False if cs: "cs = (A, S, c) # cs'" and "st = Finalizing" for A S c cs'
  proof -
    obtain r p' where "register_mpi_call B J A S c (p\<lparr>disk := shared m\<rparr>) = (r, p')" by fastforce
    with mem that stuck show False
      by (cases "r = Done ()") (blast intro: cstep.intros)+
  qed
  have "st = Finalizing \<Longrightarrow> cs \<noteq> []" using ahead y st by (auto simp: call_ahead_def)
  then show ?thesis
    using no_call no_finalize low st by (cases st; cases cs) auto
qed

text \<open>
  C16: a rank that dies in the back end before the second barrier costs the whole job its trace. However
  the other ranks go on, none gets past that barrier and the aggregate stays what it was before the job;
  and when no step is left every other rank waits at a barrier of \<open>MPI_Finalize\<close>, unless it has died too
  or never calls \<open>MPI_Finalize\<close>.
\<close>

theorem dead_rank_stops_job:
  assumes "(cstep B J par_sort So)\<^sup>*\<^sup>* (cluster_init progs d) m"
    and "i < length (members m)" and "rank_stage (members m ! i) = Died n" and "n < 3"
    and "(cstep B J par_sort So)\<^sup>*\<^sup>* m m'"
  shows "rank_stage (members m' ! i) = Died n \<and>
    (\<forall>y \<in> set (members m'). stage_no (rank_stage y) \<le> 3) \<and>
    content (shared m') (in_dir aggregate_file) = content d (in_dir aggregate_file) \<and>
    ((\<forall>u. \<not> cstep B J par_sort So m' u) \<longrightarrow>
      (\<forall>y \<in> set (members m'). rank_stage y = Entered1 \<or> rank_stage y = Entered2 \<or>
         (\<exists>k. rank_stage y = Died k) \<or> rank_stage y = Running \<and> rank_todo y = []))"
proof -
  note run = rtranclp_trans [OF assms(1,5)]
  have "untouched (content d (in_dir aggregate_file)) (cluster_init progs d)" and "call_ahead (cluster_init progs d)"
    by (auto simp: untouched_def call_ahead_def cluster_init_def)
  from cluster_untouched.steps_inv [OF run this(1)] cluster_call_ahead.steps_inv [OF run this(2)]
  have untouched: "untouched (content d (in_dir aggregate_file)) m'" and ahead: "call_ahead m'" .
  have dead: "dead i n m'"
    using assms(2,3) by (intro cluster_dead.steps_inv [OF assms(5)]) (simp add: dead_def)
  have behind: "behind_barriers m'" by (rule cluster_barriers.steps_inv [OF run behind_barriers_init])
  have low: "stage_no (rank_stage y) \<le> 3" if "y \<in> set (members m')" for y
    by (rule dead_blocks [OF behind dead assms(4) that])
  then have "content (shared m') (in_dir aggregate_file) = content d (in_dir aggregate_file)"
    using untouched by (fastforce simp: untouched_def)
  with low dead stuck_member [OF ahead] show ?thesis by (simp add: dead_def) blast
qed

text \<open>
  Rank 1 has no memory for its first event and is aborted; rank 0 waits for it for ever.
\<close>

definition failing_ranks :: "env_call list list" where
  "failing_ranks =
     [[(generous_allocator, healthy_os, sample_call Finalize 0 9)],
      [(failing_allocator, healthy_os, sample_call Send 1 3),
       (generous_allocator, healthy_os, sample_call Finalize 1 8)]]"

theorem dead_rank_stops_job_witness:
  "\<exists>m. (cstep reference_builders reference_serde reference_sort healthy_os)\<^sup>*\<^sup>*
       (cluster_init failing_ranks None) m \<and>
     (\<forall>u. \<not> cstep reference_builders reference_serde reference_sort healthy_os m u) \<and>
     rank_stage (members m ! 1) = Died 0 \<and> content (shared m) (in_dir aggregate_file) = None \<and>
     (\<forall>y \<in> set (members m). rank_stage y \<noteq> Exited)"
proof -
  let ?step = "cstep reference_builders reference_serde reference_sort healthy_os"
  let ?init = "cluster_init failing_ranks None"
  have "register_mpi_call reference_builders reference_serde failing_allocator healthy_os
      (sample_call Send 1 3) ((process_init None)\<lparr>disk := shared ?init\<rparr>) = (Aborted, process_init None)"
    by (simp add: run_simps cluster_init_def failing_allocator_def process_init_def)
  moreover have mem: "member ?init 1 (process_init None)
      ((failing_allocator, healthy_os, sample_call Send 1 3) #
        [(generous_allocator, healthy_os, sample_call Finalize 1 8)]) Running"
    by (simp add: member_def cluster_init_def failing_ranks_def)
  ultimately obtain m where step: "?step ?init m" and m: "1 < length (members m)" "rank_stage (members m ! 1) = Died 0"
    using cstep.call_dies [OF mem] by (fastforce simp: is_finalize_def member_def)
  obtain m' where run: "?step\<^sup>*\<^sup>* m m'" and final: "\<forall>u. \<not> ?step m' u"
    using cluster_runs.reaches_final by blast
  from dead_rank_stops_job [OF r_into_rtranclp [where r = ?step, OF step] m _ run]
  have "rank_stage (members m' ! 1) = Died 0" "content (shared m') (in_dir aggregate_file) = None"
    and low: "\<forall>y \<in> set (members m'). stage_no (rank_stage y) \<le> 3" by simp_all
  moreover have "rank_stage y \<noteq> Exited" if "y \<in> set (members m')" for y
    using low that by force
  moreover have "?step\<^sup>*\<^sup>* ?init m'"
    using run step by (rule converse_rtranclp_into_rtranclp [rotated])
  ultimately show ?thesis using final by blast
qed

end
