(* ===== verification/Faulty_Job.thy ===== *)
theory Faulty_Job
  imports Merge_Properties
begin

text \<open>
  Jobs in which recording may fail. The allocator and the system may refuse any request of any call;
  what is asked is that every rank comes through \<open>MPI_Finalize\<close> and that its finalize call reports
  nothing, so that its file was written. Then every call of every rank is either in the aggregate,
  which rank 0 builds on a system that grants its requests, or has left one line on the error stream
  of its own rank.
\<close>

section \<open>Ranks that write their file\<close>

text \<open>
  The ranks of a job one after the other, with the lines each of them prints to its error stream;
  \<open>None\<close> when a rank ends early or its finalize call reports an error.
\<close>

fun written_ranks :: "builders \<Rightarrow> serde \<Rightarrow> job \<Rightarrow> disk \<Rightarrow> (disk \<times> string list list) option" where
  "written_ranks B J [] d = Some (d, [])"
| "written_ranks B J ((r, cs) # rs) d =
     (case run_calls B J (butlast cs) (process_init d) of
        (Done u, p) \<Rightarrow>
          (case run_calls B J [last cs] p of
             (Done u', p') \<Rightarrow>
               if stderr p' = stderr p
               then map_option (apsnd (Cons (stderr p'))) (written_ranks B J rs (disk p'))
               else None
           | _ \<Rightarrow> None)
      | _ \<Rightarrow> None)"

definition job_shape :: "job \<Rightarrow> bool" where
  "job_shape ranks \<longleftrightarrow> distinct (map fst ranks) \<and>
     (\<forall>(r, cs) \<in> set ranks. rank_run r cs \<and> finite_times (recorded cs))"

text \<open>
  What is left of the calls of a rank: the events of its file, the finalize event last, and the lines
  of its error stream; each call before the finalize call has left one or the other.
\<close>

definition kept_of :: "env_call list \<Rightarrow> Register_dyn list \<Rightarrow> string list \<Rightarrow> bool" where
  "kept_of cs es ls \<longleftrightarrow>
     (\<exists>body. es = body @ [event_of_call (call_of (last cs))] \<and> accounted (calls_of (butlast cs)) body ls)"

fun all_kept :: "job \<Rightarrow> Register_dyn list list \<Rightarrow> string list list \<Rightarrow> bool" where
  "all_kept [] [] [] \<longleftrightarrow> True"
| "all_kept ((r, cs) # ranks) (es # kept) (ls # lss) \<longleftrightarrow> kept_of cs es ls \<and> all_kept ranks kept lss"
| "all_kept _ _ _ \<longleftrightarrow> False"

lemma recorded_snoc: "cs \<noteq> [] \<Longrightarrow>
  recorded cs = map event_of_call (calls_of (butlast cs)) @ [event_of_call (call_of (last cs))]"
  by (cases cs rule: rev_cases) (auto simp: recorded_def call_of_def)

lemma kept_finite_times:
  assumes "kept_of cs es ls" and "cs \<noteq> []" and "finite_times (recorded cs)"
  shows "finite_times es"
proof -
  from assms(1) obtain body where es: "es = body @ [event_of_call (call_of (last cs))]"
    and "accounted (calls_of (butlast cs)) body ls" by (auto simp: kept_of_def)
  then have "subseq es (recorded cs)"
    unfolding es recorded_snoc [OF assms(2)] by (intro list_emb_append_mono accounted_subseq) simp_all
  with assms(3) show ?thesis
    using list_emb_set [of "(=)" es "recorded cs"] by (auto simp: finite_times_def list_all_iff)
qed

lemma written_rank:
  assumes B: "derived_builders B" and run: "rank_run r cs"
    and body: "run_calls B J (butlast cs) (process_init d) = (Done (), p)"
    and last: "run_calls B J [last cs] p = (Done (), p')" and silent: "stderr p' = stderr p"
  shows "\<exists>es s. kept_of cs es (stderr p') \<and>
    to_string J es = Inr s \<and> disk p' = disk_put (rank_file r) s d"
proof -
  obtain A S c where ec: "last cs = (A, S, c)" by (cases "last cs")
  have c: "MpiCall.kind c = Finalize" "MpiCall.current_rank c = r"
    and others: "\<forall>c \<in> set (calls_of (butlast cs)). MpiCall.kind c \<noteq> Finalize"
    using run ec by (simp_all add: rank_run_def call_of_def)
  obtain es ls where es: "events p = es" "stderr p = ls" "accounted (calls_of (butlast cs)) es ls"
    "disk p = d" "process_inv p"
    using run_accounts [OF B process_inv_init _ others body] by auto
  have "register_mpi_call B J A S c p = (Done (), p')"
    using last ec by (auto split: prod.splits run.splits)
  from finalize_put [OF B es(5) c(1) this silent] es(1,4) c(2) obtain s
    where "to_string J (es @ [event_of_call c]) = Inr s" "disk p' = disk_put (rank_file r) s d" by auto
  moreover have "kept_of cs (es @ [event_of_call c]) (stderr p')"
    using es(2,3) silent ec by (simp add: kept_of_def call_of_def)
  ultimately show ?thesis by blast
qed

definition kept_events :: "(Usecs \<Rightarrow> Usecs) \<Rightarrow> Register_dyn list list \<Rightarrow> Register_dyn multiset" where
  "kept_events f kept = (\<Sum>es \<leftarrow> kept. mset (map (map_time f) es))"

lemma written_ranks_ok:
  assumes B: "derived_builders B" and J: "serde_codec J reread"
    and "job_shape ranks" and "mergeable J (entries d)" and "written_ranks B J ranks d = Some (d', lss)"
  shows "\<exists>kept. all_kept ranks kept lss \<and> mergeable J (entries d') \<and> (ranks \<noteq> [] \<longrightarrow> d' \<noteq> None) \<and>
    disk_events J (entries d') = kept_events reread kept + disk_events J (leftovers ranks (entries d))"
  using assms(3-5)
proof (induction ranks arbitrary: d lss)
  case Nil
  then show ?case by (auto simp: kept_events_def leftovers_def intro!: exI [where x = "[]"])
next
  case (Cons rcs rs)
  obtain r cs where rcs: "rcs = (r, cs)" by (cases rcs)
  from Cons.prems(3) [unfolded rcs] obtain p p' lss' where
    body: "run_calls B J (butlast cs) (process_init d) = (Done (), p)"
    and last: "run_calls B J [last cs] p = (Done (), p')" and silent: "stderr p' = stderr p"
    and rest: "written_ranks B J rs (disk p') = Some (d', lss')" and lss: "lss = stderr p' # lss'"
    by (auto simp del: run_calls.simps split: prod.splits run.splits if_splits)
  have run: "rank_run r cs" "finite_times (recorded cs)" and fresh: "r \<notin> fst ` set rs"
    and shape: "job_shape rs"
    using Cons.prems(1) by (auto simp: job_shape_def rcs)
  then have "cs \<noteq> []" by (simp add: rank_run_def)
  from written_rank [OF B run(1) body last silent] obtain es s
    where es: "kept_of cs es (stderr p')"
      and s: "to_string J es = Inr s" and d: "disk p' = disk_put (rank_file r) s d" by blast
  have parse: "from_str J s = Inr (map (map_time reread) es)"
    using serde_codec.from_to_string [OF J kept_finite_times [OF es \<open>cs \<noteq> []\<close> run(2)] s] .
  note put = put_trace [OF Cons.prems(2) parse, of r]
  obtain kept where kept: "all_kept rs kept lss'"
    "mergeable J (entries d')" "rs \<noteq> [] \<longrightarrow> d' \<noteq> None"
    "disk_events J (entries d') = kept_events reread kept +
      disk_events J (leftovers rs (entries (disk_put (rank_file r) s d)))"
    using Cons.IH [OF shape _ rest] put(1) unfolding d by blast
  have "disk p' \<noteq> None" by (simp add: d disk_put_def)
  then have "d' \<noteq> None" using kept(3) rest by (cases rs) auto
  then show ?case
    using kept es lss rcs put(2) [OF fresh, of cs]
    by (intro exI [where x = "es # kept"]) (simp add: kept_events_def)
qed

section \<open>Every call is in the aggregate or on an error stream\<close>

definition sample_faulty :: job where
  "sample_faulty =
     [(0, [(generous_allocator, healthy_os, sample_call Send 0 1),
           (generous_allocator, healthy_os, sample_call Test 0 2),
           (failing_allocator, healthy_os, sample_call Recv 0 3),
           (generous_allocator, healthy_os, sample_call Finalize 0 9)])]"

lemma sample_faulty_shape: "job_shape sample_faulty"
proof -
  have "finite_times [x, y, z, w]"
    if "finite_times [x]" "finite_times [y]" "finite_times [z]" "finite_times [w]" for x y z w
    using that by (simp add: finite_times_def)
  then show ?thesis
    using sample_finite
    by (simp add: job_shape_def sample_faulty_def rank_run_def call_of_def recorded_def)
qed

text \<open>The reservation for the third call is refused; the rank reports it and goes on.\<close>

lemma sample_faulty_written:
  "\<exists>d' line. written_ranks reference_builders reference_serde sample_faulty None = Some (d', [[line]])"
proof -
  let ?body = "[(generous_allocator, healthy_os, sample_call Send 0 1),
    (generous_allocator, healthy_os, sample_call Test 0 2),
    (failing_allocator, healthy_os, sample_call Recv 0 3)]"
  let ?line = "rank_error_line 0 (from_try_reserve_error AllocError)"
  let ?two = "[event_of_call (sample_call Send 0 1), event_of_call (sample_call Test 0 2)]"
  let ?p = "eprintln ?line ((process_init None)\<lparr>guarded := \<lparr>items = ?two, capacity = 4\<rparr>\<rparr>)"
  have body: "run_calls reference_builders reference_serde ?body (process_init None) = (Done (), ?p)"
    by (simp add: run_simps)
  let ?c = "sample_call Finalize 0 9"
  obtain s where s: "to_string reference_serde (?two @ [event_of_call ?c]) = Inr s"
    using reference_serde.to_string_total by blast
  have p: "process_inv ?p" "\<not> poisoned ?p" "has_room ?p" "events ?p = ?two" "disk ?p = None"
    by (simp_all add: process_inv_def vec_inv_def has_room_def events_def elem_size_def isize_max_def
        eprintln_def)
  obtain g where "register_mpi_call reference_builders reference_serde generous_allocator healthy_os ?c ?p =
      (Done (), finalize_state 0 s g ?p)"
    using finalize_call [OF reference.derived_builders_axioms p(1-3), of generous_allocator healthy_os ?c 0
        reference_serde s] s p(4,5) by auto
  then show ?thesis
    using body by (simp add: sample_faulty_def finalize_state_def eprintln_def println_def)
qed

text \<open>
  C10: in a job whose ranks all write their file, whatever else the allocator and the system refuse
  while they record, the aggregation succeeds on a healthy system. For every rank, each call before
  its finalize call has, in order, either left its event or the line with its rank and the refusal
  on the error stream of that rank; the aggregate holds these events and the finalize events, sorted,
  with those of the trace files left by other ranks.
\<close>

theorem faulty_job_accounts:
  assumes "derived_builders B" and "serde_codec J reread" and "unstable_sort par_sort" and "healthy S"
    and "job_shape ranks" and "ranks \<noteq> []" and "mergeable J (entries d)"
    and "written_ranks B J ranks d = Some (d', lss)"
  shows "\<exists>kept out json p'. all_kept ranks kept lss \<and>
    sort_all_traces J par_sort S (p\<lparr>disk := d'\<rparr>) = (Done (), p') \<and>
    content (disk p') (in_dir aggregate_file) = Some json \<and>
    (if wants_readable S then to_string_pretty J out else to_string J out) = Inr json \<and>
    mset out = kept_events reread kept + disk_events J (leftovers ranks (entries d)) \<and>
    sorted (map Register_tsc out)"
proof -
  obtain kept es where kept: "all_kept ranks kept lss"
    and d': "mergeable J es" "disk (p\<lparr>disk := d'\<rparr>) = Some es"
    and evs: "disk_events J es = kept_events reread kept + disk_events J (leftovers ranks (entries d))"
    using written_ranks_ok [OF assms(1,2,5,7,8)] assms(6) by auto
  obtain out json p' where "sort_all_traces J par_sort S (p\<lparr>disk := d'\<rparr>) = (Done (), p')"
    and "mset out = disk_events J es" and "sorted (map Register_tsc out)"
    and "(if wants_readable S then to_string_pretty J out else to_string J out) = Inr json"
    and "disk p' = Some (aggregated json es)"
    by (rule sort_all_traces_aggregates [OF assms(2-4) d'])
  moreover from this have "content (disk p') (in_dir aggregate_file) = Some json"
    by (simp add: content_aggregated)
  ultimately show ?thesis using kept unfolding evs by blast
qed

theorem faulty_job_accounts_witness:
  "\<exists>d' line out p'. written_ranks reference_builders reference_serde sample_faulty None = Some (d', [[line]]) \<and>
     sort_all_traces reference_serde reference_sort healthy_os ((process_init None)\<lparr>disk := d'\<rparr>) =
       (Done (), p') \<and>
     content (disk p') (in_dir aggregate_file) = Some (text_of out) \<and> length out = 3"
proof -
  obtain d' line where run:
    "written_ranks reference_builders reference_serde sample_faulty None = Some (d', [[line]])"
    using sample_faulty_written by blast
  have "mergeable reference_serde (entries None)" and "sample_faulty \<noteq> []"
    by (simp_all add: mergeable_def sample_faulty_def)
  from faulty_job_accounts [OF reference.derived_builders_axioms reference_serde.serde_codec_axioms
      reference_sort.unstable_sort_axioms healthy_os_healthy(1) sample_faulty_shape this(2,1) run,
      of "process_init None"]
  obtain kept out json p' where
      kept: "all_kept sample_faulty kept [[line]]"
    and agg: "sort_all_traces reference_serde reference_sort healthy_os ((process_init None)\<lparr>disk := d'\<rparr>) =
       (Done (), p')" "content (disk p') (in_dir aggregate_file) = Some json"
    and json: "to_string reference_serde out = Inr json"
    and out: "mset out = kept_events id kept +
       disk_events reference_serde (leftovers sample_faulty (entries None))" by auto
  obtain es where "kept = [es]" and "length es = 3"
  proof -
    from kept obtain es more where "kept = es # more" "more = []"
      and "kept_of (snd (hd sample_faulty)) es [line]"
      by (cases kept; cases "tl kept") (simp_all add: sample_faulty_def)
    then show thesis
      using that accounted_length [of "calls_of (butlast (snd (hd sample_faulty)))" _ "[line]"]
      by (auto simp: kept_of_def sample_faulty_def)
  qed
  then have "size (mset out) = 3"
    unfolding out by (simp add: leftovers_def disk_events_def kept_events_def)
  then have "length out = 3" by simp
  moreover have "text_of out = json" using json by (simp add: text_of_def)
  ultimately show ?thesis using run agg by blast
qed

end
