(* ===== verification/Thread_Safety.thy ===== *)
theory Thread_Safety
  imports Thread_Steps
begin

text \<open>
  What the mutex buys: whatever the interleaving of the threads' steps, the process goes through the
  states of the calls made one by one (\<open>linear\<close>), every thread's calls take effect in its program
  order (\<open>program_order\<close>), a thread is never stuck, and when nothing fails every call of every thread
  is recorded once (\<open>all_recorded\<close>).
\<close>

section \<open>Linearization\<close>

text \<open>
  What the calls share apart from the error stream, and that state after a list of calls made one
  by one.
\<close>

definition core :: "process \<Rightarrow> process" where
  "core p = p\<lparr>stderr := []\<rparr>"

fun one_by_one :: "builders \<Rightarrow> serde \<Rightarrow> (nat \<times> env_call) list \<Rightarrow> process \<Rightarrow> process" where
  "one_by_one B J [] p = p"
| "one_by_one B J ((t, A, S, c) # xs) p = one_by_one B J xs (snd (dispatch B J A S c p))"

lemma one_by_one_append:
  "one_by_one B J (xs @ ys) p = one_by_one B J ys (one_by_one B J xs p)"
  by (induction B J xs p rule: one_by_one.induct) auto

lemma core_simps [simp]:
  "poisoned (core p) = poisoned p" "guarded (core p) = guarded p" "disk (core p) = disk p"
  "stdout (core p) = stdout p" "events (core p) = events p" "core (core p) = core p"
  "core (eprintln l p) = core p" "core (println l p) = println l (core p)"
  "core (p\<lparr>guarded := g\<rparr>) = core p\<lparr>guarded := g\<rparr>" "core (p\<lparr>disk := d\<rparr>) = core p\<lparr>disk := d\<rparr>"
  "core (p\<lparr>poisoned := b\<rparr>) = core p\<lparr>poisoned := b\<rparr>"
  by (simp_all add: core_def events_def println_def eprintln_def)

lemma lock_and_register_core:
  assumes "\<not> poisoned p"
  shows "lock_and_register A msg e (core p) =
     (case register A e (guarded p) of
        (Done (Inr u), g) \<Rightarrow> (Done (Inr u), core (p\<lparr>guarded := g\<rparr>))
      | (Done (Inl err), g) \<Rightarrow> (Done (Inl (from_try_reserve_error err)), core (p\<lparr>guarded := g\<rparr>))
      | (Panicked m, g) \<Rightarrow> (Panicked m, core (p\<lparr>guarded := g, poisoned := True\<rparr>))
      | (Aborted, g) \<Rightarrow> (Aborted, core (p\<lparr>guarded := g\<rparr>)))"
  using assms
  by (simp add: lock_and_register_def lock_events_def split: prod.split run.split sum.split)

lemma serialize_core:
  "serialize J S es rank (core p) = apsnd core (serialize J S es rank p)"
  by (auto simp: serialize_def Let_def split: sum.split prod.split option.split)

text \<open>
  What is known of a thread, given the state \<open>base\<close> after the calls of the history and the present
  state \<open>p\<close>, both without the error stream.
\<close>

definition thread_ok ::
    "builders \<Rightarrow> serde \<Rightarrow> process \<Rightarrow> process \<Rightarrow> thread \<Rightarrow> bool" where
  "thread_ok B J base p th \<longleftrightarrow>
     (case phase th of
        Ready \<Rightarrow> True
      | Crashed _ \<Rightarrow> True
      | Returning _ \<Rightarrow> todo th \<noteq> []
      | Built e \<Rightarrow> \<exists>A S c cs. todo th = (A, S, c) # cs \<and> build_event B c = Inr e
      | Locked e \<Rightarrow> \<exists>A S c cs. todo th = (A, S, c) # cs \<and> build_event B c = Inr e \<and>
          base = p \<and> \<not> poisoned p
      | Registered \<Rightarrow> \<exists>A S c cs e. todo th = (A, S, c) # cs \<and> build_event B c = Inr e \<and>
          MpiCall.kind c = Finalize \<and>
          lock_and_register A (lock_message Finalize) e base = (Done (Inr ()), p)
      | Leaving r \<Rightarrow> \<exists>A S c cs. todo th = (A, S, c) # cs \<and> dispatch B J A S c base = (Done r, p))"

definition linear :: "builders \<Rightarrow> serde \<Rightarrow> process \<Rightarrow> machine \<Rightarrow> bool" where
  "linear B J p0 m \<longleftrightarrow> exclusive m \<and> (\<not> halted m \<longrightarrow>
     (let base = one_by_one B J (history m) (core p0) in
      (owner m = None \<longrightarrow> core (proc m) = base) \<and>
      (\<forall>t < length (threads m). thread_ok B J base (core (proc m)) (threads m ! t))))"

text \<open>A thread outside the section does not look at the shared state.\<close>

lemma thread_ok_outside:
  "\<not> in_section (phase th) \<Longrightarrow> thread_ok B J base p th = thread_ok B J base' p' th"
  by (cases "phase th") (simp_all add: thread_ok_def)

lemma thread_ok_simps:
  "thread_ok B J base p \<lparr>todo = ts, phase = Ready\<rparr>"
  "thread_ok B J base p \<lparr>todo = ts, phase = Crashed msg\<rparr>"
  "thread_ok B J base p \<lparr>todo = ts, phase = Returning r\<rparr> \<longleftrightarrow> ts \<noteq> []"
  "thread_ok B J base p \<lparr>todo = (A, S, c) # cs, phase = Built e\<rparr> \<longleftrightarrow> build_event B c = Inr e"
  "thread_ok B J base p \<lparr>todo = (A, S, c) # cs, phase = Locked e\<rparr> \<longleftrightarrow>
     build_event B c = Inr e \<and> base = p \<and> \<not> poisoned p"
  "thread_ok B J base p \<lparr>todo = (A, S, c) # cs, phase = Registered\<rparr> \<longleftrightarrow>
     MpiCall.kind c = Finalize \<and> (\<exists>e. build_event B c = Inr e \<and>
       lock_and_register A (lock_message Finalize) e base = (Done (Inr ()), p))"
  "thread_ok B J base p \<lparr>todo = (A, S, c) # cs, phase = Leaving r\<rparr> \<longleftrightarrow>
     dispatch B J A S c base = (Done r, p)"
  by (auto simp: thread_ok_def)

lemma linear_step:
  assumes lin: "linear B J p0 m" and at: "at m t cs ph" and m': "exclusive m'"
    and go: "m' = go t cs' ph' m2" and m2: "threads m2 = threads m"
    and shared: "history m' = history m \<and> core (proc m') = core (proc m) \<or>
      owner m = None \<or> owner m = Some t"
    and th: "thread_ok B J (one_by_one B J (history m') (core p0)) (core (proc m'))
      \<lparr>todo = cs', phase = ph'\<rparr>"
    and free: "owner m' = None \<Longrightarrow> core (proc m') = one_by_one B J (history m') (core p0)"
  shows "linear B J p0 m'"
proof -
  have ex: "exclusive m" and alive: "\<not> halted m"
    using lin at by (simp_all add: linear_def at_def)
  have threads: "threads m' = (threads m)[t := \<lparr>todo = cs', phase = ph'\<rparr>]"
    using go m2 by simp
  have "thread_ok B J (one_by_one B J (history m') (core p0)) (core (proc m')) (threads m' ! s)"
    if s: "s < length (threads m')" for s
  proof (cases "s = t")
    case True
    with s th threads show ?thesis by simp
  next
    case False
    have old: "thread_ok B J (one_by_one B J (history m) (core p0)) (core (proc m)) (threads m ! s)"
      using lin alive s threads by (simp add: linear_def Let_def)
    from shared show ?thesis
    proof
      assume "history m' = history m \<and> core (proc m') = core (proc m)"
      with old False threads show ?thesis by simp
    next
      assume "owner m = None \<or> owner m = Some t"
      with ex False s threads have "\<not> in_section (phase (threads m ! s))"
        by (auto simp: exclusive_def)
      with old have "thread_ok B J (one_by_one B J (history m') (core p0)) (core (proc m')) (threads m ! s)"
        using thread_ok_outside by blast
      with False threads show ?thesis by simp
    qed
  qed
  with m' free show ?thesis by (simp add: linear_def Let_def)
qed

lemma linear_thread:
  assumes "linear B J p0 m" and "at m t cs ph"
  shows "thread_ok B J (one_by_one B J (history m) (core p0)) (core (proc m)) \<lparr>todo = cs, phase = ph\<rparr>"
    and "exclusive m" and "in_section ph \<Longrightarrow> owner m = Some t"
    and "owner m = None \<Longrightarrow> core (proc m) = one_by_one B J (history m) (core p0)"
  using assms exclusive_owner [of m t cs ph] by (auto simp: linear_def at_def Let_def)

interpretation machine_linear: step_invariant "mstep B J" "linear B J p0" for B J p0
proof
  fix m m' assume step: "mstep B J m m'" and lin: "linear B J p0 m"
  have ex: "exclusive m'"
    using machine_exclusive.step_inv [OF step] lin by (simp add: linear_def)
  from step show "linear B J p0 m'"
  proof cases
    case (build t A S c cs e)
    show ?thesis
      by (rule linear_step [OF lin build(2) ex build(1)])
        (use build linear_thread [OF lin build(2)] in \<open>simp_all add: thread_ok_simps\<close>)
  next
    case (build_error t A S c cs err)
    show ?thesis
      by (rule linear_step [OF lin build_error(2) ex build_error(1)])
        (use build_error linear_thread [OF lin build_error(2)] in \<open>simp_all add: thread_ok_simps\<close>)
  next
    case (lock t A S c cs e g)
    note th = linear_thread [OF lin lock(2)]
    have "\<not> poisoned (core (proc m))"
      using lock by (auto simp: lock_events_def split: if_splits)
    with lock th(1,4) show ?thesis
      by (intro linear_step [OF lin lock(2) ex lock(1)]) (simp_all add: thread_ok_simps del: core_simps(1))
  next
    case (lock_poisoned t A S c cs e msg)
    show ?thesis
      by (rule linear_step [OF lin lock_poisoned(2) ex lock_poisoned(1)])
        (use lock_poisoned linear_thread [OF lin lock_poisoned(2)] in \<open>simp_all add: thread_ok_simps\<close>)
  next
    case (register t A S c cs e u g)
    note th = linear_thread [OF lin register(2)]
    show ?thesis
    proof (rule linear_step [OF lin register(2) ex register(1)])
      show "owner m' = None \<Longrightarrow> core (proc m') = one_by_one B J (history m') (core p0)"
        using register th(3) by simp
      show "thread_ok B J (one_by_one B J (history m') (core p0)) (core (proc m'))
          \<lparr>todo = (A, S, c) # cs, phase = after_register c\<rparr>"
        using register th(1)
        by (auto simp: thread_ok_simps after_register_def dispatch_built lock_and_register_core)
    qed (use register th(3) in simp_all)
  next
    case (register_error t A S c cs e err g)
    note th = linear_thread [OF lin register_error(2)]
    show ?thesis
    proof (rule linear_step [OF lin register_error(2) ex register_error(1)])
      show "thread_ok B J (one_by_one B J (history m') (core p0)) (core (proc m'))
          \<lparr>todo = (A, S, c) # cs, phase = Leaving (Inl (from_try_reserve_error err))\<rparr>"
        using register_error th(1)
        by (cases "MpiCall.kind c = Finalize")
          (auto simp: thread_ok_simps dispatch_built dispatch_built_finalize lock_and_register_core)
    qed (use register_error th(3) in simp_all)
  next
    case (register_panic t A S c cs e msg g)
    note th = linear_thread [OF lin register_panic(2)]
    show ?thesis
    proof (rule linear_step [OF lin register_panic(2) ex register_panic(1)])
      show "core (proc m') = one_by_one B J (history m') (core p0)"
        using register_panic th(1)
        by (cases "MpiCall.kind c = Finalize")
          (auto simp: thread_ok_simps dispatch_built dispatch_built_finalize one_by_one_append
            lock_and_register_core)
    qed (use register_panic th(3) in \<open>simp_all add: thread_ok_simps\<close>)
  next
    case (register_abort t A S c cs e g)
    with ex show ?thesis by (simp add: linear_def)
  next
    case (serialize t A S c cs r p)
    note th = linear_thread [OF lin serialize(2)]
    show ?thesis
    proof (rule linear_step [OF lin serialize(2) ex serialize(1)])
      show "thread_ok B J (one_by_one B J (history m') (core p0)) (core (proc m'))
          \<lparr>todo = (A, S, c) # cs, phase = Leaving r\<rparr>"
        using serialize th(1) serialize_core [of J S "events (proc m)" "MpiCall.current_rank c" "proc m"]
        by (auto simp: thread_ok_simps dispatch_built_finalize)
    qed (use serialize th(3) in simp_all)
  next
    case (serialize_panic t A S c cs msg p)
    note th = linear_thread [OF lin serialize_panic(2)]
    show ?thesis
    proof (rule linear_step [OF lin serialize_panic(2) ex serialize_panic(1)])
      show "core (proc m') = one_by_one B J (history m') (core p0)"
        using serialize_panic th(1)
          serialize_core [of J S "events (proc m)" "MpiCall.current_rank c" "proc m"]
        by (auto simp: thread_ok_simps dispatch_built_finalize one_by_one_append)
    qed (use serialize_panic th(3) in \<open>simp_all add: thread_ok_simps\<close>)
  next
    case (unlock t A S c cs r)
    note th = linear_thread [OF lin unlock(2)]
    show ?thesis
    proof (rule linear_step [OF lin unlock(2) ex unlock(1)])
      show "core (proc m') = one_by_one B J (history m') (core p0)"
        using unlock th(1) by (auto simp: thread_ok_simps one_by_one_append)
    qed (use unlock th(3) in \<open>simp_all add: thread_ok_simps\<close>)
  next
    case (return t A S c cs u)
    show ?thesis
      by (rule linear_step [OF lin return(2) ex return(1)])
        (use return linear_thread [OF lin return(2)] in \<open>simp_all add: thread_ok_simps\<close>)
  next
    case (return_error t A S c cs e)
    show ?thesis
      by (rule linear_step [OF lin return_error(2) ex return_error(1)])
        (use return_error linear_thread [OF lin return_error(2)] in \<open>simp_all add: thread_ok_simps\<close>)
  qed
qed

lemma linear_init: "linear B J p (machine_init p progs)"
  by (simp add: linear_def exclusive_def machine_init_def thread_ok_simps)

section \<open>Program order\<close>

definition calls_by :: "nat \<Rightarrow> (nat \<times> env_call) list \<Rightarrow> env_call list" where
  "calls_by t xs = map snd (filter (\<lambda>x. fst x = t) xs)"

lemma calls_by_simps [simp]:
  "calls_by t [] = []" "calls_by t (xs @ ys) = calls_by t xs @ calls_by t ys"
  "calls_by t ((s, ec) # xs) = (if s = t then ec # calls_by t xs else calls_by t xs)"
  by (simp_all add: calls_by_def)

text \<open>A thread's calls in the history, then the calls it still has to make, are its program; a
  crashed thread has made a prefix of it. (A failing builder is the one way to skip a call.)\<close>

definition ordered :: "env_call list \<Rightarrow> env_call list \<Rightarrow> thread \<Rightarrow> bool" where
  "ordered prog made th \<longleftrightarrow>
     (case phase th of
        Returning _ \<Rightarrow> todo th \<noteq> [] \<and> made @ tl (todo th) = prog
      | Crashed _ \<Rightarrow> prefix made prog
      | Ready \<Rightarrow> made @ todo th = prog
      | _ \<Rightarrow> todo th \<noteq> [] \<and> made @ todo th = prog)"

lemma ordered_simps:
  "ordered prog made \<lparr>todo = ts, phase = Ready\<rparr> \<longleftrightarrow> made @ ts = prog"
  "ordered prog made \<lparr>todo = ts, phase = Built e\<rparr> \<longleftrightarrow> ts \<noteq> [] \<and> made @ ts = prog"
  "ordered prog made \<lparr>todo = ts, phase = Locked e\<rparr> \<longleftrightarrow> ts \<noteq> [] \<and> made @ ts = prog"
  "ordered prog made \<lparr>todo = ts, phase = Registered\<rparr> \<longleftrightarrow> ts \<noteq> [] \<and> made @ ts = prog"
  "ordered prog made \<lparr>todo = ts, phase = Leaving r\<rparr> \<longleftrightarrow> ts \<noteq> [] \<and> made @ ts = prog"
  "ordered prog made \<lparr>todo = ts, phase = Returning r\<rparr> \<longleftrightarrow> ts \<noteq> [] \<and> made @ tl ts = prog"
  "ordered prog made \<lparr>todo = ts, phase = Crashed msg\<rparr> \<longleftrightarrow> prefix made prog"
  by (auto simp: ordered_def)

definition program_order :: "env_call list list \<Rightarrow> machine \<Rightarrow> bool" where
  "program_order progs m \<longleftrightarrow> length (threads m) = length progs \<and>
     (\<forall>x \<in> set (history m). fst x < length progs) \<and>
     (\<forall>t < length progs. ordered (progs ! t) (calls_by t (history m)) (threads m ! t))"

lemma program_order_step:
  assumes "program_order progs m" and "at m t cs ph" and "m' = go t cs' ph' m2"
    and "threads m2 = threads m" and "history m2 = history m @ hs" and "\<forall>x \<in> set hs. fst x = t"
    and "ordered (progs ! t) (calls_by t (history m)) \<lparr>todo = cs, phase = ph\<rparr> \<Longrightarrow>
      ordered (progs ! t) (calls_by t (history m) @ map snd hs) \<lparr>todo = cs', phase = ph'\<rparr>"
  shows "program_order progs m'"
proof -
  have "filter (\<lambda>x. fst x = t) hs = hs" using assms(6) by simp
  then have t: "calls_by t hs = map snd hs" by (simp add: calls_by_def)
  have "filter (\<lambda>x. fst x = s) hs = []" if "s \<noteq> t" for s
    using assms(6) that by (auto simp: filter_empty_conv)
  then have "calls_by s hs = []" if "s \<noteq> t" for s
    using that by (simp add: calls_by_def)
  with t assms show ?thesis
    by (auto simp: program_order_def at_def nth_list_update)
qed

lemma prefix_step: "made @ x # cs = prog \<Longrightarrow> prefix (made @ [x]) prog"
  by auto

lemma prefix_made: "made @ ts = prog \<Longrightarrow> prefix made prog"
  by auto

context derived_builders
begin

lemma program_order_mstep:
  assumes "mstep B J m m'" and "program_order progs m"
  shows "program_order progs m'"
  using assms(1)
proof cases
  case (build_error t A S c cs err)
  then show ?thesis by (simp add: build_event_total)
next
  case (register_abort t A S c cs e g)
  with assms(2) show ?thesis by (simp add: program_order_def)
next
  case (register t A S c cs e u g)
  show ?thesis
    by (rule program_order_step [OF assms(2) register(2) register(1), where hs = "[]"])
      (simp_all add: ordered_simps after_register_def)
next
  case (register_panic t A S c cs e msg g)
  show ?thesis
    by (rule program_order_step [OF assms(2) register_panic(2) register_panic(1),
          where hs = "[(t, A, S, c)]"]) (auto simp: ordered_simps prefix_step)
next
  case (serialize_panic t A S c cs msg p)
  show ?thesis
    by (rule program_order_step [OF assms(2) serialize_panic(2) serialize_panic(1),
          where hs = "[(t, A, S, c)]"]) (auto simp: ordered_simps prefix_step)
next
  case (unlock t A S c cs r)
  show ?thesis
    by (rule program_order_step [OF assms(2) unlock(2) unlock(1),
          where hs = "[(t, A, S, c)]"]) (auto simp: ordered_simps prefix_step)
next
  case (build t A S c cs e)
  show ?thesis
    by (rule program_order_step [OF assms(2) build(2) build(1), where hs = "[]"])
      (auto simp: ordered_simps intro: prefix_made)
next
  case (lock t A S c cs e g)
  show ?thesis
    by (rule program_order_step [OF assms(2) lock(2) lock(1), where hs = "[]"])
      (auto simp: ordered_simps intro: prefix_made)
next
  case (lock_poisoned t A S c cs e msg)
  show ?thesis
    by (rule program_order_step [OF assms(2) lock_poisoned(2) lock_poisoned(1), where hs = "[]"])
      (auto simp: ordered_simps intro: prefix_made)
next
  case (register_error t A S c cs e err g)
  show ?thesis
    by (rule program_order_step [OF assms(2) register_error(2) register_error(1), where hs = "[]"])
      (auto simp: ordered_simps intro: prefix_made)
next
  case (serialize t A S c cs r p)
  show ?thesis
    by (rule program_order_step [OF assms(2) serialize(2) serialize(1), where hs = "[]"])
      (auto simp: ordered_simps intro: prefix_made)
next
  case (return t A S c cs u)
  show ?thesis
    by (rule program_order_step [OF assms(2) return(2) return(1), where hs = "[]"])
      (auto simp: ordered_simps intro: prefix_made)
next
  case (return_error t A S c cs e)
  show ?thesis
    by (rule program_order_step [OF assms(2) return_error(2) return_error(1), where hs = "[]"])
      (auto simp: ordered_simps intro: prefix_made)
qed

end

lemma program_order_init: "program_order progs (machine_init p progs)"
  by (simp add: program_order_def machine_init_def ordered_simps)

section \<open>Progress\<close>

definition thread_done :: "thread \<Rightarrow> bool" where
  "thread_done th \<longleftrightarrow> (phase th = Ready \<and> todo th = []) \<or> (\<exists>msg. phase th = Crashed msg)"

text \<open>A machine where no step is possible has halted or all its threads are done: no deadlock.\<close>


lemma serialize_not_aborted: "serialize J S es rank p \<noteq> (Aborted, p')"
  by (auto simp: serialize_def Let_def split: sum.split prod.split option.split)

lemma section_steps:
  assumes "at m t cs ph" and "in_section ph" and "cs \<noteq> []"
  shows "\<exists>m'. mstep B J m m'"
proof -
  obtain A S c cs' where cs: "cs = (A, S, c) # cs'"
    using assms(3) by (cases cs) auto
  show ?thesis
  proof (cases ph)
    case (Locked e)
    obtain r g where r: "register A e (guarded (proc m)) = (r, g)" by fastforce
    show ?thesis
    proof (cases r)
      case (Done x)
      with r Locked cs assms(1) show ?thesis
        by (cases x) (auto intro: mstep.intros)
    qed (use r Locked cs assms(1) in \<open>auto intro: mstep.intros\<close>)
  next
    case Registered
    obtain r p where r: "serialize J S (events (proc m)) (MpiCall.current_rank c) (proc m) = (r, p)"
      by fastforce
    with Registered cs assms(1) serialize_not_aborted show ?thesis
      by (cases r) (auto intro: mstep.intros)
  qed (use cs assms in \<open>auto intro: mstep.intros\<close>)
qed

lemma progress:
  assumes ex: "exclusive m" and order: "program_order progs m" and "\<not> halted m"
    and t: "t < length (threads m)" and "\<not> thread_done (threads m ! t)"
  shows "\<exists>m'. mstep B J m m'"
proof -
  have ord: "ordered (progs ! s) (calls_by s (history m)) (threads m ! s)" if "s < length (threads m)" for s
    using order that by (simp add: program_order_def)
  have inside: "\<exists>m'. mstep B J m m'"
    if s: "s < length (threads m)" and sec: "in_section (phase (threads m ! s))" for s
  proof (rule section_steps)
    show "at m s (todo (threads m ! s)) (phase (threads m ! s))"
      using s \<open>\<not> halted m\<close> by (simp add: at_def)
    show "todo (threads m ! s) \<noteq> []"
      using ord [OF s] sec by (cases "phase (threads m ! s)") (auto simp: ordered_def)
  qed (rule sec)
  obtain cs ph where th: "at m t cs ph" using t \<open>\<not> halted m\<close>
    by (cases "threads m ! t") (auto simp: at_def)
  then have eq: "threads m ! t = \<lparr>todo = cs, phase = ph\<rparr>" by (simp add: at_def)
  show ?thesis
  proof (cases "in_section ph")
    case True
    with inside t eq show ?thesis by simp
  next
    case False
    with ord [OF t] eq \<open>\<not> thread_done (threads m ! t)\<close> have "cs \<noteq> []"
      by (cases ph) (auto simp: ordered_simps thread_done_def)
    then obtain A S c cs' where cs: "cs = (A, S, c) # cs'" by (cases cs) auto
    show ?thesis
    proof (cases ph)
      case Ready
      with th cs show ?thesis
        by (cases "build_event B c") (auto intro: mstep.intros)
    next
      case (Built e)
      show ?thesis
      proof (cases "owner m")
        case None
        with th cs Built show ?thesis
          by (cases "lock_events (lock_message (MpiCall.kind c)) (proc m)") (auto intro: mstep.intros)
      next
        case (Some s)
        with ex have "s < length (threads m)" "in_section (phase (threads m ! s))"
          by (auto simp: exclusive_def)
        then show ?thesis by (rule inside)
      qed
    next
      case (Returning r)
      with th cs show ?thesis by (cases r) (auto intro: mstep.intros)
    qed (use False eq \<open>\<not> thread_done (threads m ! t)\<close> in \<open>auto simp: thread_done_def\<close>)
  qed
qed

section \<open>Nothing fails, nothing is lost\<close>

text \<open>Programs without \<open>MPI_Finalize\<close>, with memory for all their events.\<close>

definition ample_programs :: "env_call list list \<Rightarrow> bool" where
  "ample_programs progs \<longleftrightarrow>
     (\<forall>cs \<in> set progs. ample cs \<and> (\<forall>c \<in> set (calls_of cs). MpiCall.kind c \<noteq> Finalize)) \<and>
     3 * sum_list (map length progs) * elem_size \<le> isize_max"

definition recorded_by :: "(nat \<times> env_call) list \<Rightarrow> Register_dyn list" where
  "recorded_by xs = map (\<lambda>x. event_of_call (call_of (snd x))) xs"

lemma one_by_one_ample:
  assumes B: "derived_builders B" and "process_inv p" and "\<not> poisoned p"
    and "ample (map snd xs)" and "\<forall>c \<in> set (calls_of (map snd xs)). MpiCall.kind c \<noteq> Finalize"
    and "3 * (length (events p) + length xs) * elem_size \<le> isize_max"
  shows "process_inv (one_by_one B J xs p) \<and> events (one_by_one B J xs p) = events p @ recorded_by xs \<and>
    disk (one_by_one B J xs p) = disk p"
  using assms(2-6)
proof (induction xs arbitrary: p)
  case Nil
  then show ?case by (simp add: recorded_by_def)
next
  case (Cons x xs)
  obtain t A S c where x: "x = (t, A, S, c)" by (cases x)
  have "has_room p" using Cons.prems(5) by (simp add: has_room_def elem_size_def)
  moreover have "generous A" using Cons.prems(3) x by simp
  ultimately obtain g where g: "lock_and_register A (lock_message (MpiCall.kind c)) (event_of_call c) p =
      (Done (Inr ()), p\<lparr>guarded := g\<rparr>)"
    and items: "items g = events p @ [event_of_call c]" and inv: "vec_inv g"
    using lock_and_register_generous [OF Cons.prems(1,2)] by blast
  have "MpiCall.kind c \<noteq> Finalize" using Cons.prems(4) x by simp
  with g have "snd (dispatch B J A S c p) = p\<lparr>guarded := g\<rparr>"
    by (simp add: derived_builders.dispatch_other [OF B])
  moreover have "process_inv (one_by_one B J xs (p\<lparr>guarded := g\<rparr>)) \<and>
      events (one_by_one B J xs (p\<lparr>guarded := g\<rparr>)) = events (p\<lparr>guarded := g\<rparr>) @ recorded_by xs \<and>
      disk (one_by_one B J xs (p\<lparr>guarded := g\<rparr>)) = disk (p\<lparr>guarded := g\<rparr>)"
    using Cons.prems x inv items
    by (intro Cons.IH) (simp_all add: process_inv_def events_def)
  ultimately show ?case
    using x items by (simp add: recorded_by_def call_of_def events_def)
qed


text \<open>A machine where no call has failed.\<close>

definition clean_phase :: "phase \<Rightarrow> bool" where
  "clean_phase ph \<longleftrightarrow>
     (case ph of
        Leaving r \<Rightarrow> r = Inr () | Returning r \<Rightarrow> r = Inr ()
      | Registered \<Rightarrow> False | Crashed _ \<Rightarrow> False | _ \<Rightarrow> True)"

definition clean :: "machine \<Rightarrow> bool" where
  "clean m \<longleftrightarrow> \<not> halted m \<and> \<not> poisoned (proc m) \<and>
     (\<forall>th \<in> set (threads m). clean_phase (phase th))"

lemma clean_phase_simps [simp]:
  "clean_phase Ready" "clean_phase (Built e)" "clean_phase (Locked e)"
  "\<not> clean_phase Registered" "\<not> clean_phase (Crashed msg)"
  "clean_phase (Leaving r) \<longleftrightarrow> r = Inr ()" "clean_phase (Returning r) \<longleftrightarrow> r = Inr ()"
  by (simp_all add: clean_phase_def)

lemma clean_go:
  assumes "clean m" and "threads m' = threads m" and "\<not> halted m'" and "\<not> poisoned (proc m')"
    and "clean_phase ph"
  shows "clean (go t cs ph m')"
  using assms set_update_subset_insert [of "threads m" t "\<lparr>todo = cs, phase = ph\<rparr>"]
  by (auto simp: clean_def)

lemma length_calls_by:
  "\<forall>x \<in> set xs. fst x < n \<Longrightarrow> length xs = (\<Sum>t < n. length (calls_by t xs))"
proof (induction xs)
  case (Cons x xs)
  obtain s ec where x: "x = (s, ec)" by (cases x)
  have "(\<Sum>t < n. length (calls_by t (x # xs))) =
      (\<Sum>t < n. length (calls_by t xs) + (if s = t then 1 else 0))"
    using x by (intro sum.cong) auto
  also have "\<dots> = length xs + 1"
    using Cons x by (simp add: sum.distrib)
  finally show ?case by simp
qed simp

lemma sum_list_map_nth: "sum_list (map f xs) = (\<Sum>t < length xs. f (xs ! t))" for f :: "'a \<Rightarrow> nat"
  by (simp add: sum_list_sum_nth atLeast0LessThan)

text \<open>The history only holds calls of the programs, so it is as ample as they are.\<close>

lemma ordered_prefix: "ordered prog made th \<Longrightarrow> prefix made prog"
  by (auto simp: ordered_def split: phase.splits)

lemma history_prefix:
  assumes "program_order progs m" and "t < length progs"
  shows "prefix (calls_by t (history m)) (progs ! t)"
  using assms ordered_prefix by (auto simp: program_order_def)

lemma history_calls:
  assumes "program_order progs m" and "x \<in> set (history m)"
  shows "\<exists>cs \<in> set progs. snd x \<in> set cs"
proof -
  have x: "fst x < length progs" using assms by (simp add: program_order_def)
  moreover have "snd x \<in> set (calls_by (fst x) (history m))"
    using assms(2) by (auto simp: calls_by_def)
  ultimately show ?thesis
    using history_prefix [OF assms(1) x] by (metis nth_mem set_mono_prefix subsetD)
qed

lemma history_room:
  assumes "program_order progs m"
  shows "length (history m) \<le> sum_list (map length progs)"
proof -
  have "length (history m) = (\<Sum>t < length progs. length (calls_by t (history m)))"
    using assms by (intro length_calls_by) (simp add: program_order_def)
  also have "\<dots> \<le> (\<Sum>t < length progs. length (progs ! t))"
    using history_prefix [OF assms] by (intro sum_mono) (simp add: prefix_length_le)
  finally show ?thesis by (simp add: sum_list_map_nth)
qed

lemma ample_programs_call:
  assumes "ample_programs progs" and "cs \<in> set progs" and "(A, S, c) \<in> set cs"
  shows "generous A" and "grants_writes S" and "MpiCall.kind c \<noteq> Finalize"
proof -
  have ample: "ample cs" and kinds: "\<forall>c \<in> set (calls_of cs). MpiCall.kind c \<noteq> Finalize"
    using assms(1,2) by (simp_all add: ample_programs_def)
  from ample assms(3) show "generous A" and "grants_writes S" by (auto simp: ample_def)
  have "call_of (A, S, c) \<in> set (calls_of cs)"
    using assms(3) unfolding calls_of_def set_map by (rule imageI)
  with kinds show "MpiCall.kind c \<noteq> Finalize" by (simp add: call_of_def)
qed

lemma history_ample:
  assumes "ample_programs progs" and "program_order progs m"
  shows "ample (map snd (history m))"
    and "\<forall>c \<in> set (calls_of (map snd (history m))). MpiCall.kind c \<noteq> Finalize"
    and "3 * length (history m) * elem_size \<le> isize_max"
proof -
  have each: "generous A \<and> grants_writes S \<and> MpiCall.kind c \<noteq> Finalize"
    if "(A, S, c) \<in> set (map snd (history m))" for A S c
  proof -
    from that obtain x where "x \<in> set (history m)" and x: "snd x = (A, S, c)" by auto
    from history_calls [OF assms(2) this(1)] obtain cs where "cs \<in> set progs" "(A, S, c) \<in> set cs"
      unfolding x by blast
    from ample_programs_call [OF assms(1) this] show ?thesis by simp
  qed
  then show "ample (map snd (history m))"
    unfolding ample_def by blast
  show "\<forall>c \<in> set (calls_of (map snd (history m))). MpiCall.kind c \<noteq> Finalize"
  proof
    fix c assume "c \<in> set (calls_of (map snd (history m)))"
    then obtain ec where ec: "ec \<in> set (map snd (history m))" and c: "c = call_of ec"
      unfolding calls_of_def set_map by blast
    obtain A S c' where "ec = (A, S, c')" by (cases ec)
    with each [of A S c'] ec c show "MpiCall.kind c \<noteq> Finalize" by (simp add: call_of_def)
  qed
  show "3 * length (history m) * elem_size \<le> isize_max"
    using assms(1) history_room [OF assms(2)]
    by (simp add: ample_programs_def elem_size_def)
qed

lemma current_call:
  assumes "ample_programs progs" and "program_order progs m" and "at m t ((A, S, c) # cs) (Locked e)"
  shows "generous A" and "MpiCall.kind c \<noteq> Finalize"
proof -
  have t: "t < length progs" using assms(2,3) by (simp add: program_order_def at_def)
  then have "ordered (progs ! t) (calls_by t (history m)) \<lparr>todo = (A, S, c) # cs, phase = Locked e\<rparr>"
    using assms(2,3) by (auto simp: program_order_def at_def)
  then have "(A, S, c) \<in> set (progs ! t)"
    by (metis ordered_simps(3) in_set_conv_decomp)
  with t show "generous A" and "MpiCall.kind c \<noteq> Finalize"
    using ample_programs_call [OF assms(1)] nth_mem by blast+
qed

definition recording :: "builders \<Rightarrow> serde \<Rightarrow> env_call list list \<Rightarrow> disk \<Rightarrow> machine \<Rightarrow> bool" where
  "recording B J progs d m \<longleftrightarrow> linear B J (process_init d) m \<and> program_order progs m \<and> clean m"

context derived_builders
begin

lemma recording_events:
  assumes ample: "ample_programs progs" and rec: "recording B J progs d m"
  defines "base \<equiv> one_by_one B J (history m) (core (process_init d))"
  shows "process_inv base" and "events base = recorded_by (history m)" and "disk base = d"
proof -
  have order: "program_order progs m" using rec by (simp add: recording_def)
  have "process_inv (core (process_init d))"
    by (simp add: process_inv_def vec_inv_new)
  then show "process_inv base" and "events base = recorded_by (history m)" and "disk base = d"
    using one_by_one_ample [OF derived_builders_axioms, of "core (process_init d)" "history m" J]
      history_ample [OF ample order] by (simp_all add: base_def)
qed

lemma recording_step:
  assumes ample: "ample_programs progs" and step: "mstep B J m m'" and rec: "recording B J progs d m"
  shows "recording B J progs d m'"
proof -
  have lin: "linear B J (process_init d) m" and order: "program_order progs m" and "clean m"
    using rec by (simp_all add: recording_def)
  have granted: "\<exists>g. register A e (guarded (proc m)) = (Done (Inr ()), g)"
    if at: "at m t ((A, S, c) # cs) (Locked e)" for t A S c cs e
  proof (rule register_generous)
    from linear_thread(1) [OF lin at]
    have base: "one_by_one B J (history m) (core (process_init d)) = core (proc m)"
      by (simp add: thread_ok_simps)
    from recording_events [OF ample rec]
    have inv: "process_inv (core (proc m))" and evs: "events (proc m) = recorded_by (history m)"
      by (simp_all add: base)
    show "vec_inv (guarded (proc m))" using inv by (simp add: process_inv_def)
    show "generous A" by (rule current_call(1) [OF ample order at])
    have "length (items (guarded (proc m))) = length (history m)"
      using evs by (simp add: events_def recorded_by_def)
    then show "3 * length (items (guarded (proc m))) * elem_size \<le> isize_max"
      using history_ample(3) [OF ample order] by simp
  qed
  have cp: "clean_phase ph" if "at m t cs ph" for t cs ph
    using that \<open>clean m\<close> by (force simp: clean_def at_def dest: nth_mem)
  have alive: "\<not> poisoned (proc m)" "\<not> halted m" using \<open>clean m\<close> by (simp_all add: clean_def)
  note go = clean_go [OF \<open>clean m\<close>]
  from step have "clean m'"
  proof cases
    case (build_error t A S c cs err)
    then show ?thesis by (simp add: build_event_total)
  next
    case (lock_poisoned t A S c cs e msg)
    with alive show ?thesis by (simp add: lock_events_def)
  next
    case (register t A S c cs e u g)
    with current_call(2) [OF ample order register(2)] alive show ?thesis
      by (auto intro!: go simp: after_register_def)
  next
    case (register_error t A S c cs e err g)
    with granted [OF register_error(2)] show ?thesis by simp
  next
    case (register_panic t A S c cs e msg g)
    with granted [OF register_panic(2)] show ?thesis by simp
  next
    case (register_abort t A S c cs e g)
    with granted [OF register_abort(2)] show ?thesis by simp
  next
    case (serialize t A S c cs r p)
    with cp [OF serialize(2)] show ?thesis by simp
  next
    case (serialize_panic t A S c cs msg p)
    with cp [OF serialize_panic(2)] show ?thesis by simp
  next
    case (unlock t A S c cs r)
    with cp [OF unlock(2)] alive show ?thesis by (auto intro!: go)
  next
    case (return_error t A S c cs e)
    with cp [OF return_error(2)] show ?thesis by simp
  qed (use alive in \<open>auto intro!: go\<close>)
  with machine_linear.step_inv [OF step lin] program_order_mstep [OF step order] show ?thesis
    by (simp add: recording_def)
qed

lemma recording_steps:
  assumes "ample_programs progs" and "(mstep B J)\<^sup>*\<^sup>* (machine_init (process_init d) progs) m"
  shows "recording B J progs d m"
  using assms(2)
proof (induction rule: rtranclp_induct)
  case base
  show ?case
    by (simp add: recording_def linear_init program_order_init)
      (simp add: clean_def machine_init_def)
next
  case (step m m')
  show ?case by (rule recording_step [OF assms(1) step.hyps(2) step.IH])
qed

text \<open>Where the run ends, every thread has made all its calls, and each is in the trace once.\<close>

lemma all_recorded:
  assumes ample: "ample_programs progs"
    and run: "(mstep B J)\<^sup>*\<^sup>* (machine_init (process_init d) progs) m" and final: "\<And>m'. \<not> mstep B J m m'"
  shows "events (proc m) = recorded_by (history m)"
    and "t < length progs \<Longrightarrow> calls_by t (history m) = progs ! t"
    and "t < length progs \<Longrightarrow> threads m ! t = \<lparr>todo = [], phase = Ready\<rparr>"
    and "\<not> poisoned (proc m)" and "\<not> halted m"
    and "process_inv (proc m)" and "disk (proc m) = d"
proof -
  have rec: "recording B J progs d m" by (rule recording_steps [OF ample run])
  then have lin: "linear B J (process_init d) m" and order: "program_order progs m" and "clean m"
    by (simp_all add: recording_def)
  then have ex: "exclusive m" and len: "length (threads m) = length progs"
    by (simp_all add: linear_def program_order_def)
  show alive: "\<not> poisoned (proc m)" "\<not> halted m" using \<open>clean m\<close> by (simp_all add: clean_def)
  have th: "threads m ! s = \<lparr>todo = [], phase = Ready\<rparr>" if s: "s < length progs" for s
  proof -
    have "thread_done (threads m ! s)"
      using progress [OF ex order alive(2), of s B J] final s len by auto
    moreover have "clean_phase (phase (threads m ! s))"
      using \<open>clean m\<close> s len by (simp add: clean_def)
    ultimately show ?thesis
      by (cases "threads m ! s") (auto simp: thread_done_def)
  qed
  then show "t < length progs \<Longrightarrow> threads m ! t = \<lparr>todo = [], phase = Ready\<rparr>" .
  show "t < length progs \<Longrightarrow> calls_by t (history m) = progs ! t"
    using order th [of t] by (auto simp: program_order_def ordered_simps)
  have "owner m = None"
  proof (rule ccontr)
    assume "owner m \<noteq> None"
    then obtain s where "s < length (threads m)" "in_section (phase (threads m ! s))"
      using ex by (auto simp: exclusive_def)
    with th len show False by simp
  qed
  then have "core (proc m) = one_by_one B J (history m) (core (process_init d))"
    using lin alive by (simp add: linear_def Let_def)
  note base = recording_events [OF ample rec, folded this]
  show "events (proc m) = recorded_by (history m)" and "disk (proc m) = d"
    and "process_inv (proc m)"
    using base by (simp_all add: process_inv_def)
qed

end

end
