(* ===== verification/Threaded_Job.thy ===== *)
theory Threaded_Job
  imports Thread_Safety Merge_Properties
begin

text \<open>
  Jobs whose ranks have threads. The threads of a rank register their calls in any interleaving; when
  all of them are done, one thread calls \<open>MPI_Finalize\<close>, as MPI demands. However the threads of the
  ranks are scheduled, the aggregate holds the events that the calls would leave if every rank made
  them on one thread, one program after the other.
\<close>

section \<open>Ranks with threads\<close>

text \<open>A rank: its number, the programs of its threads, the finalize call.\<close>

type_synonym threaded_job = "(MpiRank \<times> env_call list list \<times> env_call) list"

text \<open>Every thread has made its calls, none has crashed, and the process is alive.\<close>

definition all_ready :: "machine \<Rightarrow> bool" where
  "all_ready m \<longleftrightarrow> \<not> halted m \<and> list_all (\<lambda>th. phase th = Ready \<and> todo th = []) (threads m)"

text \<open>
  The outcomes of a rank under all schedules: its threads run until no step is left; if they are all
  ready the finalize call follows. \<open>None\<close> is the outcome of a rank that does not come through, because
  its process was aborted, a thread has crashed or is stuck, or the finalize call does not return.
\<close>

inductive threaded_rank ::
    "builders \<Rightarrow> serde \<Rightarrow> env_call list list \<Rightarrow> env_call \<Rightarrow> disk \<Rightarrow> process option \<Rightarrow> bool" for B J where
  returns: "(mstep B J)\<^sup>*\<^sup>* (machine_init (process_init d) progs) m \<Longrightarrow> \<forall>m'. \<not> mstep B J m m' \<Longrightarrow>
   all_ready m \<Longrightarrow> register_mpi_call B J A S c (proc m) = (Done u, p) \<Longrightarrow>
   threaded_rank B J progs (A, S, c) d (Some p)"
| dies: "(mstep B J)\<^sup>*\<^sup>* (machine_init (process_init d) progs) m \<Longrightarrow> \<forall>m'. \<not> mstep B J m m' \<Longrightarrow>
   \<not> all_ready m \<or> fst (register_mpi_call B J A S c (proc m)) \<noteq> Done () \<Longrightarrow>
   threaded_rank B J progs (A, S, c) d None"

inductive threaded_ranks :: "builders \<Rightarrow> serde \<Rightarrow> threaded_job \<Rightarrow> disk \<Rightarrow> disk option \<Rightarrow> bool" for B J where
  none: "threaded_ranks B J [] d (Some d)"
| rank: "threaded_rank B J progs fin d (Some p) \<Longrightarrow> threaded_ranks B J rs (disk p) res \<Longrightarrow>
    threaded_ranks B J ((r, progs, fin) # rs) d res"
| dead: "threaded_rank B J progs fin d None \<Longrightarrow> threaded_ranks B J ((r, progs, fin) # rs) d None"

inductive_cases threaded_rank_elim: "threaded_rank B J progs (A, S, c) d res"
inductive_simps threaded_ranks_simps:
  "threaded_ranks B J [] d res" "threaded_ranks B J ((r, progs, fin) # rs) d res"

text \<open>The same calls on one thread of each rank.\<close>

definition one_threaded :: "threaded_job \<Rightarrow> job" where
  "one_threaded = map (\<lambda>(r, progs, fin). (r, concat progs @ [fin]))"

lemma one_threaded_simps [simp]:
  "one_threaded [] = []"
  "one_threaded ((r, progs, fin) # rs) = (r, concat progs @ [fin]) # one_threaded rs"
  by (simp_all add: one_threaded_def)

section \<open>The trace of a rank with threads\<close>

lemma mset_calls_by:
  assumes "\<forall>x \<in> set xs. fst x < n"
  shows "mset (map snd xs) = (\<Sum>t < n. mset (calls_by t xs))"
  using assms
proof (induction xs)
  case (Cons x xs)
  obtain s ec where x: "x = (s, ec)" by (cases x)
  have "(\<Sum>t < n. mset (calls_by t (x # xs))) =
      (\<Sum>t < n. mset (calls_by t xs) + (if s = t then {#ec#} else {#}))"
    using x by (intro sum.cong) auto
  also have "\<dots> = mset (map snd xs) + {#ec#}"
    using Cons x by (simp add: sum.distrib)
  finally show ?case using x by simp
qed simp

lemma mset_concat_nth: "mset (concat xss) = (\<Sum>t < length xss. mset (xss ! t))"
  by (simp add: mset_concat sum_list_sum_nth atLeast0LessThan)

lemma rank_programs_ample:
  assumes "rank_run r (concat progs @ [fin])" and "ample (concat progs @ [fin])"
    and "fits (concat progs @ [fin])"
  shows "ample_programs progs"
proof -
  have "3 * (sum_list (map length progs) + 1) * elem_size \<le> isize_max"
    using assms(3) by (simp add: fits_def length_concat)
  moreover have "ample cs \<and> (\<forall>c \<in> set (calls_of cs). MpiCall.kind c \<noteq> Finalize)" if "cs \<in> set progs" for cs
    using assms(1,2) that by (auto simp: rank_run_def ample_def calls_of_def ball_Un)
  ultimately show ?thesis by (simp add: ample_programs_def elem_size_def)
qed

context derived_builders
begin

lemma threads_history:
  assumes "ample_programs progs"
    and "(mstep B J)\<^sup>*\<^sup>* (machine_init (process_init d) progs) m" and "\<forall>m'. \<not> mstep B J m m'"
  shows "mset (events (proc m)) = mset (recorded (concat progs))"
proof -
  note all = all_recorded [OF assms(1,2)]
  have "recording B J progs d m" by (rule recording_steps [OF assms(1,2)])
  then have "\<forall>x \<in> set (history m). fst x < length progs"
    by (simp add: recording_def program_order_def)
  then have "mset (map snd (history m)) = (\<Sum>t < length progs. mset (calls_by t (history m)))"
    by (rule mset_calls_by)
  also have "\<dots> = mset (concat progs)"
    using all(2) assms(3) by (simp add: mset_concat_nth)
  finally have "image_mset (event_of_call \<circ> call_of) (mset (map snd (history m))) =
      image_mset (event_of_call \<circ> call_of) (mset (concat progs))" by simp
  then show ?thesis
    using all(1) assms(3) by (simp add: recorded_by_def recorded_def calls_of_def comp_def
        image_mset.compositionality)
qed

lemma threads_all_ready:
  assumes "ample_programs progs"
    and "(mstep B J)\<^sup>*\<^sup>* (machine_init (process_init d) progs) m" and "\<forall>m'. \<not> mstep B J m m'"
  shows "all_ready m"
proof -
  note all = all_recorded [OF assms(1,2)]
  have "recording B J progs d m" by (rule recording_steps [OF assms(1,2)])
  then have "length (threads m) = length progs"
    by (simp add: recording_def program_order_def)
  then show ?thesis
    using all(3,5) assms(3) by (simp add: all_ready_def list_all_length)
qed

text \<open>Every schedule of a rank without faults comes to its end and leaves a file of all its events.\<close>

lemma threaded_rank_file:
  assumes J: "serde_codec J reread" and ok: "rank_run r (concat progs @ [fin])"
    "ample (concat progs @ [fin])" "fits (concat progs @ [fin])" "finite_times (recorded (concat progs @ [fin]))"
    and merge: "mergeable J (entries d)"
  shows "\<exists>res. threaded_rank B J progs fin d res"
    and "threaded_rank B J progs fin d res \<Longrightarrow>
      \<exists>p json es. res = Some p \<and> disk p = disk_put (rank_file r) json d \<and>
        from_str J json = Inr (map (map_time reread) es) \<and> mset es = mset (recorded (concat progs @ [fin]))"
proof -
  obtain A S c where fin: "fin = (A, S, c)" by (cases fin)
  have c: "MpiCall.kind c = Finalize" "MpiCall.current_rank c = r" "generous A" "grants_writes S"
    using ok(1,2) by (simp_all add: fin rank_run_def call_of_def)
  have ample: "ample_programs progs" by (rule rank_programs_ample [OF ok(1-3)])
  have finish: "\<exists>g json. register_mpi_call B J A S c (proc m) = (Done (), finalize_state r json g (proc m)) \<and>
      disk (proc m) = d \<and> from_str J json = Inr (map (map_time reread) (events (proc m) @ [event_of_call c])) \<and>
      mset (events (proc m) @ [event_of_call c]) = mset (recorded (concat progs @ [fin]))"
    if run: "(mstep B J)\<^sup>*\<^sup>* (machine_init (process_init d) progs) m" and final: "\<forall>m'. \<not> mstep B J m m'" for m
  proof -
    note all = all_recorded [OF ample run]
    have evs: "mset (events (proc m) @ [event_of_call c]) = mset (recorded (concat progs @ [fin]))"
      using threads_history [OF ample run final] by (simp add: recorded_def fin)
    from mset_eq_setD [OF this] have finite: "finite_times (events (proc m) @ [event_of_call c])"
      using ok(4) by (simp only: finite_times_def list_all_iff)
    from mset_eq_length [OF evs] have "has_room (proc m)"
      using ok(3) by (simp add: has_room_def fits_def recorded_def elem_size_def)
    moreover obtain json where json: "to_string J (events (proc m) @ [event_of_call c]) = Inr json"
      using serde_codec.to_string_total [OF J] by blast
    moreover have "map_of (entries d) (rank_file r) \<noteq> Some Subdir"
      using mergeable_no_subdir [OF merge] by simp
    ultimately obtain g where "register_mpi_call B J A S c (proc m) = (Done (), finalize_state r json g (proc m))"
      using finalize_call [OF derived_builders_axioms, of "proc m" A S c r J json] all(4,6,7) c final by auto
    then show ?thesis
      using all(7) final evs serde_codec.from_to_string [OF J finite json] by blast
  qed
  obtain m where run: "(mstep B J)\<^sup>*\<^sup>* (machine_init (process_init d) progs) m"
    and final: "\<forall>m'. \<not> mstep B J m m'"
    using machine_runs.reaches_final by blast
  from finish [OF this] show "\<exists>res. threaded_rank B J progs fin d res"
    unfolding fin
    by (elim exE conjE) (rule exI, rule threaded_rank.returns [OF run final threads_all_ready [OF ample run final]])
  assume "threaded_rank B J progs fin d res"
  then show "\<exists>p json es. res = Some p \<and> disk p = disk_put (rank_file r) json d \<and>
      from_str J json = Inr (map (map_time reread) es) \<and> mset es = mset (recorded (concat progs @ [fin]))"
    unfolding fin
  proof (rule threaded_rank_elim)
    fix m u p assume run: "(mstep B J)\<^sup>*\<^sup>* (machine_init (process_init d) progs) m"
      and final: "\<forall>m'. \<not> mstep B J m m'" and call: "register_mpi_call B J A S c (proc m) = (Done u, p)"
      and res: "res = Some p"
    from finish [OF run final] obtain g json where p: "p = finalize_state r json g (proc m)"
      and "disk (proc m) = d" and wrote: "from_str J json = Inr (map (map_time reread) (events (proc m) @ [event_of_call c]))"
        "mset (events (proc m) @ [event_of_call c]) = mset (recorded (concat progs @ [fin]))"
      using call by auto
    then have "disk p = disk_put (rank_file r) json d" by (simp add: finalize_state_def)
    with wrote res show "\<exists>p json es. res = Some p \<and> disk p = disk_put (rank_file r) json d \<and>
        from_str J json = Inr (map (map_time reread) es) \<and> mset es = mset (recorded (concat progs @ [(A, S, c)]))"
      unfolding fin by blast
  next
    fix m assume run: "(mstep B J)\<^sup>*\<^sup>* (machine_init (process_init d) progs) m"
      and final: "\<forall>m'. \<not> mstep B J m m'"
      and "all_ready m \<longrightarrow> fst (register_mpi_call B J A S c (proc m)) \<noteq> Done ()"
    with finish [OF run final] threads_all_ready [OF ample run final] show "\<exists>p json es. res = Some p \<and>
        disk p = disk_put (rank_file r) json d \<and> from_str J json = Inr (map (map_time reread) es) \<and>
        mset es = mset (recorded (concat progs @ [(A, S, c)]))"
      by auto
  qed
qed

end

section \<open>The ranks of a job\<close>

lemma threaded_ranks_ok:
  assumes B: "derived_builders B" and J: "serde_codec J reread"
    and "job_ok (one_threaded ranks)" and "mergeable J (entries d)"
  shows "(\<exists>res. threaded_ranks B J ranks d res) \<and>
    (\<forall>res. threaded_ranks B J ranks d res \<longrightarrow> (\<exists>d'. res = Some d' \<and> mergeable J (entries d') \<and>
      (ranks \<noteq> [] \<longrightarrow> d' \<noteq> None) \<and>
      disk_events J (entries d') = job_events reread (one_threaded ranks) +
        disk_events J (leftovers (one_threaded ranks) (entries d))))"
  using assms(3,4)
proof (induction ranks arbitrary: d)
  case Nil
  then show ?case by (simp add: threaded_ranks_simps job_events_def leftovers_def)
next
  case (Cons x rs)
  obtain r progs fin where x: "x = (r, progs, fin)" by (cases x)
  note ok = Cons.prems(1) [unfolded x one_threaded_simps job_ok_Cons]
  note wrote = derived_builders.threaded_rank_file [OF B J, of r progs fin d]
  have written: "\<exists>p json es. q = Some p \<and> disk p = disk_put (rank_file r) json d \<and>
      from_str J json = Inr (map (map_time reread) es) \<and> mset es = mset (recorded (concat progs @ [fin]))"
    if "threaded_rank B J progs fin d q" for q
    using wrote(2) [OF _ _ _ _ Cons.prems(2) that] ok by blast
  have rest: "(\<exists>res. threaded_ranks B J rs (disk p) res) \<and>
      (\<forall>res. threaded_ranks B J rs (disk p) res \<longrightarrow> (\<exists>d'. res = Some d' \<and> mergeable J (entries d') \<and>
        d' \<noteq> None \<and>
        disk_events J (entries d') = job_events reread (one_threaded (x # rs)) +
          disk_events J (leftovers (one_threaded (x # rs)) (entries d))))"
    if ran: "threaded_rank B J progs fin d (Some p)" for p
  proof -
    obtain json es where d: "disk p = disk_put (rank_file r) json d"
      and parse: "from_str J json = Inr (map (map_time reread) es)"
      and es: "mset es = mset (recorded (concat progs @ [fin]))"
      using written [OF ran] by blast
    note put = put_trace [OF Cons.prems(2) parse, of r]
    have put2: "disk_events J (leftovers (one_threaded rs) (entries (disk p))) =
        disk_events J (leftovers (one_threaded (x # rs)) (entries d)) +
        image_mset (map_time reread) (mset (recorded (concat progs @ [fin])))"
      using put(2) [of "one_threaded rs" "concat progs @ [fin]"] ok by (simp add: x d es [symmetric])
    have "disk p \<noteq> None" by (simp add: d disk_put_def)
    moreover have "mergeable J (entries (disk p))" by (simp add: d put(1))
    ultimately show ?thesis
      using Cons.IH [of "disk p"] ok put2
      by (cases "rs = []") (auto simp: x job_events_def threaded_ranks_simps)
  qed
  obtain p where "threaded_rank B J progs fin d (Some p)"
    using wrote(1) [OF _ _ _ _ Cons.prems(2)] written ok by blast
  moreover have "\<not> threaded_rank B J progs fin d None" using written by blast
  ultimately show ?case using rest by (auto simp: x threaded_ranks_simps) blast+
qed

section \<open>The whole job\<close>

definition sample_programs :: "env_call list list" where
  "sample_programs =
     [[(generous_allocator, healthy_os, sample_call Send 0 5),
       (generous_allocator, healthy_os, sample_call Wait 0 6)],
      [(generous_allocator, healthy_os, sample_call Recv 0 3)]]"

definition sample_threaded :: threaded_job where
  "sample_threaded = [(0, sample_programs, (generous_allocator, healthy_os, sample_call Finalize 0 9))]"

lemma sample_threaded_ok: "job_ok (one_threaded sample_threaded)"
proof -
  have "finite_times [x, y, z, w]"
    if "finite_times [x]" "finite_times [y]" "finite_times [z]" "finite_times [w]" for x y z w
    using that by (simp add: finite_times_def)
  then show ?thesis
    using sample_finite
    by (simp add: job_ok_def sample_threaded_def sample_programs_def rank_run_def call_of_def fits_def
        elem_size_def isize_max_def)
qed

text \<open>
  C3: a job whose ranks register calls from several threads, without faults. Every schedule of the threads
  of a rank ends, after a bounded number of steps; wherever the schedules end, no rank is stuck or dies,
  and the aggregate holds the events of all calls of all threads of all ranks, each once, and of the
  trace files left by others, sorted by time stamp: no schedule loses or doubles an event.
\<close>

theorem threaded_job_complete:
  assumes "derived_builders B" and "serde_codec J reread" and "unstable_sort par_sort" and "healthy S"
    and "job_ok (one_threaded ranks)" and "ranks \<noteq> []" and "mergeable J (entries d)"
  shows "(\<forall>progs d n m. (mstep B J ^^ n) (machine_init (process_init d) progs) m \<longrightarrow>
      n \<le> 6 * sum_list (map length progs) + 7 * length progs + 1) \<and>
    (\<exists>res. threaded_ranks B J ranks d res) \<and>
    (\<forall>res. threaded_ranks B J ranks d res \<longrightarrow> (\<exists>d' out json p'. res = Some d' \<and>
      sort_all_traces J par_sort S (p\<lparr>disk := d'\<rparr>) = (Done (), p') \<and>
      content (disk p') (in_dir aggregate_file) = Some json \<and>
      (if wants_readable S then to_string_pretty J out else to_string J out) = Inr json \<and>
      mset out = job_events reread (one_threaded ranks) +
        disk_events J (leftovers (one_threaded ranks) (entries d)) \<and>
      sorted (map Register_tsc out)))"
proof (intro conjI allI impI)
  note ranks = threaded_ranks_ok [OF assms(1,2,5,7)]
  then show "\<exists>res. threaded_ranks B J ranks d res" by blast
  show "n \<le> 6 * sum_list (map length progs) + 7 * length progs + 1"
    if "(mstep B J ^^ n) (machine_init (process_init d) progs) m" for progs d n m
    using machine_runs.run_length [OF that] by (simp add: machine_steps_init)
  fix res assume "threaded_ranks B J ranks d res"
  with ranks assms(6) obtain es where res: "res = Some (Some es)" and merge: "mergeable J es"
    and evs: "disk_events J es = job_events reread (one_threaded ranks) +
      disk_events J (leftovers (one_threaded ranks) (entries d))" by fastforce
  have d': "disk (p\<lparr>disk := Some es\<rparr>) = Some es" by simp
  obtain out json p' where "sort_all_traces J par_sort S (p\<lparr>disk := Some es\<rparr>) = (Done (), p')"
    and "mset out = disk_events J es" and "sorted (map Register_tsc out)"
    and "(if wants_readable S then to_string_pretty J out else to_string J out) = Inr json"
    and "disk p' = Some (aggregated json es)"
    by (rule sort_all_traces_aggregates [OF assms(2-4) merge d'])
  then show "\<exists>d' out json p'. res = Some d' \<and>
      sort_all_traces J par_sort S (p\<lparr>disk := d'\<rparr>) = (Done (), p') \<and>
      content (disk p') (in_dir aggregate_file) = Some json \<and>
      (if wants_readable S then to_string_pretty J out else to_string J out) = Inr json \<and>
      mset out = job_events reread (one_threaded ranks) +
        disk_events J (leftovers (one_threaded ranks) (entries d)) \<and>
      sorted (map Register_tsc out)"
    unfolding evs res using content_aggregated by metis
qed

theorem threaded_job_complete_witness:
  "\<exists>d' out p'. threaded_ranks reference_builders reference_serde sample_threaded None (Some d') \<and>
     sort_all_traces reference_serde reference_sort healthy_os ((process_init None)\<lparr>disk := d'\<rparr>) =
       (Done (), p') \<and>
     content (disk p') (in_dir aggregate_file) = Some (text_of out) \<and> map Register_tsc out = [3, 5, 6, 9]"
proof -
  have "mergeable reference_serde (entries None)" and "sample_threaded \<noteq> []"
    by (simp_all add: mergeable_def sample_threaded_def)
  from threaded_job_complete [OF reference.derived_builders_axioms reference_serde.serde_codec_axioms
      reference_sort.unstable_sort_axioms healthy_os_healthy(1) sample_threaded_ok this(2,1),
      of "process_init None"]
  obtain d' out json p' where run: "threaded_ranks reference_builders reference_serde sample_threaded None (Some d')"
      "sort_all_traces reference_serde reference_sort healthy_os ((process_init None)\<lparr>disk := d'\<rparr>) =
        (Done (), p')" "content (disk p') (in_dir aggregate_file) = Some json"
    and json: "to_string reference_serde out = Inr json" and sorted: "sorted (map Register_tsc out)"
    and out: "mset out = job_events id (one_threaded sample_threaded) +
      disk_events reference_serde (leftovers (one_threaded sample_threaded) (entries None))"
    by (metis healthy_os_healthy(2))
  have "image_mset Register_tsc (mset out) = mset [5, 6, 3, 9]"
    unfolding out by (simp add: job_events_def sample_threaded_def sample_programs_def recorded_def
        leftovers_def disk_events_def call_of_def)
  then have "sort [5, 6, 3, 9] = map Register_tsc out"
    using sorted by (metis properties_for_sort mset_map)
  moreover have "text_of out = json" using json by (simp add: text_of_def)
  ultimately show ?thesis using run by (auto intro!: exI [where x = out])
qed

end
