(* ===== verification/Job_History.thy ===== *)
theory Job_History
  imports Merge_Properties
begin

text \<open>
  Jobs one after the other in the same directory. What the directory remembers is abstracted to a map
  from ranks to events, the latest trace of each rank; a job updates this map at its ranks, and its
  aggregate is the sorted union of the whole map, not only of the ranks of the job.
\<close>

section \<open>A job and its aggregation\<close>

fun run_job :: "builders \<Rightarrow> serde \<Rightarrow> sorter \<Rightarrow> job \<times> os \<Rightarrow> disk \<Rightarrow> disk option" where
  "run_job B J par_sort (ranks, S) d =
     (case run_ranks B J ranks d of
        None \<Rightarrow> None
      | Some d' \<Rightarrow>
          (case sort_all_traces J par_sort S (process_init d') of
             (Done u, p) \<Rightarrow> Some (disk p)
           | _ \<Rightarrow> None))"

fun run_jobs :: "builders \<Rightarrow> serde \<Rightarrow> sorter \<Rightarrow> (job \<times> os) list \<Rightarrow> disk \<Rightarrow> disk option" where
  "run_jobs B J par_sort [] d = Some d"
| "run_jobs B J par_sort (j # js) d =
     (case run_job B J par_sort j d of None \<Rightarrow> None | Some d' \<Rightarrow> run_jobs B J par_sort js d')"

section \<open>The abstract history\<close>

type_synonym traces = "MpiRank \<rightharpoonup> Register_dyn list"

fun record_job :: "(Usecs \<Rightarrow> Usecs) \<Rightarrow> job \<Rightarrow> traces \<Rightarrow> traces" where
  "record_job f [] H = H"
| "record_job f ((r, cs) # rs) H = record_job f rs (H(r \<mapsto> map (map_time f) (recorded cs)))"

definition record_jobs :: "(Usecs \<Rightarrow> Usecs) \<Rightarrow> (job \<times> os) list \<Rightarrow> traces \<Rightarrow> traces" where
  "record_jobs f js = fold (record_job f \<circ> fst) js"

lemma record_jobs_simps [simp]:
  "record_jobs f [] H = H" "record_jobs f (j # js) H = record_jobs f js (record_job f (fst j) H)"
  by (simp_all add: record_jobs_def)

definition traces_events :: "traces \<Rightarrow> Register_dyn multiset" where
  "traces_events H = (\<Sum>r \<in> dom H. mset (the (H r)))"

text \<open>The abstraction: what the trace file of a rank parses to. Nothing else lies in the directory.\<close>

definition traces_of :: "serde \<Rightarrow> disk \<Rightarrow> traces" where
  "traces_of J d = (\<lambda>r.
     case content d (in_dir (rank_file r)) of
       None \<Rightarrow> None
     | Some c \<Rightarrow> (case from_str J c of Inl _ \<Rightarrow> None | Inr es \<Rightarrow> Some es))"

definition tidy_entry :: "serde \<Rightarrow> string \<times> node \<Rightarrow> bool" where
  "tidy_entry J x \<longleftrightarrow> (\<exists>c. x = (aggregate_file, File c)) \<or>
     (\<exists>r c es. x = (rank_file r, File c) \<and> from_str J c = Inr es)"

definition tidy :: "serde \<Rightarrow> disk \<Rightarrow> bool" where
  "tidy J d \<longleftrightarrow> disk_inv d \<and> (\<forall>x \<in> set (entries d). tidy_entry J x)"

lemma tidy_None: "tidy J None"
  by (simp add: tidy_def disk_inv_def)

lemma traces_of_None [simp]: "traces_of J None = Map.empty"
  by (simp add: traces_of_def)

lemma tidy_mergeable: "tidy J d \<Longrightarrow> mergeable J (entries d)"
  by (auto simp: tidy_def mergeable_def disk_inv_def tidy_entry_def)

section \<open>What the operations do to the history\<close>

lemma tidy_put:
  assumes "tidy J d" and "from_str J json = Inr es"
  shows "tidy J (disk_put (rank_file r) json d)"
    and "traces_of J (disk_put (rank_file r) json d) = (traces_of J d)(r \<mapsto> es)"
proof -
  let ?es = "AList.update (rank_file r) (File json) (entries d)"
  have d: "distinct (map fst (entries d))" using assms(1) by (simp add: tidy_def disk_inv_def)
  have "set ?es = insert (rank_file r, File json) {p \<in> set (entries d). fst p \<noteq> rank_file r}"
    using mset_update [OF d, of "rank_file r" "File json"]
    by (metis set_mset_mset set_mset_add_mset_insert set_mset_filter)
  then show "tidy J (disk_put (rank_file r) json d)"
    using assms distinct_update [OF d] by (auto simp: tidy_def disk_inv_def disk_put_def tidy_entry_def)
  have "content d q = content (Some (entries d)) q" for q by (cases d) (simp_all add: content_Some_entries split: option.split)
  then show "traces_of J (disk_put (rank_file r) json d) = (traces_of J d)(r \<mapsto> es)"
    using assms(2) by (auto simp: traces_of_def disk_put_def content_update fun_eq_iff)
qed

lemma tidy_aggregated:
  assumes "tidy J (Some es)"
  shows "tidy J (Some (aggregated json es))" and "traces_of J (Some (aggregated json es)) = traces_of J (Some es)"
proof -
  have d: "distinct (map fst es)" using assms by (simp add: tidy_def disk_inv_def)
  have "set (aggregated json es) =
      insert (aggregate_file, File json) {p \<in> set es. fst p \<noteq> aggregate_file}"
    using set_aggregated [OF d, of json]
    by (metis set_mset_mset set_mset_add_mset_insert set_mset_filter)
  moreover have "distinct (map fst (aggregated json es))"
    unfolding aggregated_def using d by (intro distinct_update distinct_delete)
  ultimately show "tidy J (Some (aggregated json es))"
    using assms by (auto simp: tidy_def disk_inv_def tidy_entry_def)
  show "traces_of J (Some (aggregated json es)) = traces_of J (Some es)"
    by (simp add: traces_of_def content_aggregated)
qed

text \<open>The events that the aggregation reads are those of the history.\<close>

lemma tidy_events:
  "tidy J (Some es) \<Longrightarrow> finite (dom (traces_of J (Some es))) \<and>
     disk_events J es = traces_events (traces_of J (Some es))"
proof (induction es)
  case Nil
  have "traces_of J (Some []) = Map.empty" by (simp add: traces_of_def content_Some_entries)
  then show ?case by (simp add: disk_events_def traces_events_def)
next
  case (Cons x es)
  have tidy: "tidy J (Some es)" and fresh: "fst x \<notin> fst ` set es" and "tidy_entry J x"
    using Cons.prems by (auto simp: tidy_def disk_inv_def)
  note IH = Cons.IH [OF tidy]
  from \<open>tidy_entry J x\<close> consider c where "x = (aggregate_file, File c)"
    | r c evs where "x = (rank_file r, File c)" "from_str J c = Inr evs"
    by (auto simp: tidy_entry_def)
  then show ?case
  proof cases
    case 1
    then have "traces_of J (Some (x # es)) = traces_of J (Some es)"
      by (simp add: traces_of_def content_Some_entries fun_eq_iff)
    with IH 1 show ?thesis by (simp add: disk_events_def is_trace_name_def)
  next
    case 2
    then have map: "traces_of J (Some (x # es)) = (traces_of J (Some es))(r \<mapsto> evs)"
      by (auto simp: traces_of_def content_Some_entries fun_eq_iff)
    have "map_of es (rank_file r) = None" using fresh 2(1) by (simp add: map_of_eq_None_iff)
    then have new: "r \<notin> dom (traces_of J (Some es))"
      by (simp add: traces_of_def content_Some_entries domIff)
    then have "(\<Sum>q \<in> dom (traces_of J (Some es)). mset (the (((traces_of J (Some es))(r \<mapsto> evs)) q))) =
        traces_events (traces_of J (Some es))"
      unfolding traces_events_def by (intro sum.cong) auto
    then have "traces_events ((traces_of J (Some es))(r \<mapsto> evs)) =
        mset evs + traces_events (traces_of J (Some es))"
      using IH new unfolding traces_events_def [of "(traces_of J (Some es))(r \<mapsto> evs)"]
      by (simp add: dom_fun_upd sum.insert)
    with IH 2 map show ?thesis
      by (simp add: disk_events_def node_events_def del: fun_upd_apply)
  qed
qed

section \<open>A job refines the update of the history\<close>

lemma run_ranks_history:
  assumes B: "derived_builders B" and J: "serde_codec J reread" and "job_ok ranks" and "tidy J d"
  shows "\<exists>d'. run_ranks B J ranks d = Some d' \<and> tidy J d' \<and> (ranks \<noteq> [] \<longrightarrow> d' \<noteq> None) \<and>
    traces_of J d' = record_job reread ranks (traces_of J d)"
  using assms(3,4)
proof (induction ranks arbitrary: d)
  case Nil
  then show ?case by simp
next
  case (Cons rcs rs)
  obtain r cs where rcs: "rcs = (r, cs)" by (cases rcs)
  note ok = Cons.prems(1) [unfolded rcs job_ok_Cons]
  obtain json p where run: "run_calls B J cs (process_init d) = (Done (), p)"
    and disk: "disk p = disk_put (rank_file r) json d"
    and parse: "from_str J json = Inr (map (map_time reread) (recorded cs))"
    using rank_leaves_file [OF B J tidy_mergeable [OF Cons.prems(2)]] ok by blast
  note put = tidy_put [OF Cons.prems(2) parse, of r, folded disk]
  from Cons.IH [OF _ put(1)] ok obtain d' where d': "run_ranks B J rs (disk p) = Some d'"
    "tidy J d'" "rs \<noteq> [] \<longrightarrow> d' \<noteq> None" "traces_of J d' = record_job reread rs (traces_of J (disk p))"
    by blast
  moreover have "d' \<noteq> None"
    using d'(1,3) disk by (cases rs) (auto simp: disk_put_def)
  ultimately show ?case using run rcs put(2) by simp
qed

definition job_input :: "job \<times> os \<Rightarrow> bool" where
  "job_input j \<longleftrightarrow> job_ok (fst j) \<and> fst j \<noteq> [] \<and> healthy (snd j)"

definition aggregate_holds :: "serde \<Rightarrow> os \<Rightarrow> disk \<Rightarrow> Register_dyn multiset \<Rightarrow> bool" where
  "aggregate_holds J S d evs \<longleftrightarrow> (\<exists>out json. content d (in_dir aggregate_file) = Some json \<and>
     (if wants_readable S then to_string_pretty J out else to_string J out) = Inr json \<and>
     mset out = evs \<and> sorted (map Register_tsc out))"

lemma run_job_refines:
  assumes B: "derived_builders B" and J: "serde_codec J reread" and sort: "unstable_sort par_sort"
    and "job_input j" and "tidy J d"
  shows "\<exists>d'. run_job B J par_sort j d = Some d' \<and> tidy J d' \<and>
    traces_of J d' = record_job reread (fst j) (traces_of J d) \<and>
    aggregate_holds J (snd j) d' (traces_events (record_job reread (fst j) (traces_of J d)))"
proof -
  obtain ranks S where j: "j = (ranks, S)" by (cases j)
  then have "job_ok ranks" and "ranks \<noteq> []" and S: "healthy S"
    using assms(4) by (simp_all add: job_input_def)
  with run_ranks_history [OF B J _ assms(5)] obtain es where
    ranks: "run_ranks B J ranks d = Some (Some es)" and tidy: "tidy J (Some es)"
    and traces: "traces_of J (Some es) = record_job reread ranks (traces_of J d)"
    by fastforce
  obtain out json p' where "sort_all_traces J par_sort S (process_init (Some es)) = (Done (), p')"
    and "mset out = disk_events J es" and "sorted (map Register_tsc out)"
    and "(if wants_readable S then to_string_pretty J out else to_string J out) = Inr json"
    and "disk p' = Some (aggregated json es)"
    by (rule sort_all_traces_aggregates [OF J sort S tidy_mergeable [OF tidy, simplified], of "process_init (Some es)"])
      simp_all
  then show ?thesis
    using ranks tidy_aggregated [OF tidy, of json] tidy_events [OF tidy] traces
    by (auto simp: j aggregate_holds_def content_aggregated)
qed

lemma run_jobs_refines:
  assumes B: "derived_builders B" and J: "serde_codec J reread" and sort: "unstable_sort par_sort"
    and "\<forall>j \<in> set js. job_input j" and "tidy J d"
  shows "\<exists>d'. run_jobs B J par_sort js d = Some d' \<and> tidy J d' \<and>
    traces_of J d' = record_jobs reread js (traces_of J d) \<and>
    (js \<noteq> [] \<longrightarrow> aggregate_holds J (snd (last js)) d' (traces_events (record_jobs reread js (traces_of J d))))"
  using assms(4,5)
proof (induction js arbitrary: d)
  case (Cons j js)
  have inputs: "job_input j" "\<forall>j \<in> set js. job_input j" using Cons.prems(1) by simp_all
  from run_job_refines [OF B J sort inputs(1) Cons.prems(2)]
  obtain d1 where d1: "run_job B J par_sort j d = Some d1" "tidy J d1"
    "traces_of J d1 = record_job reread (fst j) (traces_of J d)"
    "aggregate_holds J (snd j) d1 (traces_events (record_job reread (fst j) (traces_of J d)))" by blast
  from Cons.IH [OF inputs(2) d1(2)] obtain d' where "run_jobs B J par_sort js d1 = Some d'" "tidy J d'"
    "traces_of J d' = record_jobs reread js (traces_of J d1)"
    "js \<noteq> [] \<longrightarrow> aggregate_holds J (snd (last js)) d' (traces_events (record_jobs reread js (traces_of J d1)))"
    by blast
  with d1 show ?case by (cases js) auto
qed simp

text \<open>
  C4: jobs one after the other in one directory refine the abstract history. From a directory that holds
  nothing but trace files, every job updates the latest traces of its ranks and of no other rank, and
  the aggregate after the last job holds the events of the latest trace of every rank that ever wrote
  one, sorted by time stamp, and nothing of the traces that were overwritten.
\<close>

theorem job_history:
  assumes "derived_builders B" and "serde_codec J reread" and "unstable_sort par_sort"
    and "\<forall>j \<in> set js. job_ok (fst j) \<and> fst j \<noteq> [] \<and> healthy (snd j)" and "js \<noteq> []" and "tidy J d"
  shows "\<exists>d' out json. run_jobs B J par_sort js d = Some d' \<and> tidy J d' \<and>
    traces_of J d' = record_jobs reread js (traces_of J d) \<and>
    content d' (in_dir aggregate_file) = Some json \<and>
    (if wants_readable (snd (last js)) then to_string_pretty J out else to_string J out) = Inr json \<and>
    mset out = traces_events (record_jobs reread js (traces_of J d)) \<and> sorted (map Register_tsc out)"
proof -
  have "\<forall>j \<in> set js. job_input j" using assms(4) by (simp add: job_input_def)
  from run_jobs_refines [OF assms(1-3) this assms(6)] assms(5) show ?thesis
    unfolding aggregate_holds_def by blast
qed

definition sample_history :: "(job \<times> os) list" where
  "sample_history =
     [([(0, [(generous_allocator, healthy_os, sample_call Finalize 0 9)]),
        (1, [(generous_allocator, healthy_os, sample_call Finalize 1 4)])], healthy_os),
      ([(0, [(generous_allocator, healthy_os, sample_call Finalize 0 2)])], healthy_os)]"

text \<open>The second job has one rank less: the trace of rank 1 is still merged, that of rank 0 is new.\<close>

theorem job_history_witness:
  "\<exists>d out. run_jobs reference_builders reference_serde reference_sort sample_history None = Some d \<and>
     content d (in_dir aggregate_file) = Some (text_of out) \<and> map Register_tsc out = [2, 4]"
proof -
  have "\<forall>j \<in> set sample_history. job_ok (fst j) \<and> fst j \<noteq> [] \<and> healthy (snd j)"
    using sample_finite
    by (simp add: sample_history_def job_ok_def rank_run_def call_of_def fits_def elem_size_def isize_max_def)
  moreover have "sample_history \<noteq> []" by (simp add: sample_history_def)
  ultimately obtain d out json where
    run: "run_jobs reference_builders reference_serde reference_sort sample_history None = Some d"
      "content d (in_dir aggregate_file) = Some json"
    and json: "(if wants_readable (snd (last sample_history)) then to_string_pretty reference_serde out
      else to_string reference_serde out) = Inr json"
    and out: "mset out = traces_events (record_jobs id sample_history (traces_of reference_serde None))"
    and sorted: "sorted (map Register_tsc out)"
    using job_history [OF reference.derived_builders_axioms reference_serde.serde_codec_axioms
        reference_sort.unstable_sort_axioms _ _ tidy_None] by blast
  have "image_mset Register_tsc (mset out) = mset [2, 4]"
    unfolding out by (simp add: sample_history_def traces_events_def recorded_def call_of_def insert_commute)
  then have "sort [2, 4] = map Register_tsc out"
    using sorted by (metis properties_for_sort mset_map)
  moreover have "to_string reference_serde out = Inr json"
    using json by (simp add: sample_history_def)
  then have "text_of out = json" by (simp add: text_of_def)
  ultimately show ?thesis using run by (auto intro!: exI [where x = out])
qed

end
