(* ===== verification/Call_Boundary.thy ===== *)
theory Call_Boundary
  imports Recording_Properties
begin

text \<open>
  The boundary between the wrappers and the back end: the struct \<open>MpiCall\<close> as C sees it, how Rust reads
  it, and what the wrappers of both languages have in common. A family of wrappers (C, Fortran) fills one
  struct for each intercepted call; the locale \<open>wrapper_family\<close> states what the rest of the development
  needs of it.
\<close>

section \<open>The struct at the boundary\<close>

text \<open>
  \<open>interpol.h\<close>: the fields of \<open>MpiCall\<close> as C sees them. The two enums are \<open>int8_t\<close> there, so a C program
  can store any byte.
\<close>

record C_MpiCall =
  time :: Usecs
  tsc :: Tsc
  duration :: Tsc
  partner_rank :: MpiRank
  current_rank :: MpiRank
  nb_bytes_s :: u32
  nb_bytes_r :: u32
  comm :: MpiComm
  req :: MpiReq
  tag :: MpiTag
  required_thread_lvl :: i32
  provided_thread_lvl :: i32
  finished :: bool
  op_type :: i8
  kind :: i8

text \<open>The fields of such a struct with the two enums given.\<close>

definition as_MpiCall :: "MpiOp \<Rightarrow> MpiCallType \<Rightarrow> C_MpiCall \<Rightarrow> MpiCall" where
  "as_MpiCall p k c =
     \<lparr>MpiCall.time = C_MpiCall.time c, MpiCall.tsc = C_MpiCall.tsc c,
       MpiCall.duration = C_MpiCall.duration c, MpiCall.partner_rank = C_MpiCall.partner_rank c,
       MpiCall.current_rank = C_MpiCall.current_rank c, MpiCall.nb_bytes_s = C_MpiCall.nb_bytes_s c,
       MpiCall.nb_bytes_r = C_MpiCall.nb_bytes_r c, MpiCall.comm = C_MpiCall.comm c,
       MpiCall.req = C_MpiCall.req c, MpiCall.tag = C_MpiCall.tag c,
       MpiCall.required_thread_lvl = C_MpiCall.required_thread_lvl c,
       MpiCall.provided_thread_lvl = C_MpiCall.provided_thread_lvl c,
       MpiCall.finished = C_MpiCall.finished c, MpiCall.op_type = p, MpiCall.kind = k\<rparr>"

text \<open>
  The call that Rust sees; \<open>None\<close> when one of the two bytes is no discriminant of its enum, where the
  behaviour is undefined. \<open>passed_as\<close> leaves open as which operation an invalid byte is read.
\<close>

definition MpiCall_of_C :: "C_MpiCall \<Rightarrow> MpiCall option" where
  "MpiCall_of_C c =
     (case MpiOp_of_repr (C_MpiCall.op_type c) of
        None \<Rightarrow> None
      | Some p \<Rightarrow> map_option (\<lambda>k. as_MpiCall p k c) (MpiCallType_of_repr (C_MpiCall.kind c)))"

definition passed_as :: "C_MpiCall \<Rightarrow> MpiCall \<Rightarrow> bool" where
  "passed_as c mc \<longleftrightarrow>
     (\<exists>p k. MpiCallType_of_repr (C_MpiCall.kind c) = Some k \<and> mc = as_MpiCall p k c \<and>
        (case MpiOp_of_repr (C_MpiCall.op_type c) of None \<Rightarrow> True | Some q \<Rightarrow> p = q))"

lemma op_none [simp]: "MpiOp_of_repr (-1) = None"
proof -
  have "unat (-1 :: i8) = 255" by code_simp
  then show ?thesis by (simp add: MpiOp_of_repr_def MpiOp_variants_def)
qed

lemma as_MpiCall_simps [simp]:
  "MpiCall.kind (as_MpiCall p k c) = k" "MpiCall.current_rank (as_MpiCall p k c) = C_MpiCall.current_rank c"
  by (simp_all add: as_MpiCall_def)

section \<open>The readings of a call\<close>

text \<open>
  \<open>before\<close> and \<open>after\<close> are the two readings of the time stamp counter around the call of the library
  (the one reading in the management functions is \<open>before\<close>), \<open>seconds\<close> the sum of \<open>tv_sec\<close> and
  \<open>tv_usec / 1e6\<close>, \<open>own_rank\<close> what \<open>PMPI_Comm_rank\<close> stores. \<open>microseconds\<close> is the same reading of the clock
  in microseconds, the unit that the documentation of the event structs promises; no wrapper computes it.
\<close>

record readings =
  before :: Tsc
  after :: Tsc
  seconds :: f64
  microseconds :: f64
  own_rank :: MpiRank

section \<open>Fields that are filled alike\<close>

text \<open>
  The fields that the management functions fill alike, and those that the timed functions fill alike:
  each wrapper's initialiser is one of the two with the fields of its own. The double -1.0 is written
  as its bits.
\<close>

definition clocked_call :: "MpiCallType \<Rightarrow> readings \<Rightarrow> MpiRank \<Rightarrow> C_MpiCall" where
  "clocked_call k rd rk =
     \<lparr>C_MpiCall.time = seconds rd, C_MpiCall.tsc = before rd, C_MpiCall.duration = 0,
       C_MpiCall.partner_rank = -1, C_MpiCall.current_rank = rk, C_MpiCall.nb_bytes_s = 0,
       C_MpiCall.nb_bytes_r = 0, C_MpiCall.comm = -1, C_MpiCall.req = -1, C_MpiCall.tag = -1,
       C_MpiCall.required_thread_lvl = -1, C_MpiCall.provided_thread_lvl = -1,
       C_MpiCall.finished = False, C_MpiCall.op_type = -1, C_MpiCall.kind = MpiCallType_repr k\<rparr>"

definition timed_call :: "MpiCallType \<Rightarrow> readings \<Rightarrow> MpiRank \<Rightarrow> C_MpiCall" where
  "timed_call k rd rk = (clocked_call k rd rk)
     \<lparr>C_MpiCall.time := 0xBFF0000000000000, C_MpiCall.duration := after rd - before rd\<rparr>"

section \<open>The calls of a program\<close>

text \<open>
  The static \<open>current_rank\<close> is -1 until \<open>MPI_Init\<close> or \<open>MPI_Init_thread\<close> sets it. \<open>fill\<close> is a family of
  wrappers and \<open>starts\<close> tells which calls set the rank; the calls that a program makes one after the
  other hand these structs to the back end.
\<close>

fun wrapped_by ::
    "(readings \<Rightarrow> MpiRank \<Rightarrow> 'w \<Rightarrow> C_MpiCall) \<Rightarrow> ('w \<Rightarrow> bool) \<Rightarrow> MpiRank \<Rightarrow> (readings \<times> 'w) list \<Rightarrow> C_MpiCall list" where
  "wrapped_by fill starts rk [] = []"
| "wrapped_by fill starts rk ((rd, w) # ws) =
     (let rk' = (if starts w then own_rank rd else rk)
      in fill rd rk' w # wrapped_by fill starts rk' ws)"

lemma wrapped_after_init:
  "\<forall>x \<in> set ws. \<not> starts (snd x) \<Longrightarrow>
     wrapped_by fill starts rk ws = map (\<lambda>(rd, w). fill rd rk w) ws"
  by (induction ws) (auto simp: Let_def)

text \<open>The calls that the back end sees of a list of structs, each with some operation.\<close>

definition seen_as :: "C_MpiCall list \<Rightarrow> env_call list \<Rightarrow> bool" where
  "seen_as cs ecs \<longleftrightarrow> list_all2 (\<lambda>c ec. passed_as c (call_of ec)) cs ecs"

text \<open>
  A program from \<open>MPI_Init\<close> to \<open>MPI_Finalize\<close>: the first call sets the rank, no other does, and the last
  call is the only finalize call.
\<close>

definition whole_program :: "('w \<Rightarrow> bool) \<Rightarrow> ('w \<Rightarrow> MpiCallType) \<Rightarrow> (readings \<times> 'w) list \<Rightarrow> bool" where
  "whole_program starts kind_of ws \<longleftrightarrow> ws \<noteq> [] \<and> starts (snd (hd ws)) \<and>
     (\<forall>x \<in> set (tl ws). \<not> starts (snd x)) \<and>
     (\<forall>x \<in> set (butlast ws). kind_of (snd x) \<noteq> Finalize) \<and> kind_of (snd (last ws)) = Finalize"

text \<open>The contract of a family of wrappers: a call is passed on with its kind and the current rank.\<close>

locale wrapper_family =
  fixes fill :: "readings \<Rightarrow> MpiRank \<Rightarrow> 'w \<Rightarrow> C_MpiCall"
    and starts :: "'w \<Rightarrow> bool"
    and kind_of :: "'w \<Rightarrow> MpiCallType"
  assumes fill_kind: "C_MpiCall.kind (fill rd rk w) = MpiCallType_repr (kind_of w)"
    and fill_rank: "C_MpiCall.current_rank (fill rd rk w) = rk"
begin

lemma passed_as_fill:
  assumes "passed_as (fill rd rk w) mc"
  shows "mc = as_MpiCall (MpiCall.op_type mc) (kind_of w) (fill rd rk w)"
  using assms by (auto simp: passed_as_def fill_kind) (simp add: as_MpiCall_def)

lemma seen_as_fills:
  assumes "seen_as (map (\<lambda>(rd, w). fill rd rk w) ws) ecs"
  shows "map MpiCall.kind (calls_of ecs) = map (kind_of \<circ> snd) ws"
    and "\<forall>c \<in> set (calls_of ecs). MpiCall.current_rank c = rk"
  using assms
proof (induction ws arbitrary: ecs)
  case (Cons x ws)
  {
    case 1
    then show ?case using Cons.IH(1)
      by (cases ecs; cases x) (auto simp: seen_as_def calls_of_def passed_as_def fill_kind)
  next
    case 2
    then show ?case using Cons.IH(2)
      by (cases ecs; cases x) (auto simp: seen_as_def calls_of_def passed_as_def fill_rank)
  }
qed (simp_all add: seen_as_def)

text \<open>Every struct of a whole program carries the rank that the first call has set.\<close>

lemma whole_program_wrapped:
  assumes "whole_program starts kind_of ws"
  shows "wrapped_by fill starts rk ws = map (\<lambda>(rd, w). fill rd (own_rank (fst (hd ws))) w) ws"
  using assms by (cases ws) (auto simp: whole_program_def Let_def wrapped_after_init)

lemma whole_program_run:
  assumes "whole_program starts kind_of ws" and "seen_as (wrapped_by fill starts rk ws) ecs"
  shows "rank_run (own_rank (fst (hd ws))) ecs"
    and "map MpiCall.kind (calls_of ecs) = map (kind_of \<circ> snd) ws"
    and "\<forall>c \<in> set (calls_of ecs). MpiCall.current_rank c = own_rank (fst (hd ws))"
proof -
  note seen = seen_as_fills [OF assms(2) [unfolded whole_program_wrapped [OF assms(1)]]]
  show kinds: "map MpiCall.kind (calls_of ecs) = map (kind_of \<circ> snd) ws"
    and ranks: "\<forall>c \<in> set (calls_of ecs). MpiCall.current_rank c = own_rank (fst (hd ws))"
    using seen by simp_all
  have "ws \<noteq> []" using assms(1) by (simp add: whole_program_def)
  with arg_cong [OF kinds, of length] have ne: "ecs \<noteq> []" by auto
  have calls: "calls_of ecs = calls_of (butlast ecs) @ [call_of (last ecs)]"
    using ne by (cases ecs rule: rev_cases) (simp_all add: calls_of_def)
  moreover have "map (kind_of \<circ> snd) ws = map (kind_of \<circ> snd) (butlast ws) @ [kind_of (snd (last ws))]"
    using \<open>ws \<noteq> []\<close> by (cases ws rule: rev_cases) simp_all
  ultimately have last: "MpiCall.kind (call_of (last ecs)) = Finalize"
    and body: "map MpiCall.kind (calls_of (butlast ecs)) = map (kind_of \<circ> snd) (butlast ws)"
    using kinds assms(1) by (simp_all add: whole_program_def)
  have "Finalize \<notin> set (map (kind_of \<circ> snd) (butlast ws))"
    using assms(1) by (auto simp: whole_program_def)
  then have "\<forall>c \<in> set (calls_of (butlast ecs)). MpiCall.kind c \<noteq> Finalize"
    unfolding body [symmetric] by (metis image_eqI set_map)
  then show "rank_run (own_rank (fst (hd ws))) ecs"
    using ne last ranks calls by (simp add: rank_run_def)
qed

end

section \<open>What a job of such programs records\<close>

text \<open>\<open>leaves rd rk w e\<close>: the call \<open>w\<close>, made by rank \<open>rk\<close> with these readings, leaves the event \<open>e\<close>.\<close>

locale traced_family = wrapper_family +
  fixes leaves :: "readings \<Rightarrow> MpiRank \<Rightarrow> 'a \<Rightarrow> Register_dyn \<Rightarrow> bool"
  assumes fill_event: "passed_as (fill rd rk w) mc \<Longrightarrow> leaves rd rk w (event_of_call mc)"
begin

lemma recorded_fills:
  assumes "seen_as (map (\<lambda>(rd, w). fill rd rk w) ws) ecs"
  shows "list_all2 (\<lambda>(rd, w) e. leaves rd rk w e) ws (recorded ecs)"
  using assms
proof (induction ws arbitrary: ecs)
  case (Cons x ws)
  then show ?case
    by (cases ecs; cases x) (auto simp: seen_as_def recorded_def calls_of_def fill_event)
qed (simp add: seen_as_def recorded_def)

end

text \<open>
  A rank that runs a whole program without faults, with finite readings of the clock; and a trace that
  holds an event for each of its calls, in order.
\<close>

definition program_rank ::
    "(readings \<Rightarrow> MpiRank \<Rightarrow> 'w \<Rightarrow> C_MpiCall) \<Rightarrow> ('w \<Rightarrow> bool) \<Rightarrow> ('w \<Rightarrow> MpiCallType) \<Rightarrow>
     (readings \<times> 'w) list \<Rightarrow> MpiRank \<times> env_call list \<Rightarrow> bool" where
  "program_rank fill starts kind_of ws rc \<longleftrightarrow>
     whole_program starts kind_of ws \<and>
     fst rc = own_rank (fst (hd ws)) \<and> seen_as (wrapped_by fill starts (-1) ws) (snd rc) \<and>
     ample (snd rc) \<and> fits (snd rc) \<and> finite_times (recorded (snd rc))"

definition program_trace ::
    "(readings \<Rightarrow> MpiRank \<Rightarrow> 'w \<Rightarrow> Register_dyn \<Rightarrow> bool) \<Rightarrow> (readings \<times> 'w) list \<Rightarrow> Register_dyn list \<Rightarrow> bool" where
  "program_trace leaves ws es \<longleftrightarrow> list_all2 (\<lambda>(rd, w) e. leaves rd (own_rank (fst (hd ws))) w e) ws es"

context traced_family
begin

lemma program_rank_run:
  assumes "program_rank fill starts kind_of ws (r, ecs)"
  shows "rank_run r ecs" and "program_trace leaves ws (recorded ecs)"
    and "ample ecs" and "fits ecs" and "finite_times (recorded ecs)"
proof -
  have whole: "whole_program starts kind_of ws" and r: "r = own_rank (fst (hd ws))"
    and seen: "seen_as (wrapped_by fill starts (-1) ws) ecs"
    and "ample ecs" "fits ecs" "finite_times (recorded ecs)"
    using assms by (simp_all add: program_rank_def)
  then show "ample ecs" "fits ecs" "finite_times (recorded ecs)" by blast+
  show "rank_run r ecs" using whole_program_run(1) [OF whole seen] r by simp
  show "program_trace leaves ws (recorded ecs)"
    using recorded_fills seen unfolding whole_program_wrapped [OF whole] program_trace_def by blast
qed

lemma program_job:
  assumes "list_all2 (program_rank fill starts kind_of) wss ranks" and "distinct (map fst ranks)"
  shows "job_ok ranks"
    and "\<exists>traces. list_all2 (program_trace leaves) wss traces \<and>
      job_events f ranks = (\<Sum>es \<leftarrow> traces. mset (map (map_time f) es))"
  using assms
proof (induction wss ranks rule: list_all2_induct)
  case (Cons ws wss rc ranks)
  obtain r ecs where rc: "rc = (r, ecs)" by (cases rc)
  note run = program_rank_run [OF Cons.hyps(1) [unfolded rc]]
  {
    case 1
    then show ?case using Cons.IH(1) run by (simp add: rc job_ok_Cons)
  next
    case 2
    then obtain traces where "list_all2 (program_trace leaves) wss traces"
      and "job_events f ranks = (\<Sum>es \<leftarrow> traces. mset (map (map_time f) es))"
      using Cons.IH(2) by auto
    then show ?case
      using run(2) by (intro exI [where x = "recorded ecs # traces"]) (simp add: rc job_events_def)
  }
qed (simp_all add: job_ok_def job_events_def)

end

end
