(* ===== verification/C_Wrappers.thy ===== *)
theory C_Wrappers
  imports Call_Boundary
begin

text \<open>
  The wrappers of \<open>interpol-c.c\<close>: what each intercepted MPI function puts into the \<open>MpiCall\<close> it hands to
  \<open>register_mpi_call\<close>, and how the Rust side reads that struct. The MPI library is a parameter (type
  sizes, the conversion of handles, the predefined operations), as are the readings a call makes: the
  time stamp counter, the clock, and the values the library writes through pointers.
\<close>

section \<open>The MPI library\<close>

record ('dt, 'cm, 'rq) mpi_lib =
  PMPI_Type_size :: "'dt \<Rightarrow> i32"
  PMPI_Comm_c2f :: "'cm \<Rightarrow> i32"
  PMPI_Request_c2f :: "'rq \<Rightarrow> i32"

record 'op mpi_ops =
  MPI_MAX :: 'op
  MPI_MIN :: 'op
  MPI_SUM :: 'op
  MPI_PROD :: 'op
  MPI_LAND :: 'op
  MPI_BAND :: 'op
  MPI_LOR :: 'op
  MPI_BOR :: 'op
  MPI_LXOR :: 'op
  MPI_BXOR :: 'op
  MPI_MAXLOC :: 'op
  MPI_MINLOC :: 'op
  MPI_REPLACE :: 'op
  MPI_OP_NULL :: 'op
  MPI_NO_OP :: 'op

text \<open>
  An intercepted call with its arguments: counts, types, ranks and tags as passed; of the pointers the
  value the wrapper reads (the request after the call for the non-blocking functions and before it for
  \<open>MPI_Test\<close> and \<open>MPI_Wait\<close>, the provided thread level and the flag after the call).
\<close>

datatype ('dt, 'cm, 'rq, 'op) intercepted =
    MPI_Init
  | MPI_Init_thread i32 i32
  | MPI_Finalize
  | MPI_Send i32 'dt i32 i32 'cm
  | MPI_Recv i32 'dt i32 i32 'cm
  | MPI_Isend i32 'dt i32 i32 'cm 'rq
  | MPI_Irecv i32 'dt i32 i32 'cm 'rq
  | MPI_Barrier 'cm
  | MPI_Ibarrier 'cm 'rq
  | MPI_Test 'rq i32
  | MPI_Wait 'rq
  | MPI_Ibcast i32 'dt i32 'cm 'rq
  | MPI_Igather i32 'dt i32 'dt i32 'cm 'rq
  | MPI_Iscatter i32 'dt i32 'dt i32 'cm 'rq
  | MPI_Ireduce i32 'dt 'op i32 'cm 'rq

section \<open>The wrappers\<close>

text \<open>
  The bytes are the product of the size of an element and the count, both \<open>int\<close> in C, where an overflow
  is undefined; here the product wraps, as it does on the usual targets.
\<close>

definition C_Init :: "readings \<Rightarrow> MpiRank \<Rightarrow> C_MpiCall" where
  "C_Init rd rk = clocked_call Init rd rk"

definition C_Init_thread :: "readings \<Rightarrow> MpiRank \<Rightarrow> i32 \<Rightarrow> i32 \<Rightarrow> C_MpiCall" where
  "C_Init_thread rd rk required provided = (clocked_call Initthread rd rk)
     \<lparr>C_MpiCall.required_thread_lvl := required, C_MpiCall.provided_thread_lvl := provided\<rparr>"

definition C_Finalize :: "readings \<Rightarrow> MpiRank \<Rightarrow> C_MpiCall" where
  "C_Finalize rd rk = clocked_call Finalize rd rk"

definition C_Send ::
    "('dt, 'cm, 'rq) mpi_lib \<Rightarrow> readings \<Rightarrow> MpiRank \<Rightarrow> i32 \<Rightarrow> 'dt \<Rightarrow> i32 \<Rightarrow> i32 \<Rightarrow> 'cm \<Rightarrow> C_MpiCall" where
  "C_Send M rd rk cnt datatype dest tg cm = (timed_call Send rd rk)
     \<lparr>C_MpiCall.partner_rank := dest, C_MpiCall.nb_bytes_s := PMPI_Type_size M datatype * cnt,
       C_MpiCall.comm := PMPI_Comm_c2f M cm, C_MpiCall.tag := tg\<rparr>"

definition C_Recv ::
    "('dt, 'cm, 'rq) mpi_lib \<Rightarrow> readings \<Rightarrow> MpiRank \<Rightarrow> i32 \<Rightarrow> 'dt \<Rightarrow> i32 \<Rightarrow> i32 \<Rightarrow> 'cm \<Rightarrow> C_MpiCall" where
  "C_Recv M rd rk cnt datatype source tg cm = (timed_call Recv rd rk)
     \<lparr>C_MpiCall.partner_rank := source, C_MpiCall.nb_bytes_r := PMPI_Type_size M datatype * cnt,
       C_MpiCall.comm := PMPI_Comm_c2f M cm, C_MpiCall.tag := tg\<rparr>"

definition C_Isend ::
    "('dt, 'cm, 'rq) mpi_lib \<Rightarrow> readings \<Rightarrow> MpiRank \<Rightarrow> i32 \<Rightarrow> 'dt \<Rightarrow> i32 \<Rightarrow> i32 \<Rightarrow> 'cm \<Rightarrow> 'rq \<Rightarrow> C_MpiCall" where
  "C_Isend M rd rk cnt datatype dest tg cm request = (timed_call Isend rd rk)
     \<lparr>C_MpiCall.partner_rank := dest, C_MpiCall.nb_bytes_s := PMPI_Type_size M datatype * cnt,
       C_MpiCall.comm := PMPI_Comm_c2f M cm, C_MpiCall.req := PMPI_Request_c2f M request,
       C_MpiCall.tag := tg\<rparr>"

definition C_Irecv ::
    "('dt, 'cm, 'rq) mpi_lib \<Rightarrow> readings \<Rightarrow> MpiRank \<Rightarrow> i32 \<Rightarrow> 'dt \<Rightarrow> i32 \<Rightarrow> i32 \<Rightarrow> 'cm \<Rightarrow> 'rq \<Rightarrow> C_MpiCall" where
  "C_Irecv M rd rk cnt datatype source tg cm request = (timed_call Irecv rd rk)
     \<lparr>C_MpiCall.partner_rank := source, C_MpiCall.nb_bytes_r := PMPI_Type_size M datatype * cnt,
       C_MpiCall.comm := PMPI_Comm_c2f M cm, C_MpiCall.req := PMPI_Request_c2f M request,
       C_MpiCall.tag := tg\<rparr>"

definition C_Barrier :: "('dt, 'cm, 'rq) mpi_lib \<Rightarrow> readings \<Rightarrow> MpiRank \<Rightarrow> 'cm \<Rightarrow> C_MpiCall" where
  "C_Barrier M rd rk cm = (timed_call Barrier rd rk)\<lparr>C_MpiCall.comm := PMPI_Comm_c2f M cm\<rparr>"

definition C_Ibarrier :: "('dt, 'cm, 'rq) mpi_lib \<Rightarrow> readings \<Rightarrow> MpiRank \<Rightarrow> 'cm \<Rightarrow> 'rq \<Rightarrow> C_MpiCall" where
  "C_Ibarrier M rd rk cm request = (timed_call Ibarrier rd rk)
     \<lparr>C_MpiCall.comm := PMPI_Comm_c2f M cm, C_MpiCall.req := PMPI_Request_c2f M request\<rparr>"

definition C_Test :: "('dt, 'cm, 'rq) mpi_lib \<Rightarrow> readings \<Rightarrow> MpiRank \<Rightarrow> 'rq \<Rightarrow> i32 \<Rightarrow> C_MpiCall" where
  "C_Test M rd rk request flag = (timed_call Test rd rk)
     \<lparr>C_MpiCall.req := PMPI_Request_c2f M request, C_MpiCall.finished := (if flag \<noteq> 0 then True else False)\<rparr>"

definition C_Wait :: "('dt, 'cm, 'rq) mpi_lib \<Rightarrow> readings \<Rightarrow> MpiRank \<Rightarrow> 'rq \<Rightarrow> C_MpiCall" where
  "C_Wait M rd rk request = (timed_call Wait rd rk)\<lparr>C_MpiCall.req := PMPI_Request_c2f M request\<rparr>"

definition C_Ibcast ::
    "('dt, 'cm, 'rq) mpi_lib \<Rightarrow> readings \<Rightarrow> MpiRank \<Rightarrow> i32 \<Rightarrow> 'dt \<Rightarrow> i32 \<Rightarrow> 'cm \<Rightarrow> 'rq \<Rightarrow> C_MpiCall" where
  "C_Ibcast M rd rk cnt datatype root cm request = (timed_call Ibcast rd rk)
     \<lparr>C_MpiCall.partner_rank := root, C_MpiCall.nb_bytes_s := PMPI_Type_size M datatype * cnt,
       C_MpiCall.comm := PMPI_Comm_c2f M cm, C_MpiCall.req := PMPI_Request_c2f M request\<rparr>"

definition C_Igather ::
    "('dt, 'cm, 'rq) mpi_lib \<Rightarrow> readings \<Rightarrow> MpiRank \<Rightarrow> i32 \<Rightarrow> 'dt \<Rightarrow> i32 \<Rightarrow> 'dt \<Rightarrow> i32 \<Rightarrow> 'cm \<Rightarrow> 'rq \<Rightarrow> C_MpiCall" where
  "C_Igather M rd rk sendcount sendtype recvcount recvtype root cm request = (timed_call Igather rd rk)
     \<lparr>C_MpiCall.partner_rank := root, C_MpiCall.nb_bytes_s := PMPI_Type_size M sendtype * sendcount,
       C_MpiCall.nb_bytes_r := PMPI_Type_size M recvtype * recvcount,
       C_MpiCall.comm := PMPI_Comm_c2f M cm, C_MpiCall.req := PMPI_Request_c2f M request\<rparr>"

definition C_Iscatter ::
    "('dt, 'cm, 'rq) mpi_lib \<Rightarrow> readings \<Rightarrow> MpiRank \<Rightarrow> i32 \<Rightarrow> 'dt \<Rightarrow> i32 \<Rightarrow> 'dt \<Rightarrow> i32 \<Rightarrow> 'cm \<Rightarrow> 'rq \<Rightarrow> C_MpiCall" where
  "C_Iscatter M rd rk sendcount sendtype recvcount recvtype root cm request = (timed_call Iscatter rd rk)
     \<lparr>C_MpiCall.partner_rank := root, C_MpiCall.nb_bytes_s := PMPI_Type_size M sendtype * sendcount,
       C_MpiCall.nb_bytes_r := PMPI_Type_size M recvtype * recvcount,
       C_MpiCall.comm := PMPI_Comm_c2f M cm, C_MpiCall.req := PMPI_Request_c2f M request\<rparr>"

text \<open>The chain of comparisons in \<open>MPI_Ireduce\<close>.\<close>

definition C_op_type :: "'op mpi_ops \<Rightarrow> 'op \<Rightarrow> i8" where
  "C_op_type ops p =
     (if p = MPI_MAX ops then MpiOp_repr OpMax
      else if p = MPI_MIN ops then MpiOp_repr OpMin
      else if p = MPI_SUM ops then MpiOp_repr OpSum
      else if p = MPI_PROD ops then MpiOp_repr OpProd
      else if p = MPI_LAND ops then MpiOp_repr Land
      else if p = MPI_BAND ops then MpiOp_repr Band
      else if p = MPI_LOR ops then MpiOp_repr Lor
      else if p = MPI_BOR ops then MpiOp_repr Bor
      else if p = MPI_LXOR ops then MpiOp_repr Lxor
      else if p = MPI_BXOR ops then MpiOp_repr Bxor
      else if p = MPI_MAXLOC ops then MpiOp_repr Maxloc
      else if p = MPI_MINLOC ops then MpiOp_repr Minloc
      else if p = MPI_REPLACE ops then MpiOp_repr Replace
      else if p = MPI_OP_NULL ops then MpiOp_repr Opnull
      else if p = MPI_NO_OP ops then MpiOp_repr Opnull
      else -1)"

definition C_Ireduce ::
    "('dt, 'cm, 'rq) mpi_lib \<Rightarrow> 'op mpi_ops \<Rightarrow> readings \<Rightarrow> MpiRank \<Rightarrow> i32 \<Rightarrow> 'dt \<Rightarrow> 'op \<Rightarrow> i32 \<Rightarrow> 'cm \<Rightarrow> 'rq \<Rightarrow> C_MpiCall" where
  "C_Ireduce M ops rd rk cnt datatype p root cm request = (timed_call Ireduce rd rk)
     \<lparr>C_MpiCall.partner_rank := root, C_MpiCall.nb_bytes_s := PMPI_Type_size M datatype,
       C_MpiCall.nb_bytes_r := PMPI_Type_size M datatype * cnt,
       C_MpiCall.comm := PMPI_Comm_c2f M cm, C_MpiCall.req := PMPI_Request_c2f M request,
       C_MpiCall.op_type := C_op_type ops p\<rparr>"

section \<open>The calls of a program\<close>

fun wrapper ::
    "('dt, 'cm, 'rq) mpi_lib \<Rightarrow> 'op mpi_ops \<Rightarrow> readings \<Rightarrow> MpiRank \<Rightarrow> ('dt, 'cm, 'rq, 'op) intercepted \<Rightarrow> C_MpiCall" where
  "wrapper M ops rd rk MPI_Init = C_Init rd rk"
| "wrapper M ops rd rk (MPI_Init_thread required provided) = C_Init_thread rd rk required provided"
| "wrapper M ops rd rk MPI_Finalize = C_Finalize rd rk"
| "wrapper M ops rd rk (MPI_Send n dt dest tg cm) = C_Send M rd rk n dt dest tg cm"
| "wrapper M ops rd rk (MPI_Recv n dt source tg cm) = C_Recv M rd rk n dt source tg cm"
| "wrapper M ops rd rk (MPI_Isend n dt dest tg cm rq) = C_Isend M rd rk n dt dest tg cm rq"
| "wrapper M ops rd rk (MPI_Irecv n dt source tg cm rq) = C_Irecv M rd rk n dt source tg cm rq"
| "wrapper M ops rd rk (MPI_Barrier cm) = C_Barrier M rd rk cm"
| "wrapper M ops rd rk (MPI_Ibarrier cm rq) = C_Ibarrier M rd rk cm rq"
| "wrapper M ops rd rk (MPI_Test rq flag) = C_Test M rd rk rq flag"
| "wrapper M ops rd rk (MPI_Wait rq) = C_Wait M rd rk rq"
| "wrapper M ops rd rk (MPI_Ibcast n dt root cm rq) = C_Ibcast M rd rk n dt root cm rq"
| "wrapper M ops rd rk (MPI_Igather n dt n' dt' root cm rq) = C_Igather M rd rk n dt n' dt' root cm rq"
| "wrapper M ops rd rk (MPI_Iscatter n dt n' dt' root cm rq) = C_Iscatter M rd rk n dt n' dt' root cm rq"
| "wrapper M ops rd rk (MPI_Ireduce n dt p root cm rq) = C_Ireduce M ops rd rk n dt p root cm rq"

text \<open>The calls that set \<open>current_rank\<close>.\<close>

definition sets_rank :: "('dt, 'cm, 'rq, 'op) intercepted \<Rightarrow> bool" where
  "sets_rank w = (case w of MPI_Init \<Rightarrow> True | MPI_Init_thread _ _ \<Rightarrow> True | _ \<Rightarrow> False)"

abbreviation wrapped ::
    "('dt, 'cm, 'rq) mpi_lib \<Rightarrow> 'op mpi_ops \<Rightarrow> MpiRank \<Rightarrow> (readings \<times> ('dt, 'cm, 'rq, 'op) intercepted) list \<Rightarrow> C_MpiCall list" where
  "wrapped M ops \<equiv> wrapped_by (wrapper M ops) sets_rank"

lemmas wrapper_defs = C_Init_def C_Init_thread_def C_Finalize_def C_Send_def C_Recv_def C_Isend_def
  C_Irecv_def C_Barrier_def C_Ibarrier_def C_Test_def C_Wait_def C_Ibcast_def C_Igather_def
  C_Iscatter_def C_Ireduce_def timed_call_def clocked_call_def

fun wrapped_kind :: "('dt, 'cm, 'rq, 'op) intercepted \<Rightarrow> MpiCallType" where
  "wrapped_kind MPI_Init = Init"
| "wrapped_kind (MPI_Init_thread _ _) = Initthread"
| "wrapped_kind MPI_Finalize = Finalize"
| "wrapped_kind (MPI_Send _ _ _ _ _) = Send"
| "wrapped_kind (MPI_Recv _ _ _ _ _) = Recv"
| "wrapped_kind (MPI_Isend _ _ _ _ _ _) = Isend"
| "wrapped_kind (MPI_Irecv _ _ _ _ _ _) = Irecv"
| "wrapped_kind (MPI_Barrier _) = Barrier"
| "wrapped_kind (MPI_Ibarrier _ _) = Ibarrier"
| "wrapped_kind (MPI_Test _ _) = Test"
| "wrapped_kind (MPI_Wait _) = Wait"
| "wrapped_kind (MPI_Ibcast _ _ _ _ _) = Ibcast"
| "wrapped_kind (MPI_Igather _ _ _ _ _ _ _) = Igather"
| "wrapped_kind (MPI_Iscatter _ _ _ _ _ _ _) = Iscatter"
| "wrapped_kind (MPI_Ireduce _ _ _ _ _ _) = Ireduce"

lemma wrapper_kind [simp]: "C_MpiCall.kind (wrapper M ops rd rk w) = MpiCallType_repr (wrapped_kind w)"
  by (cases w) (simp_all add: wrapper_defs)

lemma wrapper_rank [simp]: "C_MpiCall.current_rank (wrapper M ops rd rk w) = rk"
  by (cases w) (simp_all add: wrapper_defs)

interpretation c_wrappers: wrapper_family "wrapper M ops" sets_rank wrapped_kind for M ops
  by unfold_locales simp_all

lemma wrapper_op_type:
  "C_MpiCall.op_type (wrapper M ops rd rk w) =
     (case w of MPI_Ireduce _ _ p _ _ _ \<Rightarrow> C_op_type ops p | _ \<Rightarrow> -1)"
  by (cases w) (simp_all add: wrapper_defs)

section \<open>What a wrapper records\<close>

text \<open>
  The event of a call: the rank of the caller and its partner, the bytes exchanged (the size of the type
  times the count), the handles as Fortran integers, the time stamp before the call and the time it
  took. Open are the reading of the clock (\<open>tm\<close>) and how the bytes of a reduction come from the size of
  the type and the count (\<open>nb\<close>).
\<close>

fun call_event ::
    "(readings \<Rightarrow> f64) \<Rightarrow> (i32 \<Rightarrow> i32 \<Rightarrow> u32) \<Rightarrow> ('dt, 'cm, 'rq) mpi_lib \<Rightarrow> readings \<Rightarrow> MpiRank \<Rightarrow>
     ('dt, 'cm, 'rq, 'op) intercepted \<Rightarrow> MpiOp \<Rightarrow> Register_dyn" where
  "call_event tm nb M rd rk MPI_Init q = DynInit (MpiInit_new rk (before rd) (tm rd))"
| "call_event tm nb M rd rk (MPI_Init_thread required provided) q =
     DynInitThread (MpiInitThread_new rk required provided (before rd) (tm rd))"
| "call_event tm nb M rd rk MPI_Finalize q = DynFinalize (MpiFinalize_new rk (before rd) (tm rd))"
| "call_event tm nb M rd rk (MPI_Send n dt dest tg cm) q =
     DynSend (MpiSend_new rk dest (PMPI_Type_size M dt * n) (PMPI_Comm_c2f M cm) tg
       (before rd) (after rd - before rd))"
| "call_event tm nb M rd rk (MPI_Recv n dt source tg cm) q =
     DynRecv (MpiRecv_new rk source (PMPI_Type_size M dt * n) (PMPI_Comm_c2f M cm) tg
       (before rd) (after rd - before rd))"
| "call_event tm nb M rd rk (MPI_Isend n dt dest tg cm rq) q =
     DynIsend (MpiIsend_new rk dest (PMPI_Type_size M dt * n) (PMPI_Comm_c2f M cm)
       (PMPI_Request_c2f M rq) tg (before rd) (after rd - before rd))"
| "call_event tm nb M rd rk (MPI_Irecv n dt source tg cm rq) q =
     DynIrecv (MpiIrecv_new rk source (PMPI_Type_size M dt * n) (PMPI_Comm_c2f M cm)
       (PMPI_Request_c2f M rq) tg (before rd) (after rd - before rd))"
| "call_event tm nb M rd rk (MPI_Barrier cm) q =
     DynBarrier (MpiBarrier_new rk (PMPI_Comm_c2f M cm) (before rd) (after rd - before rd))"
| "call_event tm nb M rd rk (MPI_Ibarrier cm rq) q =
     DynIbarrier (MpiIbarrier_new rk (PMPI_Comm_c2f M cm) (PMPI_Request_c2f M rq)
       (before rd) (after rd - before rd))"
| "call_event tm nb M rd rk (MPI_Test rq flag) q =
     DynTest (MpiTest_new rk (PMPI_Request_c2f M rq) (flag \<noteq> 0) (before rd) (after rd - before rd))"
| "call_event tm nb M rd rk (MPI_Wait rq) q =
     DynWait (MpiWait_new rk (PMPI_Request_c2f M rq) (before rd) (after rd - before rd))"
| "call_event tm nb M rd rk (MPI_Ibcast n dt root cm rq) q =
     DynIbcast (MpiIbcast_new rk root (PMPI_Type_size M dt * n) (PMPI_Comm_c2f M cm)
       (PMPI_Request_c2f M rq) (before rd) (after rd - before rd))"
| "call_event tm nb M rd rk (MPI_Igather n dt n' dt' root cm rq) q =
     DynIgather (MpiIgather_new rk root (PMPI_Type_size M dt * n) (PMPI_Type_size M dt' * n')
       (PMPI_Comm_c2f M cm) (PMPI_Request_c2f M rq) (before rd) (after rd - before rd))"
| "call_event tm nb M rd rk (MPI_Iscatter n dt n' dt' root cm rq) q =
     DynIscatter (MpiIscatter_new rk root (PMPI_Type_size M dt * n) (PMPI_Type_size M dt' * n')
       (PMPI_Comm_c2f M cm) (PMPI_Request_c2f M rq) (before rd) (after rd - before rd))"
| "call_event tm nb M rd rk (MPI_Ireduce n dt p root cm rq) q =
     DynIreduce (MpiIreduce_new rk root (nb (PMPI_Type_size M dt) n) q (PMPI_Comm_c2f M cm)
       (PMPI_Request_c2f M rq) (before rd) (after rd - before rd))"

text \<open>
  What the documentation of the structs promises: the clock in microseconds and the bytes of all
  elements. What the wrappers pass: the clock in seconds, and for \<open>MPI_Ireduce\<close> the bytes of one element.
\<close>

definition documented ::
    "('dt, 'cm, 'rq) mpi_lib \<Rightarrow> readings \<Rightarrow> MpiRank \<Rightarrow> ('dt, 'cm, 'rq, 'op) intercepted \<Rightarrow> MpiOp \<Rightarrow> Register_dyn" where
  "documented = call_event microseconds (\<lambda>size n. size * n)"

definition passed ::
    "('dt, 'cm, 'rq) mpi_lib \<Rightarrow> readings \<Rightarrow> MpiRank \<Rightarrow> ('dt, 'cm, 'rq, 'op) intercepted \<Rightarrow> MpiOp \<Rightarrow> Register_dyn" where
  "passed = call_event seconds (\<lambda>size n. size)"

text \<open>The calls whose wrapper takes their time; the others read the clock.\<close>

definition timed :: "('dt, 'cm, 'rq, 'op) intercepted \<Rightarrow> bool" where
  "timed w \<longleftrightarrow> (case w of MPI_Init \<Rightarrow> False | MPI_Init_thread _ _ \<Rightarrow> False | MPI_Finalize \<Rightarrow> False | _ \<Rightarrow> True)"

lemma passed_documented:
  "passed M rd rk w q = documented M rd rk w q \<longleftrightarrow> (timed w \<or> seconds rd = microseconds rd) \<and>
     (\<forall>n dt p root cm rq. w = MPI_Ireduce n dt p root cm rq \<longrightarrow>
        PMPI_Type_size M dt = PMPI_Type_size M dt * n)"
  by (cases w) (simp_all add: passed_def documented_def timed_def new_defs)

lemma passed_asI:
  assumes "case MpiOp_of_repr (C_MpiCall.op_type (wrapper M ops rd rk w)) of None \<Rightarrow> True | Some q \<Rightarrow> p = q"
  shows "passed_as (wrapper M ops rd rk w) (as_MpiCall p (wrapped_kind w) (wrapper M ops rd rk w))"
  unfolding passed_as_def using assms by (intro exI conjI) simp_all

definition predefined :: "'op mpi_ops \<Rightarrow> 'op list" where
  "predefined ops =
     [MPI_MAX ops, MPI_MIN ops, MPI_SUM ops, MPI_PROD ops, MPI_LAND ops, MPI_BAND ops, MPI_LOR ops,
      MPI_BOR ops, MPI_LXOR ops, MPI_BXOR ops, MPI_MAXLOC ops, MPI_MINLOC ops, MPI_REPLACE ops,
      MPI_OP_NULL ops, MPI_NO_OP ops]"

text \<open>
  The operation that an intercepted call has for the back end: that of the table for a predefined
  operation of \<open>MPI_Ireduce\<close>, and none for an operation of the user and for every other call.
\<close>

definition operation :: "'op mpi_ops \<Rightarrow> ('dt, 'cm, 'rq, 'op) intercepted \<Rightarrow> MpiOp option" where
  "operation ops w =
     (case w of
        MPI_Ireduce n dt p root cm rq \<Rightarrow>
          map_of (zip (predefined ops)
            [OpMax, OpMin, OpSum, OpProd, Land, Band, Lor, Bor, Lxor, Bxor, Maxloc, Minloc, Replace,
             Opnull, Opnull]) p
      | _ \<Rightarrow> None)"

lemma wrapper_operation:
  "C_MpiCall.op_type (wrapper M ops rd rk w) = (case operation ops w of None \<Rightarrow> -1 | Some q \<Rightarrow> MpiOp_repr q)"
  unfolding wrapper_op_type by (cases w) (simp_all add: operation_def predefined_def C_op_type_def)

lemma operation_read:
  "MpiOp_of_repr (C_MpiCall.op_type (wrapper M ops rd rk w)) = operation ops w"
  unfolding wrapper_operation by (simp split: option.split)

lemma wrapped_kind_finalize [simp]: "wrapped_kind w = Finalize \<longleftrightarrow> w = MPI_Finalize"
  by (cases w) simp_all

lemma sets_rank_finalize [simp]: "\<not> sets_rank MPI_Finalize"
  by (simp add: sets_rank_def)

lemma whole_c_program:
  "sets_rank w \<Longrightarrow> \<forall>x \<in> set body. \<not> sets_rank (snd x) \<and> snd x \<noteq> MPI_Finalize \<Longrightarrow>
     whole_program sets_rank wrapped_kind ((rd, w) # body @ [(rd', MPI_Finalize)])"
  by (auto simp: whole_program_def)

text \<open>The event of a wrapper's struct, whichever operation Rust reads in it.\<close>

lemma event_of_wrapper:
  assumes "passed_as (wrapper M ops rd rk w) mc"
  shows "event_of_call mc = passed M rd rk w (MpiCall.op_type mc)"
proof -
  have "event_of_call (as_MpiCall q (wrapped_kind w) (wrapper M ops rd rk w)) = passed M rd rk w q" for q
    by (cases w) (simp_all add: passed_def event_of_call.simps as_MpiCall_def wrapper_defs new_defs)
  then show ?thesis by (subst c_wrappers.passed_as_fill [OF assms]) (simp add: as_MpiCall_def)
qed

section \<open>A concrete library\<close>

definition sample_lib :: "(unit, unit, unit) mpi_lib" where
  "sample_lib = \<lparr>PMPI_Type_size = (\<lambda>dt. 8), PMPI_Comm_c2f = (\<lambda>cm. 0), PMPI_Request_c2f = (\<lambda>rq. 7)\<rparr>"

definition sample_ops :: "nat mpi_ops" where
  "sample_ops =
     \<lparr>MPI_MAX = 1, MPI_MIN = 2, MPI_SUM = 3, MPI_PROD = 4, MPI_LAND = 5, MPI_BAND = 6, MPI_LOR = 7,
       MPI_BOR = 8, MPI_LXOR = 9, MPI_BXOR = 10, MPI_MAXLOC = 11, MPI_MINLOC = 12, MPI_REPLACE = 13,
       MPI_OP_NULL = 14, MPI_NO_OP = 15\<rparr>"

definition sample_readings :: "Tsc \<Rightarrow> readings" where
  "sample_readings t = \<lparr>before = t, after = t + 10, seconds = 0, microseconds = 0, own_rank = 0\<rparr>"

abbreviation sample_wrapper :: "(unit, unit, unit, nat) intercepted \<Rightarrow> C_MpiCall" where
  "sample_wrapper \<equiv> wrapper sample_lib sample_ops (sample_readings 5) 0"

definition sample_program :: "(readings \<times> (unit, unit, unit, nat) intercepted) list" where
  "sample_program =
     [(sample_readings 1, MPI_Init), (sample_readings 5, MPI_Send 3 () 1 42 ()),
      (sample_readings 20, MPI_Finalize)]"

section \<open>Properties\<close>

text \<open>
  A program that calls \<open>MPI_Init\<close> or \<open>MPI_Init_thread\<close> first, \<open>MPI_Finalize\<close> last and neither in
  between makes, through the wrappers, the calls of one rank in the sense of the job theorems: every
  struct names the rank that \<open>PMPI_Comm_rank\<close> gave at the start, the kinds are those of the calls, and
  the one finalize call comes last.
\<close>

theorem wrapped_program_is_rank_run:
  assumes "sets_rank w" and "\<forall>x \<in> set body. \<not> sets_rank (snd x) \<and> snd x \<noteq> MPI_Finalize"
    and "seen_as (wrapped M ops (-1) ((rd, w) # body @ [(rd', MPI_Finalize)])) ecs"
  shows "rank_run (own_rank rd) ecs \<and>
    map MpiCall.kind (calls_of ecs) = wrapped_kind w # map (wrapped_kind \<circ> snd) body @ [Finalize] \<and>
    (\<forall>c \<in> set (calls_of ecs). MpiCall.current_rank c = own_rank rd)"
  using c_wrappers.whole_program_run [OF whole_c_program [OF assms(1,2)] assms(3)] by simp

theorem wrapped_program_is_rank_run_witness:
  "\<exists>ecs. seen_as (wrapped sample_lib sample_ops (-1) sample_program) ecs \<and> rank_run 0 ecs \<and>
     map MpiCall.kind (calls_of ecs) = [Init, Send, Finalize]"
proof -
  let ?ecs = "map (\<lambda>(rd, w). (generous_allocator, healthy_os,
      as_MpiCall Opnull (wrapped_kind w) (wrapper sample_lib sample_ops rd 0 w))) sample_program"
  have seen: "seen_as (wrapped sample_lib sample_ops (-1) sample_program) ?ecs"
    by (simp add: sample_program_def seen_as_def sets_rank_def sample_readings_def call_of_def
        passed_asI wrapper_op_type del: wrapper.simps wrapped_kind.simps)
  with wrapped_program_is_rank_run [of MPI_Init "[(sample_readings 5, MPI_Send 3 () 1 42 ())]"
      sample_lib sample_ops "sample_readings 1" "sample_readings 20" ?ecs]
  have "rank_run 0 ?ecs \<and> map MpiCall.kind (calls_of ?ecs) = [Init, Send, Finalize]"
    by (simp add: sample_program_def sets_rank_def sample_readings_def)
  then have run: "rank_run 0 ?ecs" and kinds: "map MpiCall.kind (calls_of ?ecs) = [Init, Send, Finalize]"
    by (rule conjunct1, rule conjunct2)
  show ?thesis by (rule exI [where x = ?ecs], intro conjI, rule seen, rule run, rule kinds)
qed

text \<open>
  C21: what Rust may read. The kind of the struct a wrapper passes is that of the call. Its \<open>op_type\<close> is
  the discriminant of the operation if the call is \<open>MPI_Ireduce\<close> with a predefined one; for every other
  call it is -1, which is no \<open>MpiOp\<close>, and reading the struct is undefined behaviour.
\<close>

theorem wrapper_discriminants:
  "C_MpiCall.kind (wrapper M ops rd rk w) = MpiCallType_repr (wrapped_kind w) \<and>
   C_MpiCall.op_type (wrapper M ops rd rk w) =
     (case operation ops w of None \<Rightarrow> -1 | Some q \<Rightarrow> MpiOp_repr q) \<and>
   MpiCall_of_C (wrapper M ops rd rk w) =
     map_option (\<lambda>q. as_MpiCall q (wrapped_kind w) (wrapper M ops rd rk w)) (operation ops w)"
  using operation_read [of M ops rd rk w]
  by (simp add: wrapper_operation MpiCall_of_C_def del: wrapper.simps split: option.split)

text \<open>
  C17: across the boundary. Whatever operation an invalid \<open>op_type\<close> is read as, the back end makes of a
  wrapper's struct the event \<open>passed\<close>. It is the documented event exactly when the call reads no wall
  clock, or its seconds are the microseconds promised, and when for \<open>MPI_Ireduce\<close> the size of one
  element, which is recorded, is that of all of them.
\<close>

theorem wrapper_event:
  assumes "passed_as (wrapper M ops rd rk w) mc"
  shows "event_of_call mc = passed M rd rk w (MpiCall.op_type mc) \<and>
    (event_of_call mc = documented M rd rk w (MpiCall.op_type mc) \<longleftrightarrow>
      (timed w \<or> seconds rd = microseconds rd) \<and>
      (\<forall>n dt p root cm rq. w = MPI_Ireduce n dt p root cm rq \<longrightarrow>
         PMPI_Type_size M dt = PMPI_Type_size M dt * n))"
  using event_of_wrapper [OF assms] passed_documented by metis

text \<open>One second as a double, and as microseconds.\<close>

definition one_second :: readings where
  "one_second = \<lparr>before = 5, after = 15, seconds = 0x3FF0000000000000, microseconds = 0x412E848000000000,
     own_rank = 0\<rparr>"

theorem wrapper_event_witness:
  "event_of_call (as_MpiCall Opnull Send (sample_wrapper (MPI_Send 3 () 1 42 ()))) =
     DynSend (MpiSend_new 0 1 24 0 42 5 10) \<and>
   event_of_call (as_MpiCall OpSum Ireduce (sample_wrapper (MPI_Ireduce 3 () 3 1 () ()))) \<noteq>
     documented sample_lib (sample_readings 5) 0 (MPI_Ireduce 3 () (3 :: nat) 1 () ()) OpSum \<and>
   event_of_call (as_MpiCall Opnull Init (wrapper sample_lib sample_ops one_second 0 MPI_Init)) =
     DynInit (MpiInit_new 0 5 0x3FF0000000000000)"
proof -
  let ?send = "MPI_Send 3 () 1 42 () :: (unit, unit, unit, nat) intercepted"
  let ?reduce = "MPI_Ireduce 3 () 3 1 () () :: (unit, unit, unit, nat) intercepted"
  have "passed_as (sample_wrapper ?send) (as_MpiCall Opnull (wrapped_kind ?send) (sample_wrapper ?send))"
    by (rule passed_asI) (simp add: wrapper_op_type del: wrapper.simps)
  note send = wrapper_event [OF this]
  have "passed_as (sample_wrapper ?reduce) (as_MpiCall OpSum (wrapped_kind ?reduce) (sample_wrapper ?reduce))"
    by (rule passed_asI) (simp add: wrapper_op_type C_op_type_def sample_ops_def del: wrapper.simps)
  note reduce = wrapper_event [OF this]
  have "passed_as (wrapper sample_lib sample_ops one_second 0 MPI_Init)
      (as_MpiCall Opnull (wrapped_kind (MPI_Init :: (unit, unit, unit, nat) intercepted))
        (wrapper sample_lib sample_ops one_second 0 MPI_Init))"
    by (rule passed_asI) (simp add: wrapper_op_type del: wrapper.simps)
  note init = wrapper_event [OF this]
  have "event_of_call (as_MpiCall Opnull Send (sample_wrapper ?send)) = DynSend (MpiSend_new 0 1 24 0 42 5 10)"
    using conjunct1 [OF send] by (simp add: passed_def sample_lib_def sample_readings_def)
  moreover have "event_of_call (as_MpiCall OpSum Ireduce (sample_wrapper ?reduce)) \<noteq>
      documented sample_lib (sample_readings 5) 0 ?reduce OpSum"
    using conjunct2 [OF reduce] by (simp add: sample_lib_def as_MpiCall_def)
  moreover have "event_of_call (as_MpiCall Opnull Init (wrapper sample_lib sample_ops one_second 0 MPI_Init)) =
      DynInit (MpiInit_new 0 5 0x3FF0000000000000)"
    using conjunct1 [OF init] by (simp add: passed_def one_second_def)
  ultimately show ?thesis by blast
qed

end
