(* ===== verification/Program_Trace.thy ===== *)
theory Program_Trace
  imports C_Wrappers Merge_Properties
begin

text \<open>
  From the calls of a C program to the aggregated trace: the wrappers, the recording of every rank, the
  finalize calls and the aggregation in one statement.
\<close>

section \<open>The events of a C program\<close>

text \<open>
  The event that a call leaves: the one its wrapper passes. An \<open>MPI_Ireduce\<close> with a predefined operation
  records that operation; for an operation of the user Rust reads an invalid byte, as some operation.
\<close>

definition leaves ::
    "('dt, 'cm, 'rq) mpi_lib \<Rightarrow> 'op mpi_ops \<Rightarrow> readings \<Rightarrow> MpiRank \<Rightarrow> ('dt, 'cm, 'rq, 'op) intercepted \<Rightarrow>
     Register_dyn \<Rightarrow> bool" where
  "leaves M ops rd rk w e \<longleftrightarrow>
     (\<exists>q. e = passed M rd rk w q \<and> (case operation ops w of None \<Rightarrow> True | Some q' \<Rightarrow> q = q'))"

lemma leaves_event:
  assumes "passed_as (wrapper M ops rd rk w) mc"
  shows "leaves M ops rd rk w (event_of_call mc)"
  using event_of_wrapper [OF assms] assms
  by (auto simp: leaves_def passed_as_def operation_read as_MpiCall_def simp del: wrapper.simps split: option.splits)

interpretation c_programs: traced_family "wrapper M ops" sets_rank wrapped_kind "leaves M ops" for M ops
  by unfold_locales (rule leaves_event)

section \<open>From the program to the aggregate\<close>

text \<open>
  C1: the whole tracer. Every rank of a job runs a C program from \<open>MPI_Init\<close> to \<open>MPI_Finalize\<close>
  whose calls the wrappers intercept, and nothing fails; then one rank aggregates. The aggregate holds for
  every intercepted call of every rank the event that its wrapper passes, with the rank that
  \<open>PMPI_Comm_rank\<close> gave it, each once, and those of the trace files that other jobs left, sorted by time
  stamp. No call is left out; which of these events are the documented ones is shown in \<open>C_Wrappers\<close>.
  The clock has finite readings, and an \<open>op_type\<close> that is no operation is read as one.
\<close>

theorem programs_traced:
  assumes "derived_builders B" and "serde_codec J reread" and "unstable_sort par_sort" and "healthy S"
    and "list_all2 (program_rank (wrapper M ops) sets_rank wrapped_kind) wss ranks"
    and "distinct (map fst ranks)" and "ranks \<noteq> []" and "mergeable J (entries d)"
  shows "\<exists>d' out json p' traces. run_ranks B J ranks d = Some d' \<and>
    sort_all_traces J par_sort S (p\<lparr>disk := d'\<rparr>) = (Done (), p') \<and>
    content (disk p') (in_dir aggregate_file) = Some json \<and>
    (if wants_readable S then to_string_pretty J out else to_string J out) = Inr json \<and>
    list_all2 (program_trace (leaves M ops)) wss traces \<and>
    mset out = (\<Sum>es \<leftarrow> traces. mset (map (map_time reread) es)) + disk_events J (leftovers ranks (entries d)) \<and>
    sorted (map Register_tsc out)"
proof -
  obtain traces where "list_all2 (program_trace (leaves M ops)) wss traces"
    and events: "job_events reread ranks = (\<Sum>es \<leftarrow> traces. mset (map (map_time reread) es))"
    using c_programs.program_job(2) [OF assms(5,6)] by blast
  with job_trace_complete [OF assms(1-3) c_programs.program_job(1) [OF assms(5,6)] assms(7,8,4), of p]
  show ?thesis unfolding events by blast
qed

definition sample_calls :: "env_call list" where
  "sample_calls = map (\<lambda>(rd, w). (generous_allocator, healthy_os,
     as_MpiCall Opnull (wrapped_kind w) (wrapper sample_lib sample_ops rd 0 w))) sample_program"

lemma sample_calls_seen: "seen_as (wrapped sample_lib sample_ops (-1) sample_program) sample_calls"
  by (simp add: sample_program_def sample_calls_def seen_as_def sets_rank_def sample_readings_def
      call_of_def passed_asI wrapper_op_type del: wrapper.simps wrapped_kind.simps)

lemma sample_calls_recorded:
  "recorded sample_calls = [DynInit (MpiInit_new 0 1 0), DynSend (MpiSend_new 0 1 24 0 42 5 10),
     DynFinalize (MpiFinalize_new 0 20 0)]"
  by (simp add: recorded_def sample_calls_def sample_program_def sample_readings_def sample_lib_def
      call_of_def event_of_call.simps as_MpiCall_def wrapper_defs)

theorem programs_traced_witness:
  "\<exists>d' out p'. run_ranks reference_builders reference_serde [(0, sample_calls)] None = Some d' \<and>
     sort_all_traces reference_serde reference_sort healthy_os ((process_init None)\<lparr>disk := d'\<rparr>) =
       (Done (), p') \<and>
     content (disk p') (in_dir aggregate_file) = Some (text_of out) \<and>
     out = [DynInit (MpiInit_new 0 1 0), DynSend (MpiSend_new 0 1 24 0 42 5 10),
       DynFinalize (MpiFinalize_new 0 20 0)]"
proof -
  let ?evs = "[DynInit (MpiInit_new 0 1 0), DynSend (MpiSend_new 0 1 24 0 42 5 10),
    DynFinalize (MpiFinalize_new 0 20 0)]"
  have trace: "es = ?evs" if "program_trace (leaves sample_lib sample_ops) sample_program es" for es
    using that by (auto simp: program_trace_def leaves_def passed_def sample_program_def
        sample_readings_def sample_lib_def list_all2_Cons1)
  have "finite_times ?evs" by (simp add: finite_times_def new_defs f64_is_finite_def)
  then have "program_rank (wrapper sample_lib sample_ops) sets_rank wrapped_kind
      sample_program (0, sample_calls)"
    using sample_calls_seen
    by (simp add: program_rank_def sample_calls_recorded)
      (simp add: sample_program_def sample_calls_def whole_program_def sets_rank_def sample_readings_def
        fits_def elem_size_def isize_max_def)
  then have ranks: "list_all2 (program_rank (wrapper sample_lib sample_ops) sets_rank wrapped_kind)
      [sample_program] [(0, sample_calls)]" by simp
  have "mergeable reference_serde (entries None)" by (simp add: mergeable_def)
  from programs_traced [OF reference.derived_builders_axioms reference_serde.serde_codec_axioms
      reference_sort.unstable_sort_axioms healthy_os_healthy(1) ranks _ _ this, of "process_init None"]
  obtain d' out json p' where
    run: "run_ranks reference_builders reference_serde [(0, sample_calls)] None = Some d'"
      "sort_all_traces reference_serde reference_sort healthy_os ((process_init None)\<lparr>disk := d'\<rparr>) =
        (Done (), p')" "content (disk p') (in_dir aggregate_file) = Some json"
    and json: "to_string reference_serde out = Inr json" and sorted: "sorted (map Register_tsc out)"
    and out: "mset out = mset ?evs"
    by (auto simp: list_all2_Cons1 leftovers_def disk_events_def map_time_id dest!: trace)
  have "sort_key Register_tsc ?evs = out"
    by (rule sort_key_inj_key_eq [OF out [symmetric] _ sorted]) (simp add: new_defs)
  then have "out = ?evs" by (simp add: new_defs)
  moreover have "text_of out = json" using json by (simp add: text_of_def)
  ultimately show ?thesis using run by (auto intro!: exI [where x = out])
qed

end
