(* ===== verification/Fortran_Wrappers.thy ===== *)
theory Fortran_Wrappers
  imports Program_Trace
begin

text \<open>
  The wrappers of \<open>interpol-f.c\<close> for the Fortran bindings. Every argument is a pointer to a Fortran
  integer, handles are integers that the MPI library converts. Four entry points for each function, one
  for each way a Fortran compiler mangles its name, pass their arguments on unchanged to the wrapper
  modelled here. Where the wrapper casts the pointer itself instead of converting the integer behind it,
  the model has the address.
\<close>

section \<open>Arguments\<close>

record fint =
  address :: u64
  value_at :: i32

text \<open>
  What the wrappers ask of the MPI library beyond \<open>mpi_lib\<close>. \<open>comm_of_pointer\<close> and \<open>op_of_pointer\<close> are
  the casts of a pointer to \<open>MPI_Comm\<close> and to \<open>MPI_Op\<close>.
\<close>

record ('dt, 'cm, 'rq, 'op) fortran_lib =
  c_lib :: "('dt, 'cm, 'rq) mpi_lib"
  MPI_Type_f2c :: "i32 \<Rightarrow> 'dt"
  MPI_Comm_f2c :: "i32 \<Rightarrow> 'cm"
  MPI_Request_f2c :: "i32 \<Rightarrow> 'rq"
  MPI_Op_f2c :: "i32 \<Rightarrow> 'op"
  comm_of_pointer :: "u64 \<Rightarrow> 'cm"
  op_of_pointer :: "u64 \<Rightarrow> 'op"

text \<open>
  The intercepted calls: integers behind the pointers, the pointer itself for the arguments \<open>comm\<close>, \<open>op\<close>
  and \<open>flag\<close>, and the request after the call; for \<open>MPI_Test\<close> the request before and after the call, for
  \<open>MPI_Wait\<close> before it.
\<close>

datatype fortran_call =
    F_MPI_Init
  | F_MPI_Init_thread i32 i32
  | F_MPI_Finalize
  | F_MPI_Send i32 i32 i32 i32 fint
  | F_MPI_Recv i32 i32 i32 i32 fint
  | F_MPI_Isend i32 i32 i32 i32 fint i32
  | F_MPI_Irecv i32 i32 i32 i32 fint i32
  | F_MPI_Barrier fint
  | F_MPI_Ibarrier fint i32
  | F_MPI_Test i32 i32 fint
  | F_MPI_Wait i32
  | F_MPI_Ibcast i32 i32 i32 fint i32
  | F_MPI_Igather i32 i32 i32 i32 i32 fint i32
  | F_MPI_Iscatter i32 i32 i32 i32 i32 fint i32
  | F_MPI_Ireduce i32 i32 fint i32 fint i32

section \<open>The wrappers\<close>

definition F_type_size :: "('dt, 'cm, 'rq, 'op) fortran_lib \<Rightarrow> i32 \<Rightarrow> i32" where
  "F_type_size L datatype = PMPI_Type_size (c_lib L) (MPI_Type_f2c L datatype)"

definition F_comm :: "('dt, 'cm, 'rq, 'op) fortran_lib \<Rightarrow> fint \<Rightarrow> i32" where
  "F_comm L cm = PMPI_Comm_c2f (c_lib L) (comm_of_pointer L (address cm))"

definition F_Init :: "readings \<Rightarrow> MpiRank \<Rightarrow> C_MpiCall" where
  "F_Init rd rk = clocked_call Init rd rk"

definition F_Init_thread :: "readings \<Rightarrow> MpiRank \<Rightarrow> i32 \<Rightarrow> i32 \<Rightarrow> C_MpiCall" where
  "F_Init_thread rd rk required provided = (clocked_call Initthread rd rk)
     \<lparr>C_MpiCall.required_thread_lvl := required, C_MpiCall.provided_thread_lvl := provided\<rparr>"

definition F_Finalize :: "readings \<Rightarrow> MpiRank \<Rightarrow> C_MpiCall" where
  "F_Finalize rd rk = clocked_call Finalize rd rk"

definition F_Send ::
    "('dt, 'cm, 'rq, 'op) fortran_lib \<Rightarrow> readings \<Rightarrow> MpiRank \<Rightarrow> i32 \<Rightarrow> i32 \<Rightarrow> i32 \<Rightarrow> i32 \<Rightarrow> fint \<Rightarrow> C_MpiCall" where
  "F_Send L rd rk cnt datatype dest tg cm = (timed_call Send rd rk)
     \<lparr>C_MpiCall.partner_rank := dest, C_MpiCall.nb_bytes_s := F_type_size L datatype * cnt,
       C_MpiCall.comm := F_comm L cm, C_MpiCall.tag := tg\<rparr>"

definition F_Recv ::
    "('dt, 'cm, 'rq, 'op) fortran_lib \<Rightarrow> readings \<Rightarrow> MpiRank \<Rightarrow> i32 \<Rightarrow> i32 \<Rightarrow> i32 \<Rightarrow> i32 \<Rightarrow> fint \<Rightarrow> C_MpiCall" where
  "F_Recv L rd rk cnt datatype source tg cm = (timed_call Recv rd rk)
     \<lparr>C_MpiCall.partner_rank := source, C_MpiCall.nb_bytes_r := F_type_size L datatype * cnt,
       C_MpiCall.comm := F_comm L cm, C_MpiCall.tag := tg\<rparr>"

definition F_Isend ::
    "('dt, 'cm, 'rq, 'op) fortran_lib \<Rightarrow> readings \<Rightarrow> MpiRank \<Rightarrow> i32 \<Rightarrow> i32 \<Rightarrow> i32 \<Rightarrow> i32 \<Rightarrow> fint \<Rightarrow> i32 \<Rightarrow> C_MpiCall" where
  "F_Isend L rd rk cnt datatype dest tg cm request = (timed_call Isend rd rk)
     \<lparr>C_MpiCall.partner_rank := dest, C_MpiCall.nb_bytes_s := F_type_size L datatype * cnt,
       C_MpiCall.comm := F_comm L cm, C_MpiCall.req := request, C_MpiCall.tag := tg\<rparr>"

definition F_Irecv ::
    "('dt, 'cm, 'rq, 'op) fortran_lib \<Rightarrow> readings \<Rightarrow> MpiRank \<Rightarrow> i32 \<Rightarrow> i32 \<Rightarrow> i32 \<Rightarrow> i32 \<Rightarrow> fint \<Rightarrow> i32 \<Rightarrow> C_MpiCall" where
  "F_Irecv L rd rk cnt datatype source tg cm request = (timed_call Irecv rd rk)
     \<lparr>C_MpiCall.partner_rank := source, C_MpiCall.nb_bytes_r := F_type_size L datatype * cnt,
       C_MpiCall.comm := F_comm L cm, C_MpiCall.req := request, C_MpiCall.tag := tg\<rparr>"

definition F_Barrier :: "('dt, 'cm, 'rq, 'op) fortran_lib \<Rightarrow> readings \<Rightarrow> MpiRank \<Rightarrow> fint \<Rightarrow> C_MpiCall" where
  "F_Barrier L rd rk cm = (timed_call Barrier rd rk)\<lparr>C_MpiCall.comm := F_comm L cm\<rparr>"

definition F_Ibarrier :: "('dt, 'cm, 'rq, 'op) fortran_lib \<Rightarrow> readings \<Rightarrow> MpiRank \<Rightarrow> fint \<Rightarrow> i32 \<Rightarrow> C_MpiCall" where
  "F_Ibarrier L rd rk cm request = (timed_call Ibarrier rd rk)
     \<lparr>C_MpiCall.comm := F_comm L cm, C_MpiCall.req := request\<rparr>"

text \<open>\<open>MPI_Test\<close> compares the pointer \<open>flag\<close> with 0, and reads the request after the call.\<close>

definition F_Test :: "readings \<Rightarrow> MpiRank \<Rightarrow> i32 \<Rightarrow> fint \<Rightarrow> C_MpiCall" where
  "F_Test rd rk request_after flag = (timed_call Test rd rk)
     \<lparr>C_MpiCall.req := request_after, C_MpiCall.finished := (if address flag \<noteq> 0 then True else False)\<rparr>"

definition F_Wait :: "readings \<Rightarrow> MpiRank \<Rightarrow> i32 \<Rightarrow> C_MpiCall" where
  "F_Wait rd rk request = (timed_call Wait rd rk)\<lparr>C_MpiCall.req := request\<rparr>"

definition F_Ibcast ::
    "('dt, 'cm, 'rq, 'op) fortran_lib \<Rightarrow> readings \<Rightarrow> MpiRank \<Rightarrow> i32 \<Rightarrow> i32 \<Rightarrow> i32 \<Rightarrow> fint \<Rightarrow> i32 \<Rightarrow> C_MpiCall" where
  "F_Ibcast L rd rk cnt datatype root cm request = (timed_call Ibcast rd rk)
     \<lparr>C_MpiCall.partner_rank := root, C_MpiCall.nb_bytes_s := F_type_size L datatype * cnt,
       C_MpiCall.comm := F_comm L cm, C_MpiCall.req := request\<rparr>"

definition F_Igather ::
    "('dt, 'cm, 'rq, 'op) fortran_lib \<Rightarrow> readings \<Rightarrow> MpiRank \<Rightarrow> i32 \<Rightarrow> i32 \<Rightarrow> i32 \<Rightarrow> i32 \<Rightarrow> i32 \<Rightarrow> fint \<Rightarrow> i32 \<Rightarrow> C_MpiCall" where
  "F_Igather L rd rk sendcount sendtype recvcount recvtype root cm request = (timed_call Igather rd rk)
     \<lparr>C_MpiCall.partner_rank := root, C_MpiCall.nb_bytes_s := F_type_size L sendtype * sendcount,
       C_MpiCall.nb_bytes_r := F_type_size L recvtype * recvcount,
       C_MpiCall.comm := F_comm L cm, C_MpiCall.req := request\<rparr>"

definition F_Iscatter ::
    "('dt, 'cm, 'rq, 'op) fortran_lib \<Rightarrow> readings \<Rightarrow> MpiRank \<Rightarrow> i32 \<Rightarrow> i32 \<Rightarrow> i32 \<Rightarrow> i32 \<Rightarrow> i32 \<Rightarrow> fint \<Rightarrow> i32 \<Rightarrow> C_MpiCall" where
  "F_Iscatter L rd rk sendcount sendtype recvcount recvtype root cm request = (timed_call Iscatter rd rk)
     \<lparr>C_MpiCall.partner_rank := root, C_MpiCall.nb_bytes_s := F_type_size L sendtype * sendcount,
       C_MpiCall.nb_bytes_r := F_type_size L recvtype * recvcount,
       C_MpiCall.comm := F_comm L cm, C_MpiCall.req := request\<rparr>"

text \<open>\<open>MPI_Ireduce\<close> compares the pointer \<open>op\<close>, cast to \<open>MPI_Op\<close>, with the operations.\<close>

definition F_Ireduce ::
    "('dt, 'cm, 'rq, 'op) fortran_lib \<Rightarrow> 'op mpi_ops \<Rightarrow> readings \<Rightarrow> MpiRank \<Rightarrow> i32 \<Rightarrow> i32 \<Rightarrow> fint \<Rightarrow> i32 \<Rightarrow> fint \<Rightarrow> i32 \<Rightarrow> C_MpiCall" where
  "F_Ireduce L ops rd rk cnt datatype p root cm request = (timed_call Ireduce rd rk)
     \<lparr>C_MpiCall.partner_rank := root, C_MpiCall.nb_bytes_s := F_type_size L datatype,
       C_MpiCall.nb_bytes_r := F_type_size L datatype * cnt,
       C_MpiCall.comm := F_comm L cm, C_MpiCall.req := request,
       C_MpiCall.op_type := C_op_type ops (op_of_pointer L (address p))\<rparr>"

fun fortran_wrapper ::
    "('dt, 'cm, 'rq, 'op) fortran_lib \<Rightarrow> 'op mpi_ops \<Rightarrow> readings \<Rightarrow> MpiRank \<Rightarrow> fortran_call \<Rightarrow> C_MpiCall" where
  "fortran_wrapper L ops rd rk F_MPI_Init = F_Init rd rk"
| "fortran_wrapper L ops rd rk (F_MPI_Init_thread required provided) = F_Init_thread rd rk required provided"
| "fortran_wrapper L ops rd rk F_MPI_Finalize = F_Finalize rd rk"
| "fortran_wrapper L ops rd rk (F_MPI_Send n dt dest tg cm) = F_Send L rd rk n dt dest tg cm"
| "fortran_wrapper L ops rd rk (F_MPI_Recv n dt source tg cm) = F_Recv L rd rk n dt source tg cm"
| "fortran_wrapper L ops rd rk (F_MPI_Isend n dt dest tg cm rq) = F_Isend L rd rk n dt dest tg cm rq"
| "fortran_wrapper L ops rd rk (F_MPI_Irecv n dt source tg cm rq) = F_Irecv L rd rk n dt source tg cm rq"
| "fortran_wrapper L ops rd rk (F_MPI_Barrier cm) = F_Barrier L rd rk cm"
| "fortran_wrapper L ops rd rk (F_MPI_Ibarrier cm rq) = F_Ibarrier L rd rk cm rq"
| "fortran_wrapper L ops rd rk (F_MPI_Test rq rq' flag) = F_Test rd rk rq' flag"
| "fortran_wrapper L ops rd rk (F_MPI_Wait rq) = F_Wait rd rk rq"
| "fortran_wrapper L ops rd rk (F_MPI_Ibcast n dt root cm rq) = F_Ibcast L rd rk n dt root cm rq"
| "fortran_wrapper L ops rd rk (F_MPI_Igather n dt n' dt' root cm rq) =
     F_Igather L rd rk n dt n' dt' root cm rq"
| "fortran_wrapper L ops rd rk (F_MPI_Iscatter n dt n' dt' root cm rq) =
     F_Iscatter L rd rk n dt n' dt' root cm rq"
| "fortran_wrapper L ops rd rk (F_MPI_Ireduce n dt p root cm rq) = F_Ireduce L ops rd rk n dt p root cm rq"


text \<open>
  The four names of each function. Those of \<open>MPI_Init\<close> store in the static \<open>fortran_init\<close> which of them was
  called; nothing reads it.
\<close>

datatype mangling = Upper | Lower | Underscore | Double_Underscore

definition fortran_init_after :: "mangling \<Rightarrow> i32" where
  "fortran_init_after n = (case n of Upper \<Rightarrow> 1 | Lower \<Rightarrow> 2 | Underscore \<Rightarrow> 3 | Double_Underscore \<Rightarrow> 4)"

definition F_sets_rank :: "fortran_call \<Rightarrow> bool" where
  "F_sets_rank w = (case w of F_MPI_Init \<Rightarrow> True | F_MPI_Init_thread _ _ \<Rightarrow> True | _ \<Rightarrow> False)"

lemmas fortran_defs = F_Init_def F_Init_thread_def F_Finalize_def F_Send_def F_Recv_def F_Isend_def
  F_Irecv_def F_Barrier_def F_Ibarrier_def F_Test_def F_Wait_def F_Ibcast_def F_Igather_def
  F_Iscatter_def F_Ireduce_def F_type_size_def

section \<open>Compared with the C wrappers\<close>

text \<open>
  A C call made of the arguments of a Fortran call, given how types, requests, communicators, operations
  and flags are read, and which of the two requests of \<open>MPI_Test\<close> is taken.
\<close>

fun c_call ::
    "(i32 \<Rightarrow> 'dt) \<Rightarrow> (i32 \<Rightarrow> 'rq) \<Rightarrow> (fint \<Rightarrow> 'cm) \<Rightarrow> (fint \<Rightarrow> 'op) \<Rightarrow> (fint \<Rightarrow> i32) \<Rightarrow> (i32 \<Rightarrow> i32 \<Rightarrow> i32) \<Rightarrow>
     fortran_call \<Rightarrow> ('dt, 'cm, 'rq, 'op) intercepted" where
  "c_call tf rf cf pf ff tq F_MPI_Init = MPI_Init"
| "c_call tf rf cf pf ff tq (F_MPI_Init_thread required provided) = MPI_Init_thread required provided"
| "c_call tf rf cf pf ff tq F_MPI_Finalize = MPI_Finalize"
| "c_call tf rf cf pf ff tq (F_MPI_Send n dt dest tg cm) =
     MPI_Send n (tf dt) dest tg (cf cm)"
| "c_call tf rf cf pf ff tq (F_MPI_Recv n dt source tg cm) =
     MPI_Recv n (tf dt) source tg (cf cm)"
| "c_call tf rf cf pf ff tq (F_MPI_Isend n dt dest tg cm rq) =
     MPI_Isend n (tf dt) dest tg (cf cm) (rf rq)"
| "c_call tf rf cf pf ff tq (F_MPI_Irecv n dt source tg cm rq) =
     MPI_Irecv n (tf dt) source tg (cf cm) (rf rq)"
| "c_call tf rf cf pf ff tq (F_MPI_Barrier cm) = MPI_Barrier (cf cm)"
| "c_call tf rf cf pf ff tq (F_MPI_Ibarrier cm rq) = MPI_Ibarrier (cf cm) (rf rq)"
| "c_call tf rf cf pf ff tq (F_MPI_Test rq rq' flag) = MPI_Test (rf (tq rq rq')) (ff flag)"
| "c_call tf rf cf pf ff tq (F_MPI_Wait rq) = MPI_Wait (rf rq)"
| "c_call tf rf cf pf ff tq (F_MPI_Ibcast n dt root cm rq) =
     MPI_Ibcast n (tf dt) root (cf cm) (rf rq)"
| "c_call tf rf cf pf ff tq (F_MPI_Igather n dt n' dt' root cm rq) =
     MPI_Igather n (tf dt) n' (tf dt') root (cf cm)
       (rf rq)"
| "c_call tf rf cf pf ff tq (F_MPI_Iscatter n dt n' dt' root cm rq) =
     MPI_Iscatter n (tf dt) n' (tf dt') root (cf cm)
       (rf rq)"
| "c_call tf rf cf pf ff tq (F_MPI_Ireduce n dt p root cm rq) =
     MPI_Ireduce n (tf dt) (pf p) root (cf cm)
       (rf rq)"

text \<open>The call of the C function that the wrapper makes of its arguments.\<close>

definition as_c_call :: "('dt, 'cm, 'rq, 'op) fortran_lib \<Rightarrow> fortran_call \<Rightarrow> ('dt, 'cm, 'rq, 'op) intercepted" where
  "as_c_call L = c_call (MPI_Type_f2c L) (MPI_Request_f2c L) (\<lambda>cm. MPI_Comm_f2c L (value_at cm))
     (\<lambda>p. MPI_Op_f2c L (value_at p)) value_at (\<lambda>rq rq'. rq)"

text \<open>
  The same call as the wrapper looks at it: types and requests are integers, a communicator is the
  address of the argument, an operation is what the address of its argument is cast to, a flag is set if
  its address is not null, and the request of \<open>MPI_Test\<close> is the one after the call. \<open>pointer_lib\<close> is the
  library for such handles.
\<close>

definition pointer_call :: "('dt, 'cm, 'rq, 'op) fortran_lib \<Rightarrow> fortran_call \<Rightarrow> (i32, u64, i32, 'op) intercepted" where
  "pointer_call L = c_call (\<lambda>dt. dt) (\<lambda>rq. rq) address (\<lambda>p. op_of_pointer L (address p))
     (\<lambda>flag. if address flag \<noteq> 0 then 1 else 0) (\<lambda>rq rq'. rq')"

definition pointer_lib :: "('dt, 'cm, 'rq, 'op) fortran_lib \<Rightarrow> (i32, u64, i32) mpi_lib" where
  "pointer_lib L =
     \<lparr>PMPI_Type_size = F_type_size L,
       PMPI_Comm_c2f = (\<lambda>a. PMPI_Comm_c2f (c_lib L) (comm_of_pointer L a)), PMPI_Request_c2f = (\<lambda>rq. rq)\<rparr>"

fun comm_argument :: "fortran_call \<Rightarrow> fint option" where
  "comm_argument (F_MPI_Send _ _ _ _ cm) = Some cm"
| "comm_argument (F_MPI_Recv _ _ _ _ cm) = Some cm"
| "comm_argument (F_MPI_Isend _ _ _ _ cm _) = Some cm"
| "comm_argument (F_MPI_Irecv _ _ _ _ cm _) = Some cm"
| "comm_argument (F_MPI_Barrier cm) = Some cm"
| "comm_argument (F_MPI_Ibarrier cm _) = Some cm"
| "comm_argument (F_MPI_Ibcast _ _ _ cm _) = Some cm"
| "comm_argument (F_MPI_Igather _ _ _ _ _ cm _) = Some cm"
| "comm_argument (F_MPI_Iscatter _ _ _ _ _ cm _) = Some cm"
| "comm_argument (F_MPI_Ireduce _ _ _ _ cm _) = Some cm"
| "comm_argument _ = None"

text \<open>
  When the casts of pointers happen to give what the conversions of the integers behind them give.
\<close>

definition casts_agree :: "('dt, 'cm, 'rq, 'op) fortran_lib \<Rightarrow> 'op mpi_ops \<Rightarrow> fortran_call \<Rightarrow> bool" where
  "casts_agree L ops w \<longleftrightarrow>
     (case comm_argument w of
        None \<Rightarrow> True
      | Some cm \<Rightarrow> F_comm L cm = PMPI_Comm_c2f (c_lib L) (MPI_Comm_f2c L (value_at cm))) \<and>
     (case w of
        F_MPI_Test rq rq' flag \<Rightarrow> rq' = rq \<and> (address flag \<noteq> 0 \<longleftrightarrow> value_at flag \<noteq> 0)
      | F_MPI_Ireduce _ _ p _ _ _ \<Rightarrow>
          C_op_type ops (op_of_pointer L (address p)) = C_op_type ops (MPI_Op_f2c L (value_at p))
      | _ \<Rightarrow> True)"

section \<open>The Fortran wrappers as a family\<close>

text \<open>
  Whatever the casts give, the struct is that of the C wrapper for the call as the Fortran wrapper looks
  at it.
\<close>

lemma fortran_as_pointer_call:
  "fortran_wrapper L ops rd rk w = wrapper (pointer_lib L) ops rd rk (pointer_call L w)"
  by (cases w) (simp_all add: pointer_call_def pointer_lib_def fortran_defs F_comm_def wrapper_defs)

abbreviation fortran_kind :: "('dt, 'cm, 'rq, 'op) fortran_lib \<Rightarrow> fortran_call \<Rightarrow> MpiCallType" where
  "fortran_kind L w \<equiv> wrapped_kind (pointer_call L w)"

abbreviation fortran_leaves ::
    "('dt, 'cm, 'rq, 'op) fortran_lib \<Rightarrow> 'op mpi_ops \<Rightarrow> readings \<Rightarrow> MpiRank \<Rightarrow> fortran_call \<Rightarrow> Register_dyn \<Rightarrow> bool" where
  "fortran_leaves L ops rd rk w \<equiv> leaves (pointer_lib L) ops rd rk (pointer_call L w)"

interpretation fortran_programs: traced_family "fortran_wrapper L ops" F_sets_rank "fortran_kind L" "fortran_leaves L ops"
  for L ops
  by unfold_locales
    (simp_all add: fortran_as_pointer_call leaves_event del: fortran_wrapper.simps wrapper.simps)

text \<open>
  C22: with requests that the library converts there and back unchanged, a Fortran wrapper passes the
  struct that the C wrapper passes for the same call exactly when the casts of its pointers happen to
  agree with the conversions of the handles, and for \<open>MPI_Test\<close> when the request is still the same and
  the flag is set. In particular it records \<open>finished\<close> for every \<open>MPI_Test\<close>.
\<close>

theorem fortran_as_c:
  assumes "\<And>r. PMPI_Request_c2f (c_lib L) (MPI_Request_f2c L r) = r"
  shows "fortran_wrapper L ops rd rk w = wrapper (c_lib L) ops rd rk (as_c_call L w) \<longleftrightarrow>
    casts_agree L ops w"
  using assms
  by (cases w) (auto simp: casts_agree_def as_c_call_def fortran_defs wrapper_defs)

definition sample_fortran :: "(unit, i32, i32, nat) fortran_lib" where
  "sample_fortran =
     \<lparr>c_lib = \<lparr>PMPI_Type_size = (\<lambda>dt. 8), PMPI_Comm_c2f = (\<lambda>cm. cm), PMPI_Request_c2f = (\<lambda>rq. rq)\<rparr>,
       MPI_Type_f2c = (\<lambda>n. ()), MPI_Comm_f2c = (\<lambda>n. n), MPI_Request_f2c = (\<lambda>n. n),
       MPI_Op_f2c = (\<lambda>n. unat n), comm_of_pointer = ucast, op_of_pointer = unat\<rparr>"

text \<open>
  With handles that are integers, as in MPICH: a communicator 0 stored at address 4096 is recorded as
  4096, a test that did not complete as finished; a wait is recorded as in C.
\<close>

theorem fortran_as_c_witness:
  "fortran_wrapper sample_fortran sample_ops (sample_readings 5) 0 (F_MPI_Wait 7) =
     wrapper (c_lib sample_fortran) sample_ops (sample_readings 5) 0 (MPI_Wait 7) \<and>
   fortran_wrapper sample_fortran sample_ops (sample_readings 5) 0
       (F_MPI_Barrier \<lparr>address = 4096, value_at = 0\<rparr>) \<noteq>
     wrapper (c_lib sample_fortran) sample_ops (sample_readings 5) 0 (MPI_Barrier 0) \<and>
   fortran_wrapper sample_fortran sample_ops (sample_readings 5) 0
       (F_MPI_Test 7 7 \<lparr>address = 8192, value_at = 0\<rparr>) \<noteq>
     wrapper (c_lib sample_fortran) sample_ops (sample_readings 5) 0 (MPI_Test 7 0)"
proof -
  have same: "PMPI_Request_c2f (c_lib sample_fortran) (MPI_Request_f2c sample_fortran r) = r" for r
    by (simp add: sample_fortran_def)
  show ?thesis
    using fortran_as_c [OF same, of sample_ops "sample_readings 5" 0 "F_MPI_Wait 7"]
      fortran_as_c [OF same, of sample_ops "sample_readings 5" 0 "F_MPI_Barrier \<lparr>address = 4096, value_at = 0\<rparr>"]
      fortran_as_c [OF same, of sample_ops "sample_readings 5" 0 "F_MPI_Test 7 7 \<lparr>address = 8192, value_at = 0\<rparr>"]
    by (simp add: casts_agree_def F_comm_def sample_fortran_def as_c_call_def
        del: fortran_wrapper.simps wrapper.simps)
qed

end
