(* ===== verification/Fortran_Programs.thy ===== *)
theory Fortran_Programs
  imports Fortran_Wrappers
begin

text \<open>
  Fortran programs under the tracer: what of a program the aggregate holds, and what the wrappers hand
  back to the program. The branch of the preprocessor is the one for an MPI library with the MPI-2
  conversions of handles.
\<close>

section \<open>From the program to the aggregate\<close>

text \<open>
  C23: Fortran programs are traced as C programs are. The aggregate of a job of whole Fortran programs
  without faults holds for every call the event that the C wrapper leaves for the call as the Fortran
  wrapper looks at it, each once and sorted by time stamp: the request is the integer behind its pointer,
  the communicator is converted from the address of the argument, and so are the operation of
  \<open>MPI_Ireduce\<close> and the flag of \<open>MPI_Test\<close>. No call is left out. The clock has finite readings, and an
  \<open>op_type\<close> that is no operation is read as one.
\<close>

theorem fortran_programs_traced:
  assumes "derived_builders B" and "serde_codec J reread" and "unstable_sort par_sort" and "healthy S"
    and "list_all2 (program_rank (fortran_wrapper L ops) F_sets_rank (fortran_kind L)) wss ranks"
    and "distinct (map fst ranks)" and "ranks \<noteq> []" and "mergeable J (entries d)"
  shows "\<exists>d' out json p' traces. run_ranks B J ranks d = Some d' \<and>
    sort_all_traces J par_sort S (p\<lparr>disk := d'\<rparr>) = (Done (), p') \<and>
    content (disk p') (in_dir aggregate_file) = Some json \<and>
    (if wants_readable S then to_string_pretty J out else to_string J out) = Inr json \<and>
    list_all2 (program_trace (\<lambda>rd rk w. leaves (pointer_lib L) ops rd rk (pointer_call L w))) wss traces \<and>
    mset out = (\<Sum>es \<leftarrow> traces. mset (map (map_time reread) es)) + disk_events J (leftovers ranks (entries d)) \<and>
    sorted (map Register_tsc out)"
proof -
  obtain traces where "list_all2 (program_trace (fortran_leaves L ops)) wss traces"
    and events: "job_events reread ranks = (\<Sum>es \<leftarrow> traces. mset (map (map_time reread) es))"
    using fortran_programs.program_job(2) [OF assms(5,6)] by blast
  with job_trace_complete [OF assms(1-3) fortran_programs.program_job(1) [OF assms(5,6)] assms(7,8,4), of p]
  show ?thesis unfolding events by blast
qed

text \<open>A barrier of a communicator stored at address 4096: the trace has 4096 as the communicator.\<close>

definition sample_fortran_program :: "(readings \<times> fortran_call) list" where
  "sample_fortran_program =
     [(sample_readings 1, F_MPI_Init),
      (sample_readings 5, F_MPI_Barrier \<lparr>address = 4096, value_at = 0\<rparr>),
      (sample_readings 20, F_MPI_Finalize)]"

definition sample_fortran_calls :: "env_call list" where
  "sample_fortran_calls = map (\<lambda>(rd, w). (generous_allocator, healthy_os,
     as_MpiCall Opnull (fortran_kind sample_fortran w) (fortran_wrapper sample_fortran sample_ops rd 0 w)))
     sample_fortran_program"

lemma sample_fortran_rank:
  "program_rank (fortran_wrapper sample_fortran sample_ops) F_sets_rank (fortran_kind sample_fortran)
     sample_fortran_program (0, sample_fortran_calls)"
proof -
  let ?fill = "fortran_wrapper sample_fortran sample_ops"
  have op: "MpiOp_of_repr (C_MpiCall.op_type (?fill rd rk w)) = None"
    if "w \<in> {F_MPI_Init, F_MPI_Barrier \<lparr>address = 4096, value_at = 0\<rparr>, F_MPI_Finalize}" for rd rk w
    using that by (auto simp: fortran_defs timed_call_def clocked_call_def)
  have "passed_as (?fill rd rk w) (as_MpiCall Opnull (fortran_kind sample_fortran w) (?fill rd rk w))"
    if "w \<in> {F_MPI_Init, F_MPI_Barrier \<lparr>address = 4096, value_at = 0\<rparr>, F_MPI_Finalize}" for rd rk w
    unfolding passed_as_def using op [OF that] by (intro exI conjI) (simp_all add: fortran_programs.fill_kind)
  then have "seen_as (wrapped_by ?fill F_sets_rank (-1) sample_fortran_program) sample_fortran_calls"
    by (simp add: sample_fortran_program_def sample_fortran_calls_def seen_as_def F_sets_rank_def
        sample_readings_def call_of_def del: fortran_wrapper.simps)
  moreover have "finite_times (recorded sample_fortran_calls)"
    by (simp add: recorded_def sample_fortran_calls_def sample_fortran_program_def pointer_call_def
        call_of_def event_of_call.simps as_MpiCall_def fortran_defs timed_call_def clocked_call_def
        finite_times_def new_defs sample_readings_def f64_is_finite_def)
  ultimately show ?thesis
    by (simp add: program_rank_def)
      (simp add: sample_fortran_program_def sample_fortran_calls_def whole_program_def F_sets_rank_def
        sample_readings_def pointer_call_def fits_def elem_size_def isize_max_def)
qed

theorem fortran_programs_traced_witness:
  "\<exists>d' out p'. run_ranks reference_builders reference_serde [(0, sample_fortran_calls)] None = Some d' \<and>
     sort_all_traces reference_serde reference_sort healthy_os ((process_init None)\<lparr>disk := d'\<rparr>) =
       (Done (), p') \<and>
     content (disk p') (in_dir aggregate_file) = Some (text_of out) \<and>
     out = [DynInit (MpiInit_new 0 1 0), DynBarrier (MpiBarrier_new 0 4096 5 10),
       DynFinalize (MpiFinalize_new 0 20 0)]"
proof -
  let ?evs = "[DynInit (MpiInit_new 0 1 0), DynBarrier (MpiBarrier_new 0 4096 5 10),
    DynFinalize (MpiFinalize_new 0 20 0)]"
  have trace: "es = ?evs" if "program_trace (fortran_leaves sample_fortran sample_ops) sample_fortran_program es" for es
    using that by (auto simp: program_trace_def leaves_def passed_def sample_fortran_program_def
        pointer_call_def pointer_lib_def sample_readings_def sample_fortran_def list_all2_Cons1)
  have ranks: "list_all2 (program_rank (fortran_wrapper sample_fortran sample_ops) F_sets_rank
      (fortran_kind sample_fortran))
      [sample_fortran_program] [(0, sample_fortran_calls)]"
    using sample_fortran_rank by simp
  have "mergeable reference_serde (entries None)" by (simp add: mergeable_def)
  from fortran_programs_traced [OF reference.derived_builders_axioms reference_serde.serde_codec_axioms
      reference_sort.unstable_sort_axioms healthy_os_healthy(1) ranks _ _ this,
      of "process_init None"]
  obtain d' out json p' where
    run: "run_ranks reference_builders reference_serde [(0, sample_fortran_calls)] None = Some d'"
      "sort_all_traces reference_serde reference_sort healthy_os ((process_init None)\<lparr>disk := d'\<rparr>) =
        (Done (), p')" "content (disk p') (in_dir aggregate_file) = Some json"
    and json: "to_string reference_serde out = Inr json" and sorted: "sorted (map Register_tsc out)"
    and out: "mset out = mset ?evs"
    by (auto simp: list_all2_Cons1 leftovers_def disk_events_def dest!: trace)
  have "sort_key Register_tsc ?evs = out"
    by (rule sort_key_inj_key_eq [OF out [symmetric] _ sorted]) (simp add: new_defs)
  then have "out = ?evs" by (simp add: new_defs)
  moreover have "text_of out = json" using json by (simp add: text_of_def)
  ultimately show ?thesis using run by (auto intro!: exI [where x = out])
qed

section \<open>What the program gets back\<close>

text \<open>
  The answer of the library to the call of the C function: what it returns and what it stores through
  the pointers it is given.
\<close>

record ('rq, 'st) answer =
  returned :: i32
  provided_out :: i32
  request_out :: 'rq
  flag_out :: i32
  status_out :: 'st

text \<open>
  The variables of the Fortran program behind the pointers \<open>provided\<close>, \<open>request\<close>, \<open>flag\<close>, \<open>status\<close> and
  \<open>ierr\<close>, and the library's conversions; \<open>store_status\<close> is the effect of storing a C status in the
  memory of a Fortran status, as the cast \<open>(MPI_Status*)status\<close> lets the library do.
\<close>

record 'fs variables =
  provided :: i32
  request :: i32
  flag :: i32
  status :: 'fs
  ierr :: i32

record ('rq, 'st, 'fs) conversions =
  MPI_Request_c2f :: "'rq \<Rightarrow> i32"
  MPI_Status_c2f :: "'st \<Rightarrow> 'fs"
  store_status :: "'st \<Rightarrow> 'fs \<Rightarrow> 'fs"

text \<open>
  The assignments of the wrappers of \<open>MPI_Recv\<close>, \<open>MPI_Test\<close> and \<open>MPI_Wait\<close> around the call of the library,
  in their order. \<open>temp_status\<close> is what the variable of this name holds at the start, before anything is
  stored in it. The wrappers of the non-blocking functions, \<open>MPI_Isend\<close> for instance, only convert the
  request; every wrapper at last stores what the library returned.
\<close>

definition recv_back ::
    "('rq, 'st, 'fs) conversions \<Rightarrow> ('rq, 'st) answer \<Rightarrow> 'st \<Rightarrow> 'fs variables \<Rightarrow> 'fs variables" where
  "recv_back C ans temp_status v =
     (let v = v\<lparr>status := store_status C (status_out ans) (status v)\<rparr>;
          v = v\<lparr>status := MPI_Status_c2f C temp_status\<rparr>
      in v\<lparr>ierr := returned ans\<rparr>)"

definition test_back ::
    "('rq, 'st, 'fs) conversions \<Rightarrow> ('rq, 'st) answer \<Rightarrow> 'st \<Rightarrow> 'fs variables \<Rightarrow> 'fs variables" where
  "test_back C ans temp_status v =
     (let v = v\<lparr>flag := flag_out ans, status := store_status C (status_out ans) (status v)\<rparr>;
          v = v\<lparr>request := MPI_Request_c2f C (request_out ans)\<rparr>;
          v = v\<lparr>status := MPI_Status_c2f C temp_status\<rparr>
      in v\<lparr>ierr := returned ans\<rparr>)"

definition wait_back ::
    "('rq, 'st, 'fs) conversions \<Rightarrow> ('rq, 'st) answer \<Rightarrow> 'st \<Rightarrow> 'fs variables \<Rightarrow> 'fs variables" where
  "wait_back C ans temp_status v =
     (let temp_status = status_out ans;
          v = v\<lparr>request := MPI_Request_c2f C (request_out ans)\<rparr>;
          v = v\<lparr>status := MPI_Status_c2f C temp_status\<rparr>
      in v\<lparr>ierr := returned ans\<rparr>)"

definition request_back ::
    "('rq, 'st, 'fs) conversions \<Rightarrow> ('rq, 'st) answer \<Rightarrow> 'fs variables \<Rightarrow> 'fs variables" where
  "request_back C ans v =
     (let v = v\<lparr>request := MPI_Request_c2f C (request_out ans)\<rparr> in v\<lparr>ierr := returned ans\<rparr>)"

definition init_thread_back ::
    "('rq, 'st, 'fs) conversions \<Rightarrow> ('rq, 'st) answer \<Rightarrow> 'fs variables \<Rightarrow> 'fs variables" where
  "init_thread_back C ans v = (let v = v\<lparr>provided := provided_out ans\<rparr> in v\<lparr>ierr := returned ans\<rparr>)"

definition plain_back :: "('rq, 'st) answer \<Rightarrow> 'fs variables \<Rightarrow> 'fs variables" where
  "plain_back ans v = v\<lparr>ierr := returned ans\<rparr>"

definition hands_back ::
    "('rq, 'st, 'fs) conversions \<Rightarrow> ('rq, 'st) answer \<Rightarrow> 'st \<Rightarrow> fortran_call \<Rightarrow> 'fs variables \<Rightarrow> 'fs variables" where
  "hands_back C ans temp_status w v =
     (case w of
        F_MPI_Init \<Rightarrow> plain_back ans v
      | F_MPI_Init_thread _ _ \<Rightarrow> init_thread_back C ans v
      | F_MPI_Finalize \<Rightarrow> plain_back ans v
      | F_MPI_Send _ _ _ _ _ \<Rightarrow> plain_back ans v
      | F_MPI_Recv _ _ _ _ _ \<Rightarrow> recv_back C ans temp_status v
      | F_MPI_Barrier _ \<Rightarrow> plain_back ans v
      | F_MPI_Test _ _ _ \<Rightarrow> test_back C ans temp_status v
      | F_MPI_Wait _ \<Rightarrow> wait_back C ans temp_status v
      | _ \<Rightarrow> request_back C ans v)"

text \<open>
  What the binding of the library hands back without the tracer: each answer converted. The flag is
  compared as the C integer that the library stores; its conversion to a Fortran logical, which the
  wrapper leaves out, is outside the model.
\<close>

definition outputs :: "fortran_call \<Rightarrow> bool \<times> bool \<times> bool \<times> bool" where
  "outputs w =
     (case w of
        F_MPI_Init \<Rightarrow> (False, False, False, False)
      | F_MPI_Init_thread _ _ \<Rightarrow> (True, False, False, False)
      | F_MPI_Finalize \<Rightarrow> (False, False, False, False)
      | F_MPI_Send _ _ _ _ _ \<Rightarrow> (False, False, False, False)
      | F_MPI_Barrier _ \<Rightarrow> (False, False, False, False)
      | F_MPI_Recv _ _ _ _ _ \<Rightarrow> (False, False, False, True)
      | F_MPI_Test _ _ _ \<Rightarrow> (False, True, True, True)
      | F_MPI_Wait _ \<Rightarrow> (False, True, False, True)
      | _ \<Rightarrow> (False, True, False, False))"

definition untraced :: "('rq, 'st, 'fs) conversions \<Rightarrow> ('rq, 'st) answer \<Rightarrow> fortran_call \<Rightarrow> 'fs variables \<Rightarrow> 'fs variables" where
  "untraced C ans w v =
     (let (sets_provided, sets_request, sets_flag, sets_status) = outputs w in
      \<lparr>provided = (if sets_provided then provided_out ans else provided v),
        request = (if sets_request then MPI_Request_c2f C (request_out ans) else request v),
        flag = (if sets_flag then flag_out ans else flag v),
        status = (if sets_status then MPI_Status_c2f C (status_out ans) else status v),
        ierr = returned ans\<rparr>)"

text \<open>
  C24: a Fortran wrapper hands the program what the library answered, except for the status of \<open>MPI_Recv\<close>
  and \<open>MPI_Test\<close>: these overwrite it with the conversion of a variable that nothing was stored in, so
  the program sees the library's answer exactly when that variable happens to convert to the same.
\<close>

theorem fortran_hands_back:
  "hands_back C ans temp_status w v = untraced C ans w v \<longleftrightarrow>
     (case w of
        F_MPI_Recv _ _ _ _ _ \<Rightarrow> MPI_Status_c2f C temp_status = MPI_Status_c2f C (status_out ans)
      | F_MPI_Test _ _ _ \<Rightarrow> MPI_Status_c2f C temp_status = MPI_Status_c2f C (status_out ans)
      | _ \<Rightarrow> True)"
  by (cases v; cases w) (simp_all add: hands_back_def untraced_def outputs_def recv_back_def
      test_back_def wait_back_def request_back_def init_thread_back_def plain_back_def)

end
