(* ===== verification/Time_Stamp.thy ===== *)
theory Time_Stamp
  imports C_Wrappers
begin

text \<open>
  The readings of the time stamp counter (\<open>tsc.h\<close>): the inline assembly of \<open>rdtsc\<close> and \<open>fenced_rdtscp\<close>,
  instruction by instruction on the registers, with the counter of the processor as a parameter; and what
  the difference of two readings tells of the time of a call.
\<close>

unbundle bit_operations_syntax

section \<open>Registers and instructions\<close>

datatype reg = RAX | RBX | RCX | RDX | RSI | RDI | RBP | RSP
  | R8 | R9 | R10 | R11 | R12 | R13 | R14 | R15

type_synonym registers = "reg \<Rightarrow> u64"

datatype instruction = Rdtsc | Rdtscp | Lfence | Shl nat reg | Or reg reg

text \<open>
  The processor at an instruction: the counter and, for \<open>rdtscp\<close>, the register that identifies the
  processor. Both instructions split the counter into \<open>EDX:EAX\<close> and clear the upper halves.
\<close>

record processor =
  counter :: u64
  tsc_aux :: u32

definition load_counter :: "u64 \<Rightarrow> registers \<Rightarrow> registers" where
  "load_counter c rs = rs(RAX := take_bit 32 c, RDX := drop_bit 32 c)"

fun execute :: "processor \<Rightarrow> instruction \<Rightarrow> registers \<Rightarrow> registers" where
  "execute P Rdtsc rs = load_counter (counter P) rs"
| "execute P Rdtscp rs = (load_counter (counter P) rs)(RCX := ucast (tsc_aux P))"
| "execute P Lfence rs = rs"
| "execute P (Shl n r) rs = rs(r := push_bit n (rs r))"
| "execute P (Or r q) rs = rs(q := rs q OR rs r)"

definition fenced_rdtscp_code :: "instruction list" where
  "fenced_rdtscp_code = [Rdtscp, Lfence, Shl 0x20 RDX, Or RDX RAX]"

definition rdtsc_code :: "instruction list" where
  "rdtsc_code = [Rdtsc, Shl 0x20 RDX, Or RDX RAX]"

text \<open>The result is in \<open>RAX\<close> (constraint \<open>=a\<close>).\<close>

definition run_code :: "processor \<Rightarrow> instruction list \<Rightarrow> registers \<Rightarrow> Tsc \<times> registers" where
  "run_code P code rs = (let rs' = fold (execute P) code rs in (rs' RAX, rs'))"

definition fenced_rdtscp :: "processor \<Rightarrow> registers \<Rightarrow> Tsc \<times> registers" where
  "fenced_rdtscp P = run_code P fenced_rdtscp_code"

definition rdtsc :: "processor \<Rightarrow> registers \<Rightarrow> Tsc \<times> registers" where
  "rdtsc P = run_code P rdtsc_code"

section \<open>What is read\<close>

lemma halves: "take_bit 32 c OR push_bit 32 (drop_bit 32 c) = c" for c :: u64
proof (rule bit_word_eqI)
  show "bit (take_bit 32 c OR push_bit 32 (drop_bit 32 c)) n = bit c n" if "n < LENGTH(64)" for n
    using that by (cases "n < 32") (simp_all add: bit_simps)
qed

lemma fenced_rdtscp_reads:
  "fst (fenced_rdtscp P rs) = counter P"
  "r \<notin> {RAX, RDX, RCX} \<Longrightarrow> snd (fenced_rdtscp P rs) r = rs r"
  by (simp_all add: fenced_rdtscp_def run_code_def fenced_rdtscp_code_def load_counter_def halves)

lemma rdtsc_reads:
  "fst (rdtsc P rs) = counter P" "r \<notin> {RAX, RDX} \<Longrightarrow> snd (rdtsc P rs) r = rs r"
  by (simp_all add: rdtsc_def run_code_def rdtsc_code_def load_counter_def halves)

lemma wrapper_times:
  "C_MpiCall.tsc (wrapper M ops rd rk w) = before rd"
  "timed w \<Longrightarrow> C_MpiCall.duration (wrapper M ops rd rk w) = after rd - before rd"
  by (cases w; simp add: wrapper_defs timed_def)+

text \<open>
  C25: the assembly reads the whole 64-bit counter, changing no register but those it declares; and a
  timed wrapper that reads the counter at \<open>n\<close> cycles before the call of the library and \<open>k\<close> cycles later
  after it records the counter at the start and the duration \<open>k\<close>, also when the counter wraps around in
  between, as long as \<open>k\<close> itself fits 64 bits.
\<close>

theorem duration_counts_cycles:
  assumes "timed w" and "k < 2 ^ 64"
    and "before rd = fst (rdtsc \<lparr>counter = of_nat n, tsc_aux = aux\<rparr> rs)"
    and "after rd = fst (rdtsc \<lparr>counter = of_nat (n + k), tsc_aux = aux'\<rparr> rs')"
  shows "C_MpiCall.tsc (wrapper M ops rd rk w) = of_nat n \<and>
    unat (C_MpiCall.duration (wrapper M ops rd rk w)) = k \<and>
    (\<forall>P qs r. fst (fenced_rdtscp P qs) = counter P \<and>
       (r = RAX \<or> r = RDX \<or> r = RCX \<or> snd (fenced_rdtscp P qs) r = qs r) \<and>
       (r = RAX \<or> r = RDX \<or> snd (rdtsc P qs) r = qs r))"
proof -
  have "after rd - before rd = of_nat k"
    using assms(3,4) by (simp add: rdtsc_reads)
  moreover have "unat (of_nat k :: u64) = k"
    using assms(2) by (simp add: unat_of_nat)
  moreover have "before rd = of_nat n" using assms(3) by (simp add: rdtsc_reads)
  moreover have "r = RAX \<or> r = RDX \<or> r = RCX \<or> snd (fenced_rdtscp P qs) r = qs r"
    and "r = RAX \<or> r = RDX \<or> snd (rdtsc P qs) r = qs r" for P qs r
    using fenced_rdtscp_reads(2) [of r] rdtsc_reads(2) [of r] by auto
  ultimately show ?thesis
    using fenced_rdtscp_reads(1) by (simp add: wrapper_times(1) wrapper_times(2) [OF assms(1)] del: wrapper.simps)
qed

text \<open>A call of 20 cycles during which the counter wraps around.\<close>

theorem duration_counts_cycles_witness:
  "C_MpiCall.tsc (wrapper sample_lib sample_ops \<lparr>before = -10, after = 10, seconds = 0, microseconds = 0, own_rank = 0\<rparr> 0
       (MPI_Wait ())) = -10 \<and>
   unat (C_MpiCall.duration (wrapper sample_lib sample_ops
       \<lparr>before = -10, after = 10, seconds = 0, microseconds = 0, own_rank = 0\<rparr> 0 (MPI_Wait ()))) = 20"
proof -
  let ?n = "2 ^ 64 - 10 :: nat" and ?rs = "\<lambda>r. 7"
  have n: "of_nat ?n = (-10 :: u64)" and n': "of_nat (?n + 20) = (10 :: u64)" by simp_all
  have "timed (MPI_Wait () :: (unit, unit, unit, nat) intercepted)" by (simp add: timed_def)
  from duration_counts_cycles [OF this, of 20
      "\<lparr>before = -10, after = 10, seconds = 0, microseconds = 0, own_rank = 0\<rparr>" ?n 0 ?rs 0 ?rs sample_lib sample_ops 0]
  show ?thesis by (simp add: rdtsc_reads n n' del: wrapper.simps)
qed

end
