(* ===== verification/Struct_Json.thy ===== *)
theory Struct_Json
  imports Reference_Serde
begin

text \<open>
  The JSON of one event struct on its own, as \<open>#[derive(Serialize, Deserialize)]\<close> and serde\_json make
  it: an object of the fields in declaration order, without the tag that typetag adds to a trait
  object. Only the unit tests of the crate use it. What the crates document is the locale
  \<open>derived_serde\<close>; the codec of \<open>Json_Codec\<close> gives a reference instance.
\<close>

section \<open>The compact text of a struct\<close>

definition member_text :: "float_text \<Rightarrow> field \<Rightarrow> string" where
  "member_text T s = CHR 0x22 # field_name s @ CHR 0x22 # CHR '':'' # show_token (field_token T s)"

fun members_text :: "float_text \<Rightarrow> field list \<Rightarrow> string" where
  "members_text T [] = []"
| "members_text T [s] = member_text T s"
| "members_text T (s # s' # fs) = member_text T s @ CHR '','' # members_text T (s' # fs)"

definition object_text :: "float_text \<Rightarrow> field list \<Rightarrow> string" where
  "object_text T fs = CHR ''{'' # members_text T fs @ ''}''"

section \<open>What serde documents\<close>

record 'e struct_json =
  struct_to_string :: "'e \<Rightarrow> string + string"
  struct_to_string_pretty :: "'e \<Rightarrow> string + string"
  struct_from_str :: "string \<Rightarrow> string + 'e"

text \<open>The doubles that the text of doubles \<open>T\<close> gives back as they were.\<close>

definition field_exact :: "float_text \<Rightarrow> field \<Rightarrow> bool" where
  "field_exact T s \<longleftrightarrow>
     (case s of Time t \<Rightarrow> f64_is_finite t \<and> read_f64 T (show_f64 T t) = Some t | _ \<Rightarrow> True)"

locale derived_serde = struct_fields names view
  for names :: "string list" and view :: "'e \<Rightarrow> field list" +
  fixes T :: float_text
    and j :: "'e struct_json"
  assumes to_text: "list_all (field_exact T) (view e) \<Longrightarrow>
      struct_to_string j e = Inr (object_text T (view e))"
    and reads_pretty: "list_all (field_exact T) (view e) \<Longrightarrow>
      \<exists>s. struct_to_string_pretty j e = Inr s \<and> struct_from_str j s = Inr e"

section \<open>A reference instance\<close>

definition struct_members :: "float_text \<Rightarrow> field list \<Rightarrow> members" where
  "struct_members T = map (\<lambda>s. (field_name s, field_token T s))"

definition reference_json ::
    "string list \<Rightarrow> ('e \<Rightarrow> field list) \<Rightarrow> (field list \<Rightarrow> string + 'e) \<Rightarrow> float_text \<Rightarrow> 'e struct_json" where
  "reference_json names view build T =
     \<lparr>struct_to_string = (\<lambda>e. Inr (show_layout (obj_layout False (struct_members T (view e))))),
      struct_to_string_pretty = (\<lambda>e. Inr (show_layout (obj_layout True (struct_members T (view e))))),
      struct_from_str = (\<lambda>s.
        case Option.bind (lex s) (\<lambda>ts. parse_doc (LBrack # ts @ [RBrack])) of
          Some [ms] \<Rightarrow>
            (case decode_fields T ms names of
               None \<Rightarrow> Inl ''Error(\"data\")''
             | Some chain \<Rightarrow> build chain)
        | _ \<Rightarrow> Inl ''Error(\"syntax\")'')\<rparr>"

lemma show_layout_append: "show_layout (xs @ ys) = show_layout xs @ show_layout ys"
  by (induction xs rule: show_layout.induct) simp_all

lemma members_text_layout:
  "show_layout (members_layout False (struct_members T fs)) = members_text T fs"
proof (induction T fs rule: members_text.induct)
  case (3 T s s' fs)
  then show ?case
    by (simp add: struct_members_def member_layout_def member_text_def show_layout_append)
qed (simp_all add: struct_members_def member_layout_def member_text_def)

lemma object_text_layout: "show_layout (obj_layout False (struct_members T fs)) = object_text T fs"
  by (simp add: obj_layout_def object_text_def show_layout_append members_text_layout)

lemma separated_prefix: "separated (xs @ ys) \<Longrightarrow> separated xs"
  by (induction xs rule: separated.induct) auto

lemma exact_field: "field_exact T s \<Longrightarrow> field_of_token T (field_name s) (field_token T s) = Some s"
  by (cases s) (simp_all add: field_of_token_def field_exact_def)

lemma decode_exact:
  assumes "distinct (map field_name fs)" and "list_all (field_exact T) fs"
  shows "decode_fields T (struct_members T fs) (map field_name fs) = Some fs"
proof -
  have "those (map (\<lambda>s. Option.bind (map_of (struct_members T fs) (field_name s))
      (field_of_token T (field_name s))) fs) = Some (map (\<lambda>s. s) fs)"
    using assms map_of_members [OF assms(1), of _ "field_token T"] exact_field
    by (intro those_map_Some) (simp add: struct_members_def list_all_iff)
  then show ?thesis by (simp add: decode_fields_def comp_def)
qed

context float_format
begin

lemma struct_members_ok:
  assumes "list_all (field_exact T) fs"
  shows "list_all member_ok (struct_members T fs)"
proof -
  have "CHR 0x22 \<notin> set (field_name s)" for s by (cases s) simp_all
  moreover have "token_ok (field_token T s)" if "field_exact T s" for s
    using that by (intro field_token_ok) (auto simp: field_exact_def field_finite_def split: field.splits)
  ultimately show ?thesis
    using assms by (auto simp: struct_members_def member_ok_def list_all_iff)
qed

lemma reference_json_derived:
  assumes "derive_builder names view build" and "names \<noteq> []"
  shows "derived_serde names view T (reference_json names view build T)"
proof -
  have fields: "struct_fields names view"
    using assms(1) by (simp add: derive_builder_def)
  have reads: "struct_from_str (reference_json names view build T)
      (show_layout (obj_layout True (struct_members T (view e)))) = Inr e"
    if exact: "list_all (field_exact T) (view e)" for e
  proof -
    let ?ms = "struct_members T (view e)"
    have names: "map field_name (view e) = names" "distinct names"
      using struct_fields.view_fields [OF fields] struct_fields.fields_distinct [OF fields] by auto
    have "separated (map snd (obj_layout True ?ms) @ [RBrack])"
      by (rule obj_separated) simp_all
    then have "lex (show_layout (obj_layout True ?ms)) = Some (map snd (obj_layout True ?ms))"
      using struct_members_ok [OF exact] separated_prefix by (intro lex_layout obj_layout_ok) auto
    moreover have "LBrack # map snd (obj_layout True ?ms) @ [RBrack] = map snd (doc_layout True [?ms])"
      by (simp add: doc_layout_def)
    moreover have "?ms \<noteq> []" using names assms(2) by (auto simp: struct_members_def)
    moreover have "decode_fields T ?ms names = Some (view e)"
      using decode_exact [of "view e" T] exact names by simp
    moreover have "build (view e) = Inr e"
      using derive_builder.build_view [OF assms(1)] by simp
    ultimately show ?thesis
      by (simp add: reference_json_def parse_doc_layout)
  qed
  show ?thesis
    using reads by (intro derived_serde.intro fields derived_serde_axioms.intro)
      (simp_all add: reference_json_def object_text_layout)
qed

end

end
