(* ===== verification/Unit_Tests.thy ===== *)
theory Unit_Tests
  imports Struct_Json
begin

text \<open>
  The unit tests of the event structs: for each of the fifteen, \<open>builds\<close> (the builder and \<open>new\<close> make
  the same struct), \<open>serializes\<close> (the compact text is the one written out in the test) and
  \<open>deserializes\<close> (the readable text is read back), as functions that say whether the test passes.
  The generated builders and the JSON of the structs are parameters. The tests are fixed inputs: that
  they pass checks the model against the expectations written in the repository, it is no property of
  the program for all inputs. The texts in the tests are those
  of the layout that \<open>Json_Codec\<close> gives the fields.
\<close>

section \<open>What the tests share\<close>

text \<open>\<open>expect\<close> fails the test on an error. The double 0.1, and the constants that the test modules define.\<close>

definition passes :: "string + 'a \<Rightarrow> ('a \<Rightarrow> bool) \<Rightarrow> bool" where
  "passes r P = (case r of Inl msg \<Rightarrow> False | Inr x \<Rightarrow> P x)"

definition f64_tenth :: f64 where
  "f64_tenth = 0x3FB999999999999A"

definition MPI_COMM_WORLD :: i32 where
  "MPI_COMM_WORLD = 0"

definition MPI_THREAD_SINGLE :: i32 where
  "MPI_THREAD_SINGLE = 0"

definition MPI_THREAD_FUNNELED :: i32 where
  "MPI_THREAD_FUNNELED = 1"

definition MPI_THREAD_SERIALIZED :: i32 where
  "MPI_THREAD_SERIALIZED = 2"

definition MPI_THREAD_MULTIPLE :: i32 where
  "MPI_THREAD_MULTIPLE = 3"

lemmas test_consts = f64_tenth_def MPI_COMM_WORLD_def MPI_THREAD_SINGLE_def MPI_THREAD_FUNNELED_def
  MPI_THREAD_SERIALIZED_def MPI_THREAD_MULTIPLE_def

lemma passes_Inr [simp]: "passes (Inr x) P = P x"
  by (simp add: passes_def)

record struct_jsons =
  MpiInit_json :: "MpiInit struct_json"
  MpiInitThread_json :: "MpiInitThread struct_json"
  MpiFinalize_json :: "MpiFinalize struct_json"
  MpiSend_json :: "MpiSend struct_json"
  MpiRecv_json :: "MpiRecv struct_json"
  MpiIsend_json :: "MpiIsend struct_json"
  MpiIrecv_json :: "MpiIrecv struct_json"
  MpiBarrier_json :: "MpiBarrier struct_json"
  MpiIbarrier_json :: "MpiIbarrier struct_json"
  MpiTest_json :: "MpiTest struct_json"
  MpiWait_json :: "MpiWait struct_json"
  MpiIbcast_json :: "MpiIbcast struct_json"
  MpiIgather_json :: "MpiIgather struct_json"
  MpiIreduce_json :: "MpiIreduce struct_json"
  MpiIscatter_json :: "MpiIscatter struct_json"

locale derived_serdes =
  fixes T :: float_text
    and Js :: struct_jsons
  assumes MpiInit_serde: "derived_serde MpiInit_fields MpiInit_view T (MpiInit_json Js)"
    and MpiInitThread_serde: "derived_serde MpiInitThread_fields MpiInitThread_view T (MpiInitThread_json Js)"
    and MpiFinalize_serde: "derived_serde MpiFinalize_fields MpiFinalize_view T (MpiFinalize_json Js)"
    and MpiSend_serde: "derived_serde MpiSend_fields MpiSend_view T (MpiSend_json Js)"
    and MpiRecv_serde: "derived_serde MpiRecv_fields MpiRecv_view T (MpiRecv_json Js)"
    and MpiIsend_serde: "derived_serde MpiIsend_fields MpiIsend_view T (MpiIsend_json Js)"
    and MpiIrecv_serde: "derived_serde MpiIrecv_fields MpiIrecv_view T (MpiIrecv_json Js)"
    and MpiBarrier_serde: "derived_serde MpiBarrier_fields MpiBarrier_view T (MpiBarrier_json Js)"
    and MpiIbarrier_serde: "derived_serde MpiIbarrier_fields MpiIbarrier_view T (MpiIbarrier_json Js)"
    and MpiTest_serde: "derived_serde MpiTest_fields MpiTest_view T (MpiTest_json Js)"
    and MpiWait_serde: "derived_serde MpiWait_fields MpiWait_view T (MpiWait_json Js)"
    and MpiIbcast_serde: "derived_serde MpiIbcast_fields MpiIbcast_view T (MpiIbcast_json Js)"
    and MpiIgather_serde: "derived_serde MpiIgather_fields MpiIgather_view T (MpiIgather_json Js)"
    and MpiIreduce_serde: "derived_serde MpiIreduce_fields MpiIreduce_view T (MpiIreduce_json Js)"
    and MpiIscatter_serde: "derived_serde MpiIscatter_fields MpiIscatter_view T (MpiIscatter_json Js)"

section \<open>The tests \<open>builds\<close>\<close>

definition MpiInit_builds :: "builders \<Rightarrow> bool" where
  "MpiInit_builds B =
     (let init_new = MpiInit_new 0 1024 f64_tenth
      in passes (MpiInitBuilder B
       [Current_rank 0, Tsc 1024, Time f64_tenth])
        (\<lambda>init_builder. init_new = init_builder))"

definition MpiInitThread_builds :: "builders \<Rightarrow> bool" where
  "MpiInitThread_builds B =
     (let init_thread_new = MpiInitThread_new 0 MPI_THREAD_FUNNELED MPI_THREAD_SINGLE 1024 f64_tenth
      in passes (MpiInitThreadBuilder B
       [Current_rank 0, Required_thread_lvl MPI_THREAD_FUNNELED,
        Provided_thread_lvl MPI_THREAD_SINGLE, Tsc 1024, Time f64_tenth])
        (\<lambda>init_thread_builder. init_thread_new = init_thread_builder))"

definition MpiFinalize_builds :: "builders \<Rightarrow> bool" where
  "MpiFinalize_builds B =
     (let finalize_new = MpiFinalize_new 0 1024 f64_tenth
      in passes (MpiFinalizeBuilder B
       [Current_rank 0, Tsc 1024, Time f64_tenth])
        (\<lambda>finalize_builder. finalize_new = finalize_builder))"

definition MpiSend_builds :: "builders \<Rightarrow> bool" where
  "MpiSend_builds B =
     (let send_new = MpiSend_new 0 1 8 MPI_COMM_WORLD 42 1024 2048
      in passes (MpiSendBuilder B
       [Current_rank 0, Partner_rank 1, Nb_bytes 8, Comm MPI_COMM_WORLD, Tag 42, Tsc 1024,
        Duration 2048])
        (\<lambda>send_builder. send_new = send_builder))"

definition MpiRecv_builds :: "builders \<Rightarrow> bool" where
  "MpiRecv_builds B =
     (let recv_new = MpiRecv_new 0 1 8 MPI_COMM_WORLD 42 1024 2048
      in passes (MpiRecvBuilder B
       [Current_rank 0, Partner_rank 1, Nb_bytes 8, Comm MPI_COMM_WORLD, Tag 42, Tsc 1024,
        Duration 2048])
        (\<lambda>recv_builder. recv_new = recv_builder))"

definition MpiIsend_builds :: "builders \<Rightarrow> bool" where
  "MpiIsend_builds B =
     (let isend_new = MpiIsend_new 0 1 8 MPI_COMM_WORLD 7 42 1024 2048
      in passes (MpiIsendBuilder B
       [Current_rank 0, Partner_rank 1, Nb_bytes 8, Comm MPI_COMM_WORLD, Req 7, Tag 42,
        Tsc 1024, Duration 2048])
        (\<lambda>isend_builder. isend_new = isend_builder))"

definition MpiIrecv_builds :: "builders \<Rightarrow> bool" where
  "MpiIrecv_builds B =
     (let irecv_new = MpiIrecv_new 0 1 8 MPI_COMM_WORLD 7 42 1024 2048
      in passes (MpiIrecvBuilder B
       [Current_rank 0, Partner_rank 1, Nb_bytes 8, Comm MPI_COMM_WORLD, Req 7, Tag 42,
        Tsc 1024, Duration 2048])
        (\<lambda>irecv_builder. irecv_new = irecv_builder))"

definition MpiBarrier_builds :: "builders \<Rightarrow> bool" where
  "MpiBarrier_builds B =
     (let barrier_new = MpiBarrier_new 0 0 1024 2048
      in passes (MpiBarrierBuilder B
       [Current_rank 0, Comm 0, Tsc 1024, Duration 2048])
        (\<lambda>barrier_builder. barrier_new = barrier_builder))"

definition MpiIbarrier_builds :: "builders \<Rightarrow> bool" where
  "MpiIbarrier_builds B =
     (let ibarrier_new = MpiIbarrier_new 0 0 0 1024 2048
      in passes (MpiIbarrierBuilder B
       [Current_rank 0, Comm 0, Req 0, Tsc 1024, Duration 2048])
        (\<lambda>ibarrier_builder. ibarrier_new = ibarrier_builder))"

definition MpiTest_builds :: "builders \<Rightarrow> bool" where
  "MpiTest_builds B =
     (let test_new = MpiTest_new 0 0 False 1024 2048
      in passes (MpiTestBuilder B
       [Current_rank 0, Req 0, Finished False, Tsc 1024, Duration 2048])
        (\<lambda>test_builder. test_new = test_builder))"

definition MpiWait_builds :: "builders \<Rightarrow> bool" where
  "MpiWait_builds B =
     (let wait_new = MpiWait_new 0 0 1024 2048
      in passes (MpiWaitBuilder B
       [Current_rank 0, Req 0, Tsc 1024, Duration 2048])
        (\<lambda>wait_builder. wait_new = wait_builder))"

definition MpiIbcast_builds :: "builders \<Rightarrow> bool" where
  "MpiIbcast_builds B =
     (let ibcast_new = MpiIbcast_new 0 1 8 MPI_COMM_WORLD 7 1024 2048
      in passes (MpiIbcastBuilder B
       [Current_rank 0, Partner_rank 1, Nb_bytes 8, Comm MPI_COMM_WORLD, Req 7, Tsc 1024,
        Duration 2048])
        (\<lambda>ibcast_builder. ibcast_new = ibcast_builder))"

definition MpiIgather_builds :: "builders \<Rightarrow> bool" where
  "MpiIgather_builds B =
     (let igather_new = MpiIgather_new 0 1 8 0 MPI_COMM_WORLD 7 1024 2048
      in passes (MpiIgatherBuilder B
       [Current_rank 0, Partner_rank 1, Nb_bytes_send 8, Nb_bytes_recv 0, Comm MPI_COMM_WORLD,
        Req 7, Tsc 1024, Duration 2048])
        (\<lambda>igather_builder. igather_new = igather_builder))"

definition MpiIreduce_builds :: "builders \<Rightarrow> bool" where
  "MpiIreduce_builds B =
     (let ireduce_new = MpiIreduce_new 0 1 8 OpSum MPI_COMM_WORLD 7 1024 2048
      in passes (MpiIreduceBuilder B
       [Current_rank 0, Partner_rank 1, Nb_bytes 8, Op_type OpSum, Comm MPI_COMM_WORLD, Req 7,
        Tsc 1024, Duration 2048])
        (\<lambda>ireduce_builder. ireduce_new = ireduce_builder))"

definition MpiIscatter_builds :: "builders \<Rightarrow> bool" where
  "MpiIscatter_builds B =
     (let iscatter_new = MpiIscatter_new 0 1 8 0 MPI_COMM_WORLD 7 1024 2048
      in passes (MpiIscatterBuilder B
       [Current_rank 0, Partner_rank 1, Nb_bytes_send 8, Nb_bytes_recv 0, Comm MPI_COMM_WORLD,
        Req 7, Tsc 1024, Duration 2048])
        (\<lambda>iscatter_builder. iscatter_new = iscatter_builder))"

section \<open>The tests \<open>serializes\<close>\<close>

definition MpiInit_serializes :: "MpiInit struct_json \<Rightarrow> bool" where
  "MpiInit_serializes j =
     (let init_event = MpiInit_new 0 1024 f64_tenth;
          json = ''{\"current_rank\":0,\"tsc\":1024,\"time\":0.1}''
      in passes (struct_to_string j init_event) (\<lambda>serialized. json = serialized))"

definition MpiInitThread_serializes :: "MpiInitThread struct_json \<Rightarrow> bool" where
  "MpiInitThread_serializes j =
     (let init_thread_event = MpiInitThread_new 0 MPI_THREAD_SERIALIZED MPI_THREAD_SERIALIZED 1024 f64_tenth;
          json = ''{\"current_rank\":0,\"required_thread_lvl\":2,\"provided_thread_lvl\":2,\"tsc\":1024,\"time\":0.1}''
      in passes (struct_to_string j init_thread_event) (\<lambda>serialized. json = serialized))"

definition MpiFinalize_serializes :: "MpiFinalize struct_json \<Rightarrow> bool" where
  "MpiFinalize_serializes j =
     (let finalize_event = MpiFinalize_new 0 1024 f64_tenth;
          json = ''{\"current_rank\":0,\"tsc\":1024,\"time\":0.1}''
      in passes (struct_to_string j finalize_event) (\<lambda>serialized. json = serialized))"

definition MpiSend_serializes :: "MpiSend struct_json \<Rightarrow> bool" where
  "MpiSend_serializes j =
     (let send_event = MpiSend_new 0 1 8 MPI_COMM_WORLD 42 1024 2048;
          json = ''{\"current_rank\":0,\"partner_rank\":1,\"nb_bytes\":8,\"comm\":0,\"tag\":42,\"tsc\":1024,\"duration\":2048}''
      in passes (struct_to_string j send_event) (\<lambda>serialized. json = serialized))"

definition MpiRecv_serializes :: "MpiRecv struct_json \<Rightarrow> bool" where
  "MpiRecv_serializes j =
     (let recv_event = MpiRecv_new 0 1 8 MPI_COMM_WORLD 42 1024 2048;
          json = ''{\"current_rank\":0,\"partner_rank\":1,\"nb_bytes\":8,\"comm\":0,\"tag\":42,\"tsc\":1024,\"duration\":2048}''
      in passes (struct_to_string j recv_event) (\<lambda>serialized. json = serialized))"

definition MpiIsend_serializes :: "MpiIsend struct_json \<Rightarrow> bool" where
  "MpiIsend_serializes j =
     (let isend_event = MpiIsend_new 0 1 8 MPI_COMM_WORLD 7 42 1024 2048;
          json = ''{\"current_rank\":0,\"partner_rank\":1,\"nb_bytes\":8,\"comm\":0,\"req\":7,\"tag\":42,\"tsc\":1024,\"duration\":2048}''
      in passes (struct_to_string j isend_event) (\<lambda>serialized. json = serialized))"

definition MpiIrecv_serializes :: "MpiIrecv struct_json \<Rightarrow> bool" where
  "MpiIrecv_serializes j =
     (let irecv_event = MpiIrecv_new 0 1 8 MPI_COMM_WORLD 7 42 1024 2048;
          json = ''{\"current_rank\":0,\"partner_rank\":1,\"nb_bytes\":8,\"comm\":0,\"req\":7,\"tag\":42,\"tsc\":1024,\"duration\":2048}''
      in passes (struct_to_string j irecv_event) (\<lambda>serialized. json = serialized))"

definition MpiBarrier_serializes :: "MpiBarrier struct_json \<Rightarrow> bool" where
  "MpiBarrier_serializes j =
     (let barrier_event = MpiBarrier_new 0 0 1024 2048;
          json = ''{\"current_rank\":0,\"comm\":0,\"tsc\":1024,\"duration\":2048}''
      in passes (struct_to_string j barrier_event) (\<lambda>serialized. json = serialized))"

definition MpiIbarrier_serializes :: "MpiIbarrier struct_json \<Rightarrow> bool" where
  "MpiIbarrier_serializes j =
     (let ibarrier_event = MpiIbarrier_new 0 0 0 1024 2048;
          json = ''{\"current_rank\":0,\"comm\":0,\"req\":0,\"tsc\":1024,\"duration\":2048}''
      in passes (struct_to_string j ibarrier_event) (\<lambda>serialized. json = serialized))"

definition MpiTest_serializes :: "MpiTest struct_json \<Rightarrow> bool" where
  "MpiTest_serializes j =
     (let test_event = MpiTest_new 0 0 True 1024 2048;
          json = ''{\"current_rank\":0,\"req\":0,\"finished\":true,\"tsc\":1024,\"duration\":2048}''
      in passes (struct_to_string j test_event) (\<lambda>serialized. json = serialized))"

definition MpiWait_serializes :: "MpiWait struct_json \<Rightarrow> bool" where
  "MpiWait_serializes j =
     (let wait_event = MpiWait_new 0 0 1024 2048;
          json = ''{\"current_rank\":0,\"req\":0,\"tsc\":1024,\"duration\":2048}''
      in passes (struct_to_string j wait_event) (\<lambda>serialized. json = serialized))"

definition MpiIbcast_serializes :: "MpiIbcast struct_json \<Rightarrow> bool" where
  "MpiIbcast_serializes j =
     (let ibcast_event = MpiIbcast_new 0 0 8 MPI_COMM_WORLD 7 1024 2048;
          json = ''{\"current_rank\":0,\"partner_rank\":0,\"nb_bytes\":8,\"comm\":0,\"req\":7,\"tsc\":1024,\"duration\":2048}''
      in passes (struct_to_string j ibcast_event) (\<lambda>serialized. json = serialized))"

definition MpiIgather_serializes :: "MpiIgather struct_json \<Rightarrow> bool" where
  "MpiIgather_serializes j =
     (let igather_event = MpiIgather_new 0 0 8 64 MPI_COMM_WORLD 7 1024 2048;
          json = ''{\"current_rank\":0,\"partner_rank\":0,\"nb_bytes_send\":8,\"nb_bytes_recv\":64,\"comm\":0,\"req\":7,\"tsc\":1024,\"duration\":2048}''
      in passes (struct_to_string j igather_event) (\<lambda>serialized. json = serialized))"

definition MpiIreduce_serializes :: "MpiIreduce struct_json \<Rightarrow> bool" where
  "MpiIreduce_serializes j =
     (let ireduce_event = MpiIreduce_new 0 0 8 OpProd MPI_COMM_WORLD 7 1024 2048;
          json = ''{\"current_rank\":0,\"partner_rank\":0,\"nb_bytes\":8,\"op_type\":\"Prod\",\"comm\":0,\"req\":7,\"tsc\":1024,\"duration\":2048}''
      in passes (struct_to_string j ireduce_event) (\<lambda>serialized. json = serialized))"

definition MpiIscatter_serializes :: "MpiIscatter struct_json \<Rightarrow> bool" where
  "MpiIscatter_serializes j =
     (let iscatter_event = MpiIscatter_new 0 0 8 64 MPI_COMM_WORLD 7 1024 2048;
          json = ''{\"current_rank\":0,\"partner_rank\":0,\"nb_bytes_send\":8,\"nb_bytes_recv\":64,\"comm\":0,\"req\":7,\"tsc\":1024,\"duration\":2048}''
      in passes (struct_to_string j iscatter_event) (\<lambda>serialized. json = serialized))"

section \<open>The tests \<open>deserializes\<close>\<close>

definition MpiInit_deserializes :: "builders \<Rightarrow> MpiInit struct_json \<Rightarrow> bool" where
  "MpiInit_deserializes B j =
     passes (MpiInitBuilder B
       [Current_rank 0, Tsc 1024, Time f64_tenth])
       (\<lambda>init_event. passes (struct_to_string_pretty j init_event)
         (\<lambda>serialized. passes (struct_from_str j serialized)
           (\<lambda>deserialized. init_event = deserialized)))"

definition MpiInitThread_deserializes :: "builders \<Rightarrow> MpiInitThread struct_json \<Rightarrow> bool" where
  "MpiInitThread_deserializes B j =
     passes (MpiInitThreadBuilder B
       [Current_rank 0, Required_thread_lvl MPI_THREAD_MULTIPLE,
        Provided_thread_lvl MPI_THREAD_MULTIPLE, Tsc 1024, Time f64_tenth])
       (\<lambda>init_thread_event. passes (struct_to_string_pretty j init_thread_event)
         (\<lambda>serialized. passes (struct_from_str j serialized)
           (\<lambda>deserialized. init_thread_event = deserialized)))"

definition MpiFinalize_deserializes :: "builders \<Rightarrow> MpiFinalize struct_json \<Rightarrow> bool" where
  "MpiFinalize_deserializes B j =
     passes (MpiFinalizeBuilder B
       [Current_rank 0, Tsc 1024, Time f64_tenth])
       (\<lambda>finalize_event. passes (struct_to_string_pretty j finalize_event)
         (\<lambda>serialized. passes (struct_from_str j serialized)
           (\<lambda>deserialized. finalize_event = deserialized)))"

definition MpiSend_deserializes :: "builders \<Rightarrow> MpiSend struct_json \<Rightarrow> bool" where
  "MpiSend_deserializes B j =
     passes (MpiSendBuilder B
       [Current_rank 0, Partner_rank 1, Nb_bytes 8, Comm MPI_COMM_WORLD, Tag 42, Tsc 1024,
        Duration 2048])
       (\<lambda>send_event. passes (struct_to_string_pretty j send_event)
         (\<lambda>serialized. passes (struct_from_str j serialized)
           (\<lambda>deserialized. send_event = deserialized)))"

definition MpiRecv_deserializes :: "builders \<Rightarrow> MpiRecv struct_json \<Rightarrow> bool" where
  "MpiRecv_deserializes B j =
     passes (MpiRecvBuilder B
       [Current_rank 0, Partner_rank 1, Nb_bytes 8, Comm MPI_COMM_WORLD, Tag 42, Tsc 1024,
        Duration 2048])
       (\<lambda>recv_event. passes (struct_to_string_pretty j recv_event)
         (\<lambda>serialized. passes (struct_from_str j serialized)
           (\<lambda>deserialized. recv_event = deserialized)))"

definition MpiIsend_deserializes :: "builders \<Rightarrow> MpiIsend struct_json \<Rightarrow> bool" where
  "MpiIsend_deserializes B j =
     passes (MpiIsendBuilder B
       [Current_rank 0, Partner_rank 1, Nb_bytes 8, Comm MPI_COMM_WORLD, Req 7, Tag 42,
        Tsc 1024, Duration 2048])
       (\<lambda>isend_event. passes (struct_to_string_pretty j isend_event)
         (\<lambda>serialized. passes (struct_from_str j serialized)
           (\<lambda>deserialized. isend_event = deserialized)))"

definition MpiIrecv_deserializes :: "builders \<Rightarrow> MpiIrecv struct_json \<Rightarrow> bool" where
  "MpiIrecv_deserializes B j =
     passes (MpiIrecvBuilder B
       [Current_rank 0, Partner_rank 1, Nb_bytes 8, Comm MPI_COMM_WORLD, Req 7, Tag 42,
        Tsc 1024, Duration 2048])
       (\<lambda>irecv_event. passes (struct_to_string_pretty j irecv_event)
         (\<lambda>serialized. passes (struct_from_str j serialized)
           (\<lambda>deserialized. irecv_event = deserialized)))"

definition MpiBarrier_deserializes :: "builders \<Rightarrow> MpiBarrier struct_json \<Rightarrow> bool" where
  "MpiBarrier_deserializes B j =
     passes (MpiBarrierBuilder B
       [Current_rank 0, Comm 0, Tsc 1024, Duration 2048])
       (\<lambda>barrier_event. passes (struct_to_string_pretty j barrier_event)
         (\<lambda>serialized. passes (struct_from_str j serialized)
           (\<lambda>deserialized. barrier_event = deserialized)))"

definition MpiIbarrier_deserializes :: "builders \<Rightarrow> MpiIbarrier struct_json \<Rightarrow> bool" where
  "MpiIbarrier_deserializes B j =
     passes (MpiIbarrierBuilder B
       [Current_rank 0, Comm 0, Req 0, Tsc 1024, Duration 2048])
       (\<lambda>ibarrier_event. passes (struct_to_string_pretty j ibarrier_event)
         (\<lambda>serialized. passes (struct_from_str j serialized)
           (\<lambda>deserialized. ibarrier_event = deserialized)))"

definition MpiTest_deserializes :: "builders \<Rightarrow> MpiTest struct_json \<Rightarrow> bool" where
  "MpiTest_deserializes B j =
     passes (MpiTestBuilder B
       [Current_rank 0, Req 0, Finished True, Tsc 1024, Duration 2048])
       (\<lambda>test_event. passes (struct_to_string_pretty j test_event)
         (\<lambda>serialized. passes (struct_from_str j serialized)
           (\<lambda>deserialized. test_event = deserialized)))"

definition MpiWait_deserializes :: "builders \<Rightarrow> MpiWait struct_json \<Rightarrow> bool" where
  "MpiWait_deserializes B j =
     passes (MpiWaitBuilder B
       [Current_rank 0, Req 0, Tsc 1024, Duration 2048])
       (\<lambda>wait_event. passes (struct_to_string_pretty j wait_event)
         (\<lambda>serialized. passes (struct_from_str j serialized)
           (\<lambda>deserialized. wait_event = deserialized)))"

definition MpiIbcast_deserializes :: "builders \<Rightarrow> MpiIbcast struct_json \<Rightarrow> bool" where
  "MpiIbcast_deserializes B j =
     passes (MpiIbcastBuilder B
       [Current_rank 1, Partner_rank 0, Nb_bytes 8, Comm MPI_COMM_WORLD, Req 7, Tsc 1024,
        Duration 2048])
       (\<lambda>ibcast_event. passes (struct_to_string_pretty j ibcast_event)
         (\<lambda>serialized. passes (struct_from_str j serialized)
           (\<lambda>deserialized. ibcast_event = deserialized)))"

definition MpiIgather_deserializes :: "builders \<Rightarrow> MpiIgather struct_json \<Rightarrow> bool" where
  "MpiIgather_deserializes B j =
     passes (MpiIgatherBuilder B
       [Current_rank 1, Partner_rank 0, Nb_bytes_send 64, Nb_bytes_recv 0, Comm MPI_COMM_WORLD,
        Req 7, Tsc 1024, Duration 2048])
       (\<lambda>igather_event. passes (struct_to_string_pretty j igather_event)
         (\<lambda>serialized. passes (struct_from_str j serialized)
           (\<lambda>deserialized. igather_event = deserialized)))"

definition MpiIreduce_deserializes :: "builders \<Rightarrow> MpiIreduce struct_json \<Rightarrow> bool" where
  "MpiIreduce_deserializes B j =
     passes (MpiIreduceBuilder B
       [Current_rank 1, Partner_rank 0, Nb_bytes 8, Op_type OpMax, Comm MPI_COMM_WORLD, Req 7,
        Tsc 1024, Duration 2048])
       (\<lambda>ireduce_event. passes (struct_to_string_pretty j ireduce_event)
         (\<lambda>serialized. passes (struct_from_str j serialized)
           (\<lambda>deserialized. ireduce_event = deserialized)))"

definition MpiIscatter_deserializes :: "builders \<Rightarrow> MpiIscatter struct_json \<Rightarrow> bool" where
  "MpiIscatter_deserializes B j =
     passes (MpiIscatterBuilder B
       [Current_rank 1, Partner_rank 0, Nb_bytes_send 64, Nb_bytes_recv 0, Comm MPI_COMM_WORLD,
        Req 7, Tsc 1024, Duration 2048])
       (\<lambda>iscatter_event. passes (struct_to_string_pretty j iscatter_event)
         (\<lambda>serialized. passes (struct_from_str j serialized)
           (\<lambda>deserialized. iscatter_event = deserialized)))"

section \<open>The tests pass\<close>

lemma digit_chars:
  "digit_char 0 = CHR ''0''" "digit_char 1 = CHR ''1''" "digit_char 2 = CHR ''2''"
  "digit_char 3 = CHR ''3''" "digit_char 4 = CHR ''4''" "digit_char 5 = CHR ''5''"
  "digit_char 6 = CHR ''6''" "digit_char 7 = CHR ''7''" "digit_char 8 = CHR ''8''"
  "digit_char 9 = CHR ''9''" "digit_char (Suc 0) = CHR ''1''"
  by code_simp+

lemma shown_numbers:
  "show_nat 0 = ''0''" "show_nat (Suc 0) = ''1''" "show_nat 1 = ''1''" "show_nat 2 = ''2''" "show_nat 3 = ''3''"
  "show_nat 7 = ''7''" "show_nat 8 = ''8''" "show_nat 42 = ''42''" "show_nat 64 = ''64''"
  "show_nat 1024 = ''1024''" "show_nat 2048 = ''2048''"
  by (simp_all add: show_nat.simps digit_chars)

text \<open>The text of doubles prints 0.1 as the tests write it, and reads it back.\<close>

definition prints_tenth :: "float_text \<Rightarrow> bool" where
  "prints_tenth T \<longleftrightarrow> show_f64 T f64_tenth = ''0.1'' \<and> read_f64 T ''0.1'' = Some f64_tenth"

lemma tenth_finite [simp]: "f64_is_finite f64_tenth"
  by (simp add: f64_is_finite_def f64_tenth_def drop_bit_eq_div)

lemma tenth_exact:
  assumes "prints_tenth T"
  shows "field_exact T (Time f64_tenth)" and "show_f64 T f64_tenth = ''0.1''"
  using assms by (simp_all add: field_exact_def prints_tenth_def)

lemma other_exact [simp]:
  "field_exact T (Current_rank rk)" "field_exact T (Partner_rank rk)" "field_exact T (Nb_bytes nb)"
  "field_exact T (Nb_bytes_send nb)" "field_exact T (Nb_bytes_recv nb)" "field_exact T (Comm cm)"
  "field_exact T (Req rq)" "field_exact T (Tag tg)" "field_exact T (Required_thread_lvl lvl)"
  "field_exact T (Provided_thread_lvl lvl)" "field_exact T (Finished fin)"
  "field_exact T (Op_type opt)" "field_exact T (Tsc ts)" "field_exact T (Duration dur)"
  by (simp_all add: field_exact_def)

lemma test_struct_json:
  assumes "derived_serde names view T j" and "list_all (field_exact T) (view e)"
    and "object_text T (view e) = json"
  shows "passes (struct_to_string j e) (\<lambda>serialized. json = serialized)"
  using derived_serde.to_text [OF assms(1,2)] assms(3) by simp

lemma test_struct_reads:
  assumes "derived_serde names view T j" and "list_all (field_exact T) (view e)"
  shows "passes (struct_to_string_pretty j e) (\<lambda>serialized. passes (struct_from_str j serialized)
    (\<lambda>deserialized. e = deserialized))"
  using derived_serde.reads_pretty [OF assms] by auto

lemmas test_text = object_text_def member_text_def show_i32_def show_int_def shown_numbers op_name_def
  MPI_COMM_WORLD_def MPI_THREAD_SINGLE_def MPI_THREAD_FUNNELED_def MPI_THREAD_SERIALIZED_def
  MPI_THREAD_MULTIPLE_def

lemmas builds_defs =
  MpiInit_builds_def MpiInitThread_builds_def MpiFinalize_builds_def MpiSend_builds_def
  MpiRecv_builds_def MpiIsend_builds_def MpiIrecv_builds_def MpiBarrier_builds_def
  MpiIbarrier_builds_def MpiTest_builds_def MpiWait_builds_def MpiIbcast_builds_def
  MpiIgather_builds_def MpiIreduce_builds_def MpiIscatter_builds_def

lemmas serializes_defs =
  MpiInit_serializes_def MpiInitThread_serializes_def MpiFinalize_serializes_def
  MpiSend_serializes_def MpiRecv_serializes_def MpiIsend_serializes_def MpiIrecv_serializes_def
  MpiBarrier_serializes_def MpiIbarrier_serializes_def MpiTest_serializes_def
  MpiWait_serializes_def MpiIbcast_serializes_def MpiIgather_serializes_def
  MpiIreduce_serializes_def MpiIscatter_serializes_def

lemmas deserializes_defs =
  MpiInit_deserializes_def MpiInitThread_deserializes_def MpiFinalize_deserializes_def
  MpiSend_deserializes_def MpiRecv_deserializes_def MpiIsend_deserializes_def
  MpiIrecv_deserializes_def MpiBarrier_deserializes_def MpiIbarrier_deserializes_def
  MpiTest_deserializes_def MpiWait_deserializes_def MpiIbcast_deserializes_def
  MpiIgather_deserializes_def MpiIreduce_deserializes_def MpiIscatter_deserializes_def

context derived_serdes
begin

lemmas serdes = MpiInit_serde MpiInitThread_serde MpiFinalize_serde MpiSend_serde MpiRecv_serde
  MpiIsend_serde MpiIrecv_serde MpiBarrier_serde MpiIbarrier_serde MpiTest_serde MpiWait_serde
  MpiIbcast_serde MpiIgather_serde MpiIreduce_serde MpiIscatter_serde

lemma serializes_ok:
  assumes "prints_tenth T"
  shows "MpiInit_serializes (MpiInit_json Js) \<and>
    MpiInitThread_serializes (MpiInitThread_json Js) \<and>
    MpiFinalize_serializes (MpiFinalize_json Js) \<and>
    MpiSend_serializes (MpiSend_json Js) \<and> MpiRecv_serializes (MpiRecv_json Js) \<and>
    MpiIsend_serializes (MpiIsend_json Js) \<and> MpiIrecv_serializes (MpiIrecv_json Js) \<and>
    MpiBarrier_serializes (MpiBarrier_json Js) \<and>
    MpiIbarrier_serializes (MpiIbarrier_json Js) \<and>
    MpiTest_serializes (MpiTest_json Js) \<and> MpiWait_serializes (MpiWait_json Js) \<and>
    MpiIbcast_serializes (MpiIbcast_json Js) \<and>
    MpiIgather_serializes (MpiIgather_json Js) \<and>
    MpiIreduce_serializes (MpiIreduce_json Js) \<and>
    MpiIscatter_serializes (MpiIscatter_json Js)"
  unfolding serializes_defs Let_def
  by (intro conjI; rule test_struct_json, rule serdes,
      simp_all add: test_text tenth_exact [OF assms])

lemma deserializes_ok:
  assumes "prints_tenth T" and B: "derived_builders B"
  shows "MpiInit_deserializes B (MpiInit_json Js) \<and>
    MpiInitThread_deserializes B (MpiInitThread_json Js) \<and>
    MpiFinalize_deserializes B (MpiFinalize_json Js) \<and>
    MpiSend_deserializes B (MpiSend_json Js) \<and>
    MpiRecv_deserializes B (MpiRecv_json Js) \<and>
    MpiIsend_deserializes B (MpiIsend_json Js) \<and>
    MpiIrecv_deserializes B (MpiIrecv_json Js) \<and>
    MpiBarrier_deserializes B (MpiBarrier_json Js) \<and>
    MpiIbarrier_deserializes B (MpiIbarrier_json Js) \<and>
    MpiTest_deserializes B (MpiTest_json Js) \<and>
    MpiWait_deserializes B (MpiWait_json Js) \<and>
    MpiIbcast_deserializes B (MpiIbcast_json Js) \<and>
    MpiIgather_deserializes B (MpiIgather_json Js) \<and>
    MpiIreduce_deserializes B (MpiIreduce_json Js) \<and>
    MpiIscatter_deserializes B (MpiIscatter_json Js)"
  unfolding deserializes_defs derived_builders.build_new [OF B] passes_Inr
  by (intro conjI; rule test_struct_reads, rule serdes, simp_all add: tenth_exact [OF assms(1)])

end

section \<open>The reference instance\<close>

text \<open>Doubles as their bits, but 0.1 as the tests have it.\<close>

definition tenth_text :: float_text where
  "tenth_text =
     \<lparr>show_f64 = (\<lambda>x. if x = f64_tenth then ''0.1'' else show_f64 bits_text x),
      read_f64 = (\<lambda>s. if s = ''0.1'' then Some f64_tenth else read_f64 bits_text s)\<rparr>"

lemma show_nat_not_tenth: "show_nat n \<noteq> ''0.1''"
proof
  assume "show_nat n = ''0.1''"
  then have "is_digit_char (CHR ''.'')" using show_nat_digits [of n] by simp
  then show False by (simp add: is_digit_char_def)
qed

interpretation tenth_text: float_format tenth_text id
proof
  show "token_ok (TNum (show_f64 tenth_text x))" for x
    using show_nat_token_ok [of "unat x"]
    by (auto simp: tenth_text_def bits_text_def num_start_def word_char_def is_digit_char_def
        simp del: show_nat_token_ok)
  show "read_f64 tenth_text (show_f64 tenth_text x) = Some (id x)" for x
    by (simp add: tenth_text_def bits_text_def show_nat_not_tenth)
qed simp

definition reference_jsons :: struct_jsons where
  "reference_jsons =
     \<lparr>MpiInit_json = reference_json MpiInit_fields MpiInit_view MpiInit_reference tenth_text,
      MpiInitThread_json = reference_json MpiInitThread_fields MpiInitThread_view MpiInitThread_reference tenth_text,
      MpiFinalize_json = reference_json MpiFinalize_fields MpiFinalize_view MpiFinalize_reference tenth_text,
      MpiSend_json = reference_json MpiSend_fields MpiSend_view MpiSend_reference tenth_text,
      MpiRecv_json = reference_json MpiRecv_fields MpiRecv_view MpiRecv_reference tenth_text,
      MpiIsend_json = reference_json MpiIsend_fields MpiIsend_view MpiIsend_reference tenth_text,
      MpiIrecv_json = reference_json MpiIrecv_fields MpiIrecv_view MpiIrecv_reference tenth_text,
      MpiBarrier_json = reference_json MpiBarrier_fields MpiBarrier_view MpiBarrier_reference tenth_text,
      MpiIbarrier_json = reference_json MpiIbarrier_fields MpiIbarrier_view MpiIbarrier_reference tenth_text,
      MpiTest_json = reference_json MpiTest_fields MpiTest_view MpiTest_reference tenth_text,
      MpiWait_json = reference_json MpiWait_fields MpiWait_view MpiWait_reference tenth_text,
      MpiIbcast_json = reference_json MpiIbcast_fields MpiIbcast_view MpiIbcast_reference tenth_text,
      MpiIgather_json = reference_json MpiIgather_fields MpiIgather_view MpiIgather_reference tenth_text,
      MpiIreduce_json = reference_json MpiIreduce_fields MpiIreduce_view MpiIreduce_reference tenth_text,
      MpiIscatter_json = reference_json MpiIscatter_fields MpiIscatter_view MpiIscatter_reference tenth_text\<rparr>"

interpretation reference_jsons: derived_serdes tenth_text reference_jsons
  unfolding reference_jsons_def
  by (rule derived_serdes.intro; simp only: struct_jsons.select_convs;
      rule reference_axioms [THEN tenth_text.reference_json_derived]; simp add: struct_defs)

section \<open>The tests pass\<close>

text \<open>
  Every test \<open>builds\<close> passes: for each event struct the builder, given the values in the test, makes
  the struct that \<open>new\<close> makes of them.
\<close>

theorem builds_tests_pass:
  assumes "derived_builders B"
  shows "MpiInit_builds B \<and> MpiInitThread_builds B \<and> MpiFinalize_builds B \<and>
    MpiSend_builds B \<and> MpiRecv_builds B \<and> MpiIsend_builds B \<and>
    MpiIrecv_builds B \<and> MpiBarrier_builds B \<and> MpiIbarrier_builds B \<and>
    MpiTest_builds B \<and> MpiWait_builds B \<and> MpiIbcast_builds B \<and>
    MpiIgather_builds B \<and> MpiIreduce_builds B \<and> MpiIscatter_builds B"
  unfolding builds_defs Let_def derived_builders.build_new [OF assms] by simp

theorem builds_tests_pass_witness:
  "MpiIreduce_builds reference_builders \<and> MpiInitThread_builds reference_builders"
  using builds_tests_pass [OF reference.derived_builders_axioms] by simp

text \<open>
  Every test \<open>serializes\<close> and \<open>deserializes\<close> passes: the compact text of each struct is the one the
  test writes out, fields in declaration order and enums by name, and the readable text of a struct
  is read back as the same struct.
\<close>

theorem json_tests_pass:
  assumes "derived_builders B" and "derived_serdes T Js" and "prints_tenth T"
  shows "MpiInit_serializes (MpiInit_json Js) \<and>
    MpiInitThread_serializes (MpiInitThread_json Js) \<and>
    MpiFinalize_serializes (MpiFinalize_json Js) \<and>
    MpiSend_serializes (MpiSend_json Js) \<and> MpiRecv_serializes (MpiRecv_json Js) \<and>
    MpiIsend_serializes (MpiIsend_json Js) \<and> MpiIrecv_serializes (MpiIrecv_json Js) \<and>
    MpiBarrier_serializes (MpiBarrier_json Js) \<and>
    MpiIbarrier_serializes (MpiIbarrier_json Js) \<and>
    MpiTest_serializes (MpiTest_json Js) \<and> MpiWait_serializes (MpiWait_json Js) \<and>
    MpiIbcast_serializes (MpiIbcast_json Js) \<and>
    MpiIgather_serializes (MpiIgather_json Js) \<and>
    MpiIreduce_serializes (MpiIreduce_json Js) \<and>
    MpiIscatter_serializes (MpiIscatter_json Js) \<and>
    MpiInit_deserializes B (MpiInit_json Js) \<and>
    MpiInitThread_deserializes B (MpiInitThread_json Js) \<and>
    MpiFinalize_deserializes B (MpiFinalize_json Js) \<and>
    MpiSend_deserializes B (MpiSend_json Js) \<and>
    MpiRecv_deserializes B (MpiRecv_json Js) \<and>
    MpiIsend_deserializes B (MpiIsend_json Js) \<and>
    MpiIrecv_deserializes B (MpiIrecv_json Js) \<and>
    MpiBarrier_deserializes B (MpiBarrier_json Js) \<and>
    MpiIbarrier_deserializes B (MpiIbarrier_json Js) \<and>
    MpiTest_deserializes B (MpiTest_json Js) \<and>
    MpiWait_deserializes B (MpiWait_json Js) \<and>
    MpiIbcast_deserializes B (MpiIbcast_json Js) \<and>
    MpiIgather_deserializes B (MpiIgather_json Js) \<and>
    MpiIreduce_deserializes B (MpiIreduce_json Js) \<and>
    MpiIscatter_deserializes B (MpiIscatter_json Js)"
  using derived_serdes.serializes_ok [OF assms(2,3)] derived_serdes.deserializes_ok [OF assms(2,3,1)]
  by simp

theorem json_tests_pass_witness:
  "prints_tenth tenth_text \<and> MpiIreduce_serializes (MpiIreduce_json reference_jsons) \<and>
   MpiInit_deserializes reference_builders (MpiInit_json reference_jsons)"
proof -
  have "prints_tenth tenth_text" by (simp add: prints_tenth_def tenth_text_def)
  with json_tests_pass [OF reference.derived_builders_axioms reference_jsons.derived_serdes_axioms this]
  show ?thesis by simp
qed

end
