(* ===== verification/Spec2Isabelle.thy ===== *)
theory Spec2Isabelle
  imports Job_Failure Faulty_Job Threaded_Job Job_History Fortran_Programs Time_Stamp Unit_Tests
begin

text \<open>
  A verification development for Interpol, a tracer for MPI programs.

  The program. Wrappers in C and Fortran (\<open>src/interpol-c.c\<close>, \<open>src/interpol-f.c\<close>) intercept MPI calls
  through the profiling interface, time them, and hand a record \<open>MpiCall\<close> to the Rust back end
  (\<open>interpol-rs/src\<close>): \<open>register_mpi_call\<close> dispatches on the kind of the call to one registration
  function per MPI function, which builds an event struct, takes the lock on the static vector
  \<open>EVENTS\<close> and pushes the event. At \<open>MPI_Finalize\<close> the process writes its vector as JSON to
  \<open>interpol-tmp/rank<r>_traces.json\<close>; after a barrier rank 0 calls \<open>sort_all_traces\<close>, which reads all
  trace files of the directory, sorts the events by time stamp and writes \<open>interpol_traces.json\<close>.

  The theories, from the code's types to whole jobs.

  \<^item> \<open>Prelude\<close>: machine integers at their width, the outcomes of a Rust function (\<open>Done\<close>, \<open>Panicked\<close>,
    \<open>Aborted\<close>), decimal printing.
  \<^item> \<open>Mpi_Types\<close> (\<open>types.rs\<close>, \<open>MpiCall\<close>): the enums with their \<open>repr(i8)\<close> discriminants, the call record.
  \<^item> \<open>Interpol_Error\<close> (\<open>lib.rs\<close>): the error type, its text and its conversions.
  \<^item> \<open>Struct_Fields\<close>, \<open>Management_Events\<close>, \<open>Point_To_Point_Events\<close>, \<open>Synchronization_Events\<close>,
    \<open>Collective_Events\<close> (\<open>mpi_events\<close>): the fifteen event structs, as records with their constructor
    \<open>new\<close> and their fields in declaration order.
  \<^item> \<open>Register_Trait\<close> and \<open>Trace_Vec\<close> (trait \<open>Register\<close> and macro \<open>impl_register\<close>): trait objects as a
    datatype, the method \<open>register\<close> on a growing vector. \<open>Append_Log\<close> is the interface between the
    vector and its users: a log that only grows.
  \<^item> \<open>File_System\<close>: the directory \<open>interpol-tmp\<close> and the operations of \<open>std::fs\<close> that the program uses,
    under a system that may refuse each of them, stop a write, and list a directory in any order.
  \<^item> \<open>Process_State\<close> (\<open>EVENTS\<close>): the mutex with its poison flag, the vector, the disk, the two output
    streams; taking the lock and registering under it.
  \<^item> \<open>Trace_Output\<close> (\<open>serialize\<close>, \<open>write_all_traces\<close>), \<open>Registration\<close> (the fifteen \<open>register_*\<close>
    functions, \<open>dispatch\<close>, \<open>register_mpi_call\<close>), \<open>Trace_Merge\<close> (\<open>deserialize_all_traces\<close>,
    \<open>sort_all_traces\<close>), \<open>Mpi_Job\<close> (the calls of a rank in sequence, all ranks of a job).
  \<^item> \<open>Job_Steps\<close> (\<open>MPI_Finalize\<close> of \<open>interpol-c.c\<close>): the ranks of a job side by side on the shared
    directory, with the two barriers around the finalize call, as an inductive step relation;
    \<open>Job_Failure\<close>: what becomes of a job in which a rank dies.
  \<^item> \<open>Faulty_Job\<close>: jobs in which recording may fail as long as every rank writes its file; \<open>Job_History\<close>:
    jobs one after the other in the same directory, and the map from ranks to traces they refine.
  \<^item> \<open>Call_Boundary\<close> (\<open>interpol.h\<close>): the struct at the boundary, how Rust reads it, the static
    \<open>current_rank\<close>, and the contract of a family of wrappers (\<open>wrapper_family\<close>, extended to
    \<open>traced_family\<close>). \<open>C_Wrappers\<close> (\<open>interpol-c.c\<close>): the struct that each of the fifteen C wrappers
    fills; \<open>Program_Trace\<close>: from whole C programs to the aggregate. \<open>Fortran_Wrappers\<close> and
    \<open>Fortran_Programs\<close> (\<open>interpol-f.c\<close>): the same for the Fortran bindings, with the pointers that the
    code casts, and what the wrappers hand back to the program.
  \<^item> \<open>Time_Stamp\<close> (\<open>tsc.h\<close>): the assembly that reads the time stamp counter, instruction by instruction.
  \<^item> \<open>Thread_Steps\<close> and \<open>Thread_Safety\<close>: threads of one process as an inductive step relation that
    interleaves the calls at their accesses to the mutex; \<open>Threaded_Job\<close>: jobs whose ranks have threads.
  \<^item> \<open>Json_Text\<close>, \<open>Json_Codec\<close>, \<open>Reference_Serde\<close>: a reference JSON encoder and decoder of events;
    \<open>Struct_Json\<close> the JSON of a struct on its own.
  \<^item> \<open>Unit_Tests\<close> (the test modules of \<open>mpi_events\<close>): the three unit tests of each event struct.
  \<^item> \<open>Recording_Properties\<close>, \<open>Merge_Properties\<close> and this theory: the properties.

  What is a parameter. Code of other crates is an argument of the definitions that call it, and what
  the crates document is a locale: the builders of \<open>derive_builder\<close> (locales \<open>derive_builder\<close>,
  \<open>derived_builders\<close>), the JSON of serde, serde\_json and typetag (\<open>serde_codec\<close>, up to the reading of
  doubles; for a single struct \<open>derived_serde\<close>, \<open>derived_serdes\<close>), the parallel sort of rayon
  (\<open>unstable_sort\<close>). Each locale has a reference instance, which satisfies it and on which the
  witnesses compute. The MPI library is an argument of the wrappers without assumptions, but for the
  conversion of requests in the comparison with Fortran. The allocator and the operating system are
  parameters too, of every call anew, so that a theorem covers every pattern of faults. The standard
  library is modelled: \<open>Vec\<close> on a 64-bit target with exact capacities, \<open>Mutex\<close> with poisoning, the
  files. The vector's contract (\<open>append_log\<close>), the files' (\<open>file_store\<close>), the fields' (\<open>struct_fields\<close>)
  and the step relation's (\<open>step_invariant\<close>, \<open>step_measure\<close>) are locales interpreted on the model.

  What is shown. The vector: no panic, no loss, the wrap-free request, capacity and cost of growth.
  One call and runs of calls: every call leaves its event or an error line with its rank, in order
  (\<open>accounted\<close>), dispatching records the event of the call (\<open>event_of_call\<close>). Finalize and files: exact contents, frames, what a fault leaves. The
  aggregation: a sorted permutation of the events of all trace files, its independence of the listing
  and the sort, idempotence, its panics. Threads: mutual exclusion, linearization to calls one by one,
  program order, freedom from deadlock, termination of every run, and that nothing is lost. Jobs: the
  aggregate of a whole run, ranks one after the other and in every interleaving between the barriers,
  whose steps are bounded and which without faults do not get stuck; ranks with threads, each of whose
  schedules ends with the same aggregate; with faults, that every call of a rank is in the aggregate or
  on the error stream of that rank, and that a rank that dies keeps the others at the barrier and the
  aggregate unwritten; several jobs, whose directory is the map of the latest traces. Wrappers: the event
  the back end makes of a wrapper's struct (\<open>passed\<close>) and exactly when it is the one that the Rust
  documentation promises (\<open>documented\<close>: the time in microseconds, all bytes), the bytes that Rust may not
  read, that whole C and Fortran programs are traced call by call, where the Fortran wrappers differ, and
  the cycles that a duration counts. The unit tests of the repository pass on the model; they are fixed
  inputs and validate the definitions. All definitions are total and no fuel is used; the only unbounded loops of the program run over lists.

  What is not modelled. The work of the MPI library behind the calls that the wrappers pass on; the
  branch of the Fortran wrappers for libraries without the MPI-2 conversions, and the hash function in
  their file, which nothing calls; the ordering of loads by the fence around the counter; the build
  script; a failing print, text that is not UTF-8 (a read error of the system parameter), memory
  exhaustion outside the recording of events, and the text of a duration. The C wrappers multiply
  sizes and counts as signed integers, whose overflow is undefined in C; the model wraps. Reading an
  \<open>op_type\<close> that is no \<open>MpiOp\<close> is undefined in Rust; \<open>passed_as\<close> takes it for some operation, any one,
  and the theorems about whole programs hold for each choice. A panic leaves an
  \<open>extern "C"\<close> function: the model stops the thread or the rank there, where recent compilers abort the
  process. The barrier in \<open>MPI_Init\<close> only removes interleavings and is left out, as is
  \<open>PMPI_Finalize\<close>, the last act of a rank. Two ranks write their files at
  the same time, each another one: a call of the back end is one step of the job. Threads and ranks are
  not interleaved with each other: in \<open>Threaded_Job\<close> the ranks come one after the other.

  The plan from here: ranks with threads inside the interleavings of \<open>Job_Steps\<close>, and the error lines
  of ranks that run side by side.
\<close>

section \<open>Jobs\<close>

definition sample_job :: job where
  "sample_job =
     [(0, [(generous_allocator, healthy_os, sample_call Send 0 5),
           (generous_allocator, healthy_os, sample_call Finalize 0 9)]),
      (1, [(generous_allocator, healthy_os, sample_call Recv 1 3),
           (generous_allocator, healthy_os, sample_call Finalize 1 8)])]"

lemma sample_job_ok: "job_ok sample_job"
proof -
  have "finite_times (map event_of_call [sample_call k rk ts, sample_call k' rk' ts'])"
    for k rk ts k' rk' ts'
  proof -
    have "finite_times ([event_of_call (sample_call k rk ts)] @ [event_of_call (sample_call k' rk' ts')])"
      unfolding finite_times_simps using sample_finite by blast
    then show ?thesis by simp
  qed
  then show ?thesis
    by (simp add: job_ok_def sample_job_def rank_run_def call_of_def fits_def elem_size_def
        isize_max_def)
qed

theorem job_trace_complete_witness:
  "\<exists>d' out p'. run_ranks reference_builders reference_serde sample_job None = Some d' \<and>
    sort_all_traces reference_serde reference_sort healthy_os ((process_init None)\<lparr>disk := d'\<rparr>) =
      (Done (), p') \<and>
    content (disk p') (in_dir aggregate_file) = Some (text_of out) \<and>
    map Register_tsc out = [3, 5, 8, 9]"
proof -
  have "mergeable reference_serde (entries None)" by (simp add: mergeable_def)
  moreover have "sample_job \<noteq> []" by (simp add: sample_job_def)
  ultimately obtain d' out json p' where
    run: "run_ranks reference_builders reference_serde sample_job None = Some d'"
      "sort_all_traces reference_serde reference_sort healthy_os ((process_init None)\<lparr>disk := d'\<rparr>) =
        (Done (), p')"
      "content (disk p') (in_dir aggregate_file) = Some json"
    and json: "to_string reference_serde out = Inr json"
    and out: "mset out = job_events id sample_job +
        disk_events reference_serde (leftovers sample_job (entries None))"
    and sorted: "sorted (map Register_tsc out)"
    using job_trace_complete [OF reference.derived_builders_axioms reference_serde.serde_codec_axioms
        reference_sort.unstable_sort_axioms sample_job_ok _ _ healthy_os_healthy(1), of None "process_init None"]
    by auto
  have "mset out = mset [event_of_call (sample_call Send 0 5), event_of_call (sample_call Finalize 0 9),
      event_of_call (sample_call Recv 1 3), event_of_call (sample_call Finalize 1 8)]"
    using out by (simp add: job_events_def sample_job_def recorded_def leftovers_def disk_events_def
        call_of_def)
  then have "mset (map Register_tsc out) = mset [5, 9, 3, 8]"
    unfolding mset_map by (simp add: add_mset_commute)
  then have "sort [5, 9, 3, 8] = map Register_tsc out"
    by (metis properties_for_sort sorted)
  moreover have "text_of out = json" using json by (simp add: text_of_def)
  ultimately show ?thesis using run by (auto intro!: exI [where x = out])
qed

text \<open>
  C27: a trace file that an earlier job left behind, of a rank that the present job does not have, is
  merged into the present job's aggregate.
\<close>

theorem stale_trace_is_merged:
  assumes "derived_builders B" and "serde_codec J reread" and "unstable_sort par_sort"
    and "job_ok ranks" and "ranks \<noteq> []" and "mergeable J (entries d)" and "healthy S"
    and "(rank_file r, File c) \<in> set (entries d)" and "r \<notin> fst ` set ranks"
    and "from_str J c = Inr evs" and "e \<in> set evs"
  shows "\<exists>d' out json p'. run_ranks B J ranks d = Some d' \<and>
    sort_all_traces J par_sort S (p\<lparr>disk := d'\<rparr>) = (Done (), p') \<and>
    content (disk p') (in_dir aggregate_file) = Some json \<and>
    (if wants_readable S then to_string_pretty J out else to_string J out) = Inr json \<and> e \<in> set out"
proof -
  have "(rank_file r, File c) \<in> set (leftovers ranks (entries d))"
    using assms(8,9) by (auto simp: leftovers_def image_iff)
  then have stale: "e \<in># disk_events J (leftovers ranks (entries d))"
    using assms(10,11)
    by (force simp: disk_events_def node_events_def intro!: bexI [where x = "(rank_file r, File c)"])
  from job_trace_complete [OF assms(1-7), of p] obtain d' out json p'
    where "run_ranks B J ranks d = Some d'"
      "sort_all_traces J par_sort S (p\<lparr>disk := d'\<rparr>) = (Done (), p')"
      "content (disk p') (in_dir aggregate_file) = Some json"
      "(if wants_readable S then to_string_pretty J out else to_string J out) = Inr json"
      and out: "mset out = job_events reread ranks + disk_events J (leftovers ranks (entries d))"
    by blast
  moreover have "e \<in> set out"
    using stale out by (metis set_mset_mset union_iff)
  ultimately show ?thesis by blast
qed

theorem stale_trace_is_merged_witness:
  "\<exists>d' out p'. run_ranks reference_builders reference_serde sample_job
       (Some [(rank_file 7, File (text_of sample_events))]) = Some d' \<and>
     sort_all_traces reference_serde reference_sort healthy_os ((process_init None)\<lparr>disk := d'\<rparr>) =
      (Done (), p') \<and>
     event_of_call (sample_call Send 0 5) \<in> set out \<and>
     content (disk p') (in_dir aggregate_file) = Some (text_of out)"
proof -
  let ?d = "Some [(rank_file 7, File (text_of sample_events))]"
  have "mergeable reference_serde (entries ?d)"
    using sample_events_read by (simp add: mergeable_def)
  moreover have "sample_job \<noteq> []" by (simp add: sample_job_def)
  moreover have "(7::MpiRank) \<notin> fst ` set sample_job" by (simp add: sample_job_def)
  moreover have "event_of_call (sample_call Send 0 5) \<in> set sample_events"
    by (simp add: sample_events_def)
  ultimately obtain d' out json p' where
    "run_ranks reference_builders reference_serde sample_job ?d = Some d'"
    "sort_all_traces reference_serde reference_sort healthy_os ((process_init None)\<lparr>disk := d'\<rparr>) =
      (Done (), p')"
    "content (disk p') (in_dir aggregate_file) = Some json"
    and json: "to_string reference_serde out = Inr json"
    and "event_of_call (sample_call Send 0 5) \<in> set out"
    using stale_trace_is_merged [OF reference.derived_builders_axioms reference_serde.serde_codec_axioms
        reference_sort.unstable_sort_axioms sample_job_ok _ _ healthy_os_healthy(1) _ _
        sample_events_read, of ?d 7 "event_of_call (sample_call Send 0 5)" "process_init None"]
    by auto
  moreover have "text_of out = json" using json by (simp add: text_of_def)
  ultimately show ?thesis by blast
qed

section \<open>Ranks side by side\<close>

definition sample_ranks :: "env_call list list" where
  "sample_ranks = map snd sample_job"

lemma sample_ranks_faultless:
  "faultless reference_builders reference_serde id reference_sort healthy_os sample_ranks None"
proof -
  have "job_of sample_ranks = sample_job" "sample_ranks \<noteq> []"
    by (simp_all add: job_of_def job_entry_def sample_ranks_def sample_job_def upt_rec)
  then show ?thesis
    using sample_job_ok reference.derived_builders_axioms reference_serde.serde_codec_axioms
      reference_sort.unstable_sort_axioms
    by (simp add: faultless_def mergeable_def)
qed

abbreviation sample_cstep :: "cluster \<Rightarrow> cluster \<Rightarrow> bool" where
  "sample_cstep \<equiv> cstep reference_builders reference_serde reference_sort healthy_os"

abbreviation sample_cluster :: cluster where
  "sample_cluster \<equiv> cluster_init sample_ranks None"

lemma sample_cluster_run:
  obtains m n where "(sample_cstep ^^ n) sample_cluster m" and "\<forall>m'. \<not> sample_cstep m m'"
    and "sample_cstep\<^sup>*\<^sup>* sample_cluster m" and "length (members m) = 2"
    and "list_all (\<lambda>x. rank_stage x = Exited) (members m)"
proof -
  obtain m where star: "sample_cstep\<^sup>*\<^sup>* sample_cluster m" and final: "\<forall>m'. \<not> sample_cstep m m'"
    using cluster_runs.reaches_final by blast
  note ok = cluster_ok_steps [OF sample_ranks_faultless star]
  have "length (members m) = 2"
    using ok by (simp add: cluster_ok_def sample_ranks_def sample_job_def)
  moreover have "list_all (\<lambda>x. rank_stage x = Exited) (members m)"
    using cluster_progress [OF sample_ranks_faultless ok] final by blast
  ultimately show ?thesis
    using rtranclp_imp_relpowp [OF star] star final that by blast
qed

text \<open>
  C2: the whole program with the ranks of a job side by side. However the calls of the ranks interleave
  between the barriers of \<open>MPI_Finalize\<close>, once rank 0 has left \<open>MPI_Finalize\<close> the aggregate in the
  shared directory holds the events of all calls of all ranks, and those of the trace files of other
  ranks that were there before, each once, sorted by time stamp.
\<close>

theorem interleaved_job_complete:
  assumes "faultless B J reread par_sort So progs d"
    and "(cstep B J par_sort So)\<^sup>*\<^sup>* (cluster_init progs d) m" and "rank_stage (members m ! 0) = Exited"
  shows "\<exists>out json. content (shared m) (in_dir aggregate_file) = Some json \<and>
    (if wants_readable So then to_string_pretty J out else to_string J out) = Inr json \<and>
    mset out = job_events reread (job_of progs) +
      disk_events J (leftovers (job_of progs) (entries d)) \<and>
    sorted (map Register_tsc out)"
proof -
  note ok = cluster_ok_steps [OF assms(1,2)]
  obtain es p p' where es: "mergeable J es" "disk p = Some es"
    and evs: "disk_events J es = job_events reread (job_of progs) +
      disk_events J (leftovers (job_of progs) (entries d))"
    and run: "sort_all_traces J par_sort So p = (Done (), p')" and shared: "shared m = disk p'"
    by (rule exited_directory [OF assms(1) ok assms(3)])
  have J: "serde_codec J reread" and sort: "unstable_sort par_sort" and So: "healthy So"
    using assms(1) by (simp_all add: faultless_def)
  obtain out json q where "sort_all_traces J par_sort So p = (Done (), q)"
    and "mset out = disk_events J es" and "sorted (map Register_tsc out)"
    and "(if wants_readable So then to_string_pretty J out else to_string J out) = Inr json"
    and "disk q = Some (aggregated json es)"
    by (rule sort_all_traces_aggregates [OF J sort So es])
  with evs run shared show ?thesis by (auto simp: content_aggregated)
qed

theorem interleaved_job_complete_witness:
  "\<exists>m out. sample_cstep\<^sup>*\<^sup>* sample_cluster m \<and>
     content (shared m) (in_dir aggregate_file) = Some (text_of out) \<and>
     sorted (map Register_tsc out) \<and> mset out = job_events id (job_of sample_ranks)"
proof -
  obtain m where run: "sample_cstep\<^sup>*\<^sup>* sample_cluster m" and "length (members m) = 2"
    and "list_all (\<lambda>x. rank_stage x = Exited) (members m)"
    by (rule sample_cluster_run)
  then have "rank_stage (members m ! 0) = Exited" by (simp add: list_all_length)
  from interleaved_job_complete [OF sample_ranks_faultless run this] obtain out json
    where "content (shared m) (in_dir aggregate_file) = Some json"
      and json: "to_string reference_serde out = Inr json"
      and "mset out = job_events id (job_of sample_ranks)" "sorted (map Register_tsc out)"
    by (auto simp: leftovers_def disk_events_def)
  moreover have "text_of out = json" using json by (simp add: text_of_def)
  ultimately show ?thesis using run by blast
qed

text \<open>
  C14: whatever fails in whatever rank, when rank 0 has come to the aggregation every rank has come
  through its finalize call, and from then on nothing but the aggregation changes the directory.
\<close>

theorem aggregation_alone:
  assumes "(cstep B J par_sort So)\<^sup>*\<^sup>* (cluster_init progs d) m"
    and "x \<in> set (members m)" and "4 \<le> stage_no (rank_stage x)"
  shows "(\<forall>y \<in> set (members m). 3 \<le> stage_no (rank_stage y)) \<and>
    (\<forall>m'. cstep B J par_sort So m m' \<longrightarrow> shared m' = shared m \<or>
       (\<exists>p r p'. sort_all_traces J par_sort So p = (r, p') \<and> disk p = shared m \<and> shared m' = disk p'))"
proof -
  have "behind_barriers m"
    using cluster_barriers.steps_inv [OF assms(1) behind_barriers_init] .
  with assms(2,3) have reached: "all_reached 3 m" unfolding behind_barriers_def by blast
  then have "\<forall>y \<in> set (members m). 3 \<le> stage_no (rank_stage y)"
    by (simp add: all_reached_def list_all_iff)
  with only_aggregation_writes [OF _ reached] show ?thesis by blast
qed

theorem aggregation_alone_witness:
  "\<exists>m. sample_cstep\<^sup>*\<^sup>* sample_cluster m \<and> rank_stage (members m ! 0) = Exited \<and>
     3 \<le> stage_no (rank_stage (members m ! 1))"
proof -
  obtain m where run: "sample_cstep\<^sup>*\<^sup>* sample_cluster m" and len: "length (members m) = 2"
    and all: "list_all (\<lambda>x. rank_stage x = Exited) (members m)"
    by (rule sample_cluster_run)
  then have "rank_stage (members m ! 0) = Exited" "members m ! 0 \<in> set (members m)"
    "members m ! 1 \<in> set (members m)"
    by (simp_all add: list_all_length)
  with aggregation_alone [OF run, of "members m ! 0"] run show ?thesis by force
qed

text \<open>
  C15: every run of the ranks ends, after at most one step for each call and five for each rank,
  whatever fails; and without faults it only ends when every rank has left \<open>MPI_Finalize\<close>: no barrier
  is waited at for ever.
\<close>

theorem job_finishes:
  assumes "(cstep B J par_sort So ^^ n) (cluster_init progs d) m"
  shows "n \<le> sum_list (map length progs) + 5 * length progs \<and>
    (faultless B J reread par_sort So progs d \<and> (\<forall>m'. \<not> cstep B J par_sort So m m') \<longrightarrow>
      (\<forall>x \<in> set (members m). rank_stage x = Exited))"
proof -
  have "cluster_steps (cluster_init progs d) = sum_list (map length progs) + 5 * length progs"
    by (induction progs) (simp_all add: cluster_steps_def cluster_init_def rank_steps_def)
  then have "n \<le> sum_list (map length progs) + 5 * length progs"
    using cluster_runs.run_length [OF assms] by simp
  moreover have "\<forall>x \<in> set (members m). rank_stage x = Exited"
    if faultless: "faultless B J reread par_sort So progs d" and final: "\<forall>m'. \<not> cstep B J par_sort So m m'"
  proof -
    have "cluster_ok B J par_sort So progs d m"
      by (rule cluster_ok_steps [OF faultless relpowp_imp_rtranclp [OF assms]])
    with cluster_progress [OF faultless] final show ?thesis by (fastforce simp: list_all_iff)
  qed
  ultimately show ?thesis by blast
qed

theorem job_finishes_witness:
  "\<exists>m n. (sample_cstep ^^ n) sample_cluster m \<and> n \<le> 14 \<and> (\<forall>x \<in> set (members m). rank_stage x = Exited)"
proof -
  obtain m n where run: "(sample_cstep ^^ n) sample_cluster m" and "\<forall>m'. \<not> sample_cstep m m'"
    by (rule sample_cluster_run)
  moreover have "sum_list (map length sample_ranks) + 5 * length sample_ranks = 14"
    by (simp add: sample_ranks_def sample_job_def)
  ultimately show ?thesis using job_finishes [OF run] sample_ranks_faultless by metis
qed

section \<open>Threads\<close>

lemma sample_programs_ample: "ample_programs sample_programs"
  by (simp add: ample_programs_def sample_programs_def call_of_def calls_of_def elem_size_def
      isize_max_def)

abbreviation sample_start :: machine where
  "sample_start \<equiv> machine_init (process_init None) sample_programs"

abbreviation sample_step :: "machine \<Rightarrow> machine \<Rightarrow> bool" where
  "sample_step \<equiv> mstep reference_builders reference_serde"

text \<open>A run of the sample programs to its end, whatever the schedule.\<close>

lemma sample_run: "\<exists>m. sample_step\<^sup>*\<^sup>* sample_start m \<and> (\<forall>m'. \<not> sample_step m m')"
  by (rule machine_runs.reaches_final)

lemma reachable_linear: "(mstep B J)\<^sup>*\<^sup>* (machine_init p progs) m \<Longrightarrow> linear B J p m"
  by (rule machine_linear.steps_inv [OF _ linear_init])

lemma reachable_order:
  assumes "derived_builders B"
  shows "(mstep B J)\<^sup>*\<^sup>* (machine_init p progs) m \<Longrightarrow> program_order progs m"
  by (induction rule: rtranclp_induct)
    (auto simp: program_order_init intro: derived_builders.program_order_mstep [OF assms])

text \<open>
  C5: threads that register calls other than \<open>MPI_Finalize\<close> with enough memory lose nothing: when no
  step is left, every thread has made all its calls in its order, and the trace is the events of all
  these calls, each once, in the order in which the mutex was released.
\<close>

theorem threads_record_every_call:
  assumes "derived_builders B" and "ample_programs progs"
    and "(mstep B J)\<^sup>*\<^sup>* (machine_init (process_init d) progs) m" and "\<forall>m'. \<not> mstep B J m m'"
  shows "events (proc m) = map (\<lambda>x. event_of_call (call_of (snd x))) (history m) \<and>
    (\<forall>t < length progs. calls_by t (history m) = progs ! t) \<and>
    length (events (proc m)) = sum_list (map length progs) \<and>
    \<not> poisoned (proc m) \<and> \<not> halted m"
proof -
  have final: "\<And>m'. \<not> mstep B J m m'" using assms(4) by blast
  note all = derived_builders.all_recorded [OF assms(1,2,3) final]
  have order: "program_order progs m" by (rule reachable_order [OF assms(1,3)])
  have "length (history m) = (\<Sum>t < length progs. length (calls_by t (history m)))"
    using order by (intro length_calls_by) (simp add: program_order_def)
  also have "\<dots> = sum_list (map length progs)"
    unfolding sum_list_map_nth using all(2) by (intro sum.cong) auto
  finally show ?thesis using all by (simp add: recorded_by_def)
qed

theorem threads_record_every_call_witness:
  "\<exists>m. sample_step\<^sup>*\<^sup>* sample_start m \<and> length (events (proc m)) = 3 \<and>
     calls_by 1 (history m) = [(generous_allocator, healthy_os, sample_call Recv 0 3)]"
proof -
  obtain m where run: "sample_step\<^sup>*\<^sup>* sample_start m" and final: "\<forall>m'. \<not> sample_step m m'"
    using sample_run by blast
  have "length sample_programs = 2" and "sample_programs ! 1 =
      [(generous_allocator, healthy_os, sample_call Recv 0 3)]"
    and "sum_list (map length sample_programs) = 3"
    by (simp_all add: sample_programs_def)
  with threads_record_every_call [OF reference.derived_builders_axioms sample_programs_ample run final] run
  show ?thesis by auto
qed

text \<open>Thread 1 of the sample programs takes the lock first, and makes its call.\<close>

abbreviation sample_recv :: env_call where
  "sample_recv \<equiv> (generous_allocator, healthy_os, sample_call Recv 0 3)"

lemma sample_locked:
  "\<exists>m. sample_step\<^sup>*\<^sup>* sample_start m \<and> \<not> halted m \<and> owner m = None \<and> history m = [(1, sample_recv)]"
proof -
  let ?c = "(generous_allocator, healthy_os, sample_call Recv 0 3)"
  let ?e = "event_of_call (sample_call Recv 0 3)"
  let ?p = "process_init None"
  let ?g = "\<lparr>items = [?e], capacity = 4\<rparr>"
  define m1 where "m1 = go 1 [?c] (Built ?e) sample_start"
  define m2 where "m2 = go 1 [?c] (Locked ?e) (m1\<lparr>owner := Some 1\<rparr>)"
  define m3 where "m3 = go 1 [?c] (after_register (sample_call Recv 0 3))
    (m2\<lparr>proc := (proc m2)\<lparr>guarded := ?g\<rparr>\<rparr>)"
  define m4 where "m4 = go 1 [?c] (Returning (Inr ()))
    (m3\<lparr>owner := None, history := history m3 @ [(1, ?c)]\<rparr>)"
  have start: "proc sample_start = ?p" "owner sample_start = None" "history sample_start = []"
    "\<not> halted sample_start" "length (threads sample_start) = 2" "at sample_start 1 [?c] Ready"
    by (simp_all add: machine_init_def sample_programs_def at_def)
  have "sample_step sample_start m1"
    unfolding m1_def using start reference.build_event_total by (intro mstep.build) simp_all
  moreover have "sample_step m1 m2"
    unfolding m2_def using start
    by (intro mstep.lock [where g = vec_new]) (auto simp: m1_def at_def lock_events_def)
  moreover have "sample_step m2 m3"
    unfolding m3_def using start
    by (intro mstep.register [where e = ?e and u = "()"])
      (auto simp: m2_def m1_def at_def register_first generous_allocator_def)
  moreover have "sample_step m3 m4"
    unfolding m4_def using start
    by (intro mstep.unlock) (auto simp: m3_def m2_def m1_def at_def after_register_def)
  ultimately have "sample_step\<^sup>*\<^sup>* sample_start m4"
    by (meson rtranclp.rtrancl_refl rtranclp.rtrancl_into_rtrancl)
  moreover have "\<not> halted m4" "owner m4 = None" "history m4 = [(1, ?c)]"
    using start by (simp_all add: m4_def m3_def m2_def m1_def)
  ultimately show ?thesis by blast
qed

text \<open>
  C9: linearization. Whenever nobody holds the mutex, the vector, its poison flag, the disk and the
  output are what the calls that have released it make of the initial state when they are made one
  after the other.
\<close>

theorem threads_linearizable:
  assumes "(mstep B J)\<^sup>*\<^sup>* (machine_init p progs) m" and "\<not> halted m" and "owner m = None"
  shows "core (proc m) = one_by_one B J (history m) (core p)"
  using reachable_linear [OF assms(1)] assms(2,3) by (simp add: linear_def Let_def)

theorem threads_linearizable_witness:
  "\<exists>m. sample_step\<^sup>*\<^sup>* sample_start m \<and> history m = [(1, sample_recv)] \<and>
     core (proc m) = one_by_one reference_builders reference_serde [(1, sample_recv)] (core (process_init None))"
proof -
  obtain m where run: "sample_step\<^sup>*\<^sup>* sample_start m" and m: "\<not> halted m" "owner m = None"
    "history m = [(1, sample_recv)]"
    using sample_locked by blast
  from threads_linearizable [OF run m(1,2)] run m show ?thesis by auto
qed

text \<open>
  C13: no deadlock. A process whose threads can take no step has been aborted, or every thread has made
  all its calls or has crashed, and nobody holds the mutex.
\<close>

theorem threads_never_stuck:
  assumes "derived_builders B" and "(mstep B J)\<^sup>*\<^sup>* (machine_init p progs) m"
    and "\<forall>m'. \<not> mstep B J m m'" and "\<not> halted m"
  shows "owner m = None \<and>
    (\<forall>th \<in> set (threads m). phase th = Ready \<and> todo th = [] \<or> (\<exists>msg. phase th = Crashed msg))"
proof -
  have ex: "exclusive m" using reachable_linear [OF assms(2)] by (simp add: linear_def)
  have order: "program_order progs m" by (rule reachable_order [OF assms(1,2)])
  have "thread_done (threads m ! t)" if "t < length (threads m)" for t
    using progress [OF ex order assms(4) that, of B J] assms(3) by blast
  then have finished: "\<forall>th \<in> set (threads m). thread_done th" by (metis in_set_conv_nth)
  have "owner m = None"
  proof (rule ccontr)
    assume "owner m \<noteq> None"
    then obtain t where t: "t < length (threads m)" "in_section (phase (threads m ! t))"
      using ex by (auto simp: exclusive_def)
    with finished have "thread_done (threads m ! t)" by simp
    with t(2) show False by (auto simp: thread_done_def)
  qed
  with finished show ?thesis by (simp add: thread_done_def)
qed

theorem threads_never_stuck_witness:
  "\<exists>m. sample_step\<^sup>*\<^sup>* sample_start m \<and> (\<forall>m'. \<not> sample_step m m') \<and> \<not> halted m \<and>
     owner m = None \<and> (\<forall>t < 2. threads m ! t = \<lparr>todo = [], phase = Ready\<rparr>) \<and>
     calls_by 1 (history m) = [sample_recv]"
proof -
  obtain m where run: "sample_step\<^sup>*\<^sup>* sample_start m" and final: "\<forall>m'. \<not> sample_step m m'"
    using sample_run by blast
  then have none: "\<And>m'. \<not> sample_step m m'" by blast
  note all = derived_builders.all_recorded [OF reference.derived_builders_axioms sample_programs_ample run none]
  have "length sample_programs = 2" "sample_programs ! 1 = [sample_recv]"
    by (simp_all add: sample_programs_def)
  with all(2,3,5) threads_never_stuck [OF reference.derived_builders_axioms run final] run final
  show ?thesis by (metis one_less_numeral_iff semiring_norm(76))
qed

text \<open>
  C18: every run ends. However the threads are scheduled, a process takes at most six steps for each
  call, seven more for each thread, and one step more.
\<close>

theorem threads_terminate:
  assumes "(mstep B J ^^ n) (machine_init p progs) m"
  shows "n \<le> 6 * sum_list (map length progs) + 7 * length progs + 1"
  using machine_runs.run_length [OF assms] by (simp add: machine_steps_init)

theorem threads_terminate_witness:
  "\<exists>m n. (sample_step ^^ n) sample_start m \<and> n \<le> 33 \<and> (\<forall>m'. \<not> sample_step m m')"
proof -
  obtain m where star: "sample_step\<^sup>*\<^sup>* sample_start m" and final: "\<forall>m'. \<not> sample_step m m'"
    using sample_run by blast
  from rtranclp_imp_relpowp [OF star] obtain n where run: "(sample_step ^^ n) sample_start m" ..
  have "sum_list (map length sample_programs) = 3" "length sample_programs = 2"
    by (simp_all add: sample_programs_def)
  with threads_terminate [OF run] run final show ?thesis by auto
qed

text \<open>
  Program order. At every moment the calls of a thread that have released the mutex are the first
  calls of its program, in order.
\<close>

theorem threads_program_order:
  assumes "derived_builders B" and "(mstep B J)\<^sup>*\<^sup>* (machine_init p progs) m" and "t < length progs"
  shows "prefix (calls_by t (history m)) (progs ! t)"
  using history_prefix [OF reachable_order [OF assms(1,2)] assms(3)] .

theorem threads_program_order_witness:
  "\<exists>m. sample_step\<^sup>*\<^sup>* sample_start m \<and> (\<forall>m'. \<not> sample_step m m') \<and>
     prefix (calls_by 0 (history m)) (sample_programs ! 0)"
proof -
  obtain m where run: "sample_step\<^sup>*\<^sup>* sample_start m" and final: "\<forall>m'. \<not> sample_step m m'"
    using sample_run by blast
  have "0 < length sample_programs" by (simp add: sample_programs_def)
  from threads_program_order [OF reference.derived_builders_axioms run this] run final
  show ?thesis by blast
qed

end
